(* ===== verification/Converter_Prelude.thy ===== *)
theory Converter_Prelude
  imports Main "HOL-Library.Word"
begin

text \<open>
  Shared vocabulary of the development: the machine integers of the Rust code, its checked
  arithmetic (\<open>checked_add\<close>, \<open>checked_sub\<close>, \<open>checked_mul\<close>, \<open>checked_div\<close>, \<open>try_into\<close>),
  \<open>Option::ok_or\<close>, the \<open>?\<close> operator on results, and the transactions of the program
  (a list of emitted events together with an error or a value).  The collections
  \<open>tx_simps\<close> and \<open>num_simps\<close> carry the component proofs.
\<close>

named_theorems tx_simps \<open>evaluation and inversion of results and transactions\<close>
named_theorems num_simps \<open>the values of checked machine arithmetic\<close>

section \<open>Machine integers\<close>

type_synonym u8 = "8 word"
type_synonym u16 = "16 word"
type_synonym u32 = "32 word"
type_synonym u64 = "64 word"
type_synonym i64 = "64 word" \<comment> \<open>read with \<open>sint\<close>\<close>
type_synonym u128 = "128 word"
type_synonym pubkey = "256 word" \<comment> \<open>the 32 bytes of a \<open>Pubkey\<close>\<close>

definition checked_add :: "'l::len word \<Rightarrow> 'l word \<Rightarrow> 'l word option" where
  "checked_add a b = (if unat a + unat b < 2 ^ LENGTH('l) then Some (a + b) else None)"

definition checked_sub :: "'l::len word \<Rightarrow> 'l word \<Rightarrow> 'l word option" where
  "checked_sub a b = (if b \<le> a then Some (a - b) else None)"

definition checked_mul :: "'l::len word \<Rightarrow> 'l word \<Rightarrow> 'l word option" where
  "checked_mul a b = (if unat a * unat b < 2 ^ LENGTH('l) then Some (a * b) else None)"

definition checked_div :: "'l::len word \<Rightarrow> 'l word \<Rightarrow> 'l word option" where
  "checked_div a b = (if b = 0 then None else Some (a div b))"

definition try_into_u64 :: "u128 \<Rightarrow> u64 option" where
  "try_into_u64 w = (if unat w < 2 ^ 64 then Some (ucast w) else None)"

text \<open>Signed subtraction and absolute value, \<open>None\<close> where the checked operators overflow.\<close>

definition checked_sub_i64 :: "i64 \<Rightarrow> i64 \<Rightarrow> i64 option" where
  "checked_sub_i64 a b =
     (let d = sint a - sint b in
      if - (2 ^ 63) \<le> d \<and> d < 2 ^ 63 then Some (word_of_int d) else None)"

definition checked_abs_i64 :: "i64 \<Rightarrow> i64 option" where
  "checked_abs_i64 a = (if sint a = - (2 ^ 63) then None else Some (word_of_int \<bar>sint a\<bar>))"

lemma checked_add_Some_iff:
  "checked_add (a::'l::len word) b = Some c \<longleftrightarrow>
     unat a + unat b < 2 ^ LENGTH('l) \<and> unat c = unat a + unat b"
proof -
  have "unat (a + b) = unat a + unat b" if "unat a + unat b < 2 ^ LENGTH('l)"
    using that by (simp add: unat_word_ariths)
  then show ?thesis
    by (auto simp: checked_add_def) (simp add: word_unat_eq_iff)
qed

lemma checked_add_Some [num_simps]:
  "unat (a::'l::len word) + unat b < 2 ^ LENGTH('l) \<Longrightarrow> checked_add a b = Some (a + b)"
  by (simp add: checked_add_def)

lemma unat_add_exact:
  "unat (a::'l::len word) + unat b < 2 ^ LENGTH('l) \<Longrightarrow> unat (a + b) = unat a + unat b"
  by (simp add: unat_word_ariths)

lemma checked_sub_Some_iff:
  "checked_sub (a::'l::len word) b = Some c \<longleftrightarrow> unat b \<le> unat a \<and> unat c = unat a - unat b"
proof -
  have "unat (a - b) = unat a - unat b" if "b \<le> a"
    using that by (simp add: unat_sub)
  then show ?thesis
    by (auto simp: checked_sub_def word_le_nat_alt word_unat_eq_iff)
qed

lemma checked_sub_Some [num_simps]: "b \<le> a \<Longrightarrow> checked_sub a b = Some (a - b)"
  by (simp add: checked_sub_def)

lemma unat_sub_exact: "unat b \<le> unat a \<Longrightarrow> unat (a - b) = unat a - unat (b::'l::len word)"
  by (simp add: unat_sub word_le_nat_alt)

lemma checked_mul_Some_iff:
  "checked_mul (a::'l::len word) b = Some c \<longleftrightarrow>
     unat a * unat b < 2 ^ LENGTH('l) \<and> unat c = unat a * unat b"
proof -
  have "unat (a * b) = unat a * unat b" if "unat a * unat b < 2 ^ LENGTH('l)"
    using that by (simp add: unat_word_ariths)
  then show ?thesis
    by (auto simp: checked_mul_def) (simp add: word_unat_eq_iff)
qed

lemma unat_ucast_u128 [num_simps]: "unat (ucast (w::u64) :: u128) = unat w"
  by (simp add: unsigned_ucast_eq take_bit_nat_eq_self_iff less_le_trans [OF unsigned_less])

lemma u64_bound: "unat (w::u64) < 2 ^ 64"
  using unsigned_less [of w, where ?'a = nat] by simp

text \<open>
  A product of two \<open>u64\<close> values never overflows a \<open>u128\<close>: the checked multiplications of
  the program always succeed.
\<close>

lemma checked_mul_u64_in_u128:
  "\<exists>c. checked_mul (ucast (a::u64) :: u128) (ucast (b::u64)) = Some c \<and> unat c = unat a * unat b"
proof -
  have "unat a * unat b < 2 ^ 64 * 2 ^ 64"
    by (rule mult_strict_mono) (use u64_bound in auto)
  then have lt: "unat (ucast a :: u128) * unat (ucast b :: u128) < 2 ^ LENGTH(128)"
    by (simp add: num_simps)
  then have "unat ((ucast a :: u128) * ucast b) = unat a * unat b"
    by (simp add: unat_word_ariths num_simps)
  then show ?thesis
    using lt by (simp add: checked_mul_def)
qed

lemma try_into_u64_Some_iff: "try_into_u64 w = Some c \<longleftrightarrow> unat w < 2 ^ 64 \<and> unat c = unat w"
proof -
  have "unat (ucast w :: u64) = unat w" if "unat w < 2 ^ 64"
    using that by (simp add: unsigned_ucast_eq take_bit_nat_eq_self_iff)
  then show ?thesis
    by (auto simp: try_into_u64_def) (simp add: word_unat_eq_iff)
qed

lemma sint_word_of_int_i64 [num_simps]:
  "- (2 ^ 63) \<le> d \<Longrightarrow> d < 2 ^ 63 \<Longrightarrow> sint (word_of_int d :: i64) = d"
  by (simp add: sint_sbintrunc' signed_take_bit_int_eq_self)

lemma sint_i64_bounds: "- (2 ^ 63) \<le> sint (a::i64)" "sint (a::i64) < 2 ^ 63"
  using sint_ge [of a] sint_lt [of a] by simp_all

lemma word_of_int_i64_eq_iff:
  assumes "- (2 ^ 63) \<le> d" "d < 2 ^ 63"
  shows "word_of_int d = (c::i64) \<longleftrightarrow> sint c = d"
proof
  assume "word_of_int d = c"
  then show "sint c = d" using sint_word_of_int_i64 [OF assms] by simp
next
  assume "sint c = d"
  then have "sint (word_of_int d :: i64) = sint c"
    using sint_word_of_int_i64 [OF assms] by simp
  then show "word_of_int d = c" by (rule signed_word_eqI)
qed

lemma checked_sub_i64_Some_iff:
  "checked_sub_i64 a b = Some c \<longleftrightarrow>
     - (2 ^ 63) \<le> sint a - sint b \<and> sint a - sint b < 2 ^ 63 \<and> sint c = sint a - sint b"
  unfolding checked_sub_i64_def Let_def using word_of_int_i64_eq_iff [of "sint a - sint b" c]
  by (auto simp del: of_int_diff)

lemma checked_abs_i64_Some_iff:
  "checked_abs_i64 a = Some c \<longleftrightarrow> sint a \<noteq> - (2 ^ 63) \<and> sint c = \<bar>sint a\<bar>"
  unfolding checked_abs_i64_def
  using word_of_int_i64_eq_iff [of "\<bar>sint a\<bar>" c] sint_i64_bounds [of a] by auto

section \<open>Little-endian bytes\<close>

text \<open>\<open>u64::to_le_bytes\<close> and its inverse, which needs exactly eight bytes.\<close>

fun le_bytes :: "nat \<Rightarrow> nat \<Rightarrow> u8 list" where
  "le_bytes 0 n = []"
| "le_bytes (Suc k) n = word_of_nat (n mod 256) # le_bytes k (n div 256)"

fun of_le_bytes :: "u8 list \<Rightarrow> nat" where
  "of_le_bytes [] = 0"
| "of_le_bytes (b # bs) = unat b + 256 * of_le_bytes bs"

definition to_le_bytes :: "u64 \<Rightarrow> u8 list" where
  "to_le_bytes w = le_bytes 8 (unat w)"

definition from_le_bytes :: "u8 list \<Rightarrow> u64 option" where
  "from_le_bytes bs = (if length bs = 8 then Some (word_of_nat (of_le_bytes bs)) else None)"

lemma length_le_bytes [simp]: "length (le_bytes k n) = k"
  by (induction k arbitrary: n) simp_all

lemma length_to_le_bytes [simp]: "length (to_le_bytes w) = 8"
  by (simp add: to_le_bytes_def)

lemma of_le_bytes_le_bytes: "of_le_bytes (le_bytes k n) = n mod 256 ^ k"
proof (induction k arbitrary: n)
  case (Suc k)
  have "unat (word_of_nat (n mod 256) :: u8) = n mod 256"
    by (simp add: unsigned_of_nat take_bit_nat_eq_self)
  with Suc show ?case by (simp add: mod_mult2_eq)
qed simp

lemma of_le_bytes_bound: "of_le_bytes bs < 256 ^ length bs"
proof (induction bs)
  case (Cons b bs)
  have "unat b < 256" using unsigned_less [of b, where ?'a = nat] by simp
  with Cons show ?case by simp
qed simp

lemma from_to_le_bytes [simp]: "from_le_bytes (to_le_bytes w) = Some w"
proof -
  have "unat w mod 256 ^ 8 = unat w" using u64_bound [of w] by simp
  then show ?thesis by (simp add: from_le_bytes_def to_le_bytes_def of_le_bytes_le_bytes)
qed

lemma to_le_bytes_eq_iff [simp]: "to_le_bytes v = to_le_bytes w \<longleftrightarrow> v = w"
  by (metis from_to_le_bytes option.inject)

lemma to_from_le_bytes: "from_le_bytes bs = Some w \<Longrightarrow> to_le_bytes w = bs"
proof -
  assume "from_le_bytes bs = Some w"
  then have len: "length bs = 8" and w: "w = word_of_nat (of_le_bytes bs)"
    by (auto simp: from_le_bytes_def split: if_splits)
  have "unat w = of_le_bytes bs"
    using of_le_bytes_bound [of bs] by (simp add: w len unsigned_of_nat take_bit_nat_eq_self)
  moreover have "le_bytes (length bs) (of_le_bytes bs) = bs"
  proof (induction bs)
    case (Cons b bs)
    have "unat b < 256" using unsigned_less [of b, where ?'a = nat] by simp
    with Cons show ?case by simp
  qed simp
  ultimately show ?thesis by (simp add: to_le_bytes_def len)
qed

section \<open>Results\<close>

text \<open>\<open>ok_or\<close> is Rust's \<open>Option::ok_or\<close>; \<open>and_then\<close> is the \<open>?\<close> operator.\<close>

definition ok_or :: "'a option \<Rightarrow> 'e \<Rightarrow> 'e + 'a" where
  "ok_or x e = (case x of None \<Rightarrow> Inl e | Some v \<Rightarrow> Inr v)"

definition and_then :: "'e + 'a \<Rightarrow> ('a \<Rightarrow> 'e + 'b) \<Rightarrow> 'e + 'b" where
  "and_then r f = (case r of Inl e \<Rightarrow> Inl e | Inr v \<Rightarrow> f v)"

definition require_or :: "bool \<Rightarrow> 'e \<Rightarrow> 'e + unit" where
  "require_or c e = (if c then Inr () else Inl e)"

lemma ok_or_simps [simp, tx_simps]: "ok_or None e = Inl e" "ok_or (Some v) e = Inr v"
  by (simp_all add: ok_or_def)

lemma ok_or_Inr_iff [tx_simps]: "ok_or x e = Inr v \<longleftrightarrow> x = Some v"
  by (cases x) simp_all

lemma ok_or_Inl_iff [tx_simps]: "ok_or x e = Inl e' \<longleftrightarrow> x = None \<and> e' = e"
  by (cases x) auto

lemma and_then_simps [simp, tx_simps]: "and_then (Inl e) f = Inl e" "and_then (Inr v) f = f v"
  by (simp_all add: and_then_def)

lemma and_then_Inr_iff [tx_simps]: "and_then r f = Inr y \<longleftrightarrow> (\<exists>x. r = Inr x \<and> f x = Inr y)"
  by (cases r) simp_all

lemma require_or_simps [simp, tx_simps]:
  "require_or True e = Inr ()" "require_or False e = Inl e"
  by (simp_all add: require_or_def)

lemma require_or_Inr_iff [tx_simps]: "require_or c e = Inr u \<longleftrightarrow> c"
  by (simp add: require_or_def)

section \<open>Transactions\<close>

text \<open>
  An instruction emits events and then fails or returns.  Events emitted before an error stay
  in the transaction's log; every change of an account is undone by the runtime, so an error
  carries no state.
\<close>

type_synonym ('ev, 'e, 'a) tx = "'ev list \<times> ('e + 'a)"

definition ok :: "'a \<Rightarrow> ('ev, 'e, 'a) tx" where
  "ok v = ([], Inr v)"

definition fail :: "'e \<Rightarrow> ('ev, 'e, 'a) tx" where
  "fail e = ([], Inl e)"

definition emit :: "'ev \<Rightarrow> ('ev, 'e, 'a) tx \<Rightarrow> ('ev, 'e, 'a) tx" where
  "emit ev t = (ev # fst t, snd t)"

definition try_tx :: "'e + 'a \<Rightarrow> ('a \<Rightarrow> ('ev, 'e, 'b) tx) \<Rightarrow> ('ev, 'e, 'b) tx" where
  "try_tx r f = (case r of Inl e \<Rightarrow> fail e | Inr v \<Rightarrow> f v)"

definition map_tx :: "('a \<Rightarrow> 'b) \<Rightarrow> ('ev, 'e, 'a) tx \<Rightarrow> ('ev, 'e, 'b) tx" where
  "map_tx f t = (fst t, case snd t of Inl e \<Rightarrow> Inl e | Inr v \<Rightarrow> Inr (f v))"

lemma ok_fail_eq_iff [simp, tx_simps]:
  "ok v = (es, Inr w) \<longleftrightarrow> es = [] \<and> w = v"
  "ok v = (es, Inl e) \<longleftrightarrow> False"
  "fail e = (es, Inr w) \<longleftrightarrow> False"
  "fail e = (es, Inl e') \<longleftrightarrow> es = [] \<and> e' = e"
  by (auto simp: ok_def fail_def)

lemma emit_eq_iff [simp, tx_simps]:
  "emit ev t = (es, r) \<longleftrightarrow> (\<exists>es'. t = (es', r) \<and> es = ev # es')"
  by (cases t) (auto simp: emit_def)

lemma try_tx_simps [simp, tx_simps]: "try_tx (Inl e) f = fail e" "try_tx (Inr v) f = f v"
  by (simp_all add: try_tx_def)

lemma try_tx_Inr_iff [tx_simps]:
  "try_tx r f = (es, Inr y) \<longleftrightarrow> (\<exists>x. r = Inr x \<and> f x = (es, Inr y))"
  by (cases r) simp_all

lemma map_tx_simps [simp, tx_simps]:
  "map_tx f (ok v) = ok (f v)" "map_tx f (fail e) = fail e"
  "map_tx f (emit ev t) = emit ev (map_tx f t)"
  by (simp_all add: map_tx_def ok_def fail_def emit_def)

lemma map_tx_Inr_iff [tx_simps]:
  "map_tx f t = (es, Inr y) \<longleftrightarrow> (\<exists>x. t = (es, Inr x) \<and> y = f x)"
  by (cases t; cases "snd t") (auto simp: map_tx_def)

lemma if_fail_Inr_iff [tx_simps]:
  "(if c then fail e else t) = (es, Inr y) \<longleftrightarrow> \<not> c \<and> t = (es, Inr y)"
  by simp

end
