(* ===== verification/Common.thy ===== *)
theory Common
  imports Converter_Prelude
begin

text \<open>
  The definitions every component of the converter program shares: the constants of
  \<open>common/constant.rs\<close>, the error enumeration of \<open>common/error.rs\<close>, the seeds of
  \<open>common/seeds.rs\<close>, the event structures of \<open>common/events/\<close> and the price message of
  \<open>common/structs.rs\<close>.
\<close>

section \<open>Constants\<close>

definition MAX_DENY_LIST_SIZE :: nat where
  "MAX_DENY_LIST_SIZE = 310"

definition MAX_FILLS_QUEUE_SIZE :: nat where
  "MAX_FILLS_QUEUE_SIZE = 650000"

definition BPS :: u16 where
  "BPS = 100"

definition TOKEN_DECIMALS :: u8 where
  "TOKEN_DECIMALS = 8"

definition TOKEN_UNITS :: u64 where
  "TOKEN_UNITS = 10 ^ unat TOKEN_DECIMALS"

text \<open>\<open>solana_program::native_token::LAMPORTS_PER_SOL\<close>, the unit of the runtime's balances.\<close>

definition LAMPORTS_PER_SOL :: u64 where
  "LAMPORTS_PER_SOL = 1000000000"

lemma MAX_FILLS_QUEUE_SIZE_simps [simp]:
  "0 < MAX_FILLS_QUEUE_SIZE" "MAX_FILLS_QUEUE_SIZE \<noteq> 0"
  "unat (of_nat MAX_FILLS_QUEUE_SIZE :: u64) = MAX_FILLS_QUEUE_SIZE"
  by (simp_all add: MAX_FILLS_QUEUE_SIZE_def)

lemma unat_TOKEN_UNITS [simp]: "unat TOKEN_UNITS = 100000000"
  by (simp add: TOKEN_UNITS_def TOKEN_DECIMALS_def)

lemma unat_LAMPORTS_PER_SOL [simp]: "unat LAMPORTS_PER_SOL = 1000000000"
  by (simp add: LAMPORTS_PER_SOL_def)

section \<open>Errors\<close>

datatype DoubleZeroError =
    UserInsideDenyList
  | UnauthorizedAdmin
  | InvalidAttestation
  | InvalidOraclePublicKey
  | AttestationVerificationError
  | InvalidDiscountRate
  | InvalidSolQuantity
  | InvalidAskPrice
  | InvalidMaxDiscountRate
  | InvalidMinDiscountRate
  | InvalidTradeSlot
  | InvalidCoefficient
  | DiscountCalculationError
  | InvalidOracleSwapRate
  | InvalidTimestamp
  | BidTooLow
  | StalePrice
  | DenyListFull
  | AlreadyExistsInDenyList
  | InvalidSystemState
  | InvalidConversionRate
  | AddressNotInDenyList
  | SystemIsHalted
  | ArithmeticError
  | UnauthorizedFillConsumer
  | UnauthorizedDenyListAuthority
  | RegistryFull
  | EmptyFillsRegistry
  | InvalidMaxSolAmount
  | SingleTradePerSlot
  | AskPriceCalculationError
  | InvalidPriceMaximumAge

text \<open>
  The other ways an instruction ends: an error of an account constraint (the names of Anchor's
  error codes), an error a called program or the runtime reports, and a panic of the Rust code
  (the release profile of \<open>Cargo.toml\<close> sets \<open>overflow-checks\<close>, so arithmetic overflow
  panics).
\<close>

datatype anchor_error =
    ConstraintMut
  | ConstraintRaw
  | ConstraintSeeds
  | ConstraintAddress
  | ConstraintZero
  | ConstraintTokenMint
  | AccountDiscriminatorMismatch
  | AccountOwnedByWrongProgram
  | InvalidProgramId
  | InvalidProgramExecutable
  | AccountNotSigner
  | AccountNotSystemOwned
  | AccountNotInitialized
  | AccountDiscriminatorAlreadySet

datatype panic = ArithmeticOverflow | IndexOutOfBounds | UnwrapNone | DecimalDivision

text \<open>The \<open>ProgramError\<close>s of the Solana SDK that the code returns, and its custom codes.\<close>

datatype program_error =
    CustomError nat
  | InvalidInstructionData
  | InvalidAccountData
  | InsufficientFunds
  | MissingRequiredSignature
  | NotEnoughAccountKeys

datatype error =
    DoubleZero DoubleZeroError
  | Anchor anchor_error
  | Program program_error
  | Panicked panic

text \<open>Arithmetic operators of the code under \<open>overflow-checks = true\<close>.\<close>

definition add_or_panic :: "u64 \<Rightarrow> u64 \<Rightarrow> error + u64" where
  "add_or_panic a b = ok_or (checked_add a b) (Panicked ArithmeticOverflow)"

definition sub_or_panic :: "u64 \<Rightarrow> u64 \<Rightarrow> error + u64" where
  "sub_or_panic a b = ok_or (checked_sub a b) (Panicked ArithmeticOverflow)"

lemma add_or_panic_ok [num_simps]:
  "unat a + unat b < 2 ^ 64 \<Longrightarrow> add_or_panic a b = Inr (a + b)"
  by (simp add: add_or_panic_def num_simps)

lemma add_or_panic_Inr_iff:
  "add_or_panic a b = Inr c \<longleftrightarrow> unat a + unat b < 2 ^ 64 \<and> unat c = unat a + unat b"
  by (simp add: add_or_panic_def tx_simps checked_add_Some_iff)

lemma sub_or_panic_ok [num_simps]: "b \<le> a \<Longrightarrow> sub_or_panic a b = Inr (a - b)"
  by (simp add: sub_or_panic_def num_simps)

lemma sub_or_panic_Inr_iff:
  "sub_or_panic a b = Inr c \<longleftrightarrow> unat b \<le> unat a \<and> unat c = unat a - unat b"
  by (simp add: sub_or_panic_def tx_simps checked_sub_Some_iff)

section \<open>Seeds\<close>

definition byte_of_char :: "char \<Rightarrow> u8" where
  "byte_of_char c = word_of_nat (of_char c)"

definition bytes_of_string :: "string \<Rightarrow> u8 list" where
  "bytes_of_string s = map byte_of_char s"

lemma inj_byte_of_char: "inj byte_of_char"
proof (rule injI)
  fix c d
  assume "byte_of_char c = byte_of_char d"
  then have "unat (byte_of_char c) = unat (byte_of_char d)" by simp
  then have "(of_char c :: nat) = of_char d"
    by (simp add: byte_of_char_def unsigned_of_nat take_bit_nat_eq_self nat_of_char_less_256)
  then show "c = d" by (metis char_of_char)
qed

lemma bytes_of_string_eq_iff [simp]: "bytes_of_string s = bytes_of_string t \<longleftrightarrow> s = t"
  by (simp add: bytes_of_string_def inj_map_eq_map [OF inj_byte_of_char])

definition CONFIGURATION_REGISTRY :: "u8 list" where
  "CONFIGURATION_REGISTRY = bytes_of_string ''system_config''"

definition PROGRAM_STATE :: "u8 list" where
  "PROGRAM_STATE = bytes_of_string ''state''"

definition WITHDRAW_AUTHORITY :: "u8 list" where
  "WITHDRAW_AUTHORITY = bytes_of_string ''withdraw_sol''"

definition DENY_LIST_REGISTRY :: "u8 list" where
  "DENY_LIST_REGISTRY = bytes_of_string ''deny_list''"

section \<open>Structures and events\<close>

record OraclePriceData =
  swap_rate :: u64
  timestamp :: i64
  signature :: string

text \<open>One constructor per event structure, its fields in the order of the source.\<close>

datatype event =
    ConfigChanged pubkey pubkey u64 i64 u64 u64 u64
      \<comment> \<open>changed_by, oracle_pubkey, sol_quantity, price_maximum_age, coefficient,
          max_discount_rate, min_discount_rate\<close>
  | DenyListAddressAdded pubkey pubkey i64 u64
      \<comment> \<open>added_by, address, timestamp, update_count\<close>
  | DenyListAddressRemoved pubkey pubkey i64 u64
      \<comment> \<open>removed_by, address, timestamp, update_count\<close>
  | FillsConsumerChanged pubkey pubkey
      \<comment> \<open>changed_by, new_consumer\<close>
  | FillsDequeued pubkey u64 u64 u64 i64
      \<comment> \<open>requester, sol_dequeued, token_2z_dequeued, fills_consumed, timestamp\<close>
  | SystemInitialized
  | SystemHalted pubkey
  | SystemUnhalted pubkey
  | AdminChanged pubkey pubkey
      \<comment> \<open>new_admin, changed_by\<close>
  | DenyListAuthoritySet pubkey pubkey
      \<comment> \<open>new_authority, changed_by\<close>
  | TradeEvent u64 u64 u64 i64 pubkey u64
      \<comment> \<open>sol_amount, token_amount, bid_price, timestamp, buyer, epoch\<close>
  | BidTooLowEvent u64 u64 u64 i64 pubkey u64
      \<comment> \<open>sol_amount, bid_price, ask_price, timestamp, buyer, epoch\<close>

text \<open>The sysvar the handlers read with \<open>Clock::get()?\<close>; the read itself may fail.\<close>

record clock =
  slot :: u64
  epoch :: u64
  unix_timestamp :: i64

type_synonym 'a result = "error + 'a"
type_synonym 'a handler = "(event, error, 'a) tx"

end
