(* ===== verification/System_Management.thy ===== *)
theory System_Management
  imports Common
begin

text \<open>
  The program state account (\<open>program_state.rs\<close>) and the handlers of \<open>system_management/\<close>:
  \<open>set_admin\<close>, \<open>set_deny_list_authority\<close> and \<open>toggle_system_state\<close>.  A handler takes the
  key of its signer and the deserialized accounts, and returns the accounts it writes.
\<close>

section \<open>The program state account\<close>

record BumpRegistry =
  configuration_registry_bump :: u8
  program_state_bump :: u8
  deny_list_registry_bump :: u8
  withdraw_authority_bump :: u8

record ProgramStateAccount =
  admin :: pubkey
  fills_registry_address :: pubkey
  is_halted :: bool
  bump_registry :: BumpRegistry
  last_trade_slot :: u64
  deny_list_authority :: pubkey

section \<open>Handlers\<close>

definition process_set_admin ::
    "pubkey \<Rightarrow> ProgramStateAccount \<Rightarrow> pubkey \<Rightarrow> ProgramStateAccount handler" where
  "process_set_admin signer program_state new_admin =
     (let program_state = program_state\<lparr>admin := new_admin\<rparr> in
      emit (AdminChanged (admin program_state) signer) (ok program_state))"

definition process_set_deny_list_authority ::
    "pubkey \<Rightarrow> ProgramStateAccount \<Rightarrow> pubkey \<Rightarrow> ProgramStateAccount handler" where
  "process_set_deny_list_authority signer program_state new_authority =
     (let program_state = program_state\<lparr>deny_list_authority := new_authority\<rparr> in
      emit (DenyListAuthoritySet new_authority signer) (ok program_state))"

definition process_system_state ::
    "pubkey \<Rightarrow> ProgramStateAccount \<Rightarrow> bool \<Rightarrow> ProgramStateAccount handler" where
  "process_system_state signer program_state set_to =
     (if signer \<noteq> admin program_state then fail (DoubleZero UnauthorizedAdmin)
      else if set_to \<and> \<not> is_halted program_state then
        emit (SystemHalted signer) (ok (program_state\<lparr>is_halted := True\<rparr>))
      else if \<not> set_to \<and> is_halted program_state then
        emit (SystemUnhalted signer) (ok (program_state\<lparr>is_halted := False\<rparr>))
      else fail (DoubleZero InvalidSystemState))"

lemma process_set_admin_Inr_iff [tx_simps]:
  "process_set_admin signer ps a = (es, Inr ps') \<longleftrightarrow>
     ps' = ps\<lparr>admin := a\<rparr> \<and> es = [AdminChanged a signer]"
  by (auto simp: process_set_admin_def Let_def)

lemma process_set_deny_list_authority_Inr_iff [tx_simps]:
  "process_set_deny_list_authority signer ps a = (es, Inr ps') \<longleftrightarrow>
     ps' = ps\<lparr>deny_list_authority := a\<rparr> \<and> es = [DenyListAuthoritySet a signer]"
  by (auto simp: process_set_deny_list_authority_def Let_def)

lemma process_system_state_Inr_iff [tx_simps]:
  "process_system_state signer ps set_to = (es, Inr ps') \<longleftrightarrow>
     signer = admin ps \<and> is_halted ps \<noteq> set_to \<and> ps' = ps\<lparr>is_halted := set_to\<rparr> \<and>
     es = [if set_to then SystemHalted signer else SystemUnhalted signer]"
  by (cases set_to) (auto simp: process_system_state_def)

section \<open>Properties\<close>

text \<open>
  Halting and resuming are inverse and never repeated: after an accepted toggle the same
  request is rejected with \<open>InvalidSystemState\<close> and no event, and the opposite one restores the
  very state there was before and reports the opposite event.
\<close>

theorem toggle_inverse:
  assumes "process_system_state signer ps set_to = (es, Inr ps')"
  shows "process_system_state signer ps' set_to = ([], Inl (DoubleZero InvalidSystemState)) \<and>
     process_system_state signer ps' (\<not> set_to) =
       ([if set_to then SystemUnhalted signer else SystemHalted signer], Inr ps)"
  using assms unfolding process_system_state_Inr_iff
  by (cases ps; cases set_to) (auto simp: process_system_state_def fail_def emit_def ok_def)

theorem toggle_inverse_witness:
  "\<exists>ps'. process_system_state 1 \<lparr>admin = 1, fills_registry_address = 40, is_halted = False,
      bump_registry = \<lparr>configuration_registry_bump = 255, program_state_bump = 254,
        deny_list_registry_bump = 253, withdraw_authority_bump = 252\<rparr>,
      last_trade_slot = 100, deny_list_authority = 2\<rparr> True = ([SystemHalted 1], Inr ps') \<and>
    process_system_state 1 ps' True = ([], Inl (DoubleZero InvalidSystemState))"
proof -
  let ?ps = "\<lparr>admin = 1, fills_registry_address = 40, is_halted = False,
      bump_registry = \<lparr>configuration_registry_bump = 255, program_state_bump = 254,
        deny_list_registry_bump = 253, withdraw_authority_bump = 252\<rparr>,
      last_trade_slot = 100, deny_list_authority = 2\<rparr> :: ProgramStateAccount"
  have run: "process_system_state 1 ?ps True = ([SystemHalted 1], Inr (?ps\<lparr>is_halted := True\<rparr>))"
    by (simp add: process_system_state_def emit_def ok_def)
  then show ?thesis using toggle_inverse [OF run] by blast
qed

end
