(* ===== verification/Configuration.thy ===== *)
theory Configuration
  imports System_Management
begin

text \<open>
  The configuration registry (\<open>configuration_registry/\<close>): its account, the handler
  \<open>process_update\<close> of \<open>update_configuration.rs\<close> with its partial input, and
  \<open>set_fills_consumer\<close>.  The bounds the update enforces are stated as
  \<open>valid_configuration\<close>, which the handlers preserve.
\<close>

section \<open>The configuration account\<close>

record ConfigurationRegistry =
  oracle_pubkey :: pubkey
  sol_quantity :: u64
  price_maximum_age :: i64
  fills_consumer :: pubkey
  coefficient :: u64
  max_discount_rate :: u64
  min_discount_rate :: u64

record ConfigurationRegistryInput =
  in_oracle_pubkey :: "pubkey option"
  in_sol_quantity :: "u64 option"
  in_price_maximum_age :: "i64 option"
  in_coefficient :: "u64 option"
  in_max_discount_rate :: "u64 option"
  in_min_discount_rate :: "u64 option"

text \<open>The bounds of the pricing parameters, as the comments of the account give them.\<close>

definition valid_configuration :: "ConfigurationRegistry \<Rightarrow> bool" where
  "valid_configuration c \<longleftrightarrow>
     0 < sint (price_maximum_age c) \<and> unat (coefficient c) \<le> 100000000 \<and>
     unat (max_discount_rate c) \<le> 10000 \<and>
     unat (min_discount_rate c) < unat (max_discount_rate c)"

section \<open>Updating the configuration\<close>

text \<open>
  Each \<open>if let Some(..)\<close> block of the source is one function on the registry under update, in
  the order of the source; a failing \<open>require!\<close> ends the instruction.
\<close>

definition update_oracle_pubkey ::
    "ConfigurationRegistryInput \<Rightarrow> ConfigurationRegistry \<Rightarrow> ConfigurationRegistry" where
  "update_oracle_pubkey input c =
     (case in_oracle_pubkey input of None \<Rightarrow> c | Some k \<Rightarrow> c\<lparr>oracle_pubkey := k\<rparr>)"

definition update_sol_quantity ::
    "ConfigurationRegistryInput \<Rightarrow> ConfigurationRegistry \<Rightarrow> ConfigurationRegistry" where
  "update_sol_quantity input c =
     (case in_sol_quantity input of None \<Rightarrow> c | Some q \<Rightarrow> c\<lparr>sol_quantity := q\<rparr>)"

definition update_price_maximum_age ::
    "ConfigurationRegistryInput \<Rightarrow> ConfigurationRegistry \<Rightarrow> ConfigurationRegistry result" where
  "update_price_maximum_age input c =
     (case in_price_maximum_age input of None \<Rightarrow> Inr c
      | Some age \<Rightarrow>
          and_then (require_or (0 < sint age) (DoubleZero InvalidPriceMaximumAge)) (\<lambda>_.
          Inr (c\<lparr>price_maximum_age := age\<rparr>)))"

definition update_coefficient ::
    "ConfigurationRegistryInput \<Rightarrow> ConfigurationRegistry \<Rightarrow> ConfigurationRegistry result" where
  "update_coefficient input c =
     (case in_coefficient input of None \<Rightarrow> Inr c
      | Some k \<Rightarrow>
          and_then (require_or (k \<le> 100000000) (DoubleZero InvalidCoefficient)) (\<lambda>_.
          Inr (c\<lparr>coefficient := k\<rparr>)))"

definition update_max_discount_rate ::
    "ConfigurationRegistryInput \<Rightarrow> ConfigurationRegistry \<Rightarrow> ConfigurationRegistry result" where
  "update_max_discount_rate input c =
     (case in_max_discount_rate input of None \<Rightarrow> Inr c
      | Some rate \<Rightarrow>
          and_then (require_or (rate \<le> 10000) (DoubleZero InvalidMaxDiscountRate)) (\<lambda>_.
          let min_rate = (case in_min_discount_rate input of None \<Rightarrow> min_discount_rate c
                          | Some m \<Rightarrow> m) in
          and_then (require_or (rate > min_rate) (DoubleZero InvalidMaxDiscountRate)) (\<lambda>_.
          Inr (c\<lparr>max_discount_rate := rate\<rparr>))))"

definition update_min_discount_rate ::
    "ConfigurationRegistryInput \<Rightarrow> ConfigurationRegistry \<Rightarrow> ConfigurationRegistry result" where
  "update_min_discount_rate input c =
     (case in_min_discount_rate input of None \<Rightarrow> Inr c
      | Some rate \<Rightarrow>
          let max_rate = (case in_max_discount_rate input of None \<Rightarrow> max_discount_rate c
                          | Some m \<Rightarrow> m) in
          and_then (require_or (rate < max_rate) (DoubleZero InvalidMinDiscountRate)) (\<lambda>_.
          Inr (c\<lparr>min_discount_rate := rate\<rparr>)))"

definition process_update ::
    "pubkey \<Rightarrow> ProgramStateAccount \<Rightarrow> ConfigurationRegistry \<Rightarrow> ConfigurationRegistryInput \<Rightarrow>
     ConfigurationRegistry handler" where
  "process_update signer program_state configuration_registry input =
     (if signer \<noteq> admin program_state then fail (DoubleZero UnauthorizedAdmin)
      else
        let c = update_sol_quantity input (update_oracle_pubkey input configuration_registry) in
        try_tx (update_price_maximum_age input c) (\<lambda>c.
        try_tx (update_coefficient input c) (\<lambda>c.
        try_tx (update_max_discount_rate input c) (\<lambda>c.
        try_tx (update_min_discount_rate input c) (\<lambda>c.
        emit (ConfigChanged signer (oracle_pubkey c) (sol_quantity c) (price_maximum_age c)
               (coefficient c) (max_discount_rate c) (min_discount_rate c))
          (ok c))))))"

definition process_set_fills_consumer ::
    "pubkey \<Rightarrow> ProgramStateAccount \<Rightarrow> ConfigurationRegistry \<Rightarrow> pubkey \<Rightarrow>
     ConfigurationRegistry handler" where
  "process_set_fills_consumer signer program_state configuration_registry new_consumer =
     (if signer \<noteq> admin program_state then fail (DoubleZero UnauthorizedAdmin)
      else emit (FillsConsumerChanged signer new_consumer)
             (ok (configuration_registry\<lparr>fills_consumer := new_consumer\<rparr>)))"

text \<open>
  The declarative reading of an update: the configuration the input asks for, every absent
  field taken from the present one.
\<close>

definition override :: "'a \<Rightarrow> 'a option \<Rightarrow> 'a" where
  "override x y = (case y of None \<Rightarrow> x | Some v \<Rightarrow> v)"

definition merged :: "ConfigurationRegistryInput \<Rightarrow> ConfigurationRegistry \<Rightarrow> ConfigurationRegistry" where
  "merged input c =
     \<lparr>oracle_pubkey = override (oracle_pubkey c) (in_oracle_pubkey input),
      sol_quantity = override (sol_quantity c) (in_sol_quantity input),
      price_maximum_age = override (price_maximum_age c) (in_price_maximum_age input),
      fills_consumer = fills_consumer c,
      coefficient = override (coefficient c) (in_coefficient input),
      max_discount_rate = override (max_discount_rate c) (in_max_discount_rate input),
      min_discount_rate = override (min_discount_rate c) (in_min_discount_rate input)\<rparr>"

lemma override_simps [simp]: "override x None = x" "override x (Some v) = v"
  by (simp_all add: override_def)

lemma merged_simps [simp]:
  "oracle_pubkey (merged input c) = override (oracle_pubkey c) (in_oracle_pubkey input)"
  "sol_quantity (merged input c) = override (sol_quantity c) (in_sol_quantity input)"
  "price_maximum_age (merged input c) =
     override (price_maximum_age c) (in_price_maximum_age input)"
  "fills_consumer (merged input c) = fills_consumer c"
  "coefficient (merged input c) = override (coefficient c) (in_coefficient input)"
  "max_discount_rate (merged input c) =
     override (max_discount_rate c) (in_max_discount_rate input)"
  "min_discount_rate (merged input c) =
     override (min_discount_rate c) (in_min_discount_rate input)"
  by (simp_all add: merged_def)

text \<open>What each block accepts and what it stores.\<close>

lemma update_oracle_pubkey_eq:
  "update_oracle_pubkey input c =
     c\<lparr>oracle_pubkey := override (oracle_pubkey c) (in_oracle_pubkey input)\<rparr>"
  by (cases "in_oracle_pubkey input") (simp_all add: update_oracle_pubkey_def)

lemma update_sol_quantity_eq:
  "update_sol_quantity input c =
     c\<lparr>sol_quantity := override (sol_quantity c) (in_sol_quantity input)\<rparr>"
  by (cases "in_sol_quantity input") (simp_all add: update_sol_quantity_def)

lemma update_price_maximum_age_Inr_iff:
  "update_price_maximum_age input c = Inr c' \<longleftrightarrow>
     (\<forall>age. in_price_maximum_age input = Some age \<longrightarrow> 0 < sint age) \<and>
     c' = c\<lparr>price_maximum_age := override (price_maximum_age c) (in_price_maximum_age input)\<rparr>"
  by (cases "in_price_maximum_age input") (auto simp: update_price_maximum_age_def tx_simps)

lemma update_coefficient_Inr_iff:
  "update_coefficient input c = Inr c' \<longleftrightarrow>
     (\<forall>k. in_coefficient input = Some k \<longrightarrow> unat k \<le> 100000000) \<and>
     c' = c\<lparr>coefficient := override (coefficient c) (in_coefficient input)\<rparr>"
  by (cases "in_coefficient input") (auto simp: update_coefficient_def tx_simps word_le_nat_alt)

lemma update_max_discount_rate_Inr_iff:
  "update_max_discount_rate input c = Inr c' \<longleftrightarrow>
     (\<forall>m. in_max_discount_rate input = Some m \<longrightarrow> unat m \<le> 10000 \<and>
        unat (override (min_discount_rate c) (in_min_discount_rate input)) < unat m) \<and>
     c' = c\<lparr>max_discount_rate := override (max_discount_rate c) (in_max_discount_rate input)\<rparr>"
  by (cases "in_max_discount_rate input")
     (auto simp: update_max_discount_rate_def override_def Let_def tx_simps word_le_nat_alt
        word_less_nat_alt)

lemma update_min_discount_rate_Inr_iff:
  "update_min_discount_rate input c = Inr c' \<longleftrightarrow>
     (\<forall>m. in_min_discount_rate input = Some m \<longrightarrow>
        unat m < unat (override (max_discount_rate c) (in_max_discount_rate input))) \<and>
     c' = c\<lparr>min_discount_rate := override (min_discount_rate c) (in_min_discount_rate input)\<rparr>"
  by (cases "in_min_discount_rate input")
     (auto simp: update_min_discount_rate_def override_def Let_def tx_simps word_less_nat_alt)

lemmas update_Inr_iffs =
  update_price_maximum_age_Inr_iff update_coefficient_Inr_iff
  update_max_discount_rate_Inr_iff update_min_discount_rate_Inr_iff

text \<open>The input values the checks of the update accept.\<close>

definition accepted_input :: "ConfigurationRegistryInput \<Rightarrow> ConfigurationRegistry \<Rightarrow> bool" where
  "accepted_input input c \<longleftrightarrow>
     (\<forall>age. in_price_maximum_age input = Some age \<longrightarrow> 0 < sint age) \<and>
     (\<forall>k. in_coefficient input = Some k \<longrightarrow> unat k \<le> 100000000) \<and>
     (\<forall>m. in_max_discount_rate input = Some m \<longrightarrow>
        unat m \<le> 10000 \<and> unat (min_discount_rate (merged input c)) < unat m) \<and>
     (\<forall>m. in_min_discount_rate input = Some m \<longrightarrow>
        unat m < unat (max_discount_rate (merged input c)))"

lemma override_idem [simp]: "override (override x y) y = override x y"
  by (cases y) simp_all

lemma process_update_Inr_iff:
  "process_update signer ps c input = (es, Inr c') \<longleftrightarrow>
     signer = admin ps \<and> accepted_input input c \<and> c' = merged input c \<and>
     es = [ConfigChanged signer (oracle_pubkey c') (sol_quantity c') (price_maximum_age c')
            (coefficient c') (max_discount_rate c') (min_discount_rate c')]"
  unfolding process_update_def Let_def update_oracle_pubkey_eq update_sol_quantity_eq
    if_fail_Inr_iff try_tx_Inr_iff update_Inr_iffs accepted_input_def
  by (simp add: merged_def, cases c) auto

lemma process_set_fills_consumer_Inr_iff [tx_simps]:
  "process_set_fills_consumer signer ps c new_consumer = (es, Inr c') \<longleftrightarrow>
     signer = admin ps \<and> c' = c\<lparr>fills_consumer := new_consumer\<rparr> \<and>
     es = [FillsConsumerChanged signer new_consumer]"
  by (auto simp: process_set_fills_consumer_def)

lemma valid_configuration_set_fills_consumer [simp]:
  "valid_configuration (c\<lparr>fills_consumer := k\<rparr>) \<longleftrightarrow> valid_configuration c"
  by (simp add: valid_configuration_def)

lemma valid_configuration_merged:
  "valid_configuration c \<Longrightarrow> valid_configuration (merged input c) \<longleftrightarrow> accepted_input input c"
  by (cases "in_price_maximum_age input"; cases "in_coefficient input";
      cases "in_max_discount_rate input"; cases "in_min_discount_rate input")
    (simp_all add: valid_configuration_def accepted_input_def)

section \<open>Properties\<close>

text \<open>
  C12: from a valid configuration an update succeeds exactly when the administrator signs it and
  the configuration it asks for, absent fields taken from the present one, is valid; it stores
  that configuration and emits one \<open>ConfigChanged\<close> event that reports it.
\<close>

theorem process_update_iff_valid_merge:
  assumes "valid_configuration c"
  shows "process_update signer ps c input = (es, Inr c') \<longleftrightarrow>
     signer = admin ps \<and> c' = merged input c \<and> valid_configuration c' \<and>
     es = [ConfigChanged signer (oracle_pubkey c') (sol_quantity c') (price_maximum_age c')
            (coefficient c') (max_discount_rate c') (min_discount_rate c')]"
  using valid_configuration_merged [OF assms, of input] by (auto simp: process_update_Inr_iff)

definition sample_configuration :: ConfigurationRegistry where
  "sample_configuration =
     \<lparr>oracle_pubkey = 7, sol_quantity = 25000000000, price_maximum_age = 324,
      fills_consumer = 9, coefficient = 4500, max_discount_rate = 5000,
      min_discount_rate = 500\<rparr>"

definition sample_program_state :: ProgramStateAccount where
  "sample_program_state =
     \<lparr>admin = 1, fills_registry_address = 40, is_halted = False,
      bump_registry = \<lparr>configuration_registry_bump = 255, program_state_bump = 254,
        deny_list_registry_bump = 253, withdraw_authority_bump = 252\<rparr>,
      last_trade_slot = 100, deny_list_authority = 2\<rparr>"

definition sample_input :: ConfigurationRegistryInput where
  "sample_input =
     \<lparr>in_oracle_pubkey = None, in_sol_quantity = None, in_price_maximum_age = Some 60,
      in_coefficient = None, in_max_discount_rate = Some 400,
      in_min_discount_rate = Some 100\<rparr>"

lemma valid_sample_configuration [simp]: "valid_configuration sample_configuration"
  by (simp add: valid_configuration_def sample_configuration_def)

theorem process_update_iff_valid_merge_witness:
  "\<exists>es. process_update 1 sample_program_state sample_configuration sample_input =
     (es, Inr (merged sample_input sample_configuration))"
proof -
  have "valid_configuration (merged sample_input sample_configuration)"
    by (simp add: valid_configuration_def sample_input_def sample_configuration_def)
  then show ?thesis
    using process_update_iff_valid_merge [OF valid_sample_configuration, of 1 sample_program_state
        sample_input _ "merged sample_input sample_configuration"]
    by (simp add: sample_program_state_def)
qed

end
