(* ===== verification/Deny_List.thy ===== *)
theory Deny_List
  imports System_Management
begin

text \<open>
  The deny list registry (\<open>deny_list_registry.rs\<close>): its account and the handlers
  \<open>add_to_deny_list\<close> and \<open>remove_from_deny_list\<close> of the deny list authority.
\<close>

section \<open>The deny list account\<close>

record DenyListRegistry =
  denied_addresses :: "pubkey list"
  last_updated :: i64
  update_count :: u64

text \<open>\<open>Vec::contains\<close>, and \<open>iter().position(..)\<close> followed by \<open>Vec::remove\<close>.\<close>

definition contains :: "'a list \<Rightarrow> 'a \<Rightarrow> bool" where
  "contains xs x = List.member xs x"

fun position :: "('a \<Rightarrow> bool) \<Rightarrow> 'a list \<Rightarrow> nat option" where
  "position P [] = None"
| "position P (x # xs) = (if P x then Some 0 else map_option Suc (position P xs))"

definition remove_at :: "nat \<Rightarrow> 'a list \<Rightarrow> 'a list" where
  "remove_at i xs = take i xs @ drop (Suc i) xs"

section \<open>Handlers\<close>

definition add_to_deny_list ::
    "error + clock \<Rightarrow> pubkey \<Rightarrow> ProgramStateAccount \<Rightarrow> DenyListRegistry \<Rightarrow> pubkey \<Rightarrow>
     DenyListRegistry handler" where
  "add_to_deny_list clk signer program_state r address =
     (if signer \<noteq> deny_list_authority program_state
      then fail (DoubleZero UnauthorizedDenyListAuthority)
      else if contains (denied_addresses r) address
      then fail (DoubleZero AlreadyExistsInDenyList)
      else if \<not> length (denied_addresses r) < MAX_DENY_LIST_SIZE
      then fail (DoubleZero DenyListFull)
      else
        let r = r\<lparr>denied_addresses := denied_addresses r @ [address]\<rparr> in
        try_tx clk (\<lambda>c.
        let r = r\<lparr>last_updated := unix_timestamp c\<rparr> in
        try_tx (add_or_panic (update_count r) 1) (\<lambda>n.
        let r = r\<lparr>update_count := n\<rparr> in
        emit (DenyListAddressAdded signer address (last_updated r) (update_count r)) (ok r))))"

definition remove_from_deny_list ::
    "error + clock \<Rightarrow> pubkey \<Rightarrow> ProgramStateAccount \<Rightarrow> DenyListRegistry \<Rightarrow> pubkey \<Rightarrow>
     DenyListRegistry handler" where
  "remove_from_deny_list clk signer program_state r address =
     (if signer \<noteq> deny_list_authority program_state
      then fail (DoubleZero UnauthorizedDenyListAuthority)
      else
        case position (\<lambda>x. x = address) (denied_addresses r) of
          None \<Rightarrow> fail (DoubleZero AddressNotInDenyList)
        | Some pos \<Rightarrow>
            let r = r\<lparr>denied_addresses := remove_at pos (denied_addresses r)\<rparr> in
            try_tx clk (\<lambda>c.
            let r = r\<lparr>last_updated := unix_timestamp c\<rparr> in
            try_tx (add_or_panic (update_count r) 1) (\<lambda>n.
            let r = r\<lparr>update_count := n\<rparr> in
            emit (DenyListAddressRemoved signer address (last_updated r) (update_count r)) (ok r))))"

text \<open>What the account always satisfies: no address twice, never more than the space allows.\<close>

definition valid_deny_list :: "DenyListRegistry \<Rightarrow> bool" where
  "valid_deny_list r \<longleftrightarrow>
     distinct (denied_addresses r) \<and> length (denied_addresses r) \<le> MAX_DENY_LIST_SIZE"

section \<open>Library\<close>

lemma contains_iff [simp]: "contains xs x \<longleftrightarrow> x \<in> set xs"
  by (simp add: contains_def)

lemma position_None_iff: "position (\<lambda>y. y = x) xs = None \<longleftrightarrow> x \<notin> set xs"
  by (induction xs) auto

text \<open>Removing at the first position of an element is the library's \<open>remove1\<close>.\<close>

lemma remove_at_position: "position (\<lambda>y. y = x) xs = Some i \<Longrightarrow> remove_at i xs = remove1 x xs"
proof (induction xs arbitrary: i)
  case (Cons y ys)
  then show ?case
    by (cases "y = x") (auto simp: remove_at_def)
qed simp

lemma position_Some_mem: "position (\<lambda>y. y = x) xs = Some i \<Longrightarrow> x \<in> set xs"
  using position_None_iff [of x xs] by auto

lemma add_to_deny_list_Inr_iff [tx_simps]:
  "add_to_deny_list (Inr c) signer ps r a = (es, Inr r') \<longleftrightarrow>
     signer = deny_list_authority ps \<and> a \<notin> set (denied_addresses r) \<and>
     length (denied_addresses r) < MAX_DENY_LIST_SIZE \<and> unat (update_count r) + 1 < 2 ^ 64 \<and>
     r' = \<lparr>denied_addresses = denied_addresses r @ [a], last_updated = unix_timestamp c,
           update_count = update_count r + 1\<rparr> \<and>
     es = [DenyListAddressAdded signer a (unix_timestamp c) (update_count r + 1)]"
  by (auto simp: add_to_deny_list_def Let_def try_tx_Inr_iff add_or_panic_def tx_simps
      checked_add_def)

lemma remove_from_deny_list_Inr_iff [tx_simps]:
  "remove_from_deny_list (Inr c) signer ps r a = (es, Inr r') \<longleftrightarrow>
     signer = deny_list_authority ps \<and> a \<in> set (denied_addresses r) \<and>
     unat (update_count r) + 1 < 2 ^ 64 \<and>
     r' = \<lparr>denied_addresses = remove1 a (denied_addresses r), last_updated = unix_timestamp c,
           update_count = update_count r + 1\<rparr> \<and>
     es = [DenyListAddressRemoved signer a (unix_timestamp c) (update_count r + 1)]"
proof (cases "position (\<lambda>x. x = a) (denied_addresses r)")
  case None
  then show ?thesis
    by (simp add: remove_from_deny_list_def position_None_iff [THEN iffD1])
next
  case (Some pos)
  then show ?thesis
    by (auto simp: remove_from_deny_list_def Let_def try_tx_Inr_iff add_or_panic_def tx_simps
        checked_add_def remove_at_position dest: position_Some_mem)
qed

lemma valid_deny_list_add:
  "valid_deny_list r \<Longrightarrow> add_to_deny_list clk signer ps r a = (es, Inr r') \<Longrightarrow> valid_deny_list r'"
  by (cases clk) (auto simp: tx_simps valid_deny_list_def add_to_deny_list_def [of "Inl _"])

lemma valid_deny_list_remove:
  assumes "valid_deny_list r" "remove_from_deny_list clk signer ps r a = (es, Inr r')"
  shows "valid_deny_list r'"
proof (cases clk)
  case (Inl e)
  with assms(2) show ?thesis
    by (auto simp: remove_from_deny_list_def split: if_splits option.splits)
next
  case (Inr c)
  with assms show ?thesis
    by (auto simp: tx_simps valid_deny_list_def length_remove1)
qed

section \<open>Properties\<close>

definition sample_deny_list :: DenyListRegistry where
  "sample_deny_list = \<lparr>denied_addresses = [11, 12, 13], last_updated = 0, update_count = 3\<rparr>"

definition sample_state :: ProgramStateAccount where
  "sample_state =
     \<lparr>admin = 1, fills_registry_address = 40, is_halted = False,
      bump_registry = \<lparr>configuration_registry_bump = 255, program_state_bump = 254,
        deny_list_registry_bump = 253, withdraw_authority_bump = 252\<rparr>,
      last_trade_slot = 100, deny_list_authority = 2\<rparr>"

definition sample_clock :: clock where
  "sample_clock = \<lparr>slot = 200, epoch = 5, unix_timestamp = 1000\<rparr>"

text \<open>
  C35: the deny list behaves as a set under the authority's operations.  Whatever the handlers
  accept, adding inserts exactly the given address, removing deletes exactly it, the list keeps
  no duplicate and never exceeds its capacity of 310, and every accepted operation increases
  the audit counter by one.
\<close>

theorem deny_list_operations_set:
  assumes "valid_deny_list r"
  shows "(\<forall>es r'. add_to_deny_list (Inr c) signer ps r a = (es, Inr r') \<longrightarrow>
      set (denied_addresses r') = insert a (set (denied_addresses r)) \<and>
      a \<notin> set (denied_addresses r) \<and> valid_deny_list r' \<and>
      unat (update_count r') = unat (update_count r) + 1) \<and>
    (\<forall>es r'. remove_from_deny_list (Inr c) signer ps r a = (es, Inr r') \<longrightarrow>
      set (denied_addresses r') = set (denied_addresses r) - {a} \<and>
      a \<in> set (denied_addresses r) \<and> valid_deny_list r' \<and>
      unat (update_count r') = unat (update_count r) + 1)"
proof (intro conjI allI impI)
  fix es r'
  assume add: "add_to_deny_list (Inr c) signer ps r a = (es, Inr r')"
  show "valid_deny_list r'" using assms add by (rule valid_deny_list_add)
qed (use assms in \<open>auto simp: tx_simps unat_add_exact valid_deny_list_def
      length_remove1 split: if_splits\<close>)

theorem deny_list_operations_set_witness:
  "\<exists>es r'. add_to_deny_list (Inr sample_clock) 2 sample_state sample_deny_list 14 = (es, Inr r') \<and>
     set (denied_addresses r') = {11, 12, 13, 14}"
proof -
  have v: "valid_deny_list sample_deny_list"
    by (simp add: valid_deny_list_def sample_deny_list_def MAX_DENY_LIST_SIZE_def)
  have "\<exists>es r'. add_to_deny_list (Inr sample_clock) 2 sample_state sample_deny_list 14 = (es, Inr r')"
    by (simp add: tx_simps sample_state_def sample_deny_list_def MAX_DENY_LIST_SIZE_def)
  then show ?thesis
    using deny_list_operations_set [OF v, of sample_clock 2 sample_state 14]
    by (auto simp: sample_deny_list_def)
qed

text \<open>
  Removing an address that was just added restores the list of denied addresses, in its
  order; an address on the list cannot be added a second time.
\<close>

theorem remove_after_add_restores:
  assumes "add_to_deny_list (Inr c) (deny_list_authority ps) ps r a = (es, Inr r')"
    and "unat (update_count r') + 1 < 2 ^ 64"
  shows "(\<exists>es' r''. remove_from_deny_list (Inr d) (deny_list_authority ps) ps r' a =
             (es', Inr r'') \<and> denied_addresses r'' = denied_addresses r) \<and>
         add_to_deny_list (Inr d) (deny_list_authority ps) ps r' a =
           fail (DoubleZero AlreadyExistsInDenyList)"
  using assms
  by (auto simp: tx_simps remove1_append add_to_deny_list_def [of "Inr d"])

theorem remove_after_add_restores_witness:
  "\<exists>es r' es' r''.
     add_to_deny_list (Inr sample_clock) 2 sample_state sample_deny_list 14 = (es, Inr r') \<and>
     remove_from_deny_list (Inr sample_clock) 2 sample_state r' 14 = (es', Inr r'') \<and>
     denied_addresses r'' = [11, 12, 13]"
proof -
  obtain es r' where add:
    "add_to_deny_list (Inr sample_clock) 2 sample_state sample_deny_list 14 = (es, Inr r')"
    and n: "update_count r' = 4"
    by (simp add: tx_simps sample_state_def sample_deny_list_def MAX_DENY_LIST_SIZE_def)
  have a: "deny_list_authority sample_state = 2" by (simp add: sample_state_def)
  have h: "unat (update_count r') + 1 < 2 ^ 64" by (simp add: n)
  show ?thesis
    using remove_after_add_restores [of sample_clock sample_state, unfolded a, OF add h, of sample_clock]
      add by (auto simp: sample_deny_list_def)
qed

end
