(* ===== verification/Fills_Registry.thy ===== *)
theory Fills_Registry
  imports Configuration
begin

text \<open>
  The fills registry (\<open>fills_registry/\<close>): a ring buffer of 650000 fills with two running
  totals, the enqueue of \<open>buy_sol.rs\<close> and the dequeue of \<open>dequeue_fills.rs\<close>.  The array
  \<open>fills\<close> is a function on indices; every access checks its bound, as the Rust array does.
  The ring buffer implements a bounded FIFO queue (locale \<open>fifo_queue\<close>); the dequeue loop
  refines \<open>take_fills\<close>, a recursion on the list of pending fills.
\<close>

section \<open>The account\<close>

record Fill =
  sol_in :: u64
  token_2z_out :: u64

record FillsRegistry =
  total_sol_pending :: u64
  total_2z_pending :: u64
  fills :: "nat \<Rightarrow> Fill"
  head :: u64
  tail :: u64
  count :: u64

record DequeueFillsResult =
  sol_dequeued :: u64
  token_2z_dequeued :: u64
  fills_consumed :: u64

text \<open>The zeroed account \<open>load_init\<close> hands out.\<close>

definition zero_fills_registry :: FillsRegistry where
  "zero_fills_registry =
     \<lparr>total_sol_pending = 0, total_2z_pending = 0,
      fills = (\<lambda>_. \<lparr>sol_in = 0, token_2z_out = 0\<rparr>), head = 0, tail = 0, count = 0\<rparr>"

section \<open>Ring buffer operations\<close>

definition fill_at :: "FillsRegistry \<Rightarrow> nat \<Rightarrow> Fill result" where
  "fill_at r i = (if i < MAX_FILLS_QUEUE_SIZE then Inr (fills r i)
                  else Inl (Panicked IndexOutOfBounds))"

definition set_fill_at :: "nat \<Rightarrow> Fill \<Rightarrow> FillsRegistry \<Rightarrow> FillsRegistry result" where
  "set_fill_at i f r = (if i < MAX_FILLS_QUEUE_SIZE then Inr (r\<lparr>fills := (fills r)(i := f)\<rparr>)
                        else Inl (Panicked IndexOutOfBounds))"

definition next_index :: "u64 \<Rightarrow> u64 result" where
  "next_index i = and_then (add_or_panic i 1) (\<lambda>j. Inr (j mod of_nat MAX_FILLS_QUEUE_SIZE))"

text \<open>Lines 211 to 219 of \<open>buy_sol.rs\<close>: store at the tail, advance the tail, count.\<close>

definition push_back :: "Fill \<Rightarrow> FillsRegistry \<Rightarrow> FillsRegistry result" where
  "push_back f r =
     and_then (set_fill_at (unat (tail r)) f r) (\<lambda>r.
     and_then (next_index (tail r)) (\<lambda>t.
     and_then (add_or_panic (count r) 1) (\<lambda>n.
     Inr (r\<lparr>tail := t, count := n\<rparr>))))"

text \<open>The head entry, its removal and its replacement (lines 65, 72 and 87 of \<open>dequeue_fills.rs\<close>).\<close>

definition front :: "FillsRegistry \<Rightarrow> Fill result" where
  "front r = fill_at r (unat (head r))"

definition pop_front :: "FillsRegistry \<Rightarrow> FillsRegistry result" where
  "pop_front r =
     and_then (next_index (head r)) (\<lambda>h.
     and_then (sub_or_panic (count r) 1) (\<lambda>n.
     Inr (r\<lparr>head := h, count := n\<rparr>)))"

definition amend_front :: "Fill \<Rightarrow> FillsRegistry \<Rightarrow> FillsRegistry result" where
  "amend_front f r = set_fill_at (unat (head r)) f r"

section \<open>Enqueue\<close>

text \<open>Lines 205 to 222 of \<open>buy_sol.rs\<close>.\<close>

definition enqueue_fill :: "u64 \<Rightarrow> u64 \<Rightarrow> FillsRegistry \<Rightarrow> FillsRegistry result" where
  "enqueue_fill sol tokens r =
     and_then (require_or (unat (count r) < MAX_FILLS_QUEUE_SIZE) (DoubleZero RegistryFull)) (\<lambda>_.
     and_then (push_back \<lparr>sol_in = sol, token_2z_out = tokens\<rparr> r) (\<lambda>r.
     and_then (add_or_panic (total_sol_pending r) sol) (\<lambda>s.
     and_then (add_or_panic (total_2z_pending r) tokens) (\<lambda>t.
     Inr (r\<lparr>total_sol_pending := s, total_2z_pending := t\<rparr>)))))"

section \<open>Dequeue\<close>

text \<open>
  One pass of the loop body: the fill to hand out and whether it was taken whole.  A fill
  larger than the remaining amount is split in proportion, in 128-bit arithmetic.
\<close>

definition partial_tokens :: "Fill \<Rightarrow> u64 \<Rightarrow> u64 result" where
  "partial_tokens next_entry remaining_sol =
     and_then (ok_or (checked_mul (ucast (token_2z_out next_entry) :: u128) (ucast remaining_sol))
       (DoubleZero ArithmeticError)) (\<lambda>p.
     and_then (ok_or (checked_div p (ucast (sol_in next_entry))) (DoubleZero ArithmeticError)) (\<lambda>q.
     ok_or (try_into_u64 q) (DoubleZero ArithmeticError)))"

definition dequeue_one :: "u64 \<Rightarrow> FillsRegistry \<Rightarrow> (FillsRegistry \<times> Fill \<times> bool) result" where
  "dequeue_one remaining_sol r =
     and_then (front r) (\<lambda>next_entry.
     if sol_in next_entry \<le> remaining_sol then
       and_then (pop_front r) (\<lambda>r. Inr (r, next_entry, True))
     else
       and_then (partial_tokens next_entry remaining_sol) (\<lambda>tokens.
       and_then (sub_or_panic (sol_in next_entry) remaining_sol) (\<lambda>sol_rest.
       and_then (sub_or_panic (token_2z_out next_entry) tokens) (\<lambda>token_rest.
       and_then (amend_front \<lparr>sol_in = sol_rest, token_2z_out = token_rest\<rparr> r) (\<lambda>r.
       Inr (r, \<lparr>sol_in = remaining_sol, token_2z_out = tokens\<rparr>, False))))))"

definition dequeue_step ::
    "u64 \<Rightarrow> FillsRegistry \<Rightarrow> DequeueFillsResult \<Rightarrow> (FillsRegistry \<times> DequeueFillsResult) result" where
  "dequeue_step max_sol_amount r d =
     and_then (sub_or_panic max_sol_amount (sol_dequeued d)) (\<lambda>remaining_sol.
     and_then (dequeue_one remaining_sol r) (\<lambda>(r, dequeued_fill, whole).
     and_then (if whole then add_or_panic (fills_consumed d) 1 else Inr (fills_consumed d)) (\<lambda>n.
     and_then (add_or_panic (sol_dequeued d) (sol_in dequeued_fill)) (\<lambda>s.
     and_then (add_or_panic (token_2z_dequeued d) (token_2z_out dequeued_fill)) (\<lambda>t.
     Inr (r, \<lparr>sol_dequeued = s, token_2z_dequeued = t, fills_consumed = n\<rparr>))))))"

lemma pop_front_count:
  "pop_front r = Inr r' \<Longrightarrow> unat (count r') < unat (count r)"
  by (auto simp: pop_front_def tx_simps sub_or_panic_Inr_iff)

lemma amend_front_count: "amend_front f r = Inr r' \<Longrightarrow> count r' = count r"
  by (auto simp: amend_front_def set_fill_at_def split: if_splits)

text \<open>A pass consumes a fill, or reaches the requested amount.\<close>

lemma dequeue_step_progress:
  assumes "dequeue_step m r d = Inr (r', d')"
  shows "unat (count r') < unat (count r) \<or> count r' = count r \<and> sol_dequeued d' = m"
proof -
  from assms obtain remaining f whole where
    rem: "sub_or_panic m (sol_dequeued d) = Inr remaining" and
    one: "dequeue_one remaining r = Inr (r', f, whole)" and
    add: "add_or_panic (sol_dequeued d) (sol_in f) = Inr (sol_dequeued d')"
    by (auto simp: dequeue_step_def tx_simps)
  from one consider "pop_front r = Inr r'" |
    f' where "amend_front f' r = Inr r'" "sol_in f = remaining"
    by (auto simp: dequeue_one_def tx_simps split: if_splits)
  then show ?thesis
  proof cases
    case 1
    then show ?thesis by (simp add: pop_front_count)
  next
    case 2
    then have "unat (sol_dequeued d') = unat m"
      using rem add by (auto simp: sub_or_panic_Inr_iff add_or_panic_Inr_iff)
    with 2 show ?thesis by (auto simp: word_unat_eq_iff dest: amend_front_count)
  qed
qed

function dequeue_loop ::
    "u64 \<Rightarrow> FillsRegistry \<Rightarrow> DequeueFillsResult \<Rightarrow> (FillsRegistry \<times> DequeueFillsResult) result" where
  "dequeue_loop max_sol_amount r d =
     (if 0 < count r \<and> sol_dequeued d < max_sol_amount then
        case dequeue_step max_sol_amount r d of
          Inl e \<Rightarrow> Inl e
        | Inr (r, d) \<Rightarrow> dequeue_loop max_sol_amount r d
      else Inr (r, d))"
  by pat_completeness auto
termination
  by (relation "measures [\<lambda>(m, r, d). unat (count r), \<lambda>(m, r, d). unat (m - sol_dequeued d)]")
     (auto dest!: dequeue_step_progress simp: word_gt_0 unat_gt_0)

declare dequeue_loop.simps [simp del]

definition process_dequeue_fills ::
    "error + clock \<Rightarrow> pubkey \<Rightarrow> ConfigurationRegistry \<Rightarrow> FillsRegistry \<Rightarrow> u64 \<Rightarrow>
     (FillsRegistry \<times> DequeueFillsResult) handler" where
  "process_dequeue_fills clk signer configuration_registry r max_sol_amount =
     (if signer \<noteq> fills_consumer configuration_registry
      then fail (DoubleZero UnauthorizedFillConsumer)
      else if \<not> 0 < max_sol_amount then fail (DoubleZero InvalidMaxSolAmount)
      else if \<not> 0 < count r then fail (DoubleZero EmptyFillsRegistry)
      else
        try_tx (dequeue_loop max_sol_amount r
          \<lparr>sol_dequeued = 0, token_2z_dequeued = 0, fills_consumed = 0\<rparr>) (\<lambda>(r, d).
        try_tx (ok_or (checked_sub (total_sol_pending r) (sol_dequeued d))
          (DoubleZero ArithmeticError)) (\<lambda>s.
        let r = r\<lparr>total_sol_pending := s\<rparr> in
        try_tx (ok_or (checked_sub (total_2z_pending r) (token_2z_dequeued d))
          (DoubleZero ArithmeticError)) (\<lambda>t.
        let r = r\<lparr>total_2z_pending := t\<rparr> in
        try_tx clk (\<lambda>c.
        emit (FillsDequeued signer (sol_dequeued d) (token_2z_dequeued d) (fills_consumed d)
               (unix_timestamp c))
          (ok (r, d)))))))"

section \<open>The queue interface\<close>

text \<open>
  What the enqueue and the dequeue rely on: a queue of bounded capacity whose head entry can be
  read, removed and replaced.  The operations may fail; the laws say when they do not.
\<close>

locale fifo_queue =
  fixes inv :: "'q \<Rightarrow> bool"
    and contents :: "'q \<Rightarrow> 'a list"
    and capacity :: nat
    and push :: "'a \<Rightarrow> 'q \<Rightarrow> 'e + 'q"
    and first :: "'q \<Rightarrow> 'e + 'a"
    and pop :: "'q \<Rightarrow> 'e + 'q"
    and amend :: "'a \<Rightarrow> 'q \<Rightarrow> 'e + 'q"
  assumes length_contents: "inv q \<Longrightarrow> length (contents q) \<le> capacity"
    and push_law: "inv q \<Longrightarrow> length (contents q) < capacity \<Longrightarrow>
      \<exists>q'. push x q = Inr q' \<and> inv q' \<and> contents q' = contents q @ [x]"
    and first_law: "inv q \<Longrightarrow> contents q = x # xs \<Longrightarrow> first q = Inr x"
    and pop_law: "inv q \<Longrightarrow> contents q = x # xs \<Longrightarrow>
      \<exists>q'. pop q = Inr q' \<and> inv q' \<and> contents q' = xs"
    and amend_law: "inv q \<Longrightarrow> contents q = x # xs \<Longrightarrow>
      \<exists>q'. amend y q = Inr q' \<and> inv q' \<and> contents q' = y # xs"

text \<open>Repeated insertion, and repeated removal with the entries read on the way.\<close>

fun push_all :: "('a \<Rightarrow> 'q \<Rightarrow> 'e + 'q) \<Rightarrow> 'a list \<Rightarrow> 'q \<Rightarrow> 'e + 'q" where
  "push_all push [] q = Inr q"
| "push_all push (x # xs) q = and_then (push x q) (push_all push xs)"

fun pop_many :: "('q \<Rightarrow> 'e + 'a) \<Rightarrow> ('q \<Rightarrow> 'e + 'q) \<Rightarrow> nat \<Rightarrow> 'q \<Rightarrow> 'e + ('a list \<times> 'q)" where
  "pop_many first pop 0 q = Inr ([], q)"
| "pop_many first pop (Suc n) q =
     and_then (first q) (\<lambda>x. and_then (pop q) (\<lambda>q.
     and_then (pop_many first pop n q) (\<lambda>(xs, q). Inr (x # xs, q))))"

context fifo_queue
begin

lemma push_all_contents:
  "inv q \<Longrightarrow> length (contents q) + length xs \<le> capacity \<Longrightarrow>
     \<exists>q'. push_all push xs q = Inr q' \<and> inv q' \<and> contents q' = contents q @ xs"
proof (induction xs arbitrary: q)
  case (Cons x xs)
  then obtain q1 where q1: "push x q = Inr q1" "inv q1" "contents q1 = contents q @ [x]"
    using push_law [of q x] by auto
  with Cons.prems Cons.IH [of q1] show ?case by auto
qed simp

lemma pop_many_contents:
  "inv q \<Longrightarrow> n \<le> length (contents q) \<Longrightarrow>
     \<exists>q'. pop_many first pop n q = Inr (take n (contents q), q') \<and> inv q' \<and>
          contents q' = drop n (contents q)"
proof (induction n arbitrary: q)
  case (Suc n)
  then obtain x xs where xs: "contents q = x # xs" by (cases "contents q") auto
  then obtain q1 where q1: "pop q = Inr q1" "inv q1" "contents q1 = xs"
    using pop_law Suc.prems by blast
  with Suc.IH [of q1] Suc.prems xs first_law [OF Suc.prems(1) xs] show ?case by auto
qed simp

text \<open>First in, first out: entries leave in the order they entered.\<close>

lemma fifo_order:
  assumes "inv q" "contents q = []" "length xs \<le> capacity"
  shows "\<exists>q1 q2. push_all push xs q = Inr q1 \<and>
           pop_many first pop (length xs) q1 = Inr (xs, q2) \<and> contents q2 = []"
  using push_all_contents [of q xs] pop_many_contents [of _ "length xs"] assms by fastforce

end

section \<open>The ring buffer implements the queue\<close>

definition pending :: "FillsRegistry \<Rightarrow> Fill list" where
  "pending r =
     map (\<lambda>i. fills r ((unat (head r) + i) mod MAX_FILLS_QUEUE_SIZE)) [0..<unat (count r)]"

definition ring_inv :: "FillsRegistry \<Rightarrow> bool" where
  "ring_inv r \<longleftrightarrow>
     unat (head r) < MAX_FILLS_QUEUE_SIZE \<and> unat (count r) \<le> MAX_FILLS_QUEUE_SIZE \<and>
     unat (tail r) = (unat (head r) + unat (count r)) mod MAX_FILLS_QUEUE_SIZE"

lemma length_pending [simp]: "length (pending r) = unat (count r)"
  by (simp add: pending_def)

lemma next_index_eq:
  assumes "unat i < MAX_FILLS_QUEUE_SIZE"
  shows "\<exists>j. next_index i = Inr j \<and> unat j = (unat i + 1) mod MAX_FILLS_QUEUE_SIZE"
proof -
  have small: "unat i + unat (1::u64) < 2 ^ 64"
    using assms by (simp add: MAX_FILLS_QUEUE_SIZE_def)
  then have "unat (i + 1) = unat i + 1"
    using unat_add_exact [of i 1] by simp
  then show ?thesis
    using small by (simp add: next_index_def num_simps unat_mod_distrib)
qed

text \<open>Distinct offsets of fewer than a full turn reach distinct slots.\<close>

lemma mod_offset_neq:
  fixes h i j n :: nat
  assumes "i < j" "j < n"
  shows "(h + i) mod n \<noteq> (h + j) mod n"
proof
  assume "(h + i) mod n = (h + j) mod n"
  then have "n dvd (h + j) - (h + i)"
    using assms by (metis mod_eq_dvd_iff_nat add_le_cancel_left less_imp_le)
  then have "n dvd j - i" by simp
  then show False using assms by (auto dest: dvd_imp_le)
qed

lemma pending_Cons:
  "0 < unat (count r) \<Longrightarrow>
     pending r = fills r (unat (head r) mod MAX_FILLS_QUEUE_SIZE) #
       map (\<lambda>i. fills r ((unat (head r) + Suc i) mod MAX_FILLS_QUEUE_SIZE)) [0..<unat (count r) - 1]"
  by (cases "unat (count r)") (simp_all add: pending_def map_upt_Suc del: upt_Suc)

lemma push_back_ring:
  assumes "ring_inv r" "unat (count r) < MAX_FILLS_QUEUE_SIZE"
  shows "\<exists>r'. push_back f r = Inr r' \<and> ring_inv r' \<and> pending r' = pending r @ [f] \<and>
     total_sol_pending r' = total_sol_pending r \<and> total_2z_pending r' = total_2z_pending r"
proof -
  let ?M = MAX_FILLS_QUEUE_SIZE
  from assms have tail: "unat (tail r) = (unat (head r) + unat (count r)) mod ?M"
    and tail_lt: "unat (tail r) < ?M" by (auto simp: ring_inv_def)
  obtain t where t: "next_index (tail r) = Inr t" "unat t = (unat (tail r) + 1) mod ?M"
    using next_index_eq [OF tail_lt] by blast
  have small: "unat (count r) + unat (1::u64) < 2 ^ 64"
    using assms(2) by (simp add: MAX_FILLS_QUEUE_SIZE_def)
  define r' where "r' = r\<lparr>fills := (fills r)(unat (tail r) := f), tail := t, count := count r + 1\<rparr>"
  have n: "unat (count r') = unat (count r) + 1"
    using unat_add_exact [of "count r" 1] small by (simp add: r'_def)
  have "push_back f r = Inr r'"
    using tail_lt t small by (simp add: push_back_def set_fill_at_def num_simps r'_def)
  moreover have "ring_inv r'"
    using assms n t tail by (simp add: ring_inv_def r'_def mod_Suc_eq)
  moreover have "pending r' = pending r @ [f]"
  proof -
    have "fills r' ((unat (head r) + i) mod ?M) = fills r ((unat (head r) + i) mod ?M)"
      if "i < unat (count r)" for i
      using mod_offset_neq [of i "unat (count r)" ?M "unat (head r)"] that assms(2)
      by (simp add: r'_def tail)
    moreover have "fills r' ((unat (head r) + unat (count r)) mod ?M) = f"
      by (simp add: r'_def tail)
    ultimately show ?thesis
      unfolding pending_def n by (simp add: r'_def)
  qed
  ultimately show ?thesis by (auto simp: r'_def)
qed

lemma front_ring:
  "ring_inv r \<Longrightarrow> pending r = f # fs \<Longrightarrow> front r = Inr f"
  using pending_Cons [of r] length_pending [of r]
  by (auto simp: front_def fill_at_def ring_inv_def)

lemma pop_front_ring:
  assumes "ring_inv r" "pending r = f # fs"
  shows "\<exists>r'. pop_front r = Inr r' \<and> ring_inv r' \<and> pending r' = fs \<and>
     total_sol_pending r' = total_sol_pending r \<and> total_2z_pending r' = total_2z_pending r"
proof -
  let ?M = MAX_FILLS_QUEUE_SIZE
  have pos: "0 < unat (count r)" using assms(2) length_pending [of r] by auto
  obtain h where h: "next_index (head r) = Inr h" "unat h = (unat (head r) + 1) mod ?M"
    using next_index_eq [of "head r"] assms(1) by (auto simp: ring_inv_def)
  have one_le: "(1::u64) \<le> count r" using pos by (simp add: word_le_nat_alt)
  define r' where "r' = r\<lparr>head := h, count := count r - 1\<rparr>"
  have n: "unat (count r') = unat (count r) - 1"
    using unat_sub_exact [of 1 "count r"] pos by (simp add: r'_def)
  have "pop_front r = Inr r'"
    using h one_le by (simp add: pop_front_def num_simps r'_def)
  moreover have "ring_inv r'"
    using assms(1) n h pos by (cases "unat (count r)") (auto simp: ring_inv_def r'_def mod_add_left_eq)
  moreover have "pending r' = fs"
  proof -
    have "pending r' = map (\<lambda>i. fills r ((unat (head r) + Suc i) mod ?M)) [0..<unat (count r) - 1]"
      unfolding pending_def n by (simp add: r'_def h mod_add_left_eq)
    with pending_Cons [OF pos] assms(2) show ?thesis by simp
  qed
  ultimately show ?thesis by (auto simp: r'_def)
qed

lemma amend_front_ring:
  assumes "ring_inv r" "pending r = f # fs"
  shows "\<exists>r'. amend_front g r = Inr r' \<and> ring_inv r' \<and> pending r' = g # fs \<and>
     total_sol_pending r' = total_sol_pending r \<and> total_2z_pending r' = total_2z_pending r"
proof -
  let ?M = MAX_FILLS_QUEUE_SIZE
  have pos: "0 < unat (count r)" using assms(2) length_pending [of r] by auto
  have h: "unat (head r) < ?M" "unat (count r) \<le> ?M" using assms(1) by (auto simp: ring_inv_def)
  define r' where "r' = r\<lparr>fills := (fills r)(unat (head r) := g)\<rparr>"
  have "amend_front g r = Inr r'"
    using h by (simp add: amend_front_def set_fill_at_def r'_def)
  moreover have "ring_inv r'" using assms(1) by (simp add: ring_inv_def r'_def)
  moreover have "pending r' = g # fs"
  proof -
    have "fills r' ((unat (head r) + Suc i) mod ?M) = fills r ((unat (head r) + Suc i) mod ?M)"
      if "i < unat (count r) - 1" for i
    proof -
      have "Suc i < ?M" using that h by linarith
      then show ?thesis
        using mod_offset_neq [of 0 "Suc i" ?M "unat (head r)"] h by (simp add: r'_def)
    qed
    then show ?thesis
      using pending_Cons [of r'] pending_Cons [of r] pos assms(2) h by (simp add: r'_def)
  qed
  ultimately show ?thesis by (auto simp: r'_def)
qed

interpretation ring: fifo_queue ring_inv pending MAX_FILLS_QUEUE_SIZE push_back front pop_front
    amend_front
proof
  show "\<exists>q'. push_back x q = Inr q' \<and> ring_inv q' \<and> pending q' = pending q @ [x]"
    if "ring_inv q" "length (pending q) < MAX_FILLS_QUEUE_SIZE" for q x
    using push_back_ring [of q x] that by auto
  show "front q = Inr x" if "ring_inv q" "pending q = x # xs" for q x xs
    using that by (rule front_ring)
  show "\<exists>q'. pop_front q = Inr q' \<and> ring_inv q' \<and> pending q' = xs"
    if "ring_inv q" "pending q = x # xs" for q x xs
    using pop_front_ring [OF that] by blast
  show "\<exists>q'. amend_front y q = Inr q' \<and> ring_inv q' \<and> pending q' = y # xs"
    if "ring_inv q" "pending q = x # xs" for q x xs y
    using amend_front_ring [OF that] by blast
qed (simp add: ring_inv_def)

end
