(* ===== verification/Codec.thy ===== *)
theory Codec
  imports Configuration Deny_List Fills_Registry
begin

text \<open>
  The Borsh format in which instruction arguments, return data and the accounts under
  \<open>#[account]\<close> travel as bytes: what \<open>AnchorSerialize\<close> and \<open>AnchorDeserialize\<close> derive for the
  structures of the source.  Integers are little-endian, a key is its 32 bytes, an option is a tag
  byte and the value, a vector and a string are a 32-bit count and the elements.  The locale
  \<open>codec\<close> states the law every reader and writer pair obeys: reading succeeds exactly on what
  was written, whatever follows it.
\<close>

named_theorems read_simps \<open>reading what was written\<close>
named_theorems codec_simps \<open>when a reader succeeds, and the sizes of what is written\<close>

section \<open>Readers\<close>

type_synonym 'a reader = "u8 list \<Rightarrow> ('a \<times> u8 list) option"

definition get_return :: "'a \<Rightarrow> 'a reader" where
  "get_return x bs = Some (x, bs)"

definition get_bind :: "'a reader \<Rightarrow> ('a \<Rightarrow> 'b reader) \<Rightarrow> 'b reader" where
  "get_bind g f bs = (case g bs of None \<Rightarrow> None | Some (x, rest) \<Rightarrow> f x rest)"

lemma get_return_Some_iff [codec_simps]: "get_return x bs = Some (y, r) \<longleftrightarrow> y = x \<and> r = bs"
  by (auto simp: get_return_def)

lemma get_bind_Some_iff [codec_simps]:
  "get_bind g f bs = Some (y, r) \<longleftrightarrow> (\<exists>x r'. g bs = Some (x, r') \<and> f x r' = Some (y, r))"
  by (auto simp: get_bind_def split: option.splits)

lemma get_bind_read [read_simps]: "g bs = Some (x, r) \<Longrightarrow> get_bind g f bs = f x r"
  by (simp add: get_bind_def)

lemma get_return_read [read_simps]: "get_return x bs = Some (x, bs)"
  by (simp add: get_return_def)

section \<open>The law of a codec\<close>

locale codec =
  fixes ok_value :: "'a \<Rightarrow> bool"
    and put :: "'a \<Rightarrow> u8 list"
    and get :: "'a reader"
  assumes get_iff: "get bs = Some (x, r) \<longleftrightarrow> ok_value x \<and> bs = put x @ r"
begin

lemma get_put: "ok_value x \<Longrightarrow> get (put x @ r) = Some (x, r)"
  using get_iff [of "put x @ r" x r] by blast

lemma put_inject:
  assumes "ok_value x" "ok_value y" "put x @ r = put y @ s"
  shows "x = y \<and> r = s"
  by (metis assms get_put option.inject prod.inject)

lemma get_put_only: "ok_value x \<Longrightarrow> get (put x) = Some (x, [])"
  using get_put [of x "[]"] by simp

lemma get_None_iff: "get bs = None \<longleftrightarrow> (\<nexists>x r. ok_value x \<and> bs = put x @ r)"
  using get_iff [of bs] by (cases "get bs") auto

end

text \<open>For a structure the two directions are proved apart.\<close>

lemma codecI:
  assumes "\<And>x r. ok_value x \<Longrightarrow> get (put x @ r) = Some (x, r)"
    and "\<And>bs x r. get bs = Some (x, r) \<Longrightarrow> ok_value x \<and> bs = put x @ r"
  shows "codec ok_value put get"
  using assms by unfold_locales blast

locale fixed_codec = codec +
  fixes width :: nat
  assumes length_put: "length (put x) = width"
begin

lemma length_puts: "length (concat (map put xs)) = width * length xs"
  by (induction xs) (simp_all add: length_put)

text \<open>Elements of one width can be read at their position.\<close>

lemma take_drop_puts:
  assumes "i < length xs"
  shows "take width (drop (width * i) (concat (map put xs) @ rest)) = put (xs ! i)"
  using assms
proof (induction xs arbitrary: i)
  case (Cons x xs)
  show ?case
  proof (cases i)
    case 0
    then show ?thesis by (simp add: length_put)
  next
    case (Suc j)
    then have "drop (width * i) (concat (map put (x # xs)) @ rest) =
        drop (width * j) (concat (map put xs) @ rest)"
      by (simp add: length_put)
    with Cons Suc show ?thesis by simp
  qed
qed simp

end

section \<open>Integers, flags and keys\<close>

definition put_word :: "nat \<Rightarrow> 'l::len word \<Rightarrow> u8 list" where
  "put_word k w = le_bytes k (unat w)"

definition get_word :: "nat \<Rightarrow> 'l::len word reader" where
  "get_word k bs =
     (if length bs < k then None else Some (word_of_nat (of_le_bytes (take k bs)), drop k bs))"

lemma le_bytes_of_le_bytes: "le_bytes (length bs) (of_le_bytes bs) = bs"
proof (induction bs)
  case (Cons b bs)
  have "unat b < 256" using unsigned_less [of b, where ?'a = nat] by simp
  with Cons show ?case by simp
qed simp

lemma word_of_le_bytes:
  assumes "LENGTH('l) = 8 * k"
  shows "unat (word_of_nat (of_le_bytes bs) :: 'l::len word) = of_le_bytes bs mod 256 ^ k"
  using assms by (simp add: unsigned_of_nat take_bit_eq_mod power_mult)

lemma of_le_bytes_word:
  assumes "LENGTH('l) = 8 * k"
  shows "word_of_nat (of_le_bytes (le_bytes k (unat w))) = (w :: 'l::len word)"
proof -
  have "unat w < 256 ^ k"
    using unsigned_less [of w, where ?'a = nat] assms by (simp add: power_mult)
  then show ?thesis by (simp add: of_le_bytes_le_bytes)
qed

lemma get_word_Some_iff:
  assumes "LENGTH('l) = 8 * k"
  shows "get_word k bs = Some ((w :: 'l::len word), r) \<longleftrightarrow> bs = put_word k w @ r"
proof
  assume "get_word k bs = Some (w, r)"
  then have len: "k \<le> length bs" and w: "w = word_of_nat (of_le_bytes (take k bs))"
    and r: "r = drop k bs"
    by (auto simp: get_word_def split: if_splits)
  have "of_le_bytes (take k bs) < 256 ^ k"
    using of_le_bytes_bound [of "take k bs"] len by simp
  then have "unat w = of_le_bytes (take k bs)"
    using word_of_le_bytes [OF assms] by (simp add: w)
  then have "put_word k w = take k bs"
    using le_bytes_of_le_bytes [of "take k bs"] len by (simp add: put_word_def)
  then show "bs = put_word k w @ r" by (simp add: r)
next
  assume "bs = put_word k w @ r"
  then show "get_word k bs = Some (w, r)"
    using of_le_bytes_word [OF assms, of w] by (simp add: get_word_def put_word_def)
qed

definition put_u8 :: "u8 \<Rightarrow> u8 list" where
  "put_u8 b = [b]"

definition get_u8 :: "u8 reader" where
  "get_u8 bs = (case bs of [] \<Rightarrow> None | b # r \<Rightarrow> Some (b, r))"

definition put_u32 :: "u32 \<Rightarrow> u8 list" where
  "put_u32 = put_word 4"

definition get_u32 :: "u32 reader" where
  "get_u32 = get_word 4"

definition get_u64 :: "u64 reader" where
  "get_u64 = get_word 8"

definition put_bool :: "bool \<Rightarrow> u8 list" where
  "put_bool b = [if b then 1 else 0]"

definition get_bool :: "bool reader" where
  "get_bool = get_bind get_u8 (\<lambda>b r. if b = 0 then Some (False, r) else if b = 1 then Some (True, r) else None)"

text \<open>\<open>Pubkey::to_bytes\<close>: the base-58 text of a key writes the same number, first byte first.\<close>

definition to_bytes :: "pubkey \<Rightarrow> u8 list" where
  "to_bytes k = rev (le_bytes 32 (unat k))"

definition get_pubkey :: "pubkey reader" where
  "get_pubkey bs =
     (if length bs < 32 then None
      else Some (word_of_nat (of_le_bytes (rev (take 32 bs))), drop 32 bs))"

interpretation u8_codec: fixed_codec "\<lambda>_. True" put_u8 get_u8 1
  by unfold_locales (auto simp: get_u8_def put_u8_def split: list.splits)

interpretation u32_codec: fixed_codec "\<lambda>_. True" put_u32 get_u32 4
  by unfold_locales (auto simp: get_u32_def put_u32_def get_word_Some_iff, simp add: put_word_def)

interpretation u64_codec: fixed_codec "\<lambda>_. True" to_le_bytes get_u64 8
proof unfold_locales
  have "put_word 8 w = to_le_bytes w" for w
    by (simp add: put_word_def to_le_bytes_def)
  then show "get_u64 bs = Some (w, r) \<longleftrightarrow> True \<and> bs = to_le_bytes w @ r" for bs w r
    by (simp add: get_u64_def get_word_Some_iff)
qed simp

interpretation bool_codec: fixed_codec "\<lambda>_. True" put_bool get_bool 1
  by unfold_locales
    (auto simp: get_bool_def put_bool_def get_bind_def get_u8_def split: list.splits if_splits)

interpretation pubkey_codec: fixed_codec "\<lambda>_. True" to_bytes get_pubkey 32
proof unfold_locales
  fix bs r and k :: pubkey
  have "get_pubkey bs = Some (k, r) \<longleftrightarrow>
      get_word 32 (rev (take 32 bs)) = Some (k, []) \<and> r = drop 32 bs \<and> 32 \<le> length bs"
    by (auto simp: get_pubkey_def get_word_def)
  also have "\<dots> \<longleftrightarrow> rev (take 32 bs) = put_word 32 k \<and> r = drop 32 bs \<and> 32 \<le> length bs"
    by (simp add: get_word_Some_iff)
  also have "\<dots> \<longleftrightarrow> take 32 bs = to_bytes k \<and> r = drop 32 bs \<and> 32 \<le> length bs"
    by (auto simp: to_bytes_def put_word_def rev_swap)
  also have "\<dots> \<longleftrightarrow> bs = to_bytes k @ r"
    by (metis append_eq_conv_conj append_take_drop_id length_rev length_le_bytes to_bytes_def
        length_append le_add1)
  finally show "get_pubkey bs = Some (k, r) \<longleftrightarrow> True \<and> bs = to_bytes k @ r" by simp
qed (simp add: to_bytes_def)

lemmas [codec_simps] =
  u8_codec.get_iff u32_codec.get_iff u64_codec.get_iff bool_codec.get_iff pubkey_codec.get_iff
  u8_codec.length_put u32_codec.length_put u64_codec.length_put bool_codec.length_put
  pubkey_codec.length_put

lemmas [read_simps] =
  u8_codec.get_put u32_codec.get_put u64_codec.get_put bool_codec.get_put pubkey_codec.get_put

section \<open>Options, vectors and strings\<close>

definition put_option :: "('a \<Rightarrow> u8 list) \<Rightarrow> 'a option \<Rightarrow> u8 list" where
  "put_option put x = (case x of None \<Rightarrow> [0] | Some v \<Rightarrow> 1 # put v)"

definition get_option :: "'a reader \<Rightarrow> 'a option reader" where
  "get_option get =
     get_bind get_u8 (\<lambda>tag.
       if tag = 0 then get_return None
       else if tag = 1 then get_bind get (\<lambda>v. get_return (Some v))
       else (\<lambda>_. None))"

lemma codec_option:
  assumes "codec ok_value put get"
  shows "codec (pred_option ok_value) (put_option put) (get_option get)"
proof
  fix bs x r
  have cons: "get_option get (tag # bs) =
      (if tag = 0 then get_return None bs
       else if tag = 1 then get_bind get (\<lambda>v. get_return (Some v)) bs else None)" for tag bs
    by (simp add: get_option_def get_bind_def get_u8_def)
  have "get_option get [] = None"
    by (simp add: get_option_def get_bind_def get_u8_def)
  then show "get_option get bs = Some (x, r) \<longleftrightarrow> pred_option ok_value x \<and> bs = put_option put x @ r"
    by (cases bs; cases x)
      (auto simp: cons put_option_def codec_simps codec.get_iff [OF assms] split: if_splits)
qed

fun get_times :: "'a reader \<Rightarrow> nat \<Rightarrow> 'a list reader" where
  "get_times get 0 = get_return []"
| "get_times get (Suc n) = get_bind get (\<lambda>x. get_bind (get_times get n) (\<lambda>xs. get_return (x # xs)))"

definition put_vec :: "('a \<Rightarrow> u8 list) \<Rightarrow> 'a list \<Rightarrow> u8 list" where
  "put_vec put xs = put_u32 (word_of_nat (length xs)) @ concat (map put xs)"

definition get_vec :: "'a reader \<Rightarrow> 'a list reader" where
  "get_vec get = get_bind get_u32 (\<lambda>n. get_times get (unat n))"

text \<open>A vector whose length fits the 32-bit count; a Rust vector in memory always does here.\<close>

definition ok_vec :: "('a \<Rightarrow> bool) \<Rightarrow> 'a list \<Rightarrow> bool" where
  "ok_vec ok_value xs \<longleftrightarrow> list_all ok_value xs \<and> length xs < 2 ^ 32"

lemma get_times_Some_iff:
  assumes "codec ok_value put get"
  shows "get_times get n bs = Some (xs, r) \<longleftrightarrow>
    length xs = n \<and> list_all ok_value xs \<and> bs = concat (map put xs) @ r"
proof (induction n arbitrary: bs xs)
  case 0
  then show ?case by (auto simp: codec_simps)
next
  case (Suc n)
  then show ?case
    by (cases xs) (auto simp: codec_simps codec.get_iff [OF assms])
qed

lemma codec_vec:
  assumes "codec ok_value put get"
  shows "codec (ok_vec ok_value) (put_vec put) (get_vec get)"
proof
  fix bs r and xs :: "'a list"
  have "unat (n :: u32) = length xs \<longleftrightarrow> n = word_of_nat (length xs) \<and> length xs < 2 ^ 32" for n
    using unsigned_less [of n, where ?'a = nat]
    by (auto simp: word_unat_eq_iff unsigned_of_nat take_bit_nat_eq_self)
  then have count: "length xs = unat (n :: u32) \<longleftrightarrow> n = word_of_nat (length xs) \<and> length xs < 2 ^ 32" for n
    by (metis (no_types))
  have "get_vec get bs = Some (xs, r) \<longleftrightarrow> list_all ok_value xs \<and>
      (\<exists>n. length xs = unat n \<and> bs = put_u32 n @ concat (map put xs) @ r)"
    by (auto simp: get_vec_def codec_simps get_times_Some_iff [OF assms])
  then show "get_vec get bs = Some (xs, r) \<longleftrightarrow> ok_vec ok_value xs \<and> bs = put_vec put xs @ r"
    unfolding count by (auto simp: put_vec_def ok_vec_def)
qed

text \<open>\<open>String::from_utf8\<close>: the well-formed byte sequences of UTF-8.\<close>

definition continuation :: "u8 \<Rightarrow> bool" where
  "continuation b \<longleftrightarrow> 0x80 \<le> b \<and> b \<le> 0xBF"

fun valid_utf8 :: "u8 list \<Rightarrow> bool" where
  "valid_utf8 [] = True"
| "valid_utf8 (b # bs) =
     (if b < 0x80 then valid_utf8 bs
      else case bs of [] \<Rightarrow> False | c # bs \<Rightarrow>
        if 0xC2 \<le> b \<and> b \<le> 0xDF then continuation c \<and> valid_utf8 bs
        else case bs of [] \<Rightarrow> False | d # bs \<Rightarrow>
          if 0xE0 \<le> b \<and> b \<le> 0xEF then
            continuation c \<and> continuation d \<and> (b = 0xE0 \<longrightarrow> 0xA0 \<le> c) \<and> (b = 0xED \<longrightarrow> c \<le> 0x9F) \<and>
            valid_utf8 bs
          else case bs of [] \<Rightarrow> False | e # bs \<Rightarrow>
            0xF0 \<le> b \<and> b \<le> 0xF4 \<and> continuation c \<and> continuation d \<and> continuation e \<and>
            (b = 0xF0 \<longrightarrow> 0x90 \<le> c) \<and> (b = 0xF4 \<longrightarrow> c \<le> 0x8F) \<and> valid_utf8 bs)"

definition string_of_bytes :: "u8 list \<Rightarrow> string" where
  "string_of_bytes bs = map (\<lambda>b. char_of (unat b)) bs"

definition put_string :: "string \<Rightarrow> u8 list" where
  "put_string s = put_vec put_u8 (bytes_of_string s)"

definition get_string :: "string reader" where
  "get_string =
     get_bind (get_vec get_u8) (\<lambda>bs.
       if valid_utf8 bs then get_return (string_of_bytes bs) else (\<lambda>_. None))"

definition ok_string :: "string \<Rightarrow> bool" where
  "ok_string s \<longleftrightarrow> valid_utf8 (bytes_of_string s) \<and> length s < 2 ^ 32"

lemma ascii_valid_utf8: "list_all (\<lambda>b. b < 0x80) bs \<Longrightarrow> valid_utf8 bs"
  by (induction bs) simp_all

lemma string_of_bytes_iff: "string_of_bytes bs = s \<longleftrightarrow> bs = bytes_of_string s"
proof -
  have "byte_of_char (char_of (unat b)) = b" for b
    using unsigned_less [of b, where ?'a = nat]
    by (simp add: byte_of_char_def of_char_of)
  then have "bytes_of_string (string_of_bytes bs) = bs"
    by (induction bs) (simp_all add: bytes_of_string_def string_of_bytes_def)
  then show ?thesis by (metis bytes_of_string_eq_iff)
qed

lemma length_bytes_of_string [simp]: "length (bytes_of_string s) = length s"
  by (simp add: bytes_of_string_def)

lemma codec_bytes: "codec (ok_vec (\<lambda>_. True)) (put_vec put_u8) (get_vec get_u8)"
  by (rule codec_vec) unfold_locales

interpretation string_codec: codec ok_string put_string get_string
proof
  fix bs s r
  show "get_string bs = Some (s, r) \<longleftrightarrow> ok_string s \<and> bs = put_string s @ r"
  proof -
    have "get_string bs = Some (s, r) \<longleftrightarrow>
        (\<exists>b. get_vec get_u8 bs = Some (b, r) \<and> valid_utf8 b \<and> string_of_bytes b = s)"
      by (auto simp: get_string_def get_bind_def get_return_def split: option.splits if_splits)
    then show ?thesis
      by (auto simp: string_of_bytes_iff put_string_def ok_string_def ok_vec_def list_all_iff
          codec.get_iff [OF codec_bytes])
  qed
qed

lemmas [read_simps] = string_codec.get_put

end
