(* ===== verification/Fills_Accounting.thy ===== *)
theory Fills_Accounting
  imports Fills_Registry
begin

text \<open>
  The specification of the fills registry and its correctness: the dequeue loop refines
  \<open>take_fills\<close>, a structural recursion on the list of pending fills that knows nothing of ring
  indices, machine words or running totals; the registry's invariant ties the running totals to
  the pending fills; and no operation within the invariant fails for another reason than the
  ones the program names.
\<close>

section \<open>The specification\<close>

definition amounts :: "Fill \<Rightarrow> nat \<times> nat" where
  "amounts f = (unat (sol_in f), unat (token_2z_out f))"

text \<open>
  Taking at most \<open>m\<close> lamports from a list of (lamports, tokens) entries: whole entries first,
  then the proportional part of the next one, rounded down.  The result is the lamports taken,
  the tokens taken, the number of whole entries and what is left.
\<close>

fun take_fills :: "nat \<Rightarrow> (nat \<times> nat) list \<Rightarrow> nat \<times> nat \<times> nat \<times> (nat \<times> nat) list" where
  "take_fills m [] = (0, 0, 0, [])"
| "take_fills m ((s, t) # q) =
     (if m = 0 then (0, 0, 0, (s, t) # q)
      else if s \<le> m then
        (case take_fills (m - s) q of (a, b, n, q') \<Rightarrow> (s + a, t + b, Suc n, q'))
      else (m, t * m div s, 0, (s - m, t - t * m div s) # q))"

abbreviation sum_sol :: "(nat \<times> nat) list \<Rightarrow> nat" where
  "sum_sol q \<equiv> sum_list (map fst q)"

abbreviation sum_2z :: "(nat \<times> nat) list \<Rightarrow> nat" where
  "sum_2z q \<equiv> sum_list (map snd q)"

definition backlog :: "FillsRegistry \<Rightarrow> (nat \<times> nat) list" where
  "backlog r = map amounts (pending r)"

text \<open>The invariant of the account: the ring is well formed and the totals are exact.\<close>

definition registry_inv :: "FillsRegistry \<Rightarrow> bool" where
  "registry_inv r \<longleftrightarrow> ring_inv r \<and>
     unat (total_sol_pending r) = sum_sol (backlog r) \<and>
     unat (total_2z_pending r) = sum_2z (backlog r)"

subsection \<open>Laws of the specification\<close>

lemma div_part_le: "m < s \<Longrightarrow> t * m div s \<le> (t::nat)"
  by (metis div_le_mono div_mult_self_is_m less_imp_le mult_le_mono2 gr_implies_not0 neq0_conv)

lemma take_fills_conserves:
  "take_fills m q = (a, b, n, q') \<Longrightarrow>
     a + sum_sol q' = sum_sol q \<and> b + sum_2z q' = sum_2z q \<and> n + length q' = length q"
proof (induction m q arbitrary: a b n q' rule: take_fills.induct)
  case (2 m s t q)
  then show ?case
    using div_part_le [of m s t] by (auto split: if_splits prod.splits)
qed simp

lemma take_fills_amount:
  "take_fills m q = (a, b, n, q') \<Longrightarrow> a = min m (sum_sol q)"
proof (induction m q arbitrary: a b n q' rule: take_fills.induct)
  case (2 m s t q)
  then show ?case by (auto split: if_splits prod.splits)
qed simp

lemma take_fills_bounds:
  assumes "take_fills m q = (a, b, n, q')"
  shows "a \<le> m" "a \<le> sum_sol q" "b \<le> sum_2z q" "n \<le> length q"
  using take_fills_conserves [OF assms] take_fills_amount [OF assms] by simp_all

text \<open>The untouched entries keep their order: what is left is a suffix, its head amended.\<close>

lemma take_fills_suffix:
  "take_fills m q = (a, b, n, q') \<Longrightarrow>
     q' = drop n q \<or> (n < length q \<and> (\<exists>x. q' = x # drop (Suc n) q))"
proof (induction m q arbitrary: a b n q' rule: take_fills.induct)
  case (2 m s t q)
  then show ?case by (fastforce split: if_splits prod.splits)
qed simp

section \<open>One pass of the loop\<close>

lemma partial_tokens_eq:
  assumes "remaining < sol_in f"
  shows "\<exists>tok. partial_tokens f remaining = Inr tok \<and>
     unat tok = unat (token_2z_out f) * unat remaining div unat (sol_in f)"
proof -
  let ?q = "unat (token_2z_out f) * unat remaining div unat (sol_in f)"
  obtain p where p: "checked_mul (ucast (token_2z_out f) :: u128) (ucast remaining) = Some p"
    "unat p = unat (token_2z_out f) * unat remaining"
    using checked_mul_u64_in_u128 by blast
  have s: "0 < unat (sol_in f)" "unat remaining < unat (sol_in f)"
    using assms by (auto simp: word_less_nat_alt)
  then have "(ucast (sol_in f) :: u128) \<noteq> 0"
    by (auto simp: word_unat_eq_iff num_simps)
  then have d: "checked_div p (ucast (sol_in f)) = Some (p div ucast (sol_in f))"
    by (simp add: checked_div_def)
  have q: "unat (p div ucast (sol_in f)) = ?q"
    by (simp add: unat_div_distrib p num_simps)
  have "?q \<le> unat (token_2z_out f)" using s(2) by (rule div_part_le)
  then have "?q < 2 ^ 64" using u64_bound [of "token_2z_out f"] by linarith
  then have "try_into_u64 (p div ucast (sol_in f)) = Some (ucast (p div ucast (sol_in f)))"
    "unat (ucast (p div ucast (sol_in f)) :: u64) = ?q"
    using try_into_u64_Some_iff [of "p div ucast (sol_in f)"] q
    by (auto simp: try_into_u64_def)
  then show ?thesis by (simp add: partial_tokens_def p d)
qed

lemma dequeue_one_whole:
  assumes "ring_inv r" "pending r = f # fs" "sol_in f \<le> remaining"
  shows "\<exists>r'. dequeue_one remaining r = Inr (r', f, True) \<and> ring_inv r' \<and> pending r' = fs \<and>
     total_sol_pending r' = total_sol_pending r \<and> total_2z_pending r' = total_2z_pending r"
  using pop_front_ring [OF assms(1,2)] ring.first_law [OF assms(1,2)] assms(3)
  by (auto simp: dequeue_one_def)

lemma dequeue_one_part:
  assumes "ring_inv r" "pending r = f # fs" "remaining < sol_in f"
  shows "\<exists>r' g h. dequeue_one remaining r = Inr (r', g, False) \<and> ring_inv r' \<and>
     pending r' = h # fs \<and> sol_in g = remaining \<and>
     unat (token_2z_out g) = unat (token_2z_out f) * unat remaining div unat (sol_in f) \<and>
     unat (sol_in h) = unat (sol_in f) - unat remaining \<and>
     unat (token_2z_out h) = unat (token_2z_out f) - unat (token_2z_out g) \<and>
     total_sol_pending r' = total_sol_pending r \<and> total_2z_pending r' = total_2z_pending r"
proof -
  obtain tok where tok: "partial_tokens f remaining = Inr tok"
    "unat tok = unat (token_2z_out f) * unat remaining div unat (sol_in f)"
    using partial_tokens_eq [OF assms(3)] by blast
  have le: "unat remaining \<le> unat (sol_in f)" "unat tok \<le> unat (token_2z_out f)"
    using assms(3) tok(2) div_part_le by (auto simp: word_less_nat_alt)
  let ?h = "\<lparr>sol_in = sol_in f - remaining, token_2z_out = token_2z_out f - tok\<rparr>"
  obtain r' where r': "amend_front ?h r = Inr r'" "ring_inv r'" "pending r' = ?h # fs"
    "total_sol_pending r' = total_sol_pending r" "total_2z_pending r' = total_2z_pending r"
    using amend_front_ring [OF assms(1,2)] by blast
  have "dequeue_one remaining r = Inr (r', \<lparr>sol_in = remaining, token_2z_out = tok\<rparr>, False)"
    using assms(3) le ring.first_law [OF assms(1,2)] tok(1) r'(1)
    by (simp add: dequeue_one_def num_simps word_le_nat_alt not_le [symmetric])
  with r' tok(2) le show ?thesis by (auto simp: unat_sub_exact)
qed

section \<open>The loop refines the specification\<close>

text \<open>The sums a loop state can still reach fit their machine integers.\<close>

definition loop_fits :: "FillsRegistry \<Rightarrow> DequeueFillsResult \<Rightarrow> bool" where
  "loop_fits r d \<longleftrightarrow>
     unat (sol_dequeued d) + sum_sol (backlog r) < 2 ^ 64 \<and>
     unat (token_2z_dequeued d) + sum_2z (backlog r) < 2 ^ 64 \<and>
     unat (fills_consumed d) + unat (count r) < 2 ^ 64"

definition advanced :: "DequeueFillsResult \<Rightarrow> DequeueFillsResult \<Rightarrow> nat \<Rightarrow> nat \<Rightarrow> nat \<Rightarrow> bool" where
  "advanced d d' a b n \<longleftrightarrow>
     unat (sol_dequeued d') = unat (sol_dequeued d) + a \<and>
     unat (token_2z_dequeued d') = unat (token_2z_dequeued d) + b \<and>
     unat (fills_consumed d') = unat (fills_consumed d) + n"

definition same_totals :: "FillsRegistry \<Rightarrow> FillsRegistry \<Rightarrow> bool" where
  "same_totals r r' \<longleftrightarrow>
     total_sol_pending r' = total_sol_pending r \<and> total_2z_pending r' = total_2z_pending r"

lemma count_pos_backlog:
  "0 < count r \<Longrightarrow> \<exists>f fs. pending r = f # fs"
  using length_pending [of r] by (cases "pending r") (auto simp: word_gt_0 unat_eq_0)

lemma length_backlog [simp]: "length (backlog r) = unat (count r)"
  by (simp add: backlog_def)

lemma pending_eq_Nil_iff: "pending r = [] \<longleftrightarrow> count r = 0"
  using length_pending [of r] by (metis length_0_conv unat_eq_0)

lemma backlog_eq_Nil_iff: "backlog r = [] \<longleftrightarrow> count r = 0"
  by (simp add: backlog_def pending_eq_Nil_iff)

lemma dequeue_step_whole:
  assumes "ring_inv r" "pending r = f # fs" "loop_fits r d" "sol_dequeued d < m"
    "sol_in f \<le> m - sol_dequeued d"
  shows "\<exists>r' d'. dequeue_step m r d = Inr (r', d') \<and> ring_inv r' \<and> pending r' = fs \<and>
     same_totals r r' \<and> advanced d d' (unat (sol_in f)) (unat (token_2z_out f)) 1"
proof -
  obtain r' where r': "dequeue_one (m - sol_dequeued d) r = Inr (r', f, True)" "ring_inv r'"
    "pending r' = fs" "same_totals r r'"
    using dequeue_one_whole [OF assms(1,2,5)] by (auto simp: same_totals_def)
  have fits: "unat (sol_dequeued d) + unat (sol_in f) < 2 ^ 64"
    "unat (token_2z_dequeued d) + unat (token_2z_out f) < 2 ^ 64"
    "unat (fills_consumed d) + unat (1::u64) < 2 ^ 64"
    using assms(3) length_pending [of r] by (auto simp: loop_fits_def backlog_def amounts_def assms(2))
  then show ?thesis
    using r' assms(4)
    by (auto simp: dequeue_step_def num_simps advanced_def unat_add_exact)
qed

lemma dequeue_step_part:
  assumes "ring_inv r" "pending r = f # fs" "loop_fits r d" "sol_dequeued d < m"
    "m - sol_dequeued d < sol_in f"
  shows "\<exists>r' d' h. dequeue_step m r d = Inr (r', d') \<and> ring_inv r' \<and> pending r' = h # fs \<and>
     same_totals r r' \<and> sol_dequeued d' = m \<and>
     (let rem = unat m - unat (sol_dequeued d);
          tok = unat (token_2z_out f) * rem div unat (sol_in f) in
      advanced d d' rem tok 0 \<and>
      amounts h = (unat (sol_in f) - rem, unat (token_2z_out f) - tok))"
proof -
  have rem: "unat (m - sol_dequeued d) = unat m - unat (sol_dequeued d)"
    "unat (sol_dequeued d) < unat m"
    using assms(4) by (auto simp: unat_sub_exact word_less_nat_alt)
  obtain r' g h where r': "dequeue_one (m - sol_dequeued d) r = Inr (r', g, False)" "ring_inv r'"
    "pending r' = h # fs" "same_totals r r'" "sol_in g = m - sol_dequeued d"
    "unat (token_2z_out g) =
       unat (token_2z_out f) * unat (m - sol_dequeued d) div unat (sol_in f)"
    "unat (sol_in h) = unat (sol_in f) - unat (m - sol_dequeued d)"
    "unat (token_2z_out h) = unat (token_2z_out f) - unat (token_2z_out g)"
    using dequeue_one_part [OF assms(1,2,5)] by (auto simp: same_totals_def)
  have part: "unat (token_2z_out g) \<le> unat (token_2z_out f)"
    using assms(5) div_part_le by (auto simp: r'(6) word_less_nat_alt)
  have fits: "unat (sol_dequeued d) + unat (sol_in g) < 2 ^ 64"
    "unat (token_2z_dequeued d) + unat (token_2z_out g) < 2 ^ 64"
    using assms(3) part rem u64_bound [of m]
    by (auto simp: r'(5) loop_fits_def backlog_def amounts_def assms(2))
  define d' where "d' = \<lparr>sol_dequeued = sol_dequeued d + sol_in g,
      token_2z_dequeued = token_2z_dequeued d + token_2z_out g,
      fills_consumed = fills_consumed d\<rparr>"
  have "dequeue_step m r d = Inr (r', d')"
    using r'(1) assms(4) fits by (simp add: dequeue_step_def num_simps d'_def)
  moreover have "sol_dequeued d' = m" by (simp add: d'_def r'(5))
  ultimately show ?thesis
    using r' rem fits by (auto simp: Let_def advanced_def amounts_def d'_def unat_add_exact)
qed

theorem dequeue_loop_refines:
  assumes "ring_inv r" "loop_fits r d" "sol_dequeued d \<le> m"
  shows "\<exists>r' d' a b n. dequeue_loop m r d = Inr (r', d') \<and> ring_inv r' \<and> same_totals r r' \<and>
     take_fills (unat m - unat (sol_dequeued d)) (backlog r) = (a, b, n, backlog r') \<and>
     advanced d d' a b n"
  using assms
proof (induction m r d rule: dequeue_loop.induct)
  case (1 m r d)
  show ?case
  proof (cases "0 < count r \<and> sol_dequeued d < m")
    case False
    then have "take_fills (unat m - unat (sol_dequeued d)) (backlog r) = (0, 0, 0, backlog r)"
      using length_backlog [of r] "1.prems"(3)
      by (cases "backlog r") (auto simp: word_gt_0 word_less_nat_alt word_le_nat_alt unat_eq_0)
    with False "1.prems" show ?thesis
      by (auto simp: dequeue_loop.simps [of m r d] advanced_def same_totals_def)
  next
    case guard: True
    then obtain f fs where fs: "pending r = f # fs" using count_pos_backlog by blast
    let ?rem = "unat m - unat (sol_dequeued d)"
    have rem: "unat (m - sol_dequeued d) = ?rem" "0 < ?rem"
      using guard by (auto simp: unat_sub_exact word_less_nat_alt)
    have q: "backlog r = (unat (sol_in f), unat (token_2z_out f)) # map amounts fs"
      by (simp add: backlog_def fs amounts_def)
    show ?thesis
    proof (cases "sol_in f \<le> m - sol_dequeued d")
      case True
      then obtain r1 d1 where s1: "dequeue_step m r d = Inr (r1, d1)" "ring_inv r1"
        "pending r1 = fs" "same_totals r r1"
        "advanced d d1 (unat (sol_in f)) (unat (token_2z_out f)) 1"
        using dequeue_step_whole [OF "1.prems"(1) fs "1.prems"(2)] guard by blast
      have c1: "unat (count r) = Suc (unat (count r1))"
        using length_pending [of r] length_pending [of r1] by (simp add: fs s1(3))
      have q1: "backlog r1 = map amounts fs" by (simp add: backlog_def s1(3))
      have "loop_fits r1 d1" "sol_dequeued d1 \<le> m"
        "?rem - unat (sol_in f) = unat m - unat (sol_dequeued d1)"
        using "1.prems"(2) s1(3,5) True rem c1
        by (auto simp: loop_fits_def advanced_def q q1 word_le_nat_alt)
      with "1.IH" [OF guard s1(1) refl s1(2)] obtain r' d' a b n where
        ih: "dequeue_loop m r1 d1 = Inr (r', d')" "ring_inv r'" "same_totals r1 r'"
        "take_fills (?rem - unat (sol_in f)) (backlog r1) = (a, b, n, backlog r')"
        "advanced d1 d' a b n" by auto
      have "take_fills ?rem (backlog r) =
          (unat (sol_in f) + a, unat (token_2z_out f) + b, Suc n, backlog r')"
        using True rem ih(4) by (simp add: q q1 word_le_nat_alt)
      then show ?thesis
        using guard ih s1 by (auto simp: dequeue_loop.simps [of m r d] advanced_def same_totals_def)
    next
      case False
      then have less: "m - sol_dequeued d < sol_in f" by simp
      obtain r1 d1 h where s1: "dequeue_step m r d = Inr (r1, d1)" "ring_inv r1"
        "pending r1 = h # fs" "same_totals r r1" "sol_dequeued d1 = m"
        "advanced d d1 ?rem (unat (token_2z_out f) * ?rem div unat (sol_in f)) 0"
        "amounts h = (unat (sol_in f) - ?rem,
           unat (token_2z_out f) - unat (token_2z_out f) * ?rem div unat (sol_in f))"
        using dequeue_step_part [OF "1.prems"(1) fs "1.prems"(2) _ less] guard
        by (auto simp: Let_def)
      have q1: "backlog r1 = amounts h # map amounts fs" by (simp add: backlog_def s1(3))
      have "dequeue_loop m r d = Inr (r1, d1)"
        using guard s1 by (simp add: dequeue_loop.simps [of m r d] dequeue_loop.simps [of m r1 d1])
      moreover have "take_fills ?rem (backlog r) =
          (?rem, unat (token_2z_out f) * ?rem div unat (sol_in f), 0, backlog r1)"
        using less rem s1(7) q1 by (simp add: q word_less_nat_alt)
      ultimately show ?thesis using s1 by blast
    qed
  qed
qed

section \<open>The operations preserve the invariant\<close>

lemma registry_inv_zero [simp]: "registry_inv zero_fills_registry"
  by (simp add: registry_inv_def ring_inv_def zero_fills_registry_def backlog_def pending_def)

lemma backlog_zero [simp]: "backlog zero_fills_registry = []"
  by (simp add: zero_fills_registry_def backlog_def pending_def)

text \<open>Changing the totals alone does not move the queue.\<close>

lemma totals_frame [simp]:
  "ring_inv (r\<lparr>total_sol_pending := s\<rparr>) = ring_inv r"
  "ring_inv (r\<lparr>total_2z_pending := t\<rparr>) = ring_inv r"
  "backlog (r\<lparr>total_sol_pending := s\<rparr>) = backlog r"
  "backlog (r\<lparr>total_2z_pending := t\<rparr>) = backlog r"
  by (simp_all add: ring_inv_def backlog_def pending_def)

lemma enqueue_fill_ok:
  assumes "registry_inv r" "unat (count r) < MAX_FILLS_QUEUE_SIZE"
    "unat (total_sol_pending r) + unat s < 2 ^ 64" "unat (total_2z_pending r) + unat t < 2 ^ 64"
  shows "\<exists>r'. enqueue_fill s t r = Inr r' \<and> registry_inv r' \<and>
     backlog r' = backlog r @ [(unat s, unat t)]"
proof -
  obtain r' where r': "push_back \<lparr>sol_in = s, token_2z_out = t\<rparr> r = Inr r'" "ring_inv r'"
    "pending r' = pending r @ [\<lparr>sol_in = s, token_2z_out = t\<rparr>]"
    "total_sol_pending r' = total_sol_pending r" "total_2z_pending r' = total_2z_pending r"
    using push_back_ring assms(1,2) by (meson registry_inv_def)
  have "enqueue_fill s t r =
      Inr (r'\<lparr>total_sol_pending := total_sol_pending r + s,
             total_2z_pending := total_2z_pending r + t\<rparr>)"
    using assms r' by (simp add: enqueue_fill_def num_simps)
  moreover have "backlog r' = backlog r @ [(unat s, unat t)]"
    by (simp add: backlog_def r'(3) amounts_def)
  ultimately show ?thesis
    using assms r' by (simp add: registry_inv_def unat_add_exact)
qed

text \<open>Conversely an accepted enqueue had room and did not overflow the totals.\<close>

lemma enqueue_fill_accepts:
  assumes "registry_inv r" "enqueue_fill s t r = Inr r'"
  shows "unat (count r) < MAX_FILLS_QUEUE_SIZE"
    "unat (total_sol_pending r) + unat s < 2 ^ 64" "unat (total_2z_pending r) + unat t < 2 ^ 64"
proof -
  from assms(2) obtain r1 where
    room: "unat (count r) < MAX_FILLS_QUEUE_SIZE" and
    push: "push_back \<lparr>sol_in = s, token_2z_out = t\<rparr> r = Inr r1" and
    sums: "unat (total_sol_pending r1) + unat s < 2 ^ 64" "unat (total_2z_pending r1) + unat t < 2 ^ 64"
    by (auto simp: enqueue_fill_def tx_simps add_or_panic_Inr_iff)
  have "ring_inv r" using assms(1) by (simp add: registry_inv_def)
  then have "total_sol_pending r1 = total_sol_pending r \<and>
      total_2z_pending r1 = total_2z_pending r"
    using push_back_ring [OF _ room, of "\<lparr>sol_in = s, token_2z_out = t\<rparr>"] push by auto
  with room sums show "unat (count r) < MAX_FILLS_QUEUE_SIZE"
    "unat (total_sol_pending r) + unat s < 2 ^ 64" "unat (total_2z_pending r) + unat t < 2 ^ 64"
    by simp_all
qed

lemma enqueue_fill_inv:
  assumes "registry_inv r" "enqueue_fill s t r = Inr r'"
  shows "registry_inv r'" "backlog r' = backlog r @ [(unat s, unat t)]"
  using enqueue_fill_ok [OF assms(1) enqueue_fill_accepts [OF assms]] assms(2) by auto

text \<open>
  A dequeue the program accepts (right signer, a positive amount, a fill to take) always
  succeeds, and does on the pending fills what the specification does.
\<close>

lemma process_dequeue_fills_ok:
  assumes "registry_inv r" "signer = fills_consumer cfg" "0 < m" "0 < count r"
  shows "\<exists>r' d. process_dequeue_fills (Inr c) signer cfg r m =
       ([FillsDequeued signer (sol_dequeued d) (token_2z_dequeued d) (fills_consumed d)
          (unix_timestamp c)], Inr (r', d)) \<and> registry_inv r' \<and>
     take_fills (unat m) (backlog r) =
       (unat (sol_dequeued d), unat (token_2z_dequeued d), unat (fills_consumed d), backlog r')"
proof -
  let ?d0 = "\<lparr>sol_dequeued = 0, token_2z_dequeued = 0, fills_consumed = 0\<rparr>"
  have inv: "ring_inv r" "unat (total_sol_pending r) = sum_sol (backlog r)"
    "unat (total_2z_pending r) = sum_2z (backlog r)"
    using assms(1) by (auto simp: registry_inv_def)
  have fits: "loop_fits r ?d0"
    using inv u64_bound [of "total_sol_pending r"] u64_bound [of "total_2z_pending r"]
      u64_bound [of "count r"] by (simp add: loop_fits_def)
  obtain r1 d a b n where loop: "dequeue_loop m r ?d0 = Inr (r1, d)" "ring_inv r1"
    "same_totals r r1" "take_fills (unat m) (backlog r) = (a, b, n, backlog r1)"
    "advanced ?d0 d a b n"
    using dequeue_loop_refines [OF inv(1) fits, of m] by auto
  have d: "unat (sol_dequeued d) = a" "unat (token_2z_dequeued d) = b"
    "unat (fills_consumed d) = n"
    using loop(5) by (auto simp: advanced_def)
  have le: "sol_dequeued d \<le> total_sol_pending r1" "token_2z_dequeued d \<le> total_2z_pending r1"
    using take_fills_bounds [OF loop(4)] d loop(3) inv
    by (auto simp: same_totals_def word_le_nat_alt)
  define r' where "r' = r1\<lparr>total_sol_pending := total_sol_pending r1 - sol_dequeued d,
      total_2z_pending := total_2z_pending r1 - token_2z_dequeued d\<rparr>"
  have "process_dequeue_fills (Inr c) signer cfg r m =
      ([FillsDequeued signer (sol_dequeued d) (token_2z_dequeued d) (fills_consumed d)
          (unix_timestamp c)], Inr (r', d))"
    using assms(2-4) loop(1) le
    by (simp add: process_dequeue_fills_def checked_sub_def Let_def emit_def ok_def r'_def)
  moreover have "registry_inv r'" "backlog r' = backlog r1"
    using loop(2,3) le take_fills_conserves [OF loop(4)] d inv
    by (auto simp: registry_inv_def r'_def same_totals_def unat_sub_exact word_le_nat_alt)
  ultimately show ?thesis using loop(4) d by auto
qed

lemma process_dequeue_fills_Inr:
  assumes "registry_inv r" "process_dequeue_fills clk signer cfg r m = (es, Inr (r', d))"
  shows "\<exists>c. clk = Inr c \<and> signer = fills_consumer cfg \<and> 0 < m \<and> 0 < count r \<and> registry_inv r' \<and>
     take_fills (unat m) (backlog r) =
       (unat (sol_dequeued d), unat (token_2z_dequeued d), unat (fills_consumed d), backlog r') \<and>
     es = [FillsDequeued signer (sol_dequeued d) (token_2z_dequeued d) (fills_consumed d)
            (unix_timestamp c)]"
proof -
  from assms(2) have guards: "signer = fills_consumer cfg" "0 < m" "0 < count r"
    by (auto simp: process_dequeue_fills_def split: if_splits)
  from assms(2) guards obtain c where c: "clk = Inr c"
    by (auto simp: process_dequeue_fills_def tx_simps Let_def split: prod.splits)
  with process_dequeue_fills_ok [OF assms(1) guards, of c] assms(2) guards show ?thesis by auto
qed

end
