(* ===== verification/Pricing.thy ===== *)
theory Pricing
  imports Complex_Main Common
begin

text \<open>
  The price function of \<open>calculate_ask_price.rs\<close>.  Its arithmetic is that of the package
  \<open>rust_decimal\<close>, which is not part of the repository: the operations the code uses are the
  fields of \<open>decimal_ops\<close>, an argument of the model, and what the code relies on is
  \<open>decimal_laws\<close>, the documented behaviour of the package: a value is \<open>m / 10 ^ e\<close> with a
  96-bit \<open>m\<close> and \<open>e \<le> 28\<close>, and an operation whose exact result is such a value returns it.
\<close>

section \<open>The decimal package\<close>

record 'd decimal_ops =
  from_u64 :: "u64 \<Rightarrow> 'd option"
  from_u16 :: "u16 \<Rightarrow> 'd option"
  dec_div :: "'d \<Rightarrow> 'd \<Rightarrow> 'd option" \<comment> \<open>the operator \<open>/\<close>; \<open>None\<close> is its panic\<close>
  dec_checked_mul :: "'d \<Rightarrow> 'd \<Rightarrow> 'd option"
  dec_checked_add :: "'d \<Rightarrow> 'd \<Rightarrow> 'd option"
  dec_checked_sub :: "'d \<Rightarrow> 'd \<Rightarrow> 'd option"
  dec_min :: "'d \<Rightarrow> 'd \<Rightarrow> 'd"
  to_u64 :: "'d \<Rightarrow> u64 option"

definition representable :: "rat \<Rightarrow> bool" where
  "representable q \<longleftrightarrow> (\<exists>m e. \<bar>m\<bar> < 2 ^ 96 \<and> e \<le> 28 \<and> q = of_int m / 10 ^ e)"

definition decimal_laws :: "'d decimal_ops \<Rightarrow> ('d \<Rightarrow> rat) \<Rightarrow> bool" where
  "decimal_laws ops val \<longleftrightarrow>
     (\<forall>n. \<exists>d. from_u64 ops n = Some d \<and> val d = of_nat (unat n)) \<and>
     (\<forall>n. \<exists>d. from_u16 ops n = Some d \<and> val d = of_nat (unat n)) \<and>
     (\<forall>a b. val b \<noteq> 0 \<and> representable (val a / val b) \<longrightarrow>
        (\<exists>d. dec_div ops a b = Some d \<and> val d = val a / val b)) \<and>
     (\<forall>a b. representable (val a * val b) \<longrightarrow>
        (\<exists>d. dec_checked_mul ops a b = Some d \<and> val d = val a * val b)) \<and>
     (\<forall>a b. representable (val a + val b) \<longrightarrow>
        (\<exists>d. dec_checked_add ops a b = Some d \<and> val d = val a + val b)) \<and>
     (\<forall>a b. representable (val a - val b) \<longrightarrow>
        (\<exists>d. dec_checked_sub ops a b = Some d \<and> val d = val a - val b)) \<and>
     (\<forall>a b. val (dec_min ops a b) = min (val a) (val b)) \<and>
     (\<forall>a. 0 \<le> val a \<and> val a < 2 ^ 64 \<longrightarrow> to_u64 ops a = Some (word_of_int \<lfloor>val a\<rfloor>))"

section \<open>The price function\<close>

text \<open>The operator \<open>/\<close> panics where it has no result; every other step is a \<open>?\<close> on an option.\<close>

definition div_or_panic :: "'d decimal_ops \<Rightarrow> 'd \<Rightarrow> 'd \<Rightarrow> 'd result" where
  "div_or_panic ops a b = ok_or (dec_div ops a b) (Panicked DecimalDivision)"

definition opt_bind :: "'a option \<Rightarrow> ('a \<Rightarrow> 'b option result) \<Rightarrow> 'b option result" where
  "opt_bind x f = (case x of None \<Rightarrow> Inr None | Some v \<Rightarrow> f v)"

definition calculate_conversion_rate ::
    "'d decimal_ops \<Rightarrow> OraclePriceData \<Rightarrow> u64 \<Rightarrow> u64 \<Rightarrow> u64 \<Rightarrow> u64 \<Rightarrow> u64 \<Rightarrow> u64 option result" where
  "calculate_conversion_rate ops oracle_price_data coefficient max_discount_rate
       min_discount_rate s_last s_now =
     opt_bind (from_u64 ops coefficient) (\<lambda>c.
     opt_bind (from_u64 ops 100000000) (\<lambda>c_scale.
     and_then (div_or_panic ops c c_scale) (\<lambda>coefficient_decimal.
     opt_bind (from_u64 ops max_discount_rate) (\<lambda>mx.
     opt_bind (from_u16 ops (BPS * 100)) (\<lambda>mx_scale.
     and_then (div_or_panic ops mx mx_scale) (\<lambda>max_discount_rate_decimal.
     opt_bind (from_u64 ops min_discount_rate) (\<lambda>mn.
     opt_bind (from_u16 ops (BPS * 100)) (\<lambda>mn_scale.
     and_then (div_or_panic ops mn mn_scale) (\<lambda>min_discount_rate_decimal.
     opt_bind (checked_sub s_now s_last) (\<lambda>s_diff.
     opt_bind (from_u64 ops s_diff) (\<lambda>s_diff_decimal.
     opt_bind (dec_checked_mul ops coefficient_decimal s_diff_decimal) (\<lambda>scaled.
     opt_bind (dec_checked_add ops scaled min_discount_rate_decimal) (\<lambda>sum.
     let discount_rate_decimal = dec_min ops sum max_discount_rate_decimal in
     opt_bind (from_u64 ops (swap_rate oracle_price_data)) (\<lambda>sw.
     opt_bind (from_u64 ops TOKEN_UNITS) (\<lambda>sw_scale.
     and_then (div_or_panic ops sw sw_scale) (\<lambda>oracle_swap_rate_decimal.
     opt_bind (from_u64 ops 1) (\<lambda>one_decimal.
     opt_bind (dec_checked_sub ops one_decimal discount_rate_decimal) (\<lambda>discount_inverse_decimal.
     opt_bind (dec_checked_mul ops oracle_swap_rate_decimal discount_inverse_decimal)
       (\<lambda>conversion_rate.
     opt_bind (from_u64 ops TOKEN_UNITS) (\<lambda>units.
     opt_bind (dec_checked_mul ops conversion_rate units) (\<lambda>scaled_rate.
     Inr (to_u64 ops scaled_rate))))))))))))))))))))))"

section \<open>The integer price\<close>

text \<open>
  The discount in hundred-millionths, and the price it gives: what the decimal computation
  amounts to on a valid configuration.
\<close>

definition discount_e8 :: "nat \<Rightarrow> nat \<Rightarrow> nat \<Rightarrow> nat \<Rightarrow> nat" where
  "discount_e8 coefficient max_rate min_rate s_diff =
     min (coefficient * s_diff + min_rate * 10000) (max_rate * 10000)"

definition ask_price_spec :: "nat \<Rightarrow> nat \<Rightarrow> nat \<Rightarrow> nat \<Rightarrow> nat \<Rightarrow> nat" where
  "ask_price_spec swap coefficient max_rate min_rate s_diff =
     swap * (100000000 - discount_e8 coefficient max_rate min_rate s_diff) div 100000000"

section \<open>The decimal computation is exact\<close>

lemma opt_bind_Some [simp]: "opt_bind (Some v) f = f v"
  by (simp add: opt_bind_def)

lemma opt_bind_None [simp]: "opt_bind None f = Inr None"
  by (simp add: opt_bind_def)

lemma representable_nat_frac:
  "n < 2 ^ 96 \<Longrightarrow> e \<le> 28 \<Longrightarrow> representable (of_nat n / 10 ^ e)"
  unfolding representable_def
  by (intro exI [of _ "int n"] exI [of _ e]) (auto simp flip: of_nat_power)

text \<open>The laws, as elimination rules for the value an operation returns.\<close>

lemma decimal_from_u64:
  assumes "decimal_laws ops val"
  obtains d where "from_u64 ops n = Some d" "val d = of_nat (unat n)"
  using assms unfolding decimal_laws_def by blast

lemma decimal_from_u16:
  assumes "decimal_laws ops val"
  obtains d where "from_u16 ops n = Some d" "val d = of_nat (unat n)"
  using assms unfolding decimal_laws_def by blast

lemma decimal_div:
  assumes "decimal_laws ops val" "val b \<noteq> 0" "val a / val b = of_nat n / 10 ^ e"
    "n < 2 ^ 96" "e \<le> 28"
  obtains d where "div_or_panic ops a b = Inr d" "val d = of_nat n / 10 ^ e"
proof -
  have "representable (val a / val b)"
    unfolding assms(3) using assms(4,5) by (rule representable_nat_frac)
  then obtain d where "dec_div ops a b = Some d" "val d = val a / val b"
    using assms(1,2) unfolding decimal_laws_def by blast
  then show thesis using that assms(3) by (simp add: div_or_panic_def)
qed

lemma decimal_mul:
  assumes "decimal_laws ops val" "val a * val b = of_nat n / 10 ^ e" "n < 2 ^ 96" "e \<le> 28"
  obtains d where "dec_checked_mul ops a b = Some d" "val d = of_nat n / 10 ^ e"
proof -
  have "representable (val a * val b)"
    unfolding assms(2) using assms(3,4) by (rule representable_nat_frac)
  then obtain d where "dec_checked_mul ops a b = Some d" "val d = val a * val b"
    using assms(1) unfolding decimal_laws_def by blast
  then show thesis using that assms(2) by simp
qed

lemma decimal_add:
  assumes "decimal_laws ops val" "val a + val b = of_nat n / 10 ^ e" "n < 2 ^ 96" "e \<le> 28"
  obtains d where "dec_checked_add ops a b = Some d" "val d = of_nat n / 10 ^ e"
proof -
  have "representable (val a + val b)"
    unfolding assms(2) using assms(3,4) by (rule representable_nat_frac)
  then obtain d where "dec_checked_add ops a b = Some d" "val d = val a + val b"
    using assms(1) unfolding decimal_laws_def by blast
  then show thesis using that assms(2) by simp
qed

lemma decimal_sub:
  assumes "decimal_laws ops val" "val a - val b = of_nat n / 10 ^ e" "n < 2 ^ 96" "e \<le> 28"
  obtains d where "dec_checked_sub ops a b = Some d" "val d = of_nat n / 10 ^ e"
proof -
  have "representable (val a - val b)"
    unfolding assms(2) using assms(3,4) by (rule representable_nat_frac)
  then obtain d where "dec_checked_sub ops a b = Some d" "val d = val a - val b"
    using assms(1) unfolding decimal_laws_def by blast
  then show thesis using that assms(2) by simp
qed

lemma decimal_min: "decimal_laws ops val \<Longrightarrow> val (dec_min ops a b) = min (val a) (val b)"
  by (simp add: decimal_laws_def)

lemma decimal_to_u64:
  assumes "decimal_laws ops val" "val a = of_nat n / 100000000" "n div 100000000 < 2 ^ 64"
  shows "to_u64 ops a = Some (word_of_nat (n div 100000000))"
proof -
  have "n < 2 ^ 64 * 100000000" using assms(3) by (simp add: div_less_iff_less_mult)
  then have "(of_nat n :: rat) < of_nat (2 ^ 64 * 100000000)" by (simp only: of_nat_less_iff)
  then have "val a < 2 ^ 64" "0 \<le> val a" by (simp_all add: assms(2) field_simps)
  moreover have "\<lfloor>val a\<rfloor> = int (n div 100000000)"
    unfolding assms(2) by (simp add: floor_divide_of_nat_eq [of n 100000000, simplified] zdiv_int)
  ultimately show ?thesis
    using assms(1) unfolding decimal_laws_def by (metis of_int_of_nat_eq)
qed

section \<open>The price on a valid configuration\<close>

lemma min_nat_frac:
  "min (of_nat a / 10 ^ e) (of_nat b / 10 ^ e) = (of_nat (min a b) / 10 ^ e :: rat)"
  by (simp add: min_def divide_le_cancel)

lemma frac_mult:
  "(of_nat a / 10 ^ e) * (of_nat b / 10 ^ f) = (of_nat (a * b) / 10 ^ (e + f) :: rat)"
  by (simp add: power_add)

lemma discount_e8_le: "M \<le> 10000 \<Longrightarrow> discount_e8 k M m s \<le> 100000000"
  by (simp add: discount_e8_def)

lemma ask_price_spec_le: "ask_price_spec w k M m s \<le> w"
  unfolding ask_price_spec_def
  by (metis diff_le_self div_le_mono div_mult_self_is_m mult_le_mono2 zero_less_numeral)

text \<open>The pricing parameters in decimal, on any configuration.\<close>

lemma rate_decimals:
  assumes laws: "decimal_laws ops val"
  obtains c c_scale cd mx mx_scale mxd mn mnd where
    "from_u64 ops k = Some c" "from_u64 ops 100000000 = Some c_scale"
    "div_or_panic ops c c_scale = Inr cd" "val cd = of_nat (unat k) / 100000000"
    "from_u64 ops M = Some mx" "from_u16 ops (BPS * 100) = Some mx_scale"
    "div_or_panic ops mx mx_scale = Inr mxd" "val mxd = of_nat (unat M) / 10000"
    "from_u64 ops m = Some mn"
    "div_or_panic ops mn mx_scale = Inr mnd" "val mnd = of_nat (unat m) / 10000"
proof -
  obtain c where c: "from_u64 ops k = Some c" "val c = of_nat (unat k)"
    using decimal_from_u64 [OF laws] .
  obtain cs where cs: "from_u64 ops 100000000 = Some cs" "val cs = of_nat (unat (100000000::u64))"
    using decimal_from_u64 [OF laws] .
  obtain mx where mx: "from_u64 ops M = Some mx" "val mx = of_nat (unat M)"
    using decimal_from_u64 [OF laws] .
  obtain ms where ms: "from_u16 ops (BPS * 100) = Some ms" "val ms = of_nat (unat (BPS * 100))"
    using decimal_from_u16 [OF laws] .
  obtain mn where mn: "from_u64 ops m = Some mn" "val mn = of_nat (unat m)"
    using decimal_from_u64 [OF laws] .
  have vs: "val cs = 100000000" "val ms = 10000" using cs ms by (simp_all add: BPS_def)
  have b: "unat k < 2 ^ 96" "unat M < 2 ^ 96" "unat m < 2 ^ 96"
    using u64_bound [of k] u64_bound [of M] u64_bound [of m] by simp_all
  obtain cd where cd: "div_or_panic ops c cs = Inr cd" "val cd = of_nat (unat k) / 10 ^ 8"
    using decimal_div [OF laws, of cs c "unat k" 8] b vs c by auto
  obtain mxd where mxd: "div_or_panic ops mx ms = Inr mxd" "val mxd = of_nat (unat M) / 10 ^ 4"
    using decimal_div [OF laws, of ms mx "unat M" 4] b vs mx by auto
  obtain mnd where mnd: "div_or_panic ops mn ms = Inr mnd" "val mnd = of_nat (unat m) / 10 ^ 4"
    using decimal_div [OF laws, of ms mn "unat m" 4] b vs mn by auto
  show thesis
    by (rule that [OF c(1) cs(1) cd(1) _ mx(1) ms(1) mxd(1) _ mn(1) mnd(1)])
       (simp_all add: cd(2) mxd(2) mnd(2))
qed

lemma conversion_rate_future_slot:
  assumes "decimal_laws ops val" "s_now < s_last"
  shows "calculate_conversion_rate ops p k M m s_last s_now = Inr None"
proof -
  obtain c cs cd mx ms mxd mn mnd where
    "from_u64 ops k = Some c" "from_u64 ops 100000000 = Some cs" "div_or_panic ops c cs = Inr cd"
    "from_u64 ops M = Some mx" "from_u16 ops (BPS * 100) = Some ms"
    "div_or_panic ops mx ms = Inr mxd" "from_u64 ops m = Some mn" "div_or_panic ops mn ms = Inr mnd"
    using rate_decimals [OF assms(1), of k M m] by metis
  moreover have "\<not> s_last \<le> s_now" using assms(2) by simp
  ultimately show ?thesis
    by (simp add: calculate_conversion_rate_def checked_sub_def)
qed

lemma conversion_rate_Some_slot:
  assumes "decimal_laws ops val"
    and "calculate_conversion_rate ops p k M m s_last s_now = Inr (Some price)"
  shows "s_last \<le> s_now"
proof (rule ccontr)
  assume "\<not> s_last \<le> s_now"
  then have "calculate_conversion_rate ops p k M m s_last s_now = Inr None"
    using conversion_rate_future_slot [OF assms(1)] by simp
  then show False using assms(2) by simp
qed

lemma conversion_rate_exact:
  assumes laws: "decimal_laws ops val" and "s_last \<le> s_now"
    and k: "unat k \<le> 100000000" and M: "unat M \<le> 10000" and m: "unat m \<le> 10000"
  shows "calculate_conversion_rate ops p k M m s_last s_now =
     Inr (Some (word_of_nat (ask_price_spec (unat (swap_rate p)) (unat k) (unat M) (unat m)
       (unat s_now - unat s_last))))"
proof -
  let ?w = "unat (swap_rate p)" and ?s = "unat s_now - unat s_last"
  let ?D = "discount_e8 (unat k) (unat M) (unat m) ?s"
  obtain c cs cd mx ms mxd mn mnd where params:
    "from_u64 ops k = Some c" "from_u64 ops 100000000 = Some cs" "div_or_panic ops c cs = Inr cd"
    and vals1: "val cd = of_nat (unat k) / 100000000" and params2:
    "from_u64 ops M = Some mx" "from_u16 ops (BPS * 100) = Some ms"
    "div_or_panic ops mx ms = Inr mxd" and vals2: "val mxd = of_nat (unat M) / 10000" and params3:
    "from_u64 ops m = Some mn" "div_or_panic ops mn ms = Inr mnd"
    and vals3: "val mnd = of_nat (unat m) / 10000"
    by (rule rate_decimals [OF laws, of k M m])
  note params = params params2 params3 and vals = vals1 vals2 vals3
  have s: "checked_sub s_now s_last = Some (s_now - s_last)" "unat (s_now - s_last) = ?s"
    using assms(2) by (simp_all add: checked_sub_def unat_sub)
  obtain sd where sd: "from_u64 ops (s_now - s_last) = Some sd" "val sd = of_nat ?s"
    using decimal_from_u64 [OF laws] s(2) by metis
  have ks: "unat k * ?s \<le> 100000000 * 2 ^ 64"
    using k u64_bound [of s_now] by (intro mult_le_mono) linarith+
  obtain sc where sc: "dec_checked_mul ops cd sd = Some sc" "val sc = of_nat (unat k * ?s) / 10 ^ 8"
    by (rule decimal_mul [OF laws, of cd sd "unat k * ?s" 8]) (use vals sd ks in auto)
  obtain su where su: "dec_checked_add ops sc mnd = Some su"
    "val su = of_nat (unat k * ?s + unat m * 10000) / 10 ^ 8"
    by (rule decimal_add [OF laws, of sc mnd "unat k * ?s + unat m * 10000" 8])
       (use vals sc ks m in \<open>auto simp: field_simps\<close>)
  have disc: "val (dec_min ops su mxd) = of_nat ?D / 100000000"
  proof -
    have "val mxd = of_nat (unat M * 10000) / 10 ^ 8" by (simp add: vals(2))
    then show ?thesis
      by (simp only: decimal_min [OF laws] su(2) min_nat_frac discount_e8_def) simp
  qed
  have D: "?D \<le> 100000000" using M by (rule discount_e8_le)
  obtain sw where sw: "from_u64 ops (swap_rate p) = Some sw" "val sw = of_nat ?w"
    using decimal_from_u64 [OF laws] .
  obtain tu where tu: "from_u64 ops TOKEN_UNITS = Some tu" "val tu = 100000000"
    using decimal_from_u64 [OF laws, of TOKEN_UNITS] by auto
  have w: "?w < 2 ^ 64" by (rule u64_bound)
  obtain sr where sr: "div_or_panic ops sw tu = Inr sr" "val sr = of_nat ?w / 10 ^ 8"
    by (rule decimal_div [OF laws, of tu sw ?w 8]) (use sw tu w in auto)
  obtain one where one: "from_u64 ops 1 = Some one" "val one = 1"
    using decimal_from_u64 [OF laws, of 1] by auto
  obtain di where di: "dec_checked_sub ops one (dec_min ops su mxd) = Some di"
    "val di = of_nat (100000000 - ?D) / 10 ^ 8"
    by (rule decimal_sub [OF laws, of one "dec_min ops su mxd" "100000000 - ?D" 8])
       (use one disc D in \<open>auto simp: of_nat_diff field_simps\<close>)
  have wd: "?w * (100000000 - ?D) \<le> 2 ^ 64 * 100000000"
    using w by (intro mult_le_mono) auto
  obtain cr where cr: "dec_checked_mul ops sr di = Some cr"
    "val cr = of_nat (?w * (100000000 - ?D)) / 10 ^ 16"
  proof (rule decimal_mul [OF laws, of sr di "?w * (100000000 - ?D)" 16])
    show "val sr * val di = of_nat (?w * (100000000 - ?D)) / 10 ^ 16"
      unfolding sr(2) di(2) using frac_mult [of ?w 8 "100000000 - ?D" 8] by simp
  qed (use wd in auto)
  obtain fr where fr: "dec_checked_mul ops cr tu = Some fr"
    "val fr = of_nat (?w * (100000000 - ?D)) / 10 ^ 8"
    by (rule decimal_mul [OF laws, of cr tu "?w * (100000000 - ?D)" 8])
       (use cr tu wd in auto)
  have "to_u64 ops fr = Some (word_of_nat (?w * (100000000 - ?D) div 100000000))"
  proof (rule decimal_to_u64 [OF laws])
    show "val fr = of_nat (?w * (100000000 - ?D)) / 100000000" using fr(2) by simp
    have "?w * (100000000 - ?D) div 100000000 \<le> ?w"
      using ask_price_spec_le by (simp add: ask_price_spec_def)
    then show "?w * (100000000 - ?D) div 100000000 < 2 ^ 64" using w by linarith
  qed
  then show ?thesis
    by (simp only: calculate_conversion_rate_def params s(1) sd(1) sc(1) su(1) sw(1) tu(1) sr(1)
        one(1) di(1) cr(1) fr(1) ask_price_spec_def Let_def opt_bind_Some and_then_simps)
qed

section \<open>An instance of the decimal interface\<close>

text \<open>Rational arithmetic, whose results are exact everywhere, satisfies the laws.\<close>

definition rat_ops :: "rat decimal_ops" where
  "rat_ops =
     \<lparr>from_u64 = (\<lambda>n. Some (of_nat (unat n))), from_u16 = (\<lambda>n. Some (of_nat (unat n))),
      dec_div = (\<lambda>a b. if b = 0 then None else Some (a / b)),
      dec_checked_mul = (\<lambda>a b. Some (a * b)), dec_checked_add = (\<lambda>a b. Some (a + b)),
      dec_checked_sub = (\<lambda>a b. Some (a - b)), dec_min = min,
      to_u64 = (\<lambda>a. if 0 \<le> a \<and> a < 2 ^ 64 then Some (word_of_int \<lfloor>a\<rfloor>) else None)\<rparr>"

lemma rat_ops_laws: "decimal_laws rat_ops (\<lambda>q. q)"
  by (simp add: decimal_laws_def rat_ops_def)

section \<open>Properties\<close>

text \<open>
  C4: on a configuration within its bounds the price function never panics and never
  overflows: for every oracle rate it returns \<open>None\<close> exactly for a slot before the last trade,
  and otherwise the rate reduced by the discount \<open>min (coefficient * slots + min) max\<close>, rounded
  down once, at the end.
\<close>

theorem conversion_rate_correct:
  assumes "decimal_laws ops val"
    and "unat k \<le> 100000000" "unat M \<le> 10000" "unat m \<le> 10000"
  shows "calculate_conversion_rate ops p k M m s_last s_now =
     Inr (if s_now < s_last then None
          else Some (word_of_nat (ask_price_spec (unat (swap_rate p)) (unat k) (unat M) (unat m)
                 (unat s_now - unat s_last))))"
  using conversion_rate_future_slot [OF assms(1), of s_now s_last]
    conversion_rate_exact [OF assms(1) _ assms(2-4), of s_last s_now]
  by simp

theorem conversion_rate_correct_witness:
  "calculate_conversion_rate rat_ops \<lparr>swap_rate = 1000000000, timestamp = 0, signature = []\<rparr>
     4500 5000 1000 100 8988 = Inr (Some 500040000)"
proof -
  have "calculate_conversion_rate rat_ops \<lparr>swap_rate = 1000000000, timestamp = 0, signature = []\<rparr>
     4500 5000 1000 100 8988 = Inr (Some (word_of_nat (ask_price_spec 1000000000 4500 5000 1000 8888)))"
    using conversion_rate_correct [OF rat_ops_laws, of 4500 5000 1000
        "\<lparr>swap_rate = 1000000000, timestamp = 0, signature = []\<rparr>" 100 8988] by simp
  then show ?thesis by (simp add: ask_price_spec_def discount_e8_def)
qed

lemma unat_ask_price:
  "unat (word_of_nat (ask_price_spec (unat (w::u64)) k M m s) :: u64) = ask_price_spec (unat w) k M m s"
  using ask_price_spec_le [of "unat w" k M m s] u64_bound [of w]
  by (simp add: unsigned_of_nat take_bit_nat_eq_self)

text \<open>
  C33: within the bounds of the configuration, and no earlier than the last trade, the price is that
  of the formula the code documents,
  \<open>rate * (1 - max (min (gamma * (now - last) + d_min) d_max) d_min)\<close> over the rationals, rounded
  down: the outer maximum, which the code leaves out, never matters on a valid configuration.
\<close>

theorem conversion_rate_documented_formula:
  fixes p :: OraclePriceData
  assumes "decimal_laws ops val"
    and "unat k \<le> 100000000" "unat M \<le> 10000" "unat m < unat M" "s_last \<le> s_now"
  defines "gamma \<equiv> of_nat (unat k) / 100000000 :: rat"
    and "d_max \<equiv> of_nat (unat M) / 10000 :: rat" and "d_min \<equiv> of_nat (unat m) / 10000 :: rat"
    and "delta \<equiv> of_nat (unat s_now - unat s_last) :: rat"
    and "w \<equiv> of_nat (unat (swap_rate p)) :: rat"
  shows "calculate_conversion_rate ops p k M m s_last s_now =
     Inr (Some (word_of_int \<lfloor>w * (1 - max (min (gamma * delta + d_min) d_max) d_min)\<rfloor>))"
proof -
  let ?s = "unat s_now - unat s_last" and ?w = "unat (swap_rate p)"
  let ?D = "discount_e8 (unat k) (unat M) (unat m) ?s"
  have "gamma * delta + d_min = of_nat (unat k * ?s + unat m * 10000) / 10 ^ 8"
    unfolding gamma_def delta_def d_min_def by (simp add: field_simps)
  moreover have "d_max = of_nat (unat M * 10000) / 10 ^ 8" by (simp add: d_max_def)
  ultimately have inner: "min (gamma * delta + d_min) d_max = of_nat ?D / 10 ^ 8"
    by (simp only: min_nat_frac discount_e8_def)
  have "d_min \<le> gamma * delta + d_min" "d_min \<le> d_max"
    using assms(4) by (auto simp: gamma_def delta_def d_min_def d_max_def divide_le_cancel
        simp del: of_nat_unat)
  then have "max (min (gamma * delta + d_min) d_max) d_min = of_nat ?D / 10 ^ 8"
    using inner by (metis max.absorb1 min.bounded_iff)
  moreover have "?D \<le> 100000000" using assms(3) by (rule discount_e8_le)
  ultimately have "w * (1 - max (min (gamma * delta + d_min) d_max) d_min) =
      of_nat (?w * (100000000 - ?D)) / of_nat 100000000"
    by (simp add: w_def of_nat_diff field_simps)
  then have "\<lfloor>w * (1 - max (min (gamma * delta + d_min) d_max) d_min)\<rfloor> =
      int (ask_price_spec ?w (unat k) (unat M) (unat m) ?s)"
    by (simp only: floor_divide_of_nat_eq ask_price_spec_def)
  then show ?thesis
    using conversion_rate_exact [OF assms(1,5,2,3), of m p] assms(3,4) by simp
qed

theorem conversion_rate_documented_formula_witness:
  "calculate_conversion_rate rat_ops \<lparr>swap_rate = 1000000000, timestamp = 0, signature = []\<rparr>
     4500 5000 1000 100 101 =
   Inr (Some (word_of_int \<lfloor>1000000000 * (1 - max (min (4500 / 100000000 * 1 + 1000 / 10000)
     (5000 / 10000)) (1000 / 10000 :: rat))\<rfloor>))"
  using conversion_rate_documented_formula [OF rat_ops_laws, of 4500 5000 1000 100 101
      "\<lparr>swap_rate = 1000000000, timestamp = 0, signature = []\<rparr>"]
  by simp

lemma ask_price_spec_eq_rates:
  assumes "m \<le> M" "M \<le> 10000"
  shows "w * (10000 - M) div 10000 \<le> ask_price_spec w k M m s"
    and "ask_price_spec w k M m s \<le> w * (10000 - m) div 10000"
    and "s = 0 \<Longrightarrow> ask_price_spec w k M m s = w * (10000 - m) div 10000"
    and "(M - m) * 10000 \<le> k * s \<Longrightarrow> ask_price_spec w k M m s = w * (10000 - M) div 10000"
proof -
  have scale: "w * (100000000 - x * 10000) div 100000000 = w * (10000 - x) div 10000"
    if "x \<le> 10000" for x
  proof -
    have "100000000 - x * 10000 = 10000 * (10000 - x)" by (simp add: diff_mult_distrib2)
    then have "w * (100000000 - x * 10000) div 100000000 =
        10000 * (w * (10000 - x)) div (10000 * 10000)"
      by (simp only: mult.left_commute) simp
    also have "\<dots> = w * (10000 - x) div 10000" by (rule div_mult_mult1) simp
    finally show ?thesis .
  qed
  have D: "m * 10000 \<le> discount_e8 k M m s" "discount_e8 k M m s \<le> M * 10000"
    using assms by (auto simp: discount_e8_def)
  have "w * (100000000 - M * 10000) div 100000000 \<le> ask_price_spec w k M m s"
    unfolding ask_price_spec_def using D by (intro div_le_mono mult_le_mono) auto
  then show "w * (10000 - M) div 10000 \<le> ask_price_spec w k M m s"
    using scale [OF assms(2)] by simp
  have "ask_price_spec w k M m s \<le> w * (100000000 - m * 10000) div 100000000"
    unfolding ask_price_spec_def using D by (intro div_le_mono mult_le_mono) auto
  then show "ask_price_spec w k M m s \<le> w * (10000 - m) div 10000"
    using scale [of m] assms by simp
  show "ask_price_spec w k M m s = w * (10000 - m) div 10000" if "s = 0"
    using scale [of m] assms that by (simp add: ask_price_spec_def discount_e8_def min_def)
  show "ask_price_spec w k M m s = w * (10000 - M) div 10000" if "(M - m) * 10000 \<le> k * s"
  proof -
    have "M * 10000 \<le> k * s + m * 10000" using that assms by (simp add: diff_mult_distrib)
    then show ?thesis
      using scale [OF assms(2)] by (simp add: ask_price_spec_def discount_e8_def min_def)
  qed
qed

text \<open>
  The price stays between the rate less the maximum discount and the rate less the minimum
  discount; it starts at the upper bound right after a trade and reaches the lower bound once
  \<open>coefficient * slots\<close> covers the distance of the two discounts.
\<close>

theorem conversion_rate_bounds:
  assumes "decimal_laws ops val"
    and "unat k \<le> 100000000" "unat M \<le> 10000" "unat m < unat M"
    and "calculate_conversion_rate ops p k M m s_last s_now = Inr (Some price)"
  shows "unat (swap_rate p) * (10000 - unat M) div 10000 \<le> unat price \<and>
     unat price \<le> unat (swap_rate p) * (10000 - unat m) div 10000 \<and>
     (s_now = s_last \<longrightarrow> unat price = unat (swap_rate p) * (10000 - unat m) div 10000) \<and>
     ((unat M - unat m) * 10000 \<le> unat k * (unat s_now - unat s_last) \<longrightarrow>
        unat price = unat (swap_rate p) * (10000 - unat M) div 10000)"
proof -
  have le: "s_last \<le> s_now"
    by (rule conversion_rate_Some_slot [OF assms(1,5)])
  have "unat m \<le> 10000" using assms(3,4) by simp
  from conversion_rate_exact [OF assms(1) le assms(2,3) this, of p] assms(5)
  have "unat price = ask_price_spec (unat (swap_rate p)) (unat k) (unat M) (unat m)
      (unat s_now - unat s_last)"
    using unat_ask_price by auto
  then show ?thesis
    using ask_price_spec_eq_rates [of "unat m" "unat M"] assms(3,4) by auto
qed

theorem conversion_rate_bounds_witness:
  "\<exists>price. calculate_conversion_rate rat_ops
       \<lparr>swap_rate = 1000000000, timestamp = 0, signature = []\<rparr> 4500 5000 1000 100 10000 =
       Inr (Some price) \<and> unat price = 500000000"
proof -
  obtain price where p: "calculate_conversion_rate rat_ops
       \<lparr>swap_rate = 1000000000, timestamp = 0, signature = []\<rparr> 4500 5000 1000 100 10000 =
       Inr (Some price)"
    using conversion_rate_exact [OF rat_ops_laws, of 100 10000 4500 5000 1000] by auto
  then show ?thesis
    using conversion_rate_bounds [OF rat_ops_laws _ _ _ p] by simp
qed

text \<open>
  Waiting never raises the price and a higher oracle rate never lowers it.
\<close>

theorem conversion_rate_monotone:
  assumes "decimal_laws ops val"
    and "unat k \<le> 100000000" "unat M \<le> 10000" "unat m < unat M"
    and "calculate_conversion_rate ops p1 k M m s_last s1 = Inr (Some price1)"
    and "calculate_conversion_rate ops p2 k M m s_last s2 = Inr (Some price2)"
    and "s1 \<le> s2" "swap_rate p2 \<le> swap_rate p1"
  shows "price2 \<le> price1"
proof -
  have le: "s_last \<le> s1" "s_last \<le> s2"
    by (rule conversion_rate_Some_slot [OF assms(1,5)], rule conversion_rate_Some_slot [OF assms(1,6)])
  have m: "unat m \<le> 10000" using assms(3,4) by simp
  have price: "unat price1 = ask_price_spec (unat (swap_rate p1)) (unat k) (unat M) (unat m)
      (unat s1 - unat s_last)"
    "unat price2 = ask_price_spec (unat (swap_rate p2)) (unat k) (unat M) (unat m)
      (unat s2 - unat s_last)"
    using conversion_rate_exact [OF assms(1) le(1) assms(2,3) m, of p1] assms(5)
      conversion_rate_exact [OF assms(1) le(2) assms(2,3) m, of p2] assms(6) unat_ask_price
    by auto
  have "discount_e8 (unat k) (unat M) (unat m) (unat s1 - unat s_last) \<le>
      discount_e8 (unat k) (unat M) (unat m) (unat s2 - unat s_last)"
    unfolding discount_e8_def using assms(7)
    by (intro min.mono add_mono mult_le_mono) (auto simp: word_le_nat_alt)
  then have "unat price2 \<le> unat price1"
    unfolding price ask_price_spec_def using assms(8)
    by (intro div_le_mono mult_le_mono) (auto simp: word_le_nat_alt)
  then show ?thesis by (simp add: word_le_nat_alt)
qed

theorem conversion_rate_monotone_witness:
  "\<exists>price1 price2. calculate_conversion_rate rat_ops
       \<lparr>swap_rate = 1000000000, timestamp = 0, signature = []\<rparr> 4500 5000 1000 100 150 =
       Inr (Some price1) \<and>
     calculate_conversion_rate rat_ops
       \<lparr>swap_rate = 1000000000, timestamp = 0, signature = []\<rparr> 4500 5000 1000 100 200 =
       Inr (Some price2) \<and> price2 \<le> price1"
proof -
  obtain price1 price2 where p: "calculate_conversion_rate rat_ops
       \<lparr>swap_rate = 1000000000, timestamp = 0, signature = []\<rparr> 4500 5000 1000 100 150 =
       Inr (Some price1)"
    "calculate_conversion_rate rat_ops
       \<lparr>swap_rate = 1000000000, timestamp = 0, signature = []\<rparr> 4500 5000 1000 100 200 =
       Inr (Some price2)"
    using conversion_rate_exact [OF rat_ops_laws, of 100 150 4500 5000 1000]
      conversion_rate_exact [OF rat_ops_laws, of 100 200 4500 5000 1000] by auto
  then show ?thesis
    using conversion_rate_monotone [OF rat_ops_laws _ _ _ p] by simp
qed

section \<open>The unit tests of the source\<close>

text \<open>
  The table of \<open>test_calculate_conversion_rate\<close>: swap rate, coefficient, maximum and minimum
  discount, last and current slot, expected rate.
\<close>

definition test_vectors :: "(nat \<times> nat \<times> nat \<times> nat \<times> nat \<times> nat \<times> nat) list" where
  "test_vectors =
     [(1000000000, 50000, 10000, 0, 100, 100, 1000000000),
      (1000000000, 50000, 10000, 0, 100, 300, 900000000),
      (1000000000, 50000, 10000, 0, 100, 600, 750000000),
      (1000000000, 50000, 10000, 0, 100, 1100, 500000000),
      (1000000000, 50000, 10000, 0, 100, 1600, 250000000),
      (1000000000, 50000, 10000, 0, 100, 2100, 0),
      (1000000000, 50000, 10000, 0, 100, 3000, 0),
      (1000000000, 50000, 5000, 1000, 100, 100, 900000000),
      (1000000000, 50000, 5000, 1000, 100, 200, 850000000),
      (1000000000, 50000, 5000, 1000, 100, 300, 800000000),
      (1000000000, 50000, 5000, 1000, 100, 400, 750000000),
      (1000000000, 50000, 5000, 1000, 100, 500, 700000000),
      (1000000000, 50000, 5000, 1000, 100, 600, 650000000),
      (1000000000, 50000, 5000, 1000, 100, 700, 600000000),
      (1000000000, 50000, 5000, 1000, 100, 800, 550000000),
      (1000000000, 50000, 5000, 1000, 100, 900, 500000000),
      (1000000000, 50000, 5000, 1000, 100, 1000, 500000000),
      (1000000000, 4500, 5000, 1000, 100, 100, 900000000),
      (1000000000, 4500, 5000, 1000, 100, 101, 899955000),
      (1000000000, 4500, 5000, 1000, 100, 150, 897750000),
      (1000000000, 4500, 5000, 1000, 100, 200, 895500000),
      (1000000000, 4500, 5000, 1000, 100, 8988, 500040000),
      (1000000000, 4500, 5000, 1000, 100, 8989, 500000000),
      (1000000000, 4500, 5000, 1000, 100, 10000, 500000000),
      (1000000000, 0, 5000, 1000, 100, 200, 900000000),
      (1000000000, 100000000, 5000, 1000, 100, 200, 500000000),
      (0, 4500, 5000, 1000, 100, 200, 0)]"

definition passes :: "'d decimal_ops \<Rightarrow> nat \<times> nat \<times> nat \<times> nat \<times> nat \<times> nat \<times> nat \<Rightarrow> bool" where
  "passes ops v = (case v of (w, k, mx, mn, s_last, s_now, expected) \<Rightarrow>
     calculate_conversion_rate ops
       \<lparr>swap_rate = word_of_nat w, timestamp = 0, signature = ''unused''\<rparr>
       (word_of_nat k) (word_of_nat mx) (word_of_nat mn) (word_of_nat s_last) (word_of_nat s_now) =
     Inr (Some (word_of_nat expected)))"

definition in_range :: "nat \<times> nat \<times> nat \<times> nat \<times> nat \<times> nat \<times> nat \<Rightarrow> bool" where
  "in_range v = (case v of (w, k, mx, mn, s_last, s_now, expected) \<Rightarrow>
     w < 2 ^ 64 \<and> k \<le> 100000000 \<and> mx \<le> 10000 \<and> mn \<le> 10000 \<and> s_last \<le> s_now \<and> s_now < 2 ^ 64 \<and>
     ask_price_spec w k mx mn (s_now - s_last) = expected)"

lemma in_range_passes: "decimal_laws ops val \<Longrightarrow> in_range v \<Longrightarrow> passes ops v"
  by (cases v) (simp add: in_range_def passes_def conversion_rate_exact unsigned_of_nat
      take_bit_nat_eq_self word_le_nat_alt)

lemma test_vectors_in_range: "list_all in_range test_vectors"
  by (simp add: test_vectors_def in_range_def ask_price_spec_def discount_e8_def)

text \<open>
  The two tests of \<open>assert!(conversion_rate.is_none())\<close> over a table: swap rate, coefficient,
  maximum and minimum discount, last and current slot.  A test ends at the first row whose
  assertion fails, or whose computation panics.
\<close>

type_synonym input_row = "nat \<times> nat \<times> nat \<times> nat \<times> nat \<times> nat"

definition run_row :: "'d decimal_ops \<Rightarrow> input_row \<Rightarrow> u64 option result" where
  "run_row ops v = (case v of (w, k, mx, mn, s_last, s_now) \<Rightarrow>
     calculate_conversion_rate ops
       \<lparr>swap_rate = word_of_nat w, timestamp = 0, signature = ''unused''\<rparr>
       (word_of_nat k) (word_of_nat mx) (word_of_nat mn) (word_of_nat s_last) (word_of_nat s_now))"

fun failing_row :: "'d decimal_ops \<Rightarrow> nat \<Rightarrow> input_row list \<Rightarrow> nat option" where
  "failing_row ops i [] = None"
| "failing_row ops i (v # vs) =
     (if run_row ops v = Inr None then failing_row ops (Suc i) vs else Some i)"

definition error_rows :: "input_row list" where
  "error_rows = [(1000000000, 4500, 5000, 1000, 200, 100)]"

definition U64_MAX :: nat where
  "U64_MAX = 18446744073709551615"

definition panic_rows :: "input_row list" where
  "panic_rows =
     [(U64_MAX, 4500, 5000, 1000, 100, 200),
      (1000000000, U64_MAX, 5000, 1000, 100, 200),
      (1000000000, 4500, U64_MAX, 1000, 100, 200),
      (1000000000, 4500, 5000, U64_MAX, 100, 200),
      (1000000000, 4500, U64_MAX, U64_MAX, 100, 200),
      (1000000000, 4500, 5000, 1000, U64_MAX, 200),
      (1000000000, 4500, 5000, 1000, 100, U64_MAX),
      (1000000000, 4500, 5000, 1000, U64_MAX, U64_MAX)]"

text \<open>
  C40: Every row of the source's test table holds, for every implementation of the decimal
  operations that obeys their laws.  Of the two tests that assert that no rate is computed, the
  one for errors passes; the one marked \<open>should_panic\<close> panics on its very first row, because the
  largest oracle rate, which it calls invalid, is priced, so its other rows never run.
\<close>

theorem conversion_rate_test_vectors:
  assumes "decimal_laws ops val"
  shows "list_all (passes ops) test_vectors \<and>
    passes ops (U64_MAX, 4500, 5000, 1000, 100, 200, U64_MAX * 89550000 div 100000000) \<and>
    failing_row ops 0 error_rows = None \<and> failing_row ops 0 panic_rows = Some 0"
proof -
  have "in_range (U64_MAX, 4500, 5000, 1000, 100, 200, U64_MAX * 89550000 div 100000000)"
    by (simp add: in_range_def ask_price_spec_def discount_e8_def U64_MAX_def)
  then have max: "passes ops (U64_MAX, 4500, 5000, 1000, 100, 200, U64_MAX * 89550000 div 100000000)"
    by (rule in_range_passes [OF assms])
  then have "run_row ops (U64_MAX, 4500, 5000, 1000, 100, 200) \<noteq> Inr None"
    by (simp add: passes_def run_row_def)
  then have "failing_row ops 0 panic_rows = Some 0" by (simp add: panic_rows_def)
  moreover have "(100 :: u64) < 200" by simp
  then have "failing_row ops 0 error_rows = None"
    by (simp add: error_rows_def run_row_def conversion_rate_future_slot [OF assms])
  ultimately show ?thesis
    using test_vectors_in_range in_range_passes [OF assms] max by (auto simp: list_all_iff)
qed

theorem conversion_rate_test_vectors_witness:
  "passes rat_ops (1000000000, 4500, 5000, 1000, 100, 8988, 500040000)"
  using conversion_rate_test_vectors [OF rat_ops_laws] by (simp add: test_vectors_def)

end
