(* ===== verification/Attestation.thy ===== *)
theory Attestation
  imports Common
begin

text \<open>
  The oracle's attestation (\<open>common/attestation_utils.rs\<close>).  The message is the decimal text of
  the rate and of the timestamp with a bar between them; base64 decoding and the ed25519 check
  are package code (\<open>base64\<close>, \<open>brine_ed25519\<close>), the fields of the argument \<open>crypto\<close>.
\<close>

section \<open>Decimal text\<close>

text \<open>The \<open>Display\<close> instances of \<open>u64\<close> and \<open>i64\<close> that \<open>format!\<close> uses.\<close>

definition digit_char :: "nat \<Rightarrow> char" where
  "digit_char d = char_of (48 + d)"

fun show_nat :: "nat \<Rightarrow> string" where
  "show_nat n = (if n < 10 then [digit_char n] else show_nat (n div 10) @ [digit_char (n mod 10)])"

declare show_nat.simps [simp del]

definition show_u64 :: "u64 \<Rightarrow> string" where
  "show_u64 w = show_nat (unat w)"

definition show_i64 :: "i64 \<Rightarrow> string" where
  "show_i64 w = (if sint w < 0 then CHR ''-'' # show_nat (nat (- sint w)) else show_nat (nat (sint w)))"

section \<open>The check\<close>

record crypto =
  base64_decode :: "string \<Rightarrow> u8 list option"
  sig_verify :: "pubkey \<Rightarrow> u8 list \<Rightarrow> u8 list \<Rightarrow> bool"

definition message_string :: "OraclePriceData \<Rightarrow> string" where
  "message_string p = show_u64 (swap_rate p) @ ''|'' @ show_i64 (timestamp p)"

definition verify_attestation ::
    "crypto \<Rightarrow> error + clock \<Rightarrow> OraclePriceData \<Rightarrow> pubkey \<Rightarrow> i64 \<Rightarrow> unit result" where
  "verify_attestation cr clk oracle_price_data oracle_public_key price_maximum_age =
     (let message_bytes = bytes_of_string (message_string oracle_price_data) in
      and_then (ok_or (base64_decode cr (signature oracle_price_data))
        (DoubleZero InvalidAttestation)) (\<lambda>signature_vec.
      and_then (require_or (sig_verify cr oracle_public_key signature_vec message_bytes)
        (DoubleZero AttestationVerificationError)) (\<lambda>_.
      and_then (require_or (0 < swap_rate oracle_price_data)
        (DoubleZero InvalidOracleSwapRate)) (\<lambda>_.
      and_then clk (\<lambda>c.
      and_then (ok_or (checked_sub_i64 (unix_timestamp c) (timestamp oracle_price_data))
        (Panicked ArithmeticOverflow)) (\<lambda>d.
      and_then (ok_or (checked_abs_i64 d) (Panicked ArithmeticOverflow)) (\<lambda>difference.
      require_or (sint difference \<le> sint price_maximum_age) (DoubleZero StalePrice))))))))"

section \<open>Reading decimal text back\<close>

definition digit_val :: "char \<Rightarrow> nat" where
  "digit_val c = of_char c - 48"

definition read_nat :: "string \<Rightarrow> nat" where
  "read_nat s = foldl (\<lambda>n c. 10 * n + digit_val c) 0 s"

definition is_digit :: "char \<Rightarrow> bool" where
  "is_digit c \<longleftrightarrow> 48 \<le> (of_char c :: nat) \<and> (of_char c :: nat) \<le> 57"

lemma of_digit_char: "d < 10 \<Longrightarrow> (of_char (digit_char d) :: nat) = 48 + d"
  by (simp add: digit_char_def of_char_of)

lemma digit_val_char [simp]: "d < 10 \<Longrightarrow> digit_val (digit_char d) = d"
  by (simp add: digit_val_def of_digit_char)

lemma is_digit_char [simp]: "d < 10 \<Longrightarrow> is_digit (digit_char d)"
  by (simp add: is_digit_def of_digit_char)

lemma read_show_nat [simp]: "read_nat (show_nat n) = n"
proof (induction n rule: show_nat.induct)
  case (1 n)
  then show ?case
    by (subst show_nat.simps) (auto simp: read_nat_def)
qed

lemma show_nat_digits: "list_all is_digit (show_nat n)"
proof (induction n rule: show_nat.induct)
  case (1 n)
  then show ?case by (subst show_nat.simps) auto
qed

lemma show_nat_eq_iff [simp]: "show_nat m = show_nat n \<longleftrightarrow> m = n"
  by (metis read_show_nat)

lemma show_nat_not_Nil [simp]: "show_nat n \<noteq> []"
  by (subst show_nat.simps) simp

lemma separators_no_digits [simp]: "\<not> is_digit CHR ''|''" "\<not> is_digit CHR ''-''"
  by (simp_all add: is_digit_def)

lemma show_nat_not_minus: "show_nat n \<noteq> CHR ''-'' # s"
  using show_nat_digits [of n] by (auto simp del: separators_no_digits(1))

lemma show_i64_eq_iff [simp]: "show_i64 v = show_i64 w \<longleftrightarrow> v = w"
proof
  assume "show_i64 v = show_i64 w"
  then have "sint v = sint w"
    using show_nat_not_minus by (auto simp: show_i64_def not_less split: if_splits)
      (metis show_nat_not_minus)+
  then show "v = w" by (rule signed_word_eqI)
qed simp

text \<open>The bar separates: the text before it has digits only.\<close>

lemma split_at_bar:
  assumes "a @ CHR ''|'' # x = b @ CHR ''|'' # y" "list_all is_digit a" "list_all is_digit b"
  shows "a = b \<and> x = y"
proof -
  have "CHR ''|'' \<notin> set a" "CHR ''|'' \<notin> set b"
    using assms(2,3) separators_no_digits(1) by (auto simp: list_all_iff)
  then have "takeWhile (\<lambda>c. c \<noteq> CHR ''|'') (a @ CHR ''|'' # x) = a"
    "takeWhile (\<lambda>c. c \<noteq> CHR ''|'') (b @ CHR ''|'' # y) = b"
    by (simp_all add: takeWhile_append)
  then show ?thesis using assms(1) by simp
qed

section \<open>What the check promises\<close>

definition signed_by :: "crypto \<Rightarrow> pubkey \<Rightarrow> OraclePriceData \<Rightarrow> bool" where
  "signed_by cr key p \<longleftrightarrow>
     (case base64_decode cr (signature p) of
        None \<Rightarrow> False
      | Some sig \<Rightarrow> sig_verify cr key sig (bytes_of_string (message_string p)))"

definition clock_distance :: "clock \<Rightarrow> OraclePriceData \<Rightarrow> int" where
  "clock_distance c p = \<bar>sint (unix_timestamp c) - sint (timestamp p)\<bar>"

lemma checked_distance:
  "(case checked_sub_i64 a b of None \<Rightarrow> None | Some d \<Rightarrow> checked_abs_i64 d) =
     (if \<bar>sint a - sint b\<bar> < 2 ^ 63 then Some (word_of_int \<bar>sint a - sint b\<bar>) else None)"
  by (auto simp: checked_sub_i64_def checked_abs_i64_def Let_def sint_word_of_int_i64
      simp del: of_int_diff split: option.splits)

text \<open>The last four checks read as one case distinction on the distance between the clocks.\<close>

lemma verify_attestation_cases:
  "verify_attestation cr (Inr c) p key age =
     (if base64_decode cr (signature p) = None then Inl (DoubleZero InvalidAttestation)
      else if \<not> signed_by cr key p then Inl (DoubleZero AttestationVerificationError)
      else if swap_rate p = 0 then Inl (DoubleZero InvalidOracleSwapRate)
      else if 2 ^ 63 \<le> clock_distance c p then Inl (Panicked ArithmeticOverflow)
      else if clock_distance c p \<le> sint age then Inr ()
      else Inl (DoubleZero StalePrice))"
proof (cases "checked_sub_i64 (unix_timestamp c) (timestamp p)")
  case None
  then show ?thesis
    using checked_distance [of "unix_timestamp c" "timestamp p"]
    by (auto simp: verify_attestation_def Let_def and_then_def ok_or_def require_or_def signed_by_def
        clock_distance_def word_gt_0 split: option.splits if_splits)
next
  case (Some d)
  have *: "sint (word_of_int \<bar>x\<bar> :: i64) = \<bar>x\<bar>" if "\<bar>x\<bar> < 2 ^ 63" for x
    using that by (intro sint_word_of_int_i64) auto
  from Some show ?thesis
    using checked_distance [of "unix_timestamp c" "timestamp p"]
    by (auto simp: verify_attestation_def Let_def and_then_def ok_or_def require_or_def signed_by_def
        clock_distance_def word_gt_0 * simp del: of_int_diff of_int_abs
        split: option.splits if_splits)
qed

lemma verify_attestation_Inr_iff:
  "verify_attestation cr (Inr c) p key age = Inr () \<longleftrightarrow>
     signed_by cr key p \<and> 0 < swap_rate p \<and> clock_distance c p \<le> sint age"
  using sint_i64_bounds(2) [of age]
  by (auto simp: verify_attestation_cases signed_by_def word_gt_0 split: option.splits)

text \<open>C15: An attestation is accepted exactly when its signature decodes and verifies for the
  configured oracle key over the text of this very rate and timestamp, the rate is positive, and
  the validator clock and the timestamp are at most \<open>price_maximum_age\<close> apart, in either
  direction.\<close>

theorem attestation_accepted_iff:
  "verify_attestation cr (Inr c) p key age = Inr () \<longleftrightarrow>
     (\<exists>sig. base64_decode cr (signature p) = Some sig \<and>
        sig_verify cr key sig (bytes_of_string (message_string p))) \<and>
     0 < swap_rate p \<and> \<bar>sint (unix_timestamp c) - sint (timestamp p)\<bar> \<le> sint age"
  by (auto simp: verify_attestation_Inr_iff signed_by_def clock_distance_def split: option.splits)

text \<open>The check never accepts by wrap-around: it panics exactly when the signature and the
  rate are good and the two clocks are \<open>2^63\<close> seconds or more apart, the distance that has no
  \<open>i64\<close>.\<close>

theorem attestation_overflow_panics_iff:
  "verify_attestation cr (Inr c) p key age = Inl (Panicked ArithmeticOverflow) \<longleftrightarrow>
     signed_by cr key p \<and> 0 < swap_rate p \<and>
     2 ^ 63 \<le> \<bar>sint (unix_timestamp c) - sint (timestamp p)\<bar>"
  by (auto simp: verify_attestation_cases signed_by_def clock_distance_def word_gt_0
      split: option.splits)

text \<open>The signed message determines the price: two attestations have the same message bytes
  exactly when they quote the same rate and the same timestamp, so a signature for one quote
  cannot be read as another.\<close>

theorem attestation_message_injective:
  "bytes_of_string (message_string p) = bytes_of_string (message_string q) \<longleftrightarrow>
     swap_rate p = swap_rate q \<and> timestamp p = timestamp q"
proof -
  have "swap_rate p = swap_rate q \<and> timestamp p = timestamp q"
    if "message_string p = message_string q"
  proof -
    have "show_u64 (swap_rate p) = show_u64 (swap_rate q) \<and>
        show_i64 (timestamp p) = show_i64 (timestamp q)"
      by (rule split_at_bar)
        (use that in \<open>simp_all add: message_string_def show_u64_def show_nat_digits\<close>)
    then show ?thesis by (simp add: show_u64_def word_unat_eq_iff)
  qed
  then show ?thesis by (auto simp: message_string_def)
qed

end
