(* ===== verification/Ledger.thy ===== *)
theory Ledger
  imports Deny_List Fills_Accounting Pricing Attestation
begin

text \<open>
  What the instructions see of the chain: accounts with a typed view of their data, the infos a
  transaction passes, and the account checks that the \<open>#[account(..)]\<close> attributes of the source
  ask for.  Program-derived addresses, the system program, the token program and the revenue
  distribution program are not part of the converter: they are the fields of \<open>runtime\<close>, and
  \<open>runtime_laws\<close> states what the code relies on.
\<close>

section \<open>Keys\<close>

text \<open>\<open>declare_id!\<close> and \<open>pubkey!\<close> read a key from its base-58 text, the most significant digit first.\<close>

definition BASE58 :: string where
  "BASE58 = ''123456789ABCDEFGHJKLMNPQRSTUVWXYZabcdefghijkmnopqrstuvwxyz''"

fun base58_digits :: "nat \<Rightarrow> string \<Rightarrow> nat option" where
  "base58_digits n [] = Some n"
| "base58_digits n (c # s) =
     (case position (\<lambda>x. x = c) BASE58 of None \<Rightarrow> None | Some d \<Rightarrow> base58_digits (58 * n + d) s)"

definition pubkey_of_base58 :: "string \<Rightarrow> pubkey" where
  "pubkey_of_base58 s = (case base58_digits 0 s of None \<Rightarrow> 0 | Some n \<Rightarrow> word_of_nat n)"

definition ID :: pubkey where
  "ID = pubkey_of_base58 ''YrQk4TE5Bi6Hsi4u2LbBNwjZUWEaSUaCDJdapJbCE4z''"

definition REVENUE_DISTRIBUTION_PROGRAM_ID :: pubkey where
  "REVENUE_DISTRIBUTION_PROGRAM_ID =
     pubkey_of_base58 ''dzrevZC94tBLwuHw1dyynZxaXTWyp7yocsinyEVPtt4''"

definition SYSTEM_PROGRAM_ID :: pubkey where
  "SYSTEM_PROGRAM_ID = pubkey_of_base58 ''11111111111111111111111111111111''"

section \<open>Accounts\<close>

text \<open>
  The data of an account, up to its encoding: the four accounts of the program, each under its
  own discriminator, fresh space whose bytes are all zero, the accounts of the loader and of
  the token program, and everything else.
\<close>

datatype acct_data =
    NoData
  | Zeroed nat \<comment> \<open>the size\<close>
  | ConfigurationData ConfigurationRegistry
  | ProgramStateData ProgramStateAccount
  | DenyListData DenyListRegistry
  | FillsData FillsRegistry
  | LoaderProgram pubkey \<comment> \<open>programdata_address\<close>
  | LoaderProgramData "pubkey option" \<comment> \<open>upgrade_authority_address\<close>
  | TokenData pubkey pubkey u64 \<comment> \<open>mint, owner, amount\<close>
  | MintData u8 \<comment> \<open>decimals\<close>
  | OtherData "u8 list"

record account =
  lamports :: u64
  owner :: pubkey
  executable :: bool
  data :: acct_data

record ledger =
  accounts :: "pubkey \<Rightarrow> account"
  clock_sysvar :: clock

record account_info =
  info_key :: pubkey
  is_signer :: bool
  is_writable :: bool

definition account_of :: "ledger \<Rightarrow> account_info \<Rightarrow> account" where
  "account_of l a = accounts l (info_key a)"

definition set_data :: "pubkey \<Rightarrow> acct_data \<Rightarrow> ledger \<Rightarrow> ledger" where
  "set_data k d l = l\<lparr>accounts := (accounts l)(k := (accounts l k)\<lparr>data := d\<rparr>)\<rparr>"

section \<open>The world around the program\<close>

text \<open>The instruction a program hands to \<open>invoke_signed\<close>.\<close>

record AccountMeta =
  meta_pubkey :: pubkey
  meta_is_signer :: bool
  meta_is_writable :: bool

record Instruction =
  ix_program_id :: pubkey
  ix_accounts :: "AccountMeta list"
  ix_data :: "u8 list"

text \<open>The account a called program sees for a meta: the privileges the meta grants.\<close>

definition info_of_meta :: "AccountMeta \<Rightarrow> account_info" where
  "info_of_meta m = \<lparr>info_key = meta_pubkey m, is_signer = meta_is_signer m,
     is_writable = meta_is_writable m\<rparr>"

record TransferChecked =
  tc_mint :: pubkey
  tc_from :: pubkey
  tc_to :: pubkey
  tc_authority :: pubkey

record 'd runtime =
  create_program_address :: "u8 list list \<Rightarrow> pubkey \<Rightarrow> pubkey option"
  find_program_address :: "u8 list list \<Rightarrow> pubkey \<Rightarrow> pubkey \<times> u8"
  init_account :: "pubkey \<Rightarrow> pubkey \<Rightarrow> nat \<Rightarrow> u8 list list \<Rightarrow> ledger \<Rightarrow> ledger result"
    \<comment> \<open>the system program: payer, new account, space, signer seeds\<close>
  transfer_checked :: "pubkey \<Rightarrow> TransferChecked \<Rightarrow> u64 \<Rightarrow> u8 \<Rightarrow> ledger \<Rightarrow> ledger result"
    \<comment> \<open>the token program: its id, accounts, amount, decimals\<close>
  invoke_signed :: "Instruction \<Rightarrow> account_info list \<Rightarrow> u8 list list list \<Rightarrow> ledger \<Rightarrow> ledger result"
  loader_id :: pubkey
  token_program_ids :: "pubkey list"
  decimals :: "'d decimal_ops"
  crypto_ops :: crypto

text \<open>
  What the runtime enforces of every other program: it neither changes the data nor the owner of
  an account of the converter, and an account it hands over has all its bytes zero.
\<close>

definition blank :: "acct_data \<Rightarrow> bool" where
  "blank d \<longleftrightarrow> d = NoData \<or> (\<exists>n. d = Zeroed n)"

definition foreign_change :: "ledger \<Rightarrow> ledger \<Rightarrow> bool" where
  "foreign_change l l' \<longleftrightarrow>
     (\<forall>k. if owner (accounts l k) = ID
          then owner (accounts l' k) = ID \<and> data (accounts l' k) = data (accounts l k)
          else owner (accounts l' k) = ID \<longrightarrow> blank (data (accounts l' k)))"

definition cpi_change :: "ledger \<Rightarrow> ledger \<Rightarrow> bool" where
  "cpi_change l l' \<longleftrightarrow> foreign_change l l' \<and> clock_sysvar l' = clock_sysvar l"

text \<open>The system program gives space only to an address it owns and that has no data yet.\<close>

definition init_change :: "pubkey \<Rightarrow> nat \<Rightarrow> ledger \<Rightarrow> ledger \<Rightarrow> bool" where
  "init_change k n l l' \<longleftrightarrow>
     owner (accounts l k) \<noteq> ID \<and> cpi_change l l' \<and>
     owner (accounts l' k) = ID \<and> data (accounts l' k) = Zeroed n"

definition runtime_laws :: "'d runtime \<Rightarrow> bool" where
  "runtime_laws rt \<longleftrightarrow>
     (\<forall>seeds p k b. find_program_address rt seeds p = (k, b) \<longrightarrow>
        create_program_address rt (seeds @ [[b]]) p = Some k) \<and>
     (\<forall>payer k n seeds l l'. init_account rt payer k n seeds l = Inr l' \<longrightarrow> init_change k n l l') \<and>
     (\<forall>p t a d l l'. transfer_checked rt p t a d l = Inr l' \<longrightarrow> cpi_change l l') \<and>
     (\<forall>ix infos seeds l l'. invoke_signed rt ix infos seeds l = Inr l' \<longrightarrow> cpi_change l l')"

section \<open>Account checks\<close>

definition check_signer :: "account_info \<Rightarrow> pubkey result" where
  "check_signer a = (if is_signer a then Inr (info_key a) else Inl (Anchor AccountNotSigner))"

definition check_mut :: "account_info \<Rightarrow> unit result" where
  "check_mut a = require_or (is_writable a) (Anchor ConstraintMut)"

definition check_address :: "account_info \<Rightarrow> pubkey \<Rightarrow> unit result" where
  "check_address a k = require_or (info_key a = k) (Anchor ConstraintAddress)"

text \<open>\<open>seeds = [..], bump = ..\<close> with a stored bump.\<close>

definition check_seeds :: "'d runtime \<Rightarrow> u8 list list \<Rightarrow> u8 \<Rightarrow> account_info \<Rightarrow> unit result" where
  "check_seeds rt seeds bump a =
     require_or (create_program_address rt (seeds @ [[bump]]) ID = Some (info_key a))
       (Anchor ConstraintSeeds)"

text \<open>\<open>Account<T>\<close>: the owner, then the discriminator.\<close>

definition load_account ::
    "pubkey \<Rightarrow> (acct_data \<Rightarrow> 'a option) \<Rightarrow> ledger \<Rightarrow> account_info \<Rightarrow> 'a result" where
  "load_account own unwrap l a =
     (let acc = account_of l a in
      if owner acc = SYSTEM_PROGRAM_ID \<and> lamports acc = 0 then Inl (Anchor AccountNotInitialized)
      else if owner acc \<noteq> own then Inl (Anchor AccountOwnedByWrongProgram)
      else ok_or (unwrap (data acc)) (Anchor AccountDiscriminatorMismatch))"

definition as_configuration :: "acct_data \<Rightarrow> ConfigurationRegistry option" where
  "as_configuration d = (case d of ConfigurationData c \<Rightarrow> Some c | _ \<Rightarrow> None)"

definition as_program_state :: "acct_data \<Rightarrow> ProgramStateAccount option" where
  "as_program_state d = (case d of ProgramStateData c \<Rightarrow> Some c | _ \<Rightarrow> None)"

definition as_deny_list :: "acct_data \<Rightarrow> DenyListRegistry option" where
  "as_deny_list d = (case d of DenyListData c \<Rightarrow> Some c | _ \<Rightarrow> None)"

definition as_fills :: "acct_data \<Rightarrow> FillsRegistry option" where
  "as_fills d = (case d of FillsData c \<Rightarrow> Some c | _ \<Rightarrow> None)"

definition as_program_data :: "acct_data \<Rightarrow> pubkey option option" where
  "as_program_data d = (case d of LoaderProgramData c \<Rightarrow> Some c | _ \<Rightarrow> None)"

definition load_configuration :: "ledger \<Rightarrow> account_info \<Rightarrow> ConfigurationRegistry result" where
  "load_configuration = load_account ID as_configuration"

definition load_program_state :: "ledger \<Rightarrow> account_info \<Rightarrow> ProgramStateAccount result" where
  "load_program_state = load_account ID as_program_state"

definition load_deny_list :: "ledger \<Rightarrow> account_info \<Rightarrow> DenyListRegistry result" where
  "load_deny_list = load_account ID as_deny_list"

text \<open>An \<open>AccountLoader\<close> checks the owner and the discriminator, \<open>load_mut\<close> the latter again.\<close>

definition load_fills :: "ledger \<Rightarrow> account_info \<Rightarrow> FillsRegistry result" where
  "load_fills l a =
     (if owner (account_of l a) \<noteq> ID then Inl (Anchor AccountOwnedByWrongProgram)
      else ok_or (as_fills (data (account_of l a))) (Anchor AccountDiscriminatorMismatch))"

definition load_mut :: "ledger \<Rightarrow> account_info \<Rightarrow> FillsRegistry result" where
  "load_mut l a = ok_or (as_fills (data (account_of l a))) (Anchor AccountDiscriminatorMismatch)"

text \<open>\<open>Program<T>\<close> and \<open>SystemAccount\<close>.\<close>

definition check_program :: "ledger \<Rightarrow> pubkey list \<Rightarrow> account_info \<Rightarrow> unit result" where
  "check_program l ids a =
     and_then (require_or (contains ids (info_key a)) (Anchor InvalidProgramId)) (\<lambda>_.
     require_or (executable (account_of l a)) (Anchor InvalidProgramExecutable))"

definition check_system_account :: "ledger \<Rightarrow> account_info \<Rightarrow> unit result" where
  "check_system_account l a =
     require_or (owner (account_of l a) = SYSTEM_PROGRAM_ID) (Anchor AccountNotSystemOwned)"

text \<open>
  \<open>address = program.programdata_address()?.unwrap()\<close> and
  \<open>constraint = program_data.upgrade_authority_address == Some(authority.key())\<close>.
\<close>

definition programdata_address :: "'d runtime \<Rightarrow> ledger \<Rightarrow> account_info \<Rightarrow> pubkey option" where
  "programdata_address rt l program =
     (if owner (account_of l program) = loader_id rt then
        case data (account_of l program) of LoaderProgram k \<Rightarrow> Some k | _ \<Rightarrow> None
      else None)"

definition check_upgrade_authority ::
    "'d runtime \<Rightarrow> ledger \<Rightarrow> account_info \<Rightarrow> account_info \<Rightarrow> pubkey option \<Rightarrow> pubkey \<Rightarrow> unit result" where
  "check_upgrade_authority rt l program program_data upgrade_authority signer =
     and_then (require_or (upgrade_authority = Some signer) (Anchor ConstraintRaw)) (\<lambda>_.
     and_then (ok_or (programdata_address rt l program) (Panicked UnwrapNone)) (\<lambda>k.
     check_address program_data k))"

section \<open>Typed accounts\<close>

text \<open>
  What the handlers rely on in an account type: its data can be told from all other data, and
  reading back what was written returns it.  The four accounts of the program provide it.
\<close>

locale anchor_account =
  fixes wrap :: "'a \<Rightarrow> acct_data"
    and unwrap :: "acct_data \<Rightarrow> 'a option"
  assumes unwrap_Some_iff: "unwrap d = Some v \<longleftrightarrow> d = wrap v"
    and wrap_not_blank: "\<not> blank (wrap v)"
begin

lemma unwrap_wrap: "unwrap (wrap v) = Some v"
  by (simp add: unwrap_Some_iff)

lemma wrap_eq_iff: "wrap v = wrap w \<longleftrightarrow> v = w"
  using unwrap_wrap by (metis option.inject)

lemma load_Inr_iff:
  assumes "own \<noteq> SYSTEM_PROGRAM_ID"
  shows "load_account own unwrap l a = Inr v \<longleftrightarrow>
     owner (account_of l a) = own \<and> data (account_of l a) = wrap v"
  using assms by (auto simp: load_account_def Let_def tx_simps unwrap_Some_iff)

lemma load_after_store:
  assumes "own \<noteq> SYSTEM_PROGRAM_ID" "owner (account_of l a) = own"
  shows "load_account own unwrap (set_data (info_key a) (wrap v) l) a = Inr v"
  using assms by (simp add: load_Inr_iff account_of_def set_data_def)

lemma load_after_other_store:
  assumes "info_key a \<noteq> k"
  shows "load_account own unwrap (set_data k d l) a = load_account own unwrap l a"
  using assms by (simp add: load_account_def account_of_def set_data_def)

lemma load_not_blank:
  assumes "own \<noteq> SYSTEM_PROGRAM_ID" "load_account own unwrap l a = Inr v"
  shows "\<not> blank (data (account_of l a))"
  using assms wrap_not_blank by (simp add: load_Inr_iff)

end

lemma blank_simps [simp]:
  "blank NoData" "blank (Zeroed n)" "\<not> blank (ConfigurationData c)" "\<not> blank (ProgramStateData p)"
  "\<not> blank (DenyListData d)" "\<not> blank (FillsData r)"
  by (simp_all add: blank_def)

interpretation configuration_account: anchor_account ConfigurationData as_configuration
  by unfold_locales (auto simp: as_configuration_def split: acct_data.splits)

interpretation program_state_account: anchor_account ProgramStateData as_program_state
  by unfold_locales (auto simp: as_program_state_def split: acct_data.splits)

interpretation deny_list_account: anchor_account DenyListData as_deny_list
  by unfold_locales (auto simp: as_deny_list_def split: acct_data.splits)

interpretation fills_account: anchor_account FillsData as_fills
  by unfold_locales (auto simp: as_fills_def split: acct_data.splits)

lemma SYSTEM_PROGRAM_ID_eq: "SYSTEM_PROGRAM_ID = 0"
  by (simp add: SYSTEM_PROGRAM_ID_def pubkey_of_base58_def BASE58_def)

lemma ID_digits:
  "base58_digits 0 ''YrQk4TE5Bi6Hsi4u2LbBNwjZUWEaSUaCDJdapJbCE4z'' =
     Some 3690718092553134154891737278366716349130422910389940148344620993622994963827"
  by (simp add: BASE58_def)

lemma ID_neq_SYSTEM [simp]: "ID \<noteq> SYSTEM_PROGRAM_ID" "SYSTEM_PROGRAM_ID \<noteq> ID"
  by (simp_all add: SYSTEM_PROGRAM_ID_eq ID_def pubkey_of_base58_def ID_digits
      del: base58_digits.simps)

named_theorems load_simps \<open>when an account check passes\<close>

lemma load_Inr_iffs [load_simps]:
  "load_configuration l a = Inr c \<longleftrightarrow>
     owner (account_of l a) = ID \<and> data (account_of l a) = ConfigurationData c"
  "load_program_state l a = Inr p \<longleftrightarrow>
     owner (account_of l a) = ID \<and> data (account_of l a) = ProgramStateData p"
  "load_deny_list l a = Inr d \<longleftrightarrow>
     owner (account_of l a) = ID \<and> data (account_of l a) = DenyListData d"
  by (simp_all add: load_configuration_def load_program_state_def load_deny_list_def
      configuration_account.load_Inr_iff program_state_account.load_Inr_iff
      deny_list_account.load_Inr_iff)

lemma load_fills_Inr_iff [load_simps]:
  "load_fills l a = Inr r \<longleftrightarrow> owner (account_of l a) = ID \<and> data (account_of l a) = FillsData r"
  by (auto simp: load_fills_def tx_simps fills_account.unwrap_Some_iff)

lemma load_mut_Inr_iff [load_simps]: "load_mut l a = Inr r \<longleftrightarrow> data (account_of l a) = FillsData r"
  by (simp add: load_mut_def tx_simps fills_account.unwrap_Some_iff)

lemma check_Inr_iffs [load_simps]:
  "check_signer a = Inr k \<longleftrightarrow> is_signer a \<and> k = info_key a"
  "check_mut a = Inr u \<longleftrightarrow> is_writable a"
  "check_address a k = Inr u \<longleftrightarrow> info_key a = k"
  "check_seeds rt seeds bump a = Inr u \<longleftrightarrow>
     create_program_address rt (seeds @ [[bump]]) ID = Some (info_key a)"
  "check_program l ids a = Inr u \<longleftrightarrow> info_key a \<in> set ids \<and> executable (account_of l a)"
  "check_system_account l a = Inr u \<longleftrightarrow> owner (account_of l a) = SYSTEM_PROGRAM_ID"
  by (auto simp: check_signer_def check_mut_def check_address_def check_seeds_def
      check_program_def check_system_account_def tx_simps)

lemma check_upgrade_authority_Inr_iff [load_simps]:
  "check_upgrade_authority rt l program program_data upgrade_authority signer = Inr u \<longleftrightarrow>
     upgrade_authority = Some signer \<and>
     programdata_address rt l program = Some (info_key program_data)"
  by (auto simp: check_upgrade_authority_def tx_simps load_simps)

end
