(* ===== verification/Admin_Instructions.thy ===== *)
theory Admin_Instructions
  imports Ledger
begin

text \<open>
  The instructions of the administrators (\<open>lib.rs\<close> and the \<open>Accounts\<close> structures of
  \<open>system_management/\<close>, \<open>configuration_registry/\<close> and \<open>deny_list_registry.rs\<close>): the account
  checks in the order Anchor runs them (every account is loaded, then the constraints), the
  handler, and the account written back at exit.  An instruction returns the new ledger and its
  return data.
\<close>

type_synonym outcome = "(ledger \<times> u8 list) handler"

text \<open>Writing the accounts back ends an instruction without return data.\<close>

definition exit_with :: "account_info \<Rightarrow> ('a \<Rightarrow> acct_data) \<Rightarrow> ledger \<Rightarrow> 'a handler \<Rightarrow> outcome" where
  "exit_with a wrap l h = map_tx (\<lambda>v. (set_data (info_key a) (wrap v) l, [])) h"

lemma exit_with_Inr_iff [load_simps]:
  "exit_with a wrap l h = (es, Inr (l', ret)) \<longleftrightarrow>
     (\<exists>v. h = (es, Inr v) \<and> l' = set_data (info_key a) (wrap v) l \<and> ret = [])"
  by (auto simp: exit_with_def tx_simps)

section \<open>System state\<close>

record SystemState =
  ss_admin :: account_info
  ss_program_state :: account_info

definition validate_SystemState ::
    "'d runtime \<Rightarrow> ledger \<Rightarrow> SystemState \<Rightarrow> (pubkey \<times> ProgramStateAccount) result" where
  "validate_SystemState rt l ctx =
     and_then (check_signer (ss_admin ctx)) (\<lambda>signer.
     and_then (load_program_state l (ss_program_state ctx)) (\<lambda>ps.
     and_then (check_seeds rt [PROGRAM_STATE] (program_state_bump (bump_registry ps))
       (ss_program_state ctx)) (\<lambda>_.
     and_then (check_mut (ss_program_state ctx)) (\<lambda>_.
     Inr (signer, ps)))))"

definition toggle_system_state :: "'d runtime \<Rightarrow> ledger \<Rightarrow> SystemState \<Rightarrow> bool \<Rightarrow> outcome" where
  "toggle_system_state rt l ctx set_to =
     try_tx (validate_SystemState rt l ctx) (\<lambda>(signer, ps).
     exit_with (ss_program_state ctx) ProgramStateData l (process_system_state signer ps set_to))"

section \<open>The upgrade authority's instructions\<close>

text \<open>\<open>SetAdmin\<close> and \<open>SetDenyListAuthority\<close> take the same accounts.\<close>

record SetAdmin =
  sa_admin :: account_info
  sa_program_state :: account_info
  sa_program :: account_info
  sa_program_data :: account_info

type_synonym SetDenyListAuthority = SetAdmin

definition validate_SetAdmin ::
    "'d runtime \<Rightarrow> ledger \<Rightarrow> SetAdmin \<Rightarrow> (pubkey \<times> ProgramStateAccount) result" where
  "validate_SetAdmin rt l ctx =
     and_then (check_signer (sa_admin ctx)) (\<lambda>signer.
     and_then (load_program_state l (sa_program_state ctx)) (\<lambda>ps.
     and_then (check_program l [ID] (sa_program ctx)) (\<lambda>_.
     and_then (load_account (loader_id rt) as_program_data l (sa_program_data ctx)) (\<lambda>authority.
     and_then (check_seeds rt [PROGRAM_STATE] (program_state_bump (bump_registry ps))
       (sa_program_state ctx)) (\<lambda>_.
     and_then (check_mut (sa_program_state ctx)) (\<lambda>_.
     and_then (check_upgrade_authority rt l (sa_program ctx) (sa_program_data ctx) authority signer)
       (\<lambda>_.
     Inr (signer, ps))))))))"

definition set_admin :: "'d runtime \<Rightarrow> ledger \<Rightarrow> SetAdmin \<Rightarrow> pubkey \<Rightarrow> outcome" where
  "set_admin rt l ctx new_admin =
     try_tx (validate_SetAdmin rt l ctx) (\<lambda>(signer, ps).
     exit_with (sa_program_state ctx) ProgramStateData l (process_set_admin signer ps new_admin))"

definition set_deny_list_authority ::
    "'d runtime \<Rightarrow> ledger \<Rightarrow> SetDenyListAuthority \<Rightarrow> pubkey \<Rightarrow> outcome" where
  "set_deny_list_authority rt l ctx new_authority =
     try_tx (validate_SetAdmin rt l ctx) (\<lambda>(signer, ps).
     exit_with (sa_program_state ctx) ProgramStateData l
       (process_set_deny_list_authority signer ps new_authority))"

section \<open>Configuration\<close>

text \<open>\<open>ConfigurationRegistryUpdate\<close> and \<open>SetFillsConsumer\<close> take the same accounts.\<close>

record ConfigurationRegistryUpdate =
  cu_configuration_registry :: account_info
  cu_program_state :: account_info
  cu_admin :: account_info

type_synonym SetFillsConsumer = ConfigurationRegistryUpdate

definition validate_ConfigurationRegistryUpdate ::
    "'d runtime \<Rightarrow> ledger \<Rightarrow> ConfigurationRegistryUpdate \<Rightarrow>
     (pubkey \<times> ProgramStateAccount \<times> ConfigurationRegistry) result" where
  "validate_ConfigurationRegistryUpdate rt l ctx =
     and_then (load_configuration l (cu_configuration_registry ctx)) (\<lambda>cfg.
     and_then (load_program_state l (cu_program_state ctx)) (\<lambda>ps.
     and_then (check_signer (cu_admin ctx)) (\<lambda>signer.
     and_then (check_seeds rt [CONFIGURATION_REGISTRY]
       (configuration_registry_bump (bump_registry ps)) (cu_configuration_registry ctx)) (\<lambda>_.
     and_then (check_mut (cu_configuration_registry ctx)) (\<lambda>_.
     and_then (check_seeds rt [PROGRAM_STATE] (program_state_bump (bump_registry ps))
       (cu_program_state ctx)) (\<lambda>_.
     Inr (signer, ps, cfg)))))))"

definition update_configuration_registry ::
    "'d runtime \<Rightarrow> ledger \<Rightarrow> ConfigurationRegistryUpdate \<Rightarrow> ConfigurationRegistryInput \<Rightarrow> outcome" where
  "update_configuration_registry rt l ctx input =
     try_tx (validate_ConfigurationRegistryUpdate rt l ctx) (\<lambda>(signer, ps, cfg).
     exit_with (cu_configuration_registry ctx) ConfigurationData l
       (process_update signer ps cfg input))"

definition set_fills_consumer ::
    "'d runtime \<Rightarrow> ledger \<Rightarrow> SetFillsConsumer \<Rightarrow> pubkey \<Rightarrow> outcome" where
  "set_fills_consumer rt l ctx new_consumer =
     try_tx (validate_ConfigurationRegistryUpdate rt l ctx) (\<lambda>(signer, ps, cfg).
     exit_with (cu_configuration_registry ctx) ConfigurationData l
       (process_set_fills_consumer signer ps cfg new_consumer))"

section \<open>Deny list\<close>

record UpdateDenyList =
  dl_deny_list_registry :: account_info
  dl_program_state :: account_info
  dl_admin :: account_info

definition validate_UpdateDenyList ::
    "'d runtime \<Rightarrow> ledger \<Rightarrow> UpdateDenyList \<Rightarrow>
     (pubkey \<times> ProgramStateAccount \<times> DenyListRegistry) result" where
  "validate_UpdateDenyList rt l ctx =
     and_then (load_deny_list l (dl_deny_list_registry ctx)) (\<lambda>dl.
     and_then (load_program_state l (dl_program_state ctx)) (\<lambda>ps.
     and_then (check_signer (dl_admin ctx)) (\<lambda>signer.
     and_then (check_seeds rt [DENY_LIST_REGISTRY] (deny_list_registry_bump (bump_registry ps))
       (dl_deny_list_registry ctx)) (\<lambda>_.
     and_then (check_mut (dl_deny_list_registry ctx)) (\<lambda>_.
     and_then (check_seeds rt [PROGRAM_STATE] (program_state_bump (bump_registry ps))
       (dl_program_state ctx)) (\<lambda>_.
     Inr (signer, ps, dl)))))))"

definition ix_add_to_deny_list :: "'d runtime \<Rightarrow> ledger \<Rightarrow> UpdateDenyList \<Rightarrow> pubkey \<Rightarrow> outcome" where
  "ix_add_to_deny_list rt l ctx address =
     try_tx (validate_UpdateDenyList rt l ctx) (\<lambda>(signer, ps, dl).
     exit_with (dl_deny_list_registry ctx) DenyListData l
       (add_to_deny_list (Inr (clock_sysvar l)) signer ps dl address))"

definition ix_remove_from_deny_list ::
    "'d runtime \<Rightarrow> ledger \<Rightarrow> UpdateDenyList \<Rightarrow> pubkey \<Rightarrow> outcome" where
  "ix_remove_from_deny_list rt l ctx address =
     try_tx (validate_UpdateDenyList rt l ctx) (\<lambda>(signer, ps, dl).
     exit_with (dl_deny_list_registry ctx) DenyListData l
       (remove_from_deny_list (Inr (clock_sysvar l)) signer ps dl address))"

section \<open>When the account checks pass\<close>

lemma validate_SystemState_Inr_iff [load_simps]:
  "validate_SystemState rt l ctx = Inr (signer, ps) \<longleftrightarrow>
     is_signer (ss_admin ctx) \<and> signer = info_key (ss_admin ctx) \<and>
     owner (account_of l (ss_program_state ctx)) = ID \<and>
     data (account_of l (ss_program_state ctx)) = ProgramStateData ps \<and>
     create_program_address rt [PROGRAM_STATE, [program_state_bump (bump_registry ps)]] ID =
       Some (info_key (ss_program_state ctx)) \<and>
     is_writable (ss_program_state ctx)"
  by (auto simp: validate_SystemState_def tx_simps load_simps)

lemma validate_SetAdmin_Inr_iff [load_simps]:
  "validate_SetAdmin rt l ctx = Inr (signer, ps) \<longleftrightarrow>
     is_signer (sa_admin ctx) \<and> signer = info_key (sa_admin ctx) \<and>
     owner (account_of l (sa_program_state ctx)) = ID \<and>
     data (account_of l (sa_program_state ctx)) = ProgramStateData ps \<and>
     info_key (sa_program ctx) = ID \<and> executable (account_of l (sa_program ctx)) \<and>
     load_account (loader_id rt) as_program_data l (sa_program_data ctx) = Inr (Some signer) \<and>
     create_program_address rt [PROGRAM_STATE, [program_state_bump (bump_registry ps)]] ID =
       Some (info_key (sa_program_state ctx)) \<and>
     is_writable (sa_program_state ctx) \<and>
     programdata_address rt l (sa_program ctx) = Some (info_key (sa_program_data ctx))"
  by (auto simp: validate_SetAdmin_def tx_simps load_simps)

lemma validate_ConfigurationRegistryUpdate_Inr_iff [load_simps]:
  "validate_ConfigurationRegistryUpdate rt l ctx = Inr (signer, ps, cfg) \<longleftrightarrow>
     is_signer (cu_admin ctx) \<and> signer = info_key (cu_admin ctx) \<and>
     owner (account_of l (cu_program_state ctx)) = ID \<and>
     data (account_of l (cu_program_state ctx)) = ProgramStateData ps \<and>
     owner (account_of l (cu_configuration_registry ctx)) = ID \<and>
     data (account_of l (cu_configuration_registry ctx)) = ConfigurationData cfg \<and>
     create_program_address rt [PROGRAM_STATE, [program_state_bump (bump_registry ps)]] ID =
       Some (info_key (cu_program_state ctx)) \<and>
     create_program_address rt
       [CONFIGURATION_REGISTRY, [configuration_registry_bump (bump_registry ps)]] ID =
       Some (info_key (cu_configuration_registry ctx)) \<and>
     is_writable (cu_configuration_registry ctx)"
  by (auto simp: validate_ConfigurationRegistryUpdate_def tx_simps load_simps)

lemma validate_UpdateDenyList_Inr_iff [load_simps]:
  "validate_UpdateDenyList rt l ctx = Inr (signer, ps, dl) \<longleftrightarrow>
     is_signer (dl_admin ctx) \<and> signer = info_key (dl_admin ctx) \<and>
     owner (account_of l (dl_program_state ctx)) = ID \<and>
     data (account_of l (dl_program_state ctx)) = ProgramStateData ps \<and>
     owner (account_of l (dl_deny_list_registry ctx)) = ID \<and>
     data (account_of l (dl_deny_list_registry ctx)) = DenyListData dl \<and>
     create_program_address rt [PROGRAM_STATE, [program_state_bump (bump_registry ps)]] ID =
       Some (info_key (dl_program_state ctx)) \<and>
     create_program_address rt
       [DENY_LIST_REGISTRY, [deny_list_registry_bump (bump_registry ps)]] ID =
       Some (info_key (dl_deny_list_registry ctx)) \<and>
     is_writable (dl_deny_list_registry ctx)"
  by (auto simp: validate_UpdateDenyList_def tx_simps load_simps)

end
