(* ===== verification/Init_System.thy ===== *)
theory Init_System
  imports Ledger
begin

text \<open>
  \<open>initialize_system\<close> (\<open>init_system.rs\<close>): the upgrade authority creates the three
  program-derived accounts, hands in the zeroed fills registry and sets the first configuration.
\<close>

section \<open>Account sizes\<close>

definition DISCRIMINATOR_SIZE :: nat where
  "DISCRIMINATOR_SIZE = 8"

text \<open>\<open>#[derive(InitSpace)]\<close>: the sum of the sizes of the fields.\<close>

definition CONFIGURATION_INIT_SPACE :: nat where
  "CONFIGURATION_INIT_SPACE = 32 + 8 + 8 + 32 + 8 + 8 + 8"

definition PROGRAM_STATE_INIT_SPACE :: nat where
  "PROGRAM_STATE_INIT_SPACE = 32 + 32 + 1 + (1 + 1 + 1 + 1) + 8 + 32"

definition DENY_LIST_INIT_SPACE :: nat where
  "DENY_LIST_INIT_SPACE = (4 + MAX_DENY_LIST_SIZE * 32) + 8 + 8"

definition FILLS_REGISTRY_SIZE :: nat where
  "FILLS_REGISTRY_SIZE = 8 + 8 + MAX_FILLS_QUEUE_SIZE * (8 + 8) + 8 + 8 + 8"

section \<open>Fresh accounts\<close>

text \<open>What the all-zero space of a new account reads as.\<close>

definition zero_configuration :: ConfigurationRegistry where
  "zero_configuration =
     \<lparr>oracle_pubkey = 0, sol_quantity = 0, price_maximum_age = 0, fills_consumer = 0,
      coefficient = 0, max_discount_rate = 0, min_discount_rate = 0\<rparr>"

definition zero_program_state :: ProgramStateAccount where
  "zero_program_state =
     \<lparr>admin = 0, fills_registry_address = 0, is_halted = False,
      bump_registry = \<lparr>configuration_registry_bump = 0, program_state_bump = 0,
        deny_list_registry_bump = 0, withdraw_authority_bump = 0\<rparr>,
      last_trade_slot = 0, deny_list_authority = 0\<rparr>"

definition zero_deny_list :: DenyListRegistry where
  "zero_deny_list = \<lparr>denied_addresses = [], last_updated = 0, update_count = 0\<rparr>"

section \<open>Account constraints\<close>

record InitializeSystem =
  is_configuration_registry :: account_info
  is_program_state :: account_info
  is_deny_list_registry :: account_info
  is_fills_registry :: account_info
  is_withdraw_authority :: account_info
  is_program :: account_info
  is_program_data :: account_info
  is_system_program :: account_info
  is_authority :: account_info

record InitializeSystemBumps =
  bumps_configuration_registry :: u8
  bumps_program_state :: u8
  bumps_deny_list_registry :: u8
  bumps_withdraw_authority :: u8

text \<open>\<open>seeds = [..], bump\<close> without a stored bump: the canonical address.\<close>

definition check_canonical_seeds :: "'d runtime \<Rightarrow> u8 list list \<Rightarrow> account_info \<Rightarrow> u8 result" where
  "check_canonical_seeds rt seeds a =
     (case find_program_address rt seeds ID of (k, bump) \<Rightarrow>
        if info_key a = k then Inr bump else Inl (Anchor ConstraintSeeds))"

text \<open>\<open>init, payer = authority, space = .., seeds = [..], bump\<close>.\<close>

definition init_pda ::
    "'d runtime \<Rightarrow> pubkey \<Rightarrow> nat \<Rightarrow> u8 list list \<Rightarrow> account_info \<Rightarrow> ledger \<Rightarrow> (ledger \<times> u8) result" where
  "init_pda rt payer space seeds a l =
     and_then (check_canonical_seeds rt seeds a) (\<lambda>bump.
     and_then (init_account rt payer (info_key a) space (seeds @ [[bump]]) l) (\<lambda>l.
     and_then (check_mut a) (\<lambda>_. Inr (l, bump))))"

text \<open>
  \<open>#[account(zero)]\<close>: the discriminator bytes are zero, the account is none of those created by
  this instruction, the program owns it and it is writable.
\<close>

definition check_zero :: "ledger \<Rightarrow> pubkey list \<Rightarrow> account_info \<Rightarrow> unit result" where
  "check_zero l created a =
     (case data (account_of l a) of
        NoData \<Rightarrow> Inl (Panicked IndexOutOfBounds)
      | Zeroed n \<Rightarrow>
          and_then (require_or (DISCRIMINATOR_SIZE \<le> n) (Panicked IndexOutOfBounds)) (\<lambda>_.
          and_then (require_or (\<not> contains created (info_key a)) (Anchor ConstraintZero)) (\<lambda>_.
          and_then (require_or (owner (account_of l a) = ID) (Anchor AccountOwnedByWrongProgram)) (\<lambda>_.
          check_mut a)))
      | _ \<Rightarrow> Inl (Anchor ConstraintZero))"

definition validate_InitializeSystem ::
    "'d runtime \<Rightarrow> ledger \<Rightarrow> InitializeSystem \<Rightarrow> (ledger \<times> InitializeSystemBumps) result" where
  "validate_InitializeSystem rt l ctx =
     and_then (check_system_account l (is_withdraw_authority ctx)) (\<lambda>_.
     and_then (check_program l [ID] (is_program ctx)) (\<lambda>_.
     and_then (load_account (loader_id rt) as_program_data l (is_program_data ctx)) (\<lambda>upgrade_authority.
     and_then (check_program l [SYSTEM_PROGRAM_ID] (is_system_program ctx)) (\<lambda>_.
     and_then (check_signer (is_authority ctx)) (\<lambda>authority.
     and_then (init_pda rt authority (DISCRIMINATOR_SIZE + CONFIGURATION_INIT_SPACE)
       [CONFIGURATION_REGISTRY] (is_configuration_registry ctx) l) (\<lambda>(l, configuration_bump).
     and_then (init_pda rt authority (DISCRIMINATOR_SIZE + PROGRAM_STATE_INIT_SPACE)
       [PROGRAM_STATE] (is_program_state ctx) l) (\<lambda>(l, state_bump).
     and_then (init_pda rt authority (DISCRIMINATOR_SIZE + DENY_LIST_INIT_SPACE)
       [DENY_LIST_REGISTRY] (is_deny_list_registry ctx) l) (\<lambda>(l, deny_list_bump).
     and_then (check_zero l [info_key (is_configuration_registry ctx),
         info_key (is_program_state ctx), info_key (is_deny_list_registry ctx)]
       (is_fills_registry ctx)) (\<lambda>_.
     and_then (check_canonical_seeds rt [WITHDRAW_AUTHORITY] (is_withdraw_authority ctx)) (\<lambda>withdraw_bump.
     and_then (check_upgrade_authority rt l (is_program ctx) (is_program_data ctx)
       upgrade_authority authority) (\<lambda>_.
     and_then (check_mut (is_authority ctx)) (\<lambda>_.
     Inr (l, \<lparr>bumps_configuration_registry = configuration_bump,
              bumps_program_state = state_bump,
              bumps_deny_list_registry = deny_list_bump,
              bumps_withdraw_authority = withdraw_bump\<rparr>)))))))))))))"

section \<open>The handler\<close>

text \<open>\<open>load_init\<close>: the space must hold the structure; the account then reads as all zero.\<close>

definition load_init :: "ledger \<Rightarrow> account_info \<Rightarrow> FillsRegistry result" where
  "load_init l a =
     (case data (account_of l a) of
        Zeroed n \<Rightarrow> if DISCRIMINATOR_SIZE + FILLS_REGISTRY_SIZE \<le> n then Inr zero_fills_registry
                    else Inl (Panicked IndexOutOfBounds)
      | _ \<Rightarrow> Inl (Anchor AccountDiscriminatorAlreadySet))"

definition process_initialize_system ::
    "error + clock \<Rightarrow> FillsRegistry result \<Rightarrow> pubkey \<Rightarrow> pubkey \<Rightarrow>
     pubkey \<Rightarrow> u64 \<Rightarrow> i64 \<Rightarrow> u64 \<Rightarrow> u64 \<Rightarrow> u64 \<Rightarrow> InitializeSystemBumps \<Rightarrow>
     ConfigurationRegistry \<Rightarrow> ProgramStateAccount \<Rightarrow>
     (ConfigurationRegistry \<times> ProgramStateAccount \<times> FillsRegistry) handler" where
  "process_initialize_system clk loaded fills_key authority oracle sol_qty max_age coeff
       max_rate min_rate bumps cfg ps =
     try_tx loaded (\<lambda>fills_registry.
     let ps = ps\<lparr>fills_registry_address := fills_key\<rparr>;
         ps = ps\<lparr>admin := authority\<rparr>;
         ps = ps\<lparr>deny_list_authority := authority\<rparr> in
     try_tx clk (\<lambda>c.
     let ps = ps\<lparr>last_trade_slot := slot c\<rparr> in
     try_tx (require_or (max_rate \<le> 10000) (DoubleZero InvalidMaxDiscountRate)) (\<lambda>_.
     try_tx (require_or (coeff \<le> 100000000) (DoubleZero InvalidCoefficient)) (\<lambda>_.
     try_tx (require_or (min_rate < max_rate) (DoubleZero InvalidMinDiscountRate)) (\<lambda>_.
     try_tx (require_or (0 < sint max_age) (DoubleZero InvalidPriceMaximumAge)) (\<lambda>_.
     let cfg = cfg\<lparr>oracle_pubkey := oracle, sol_quantity := sol_qty,
           price_maximum_age := max_age, coefficient := coeff,
           max_discount_rate := max_rate, min_discount_rate := min_rate\<rparr>;
         ps = ps\<lparr>bump_registry :=
           \<lparr>configuration_registry_bump = bumps_configuration_registry bumps,
            program_state_bump = bumps_program_state bumps,
            deny_list_registry_bump = bumps_deny_list_registry bumps,
            withdraw_authority_bump = bumps_withdraw_authority bumps\<rparr>\<rparr> in
     emit SystemInitialized (ok (cfg, ps, fills_registry))))))))"

section \<open>The instruction\<close>

definition initialize_system ::
    "'d runtime \<Rightarrow> ledger \<Rightarrow> InitializeSystem \<Rightarrow> pubkey \<Rightarrow> u64 \<Rightarrow> i64 \<Rightarrow> u64 \<Rightarrow> u64 \<Rightarrow> u64 \<Rightarrow>
     (ledger \<times> u8 list) handler" where
  "initialize_system rt l ctx oracle sol_qty max_age coeff max_rate min_rate =
     try_tx (validate_InitializeSystem rt l ctx) (\<lambda>(l, bumps).
     map_tx (\<lambda>(cfg, ps, r).
         (set_data (info_key (is_deny_list_registry ctx)) (DenyListData zero_deny_list)
            (set_data (info_key (is_program_state ctx)) (ProgramStateData ps)
               (set_data (info_key (is_configuration_registry ctx)) (ConfigurationData cfg)
                  (set_data (info_key (is_fills_registry ctx)) (FillsData r) l))), []))
       (process_initialize_system (Inr (clock_sysvar l)) (load_init l (is_fills_registry ctx))
          (info_key (is_fills_registry ctx)) (info_key (is_authority ctx))
          oracle sol_qty max_age coeff max_rate min_rate bumps
          zero_configuration zero_program_state))"

section \<open>What an accepted initialisation did\<close>

lemma check_canonical_seeds_Inr_iff [load_simps]:
  "check_canonical_seeds rt seeds a = Inr b \<longleftrightarrow>
     find_program_address rt seeds ID = (info_key a, b)"
  by (auto simp: check_canonical_seeds_def split: prod.splits)

lemma init_pda_Inr_iff [load_simps]:
  "init_pda rt payer n seeds a l = Inr (l', b) \<longleftrightarrow>
     find_program_address rt seeds ID = (info_key a, b) \<and>
     init_account rt payer (info_key a) n (seeds @ [[b]]) l = Inr l' \<and> is_writable a"
  by (auto simp: init_pda_def tx_simps load_simps)

lemma check_zero_Inr_iff [load_simps]:
  "check_zero l created a = Inr u \<longleftrightarrow>
     (\<exists>n. data (account_of l a) = Zeroed n \<and> DISCRIMINATOR_SIZE \<le> n) \<and>
     info_key a \<notin> set created \<and> owner (account_of l a) = ID \<and> is_writable a"
  by (auto simp: check_zero_def tx_simps load_simps split: acct_data.splits)

lemma process_initialize_system_Inr_iff [tx_simps]:
  "process_initialize_system (Inr c) loaded fills_key authority oracle sol_qty max_age coeff
       max_rate min_rate bumps cfg ps = (es, Inr (cfg', ps', r)) \<longleftrightarrow>
     loaded = Inr r \<and> valid_configuration cfg' \<and> es = [SystemInitialized] \<and>
     cfg' = \<lparr>oracle_pubkey = oracle, sol_quantity = sol_qty, price_maximum_age = max_age,
       fills_consumer = fills_consumer cfg, coefficient = coeff, max_discount_rate = max_rate,
       min_discount_rate = min_rate\<rparr> \<and>
     ps' = \<lparr>admin = authority, fills_registry_address = fills_key, is_halted = is_halted ps,
       bump_registry = \<lparr>configuration_registry_bump = bumps_configuration_registry bumps,
            program_state_bump = bumps_program_state bumps,
            deny_list_registry_bump = bumps_deny_list_registry bumps,
            withdraw_authority_bump = bumps_withdraw_authority bumps\<rparr>,
       last_trade_slot = slot c, deny_list_authority = authority\<rparr>"
  by (cases cfg; cases ps)
    (auto simp: process_initialize_system_def Let_def tx_simps valid_configuration_def
      word_le_nat_alt word_less_nat_alt)

end
