(* ===== verification/Buy_Sol.thy ===== *)
theory Buy_Sol
  imports Ledger
begin

text \<open>
  The user's instructions \<open>get_conversion_rate\<close> (\<open>calculate_ask_price.rs\<close>) and \<open>buy_sol\<close>
  (\<open>buy_sol.rs\<close>), and the integration contract's \<open>dequeue_fills\<close>.  \<open>buy_sol\<close> makes two
  cross-program calls, the token transfer and the SOL withdrawal, on the ledger the first leaves
  to the second; the fills registry is opened after them and the program state, read before
  them, is written back at exit.
\<close>

section \<open>The ask price\<close>

text \<open>\<open>calculate_conversion_rate(..).ok_or(AskPriceCalculationError)?\<close>, as both instructions call it.\<close>

definition ask_price ::
    "'d runtime \<Rightarrow> ConfigurationRegistry \<Rightarrow> ProgramStateAccount \<Rightarrow> clock \<Rightarrow> OraclePriceData \<Rightarrow> u64 result" where
  "ask_price rt cfg ps c oracle_price_data =
     and_then (calculate_conversion_rate (decimals rt) oracle_price_data (coefficient cfg)
       (max_discount_rate cfg) (min_discount_rate cfg) (last_trade_slot ps) (slot c)) (\<lambda>rate.
     ok_or rate (DoubleZero AskPriceCalculationError))"

record CalculateAskPrice =
  ca_signer :: account_info
  ca_program_state :: account_info
  ca_configuration_registry :: account_info

definition validate_CalculateAskPrice ::
    "'d runtime \<Rightarrow> ledger \<Rightarrow> CalculateAskPrice \<Rightarrow>
     (ProgramStateAccount \<times> ConfigurationRegistry) result" where
  "validate_CalculateAskPrice rt l ctx =
     and_then (check_signer (ca_signer ctx)) (\<lambda>_.
     and_then (load_program_state l (ca_program_state ctx)) (\<lambda>ps.
     and_then (load_configuration l (ca_configuration_registry ctx)) (\<lambda>cfg.
     and_then (check_seeds rt [PROGRAM_STATE] (program_state_bump (bump_registry ps))
       (ca_program_state ctx)) (\<lambda>_.
     and_then (check_seeds rt [CONFIGURATION_REGISTRY]
       (configuration_registry_bump (bump_registry ps)) (ca_configuration_registry ctx)) (\<lambda>_.
     Inr (ps, cfg))))))"

definition process_get_conversion_rate ::
    "'d runtime \<Rightarrow> error + clock \<Rightarrow> ConfigurationRegistry \<Rightarrow> ProgramStateAccount \<Rightarrow>
     OraclePriceData \<Rightarrow> u64 result" where
  "process_get_conversion_rate rt clk cfg ps oracle_price_data =
     and_then (verify_attestation (crypto_ops rt) clk oracle_price_data (oracle_pubkey cfg)
       (price_maximum_age cfg)) (\<lambda>_.
     and_then clk (\<lambda>c. ask_price rt cfg ps c oracle_price_data))"

definition get_conversion_rate ::
    "'d runtime \<Rightarrow> ledger \<Rightarrow> CalculateAskPrice \<Rightarrow> OraclePriceData \<Rightarrow> (ledger \<times> u8 list) handler" where
  "get_conversion_rate rt l ctx oracle_price_data =
     try_tx (validate_CalculateAskPrice rt l ctx) (\<lambda>(ps, cfg).
     try_tx (process_get_conversion_rate rt (Inr (clock_sysvar l)) cfg ps oracle_price_data) (\<lambda>rate.
     ok (l, to_le_bytes rate)))"

section \<open>The accounts of a purchase\<close>

record BuySol =
  bs_configuration_registry :: account_info
  bs_program_state :: account_info
  bs_deny_list_registry :: account_info
  bs_fills_registry :: account_info
  bs_withdraw_sol_authority :: account_info
  bs_user_token_account :: account_info
  bs_protocol_treasury_token_account :: account_info
  bs_double_zero_mint :: account_info
  bs_program_config :: account_info
  bs_journal :: account_info
  bs_token_program :: account_info
  bs_revenue_distribution_program :: account_info
  bs_signer :: account_info

text \<open>
  \<open>InterfaceAccount<TokenAccount>\<close> and \<open>InterfaceAccount<Mint>\<close>: owned by one of the token
  programs, with data that unpacks.
\<close>

definition as_token_account :: "acct_data \<Rightarrow> (pubkey \<times> pubkey) option" where
  "as_token_account d = (case d of TokenData mint own amount \<Rightarrow> Some (mint, own) | _ \<Rightarrow> None)"

definition as_mint :: "acct_data \<Rightarrow> u8 option" where
  "as_mint d = (case d of MintData dec \<Rightarrow> Some dec | _ \<Rightarrow> None)"

definition load_interface_account ::
    "'d runtime \<Rightarrow> (acct_data \<Rightarrow> 'a option) \<Rightarrow> ledger \<Rightarrow> account_info \<Rightarrow> 'a result" where
  "load_interface_account rt unwrap l a =
     (let acc = account_of l a in
      if owner acc = SYSTEM_PROGRAM_ID \<and> lamports acc = 0 then Inl (Anchor AccountNotInitialized)
      else if \<not> contains (token_program_ids rt) (owner acc)
      then Inl (Anchor AccountOwnedByWrongProgram)
      else ok_or (unwrap (data acc)) (Program InvalidAccountData))"

definition validate_BuySol ::
    "'d runtime \<Rightarrow> ledger \<Rightarrow> BuySol \<Rightarrow>
     (ConfigurationRegistry \<times> ProgramStateAccount \<times> DenyListRegistry) result" where
  "validate_BuySol rt l ctx =
     and_then (load_configuration l (bs_configuration_registry ctx)) (\<lambda>cfg.
     and_then (load_program_state l (bs_program_state ctx)) (\<lambda>ps.
     and_then (load_deny_list l (bs_deny_list_registry ctx)) (\<lambda>dl.
     and_then (load_fills l (bs_fills_registry ctx)) (\<lambda>_.
     and_then (check_system_account l (bs_withdraw_sol_authority ctx)) (\<lambda>_.
     and_then (load_interface_account rt as_token_account l (bs_user_token_account ctx))
       (\<lambda>(user_mint, user_owner).
     and_then (load_interface_account rt as_token_account l (bs_protocol_treasury_token_account ctx))
       (\<lambda>(treasury_mint, treasury_owner).
     and_then (load_interface_account rt as_mint l (bs_double_zero_mint ctx)) (\<lambda>_.
     and_then (check_program l (token_program_ids rt) (bs_token_program ctx)) (\<lambda>_.
     and_then (check_signer (bs_signer ctx)) (\<lambda>signer.
     and_then (check_seeds rt [CONFIGURATION_REGISTRY]
       (configuration_registry_bump (bump_registry ps)) (bs_configuration_registry ctx)) (\<lambda>_.
     and_then (check_seeds rt [PROGRAM_STATE] (program_state_bump (bump_registry ps))
       (bs_program_state ctx)) (\<lambda>_.
     and_then (check_mut (bs_program_state ctx)) (\<lambda>_.
     and_then (check_seeds rt [DENY_LIST_REGISTRY] (deny_list_registry_bump (bump_registry ps))
       (bs_deny_list_registry ctx)) (\<lambda>_.
     and_then (check_mut (bs_fills_registry ctx)) (\<lambda>_.
     and_then (check_address (bs_fills_registry ctx) (fills_registry_address ps)) (\<lambda>_.
     and_then (check_seeds rt [WITHDRAW_AUTHORITY] (withdraw_authority_bump (bump_registry ps))
       (bs_withdraw_sol_authority ctx)) (\<lambda>_.
     and_then (check_mut (bs_user_token_account ctx)) (\<lambda>_.
     and_then (require_or (user_owner = signer) (Anchor ConstraintRaw)) (\<lambda>_.
     and_then (require_or (user_mint = info_key (bs_double_zero_mint ctx))
       (Anchor ConstraintTokenMint)) (\<lambda>_.
     and_then (check_mut (bs_protocol_treasury_token_account ctx)) (\<lambda>_.
     and_then (require_or (treasury_mint = info_key (bs_double_zero_mint ctx))
       (Anchor ConstraintTokenMint)) (\<lambda>_.
     and_then (check_mut (bs_journal ctx)) (\<lambda>_.
     and_then (check_address (bs_revenue_distribution_program ctx)
       REVENUE_DISTRIBUTION_PROGRAM_ID) (\<lambda>_.
     and_then (check_mut (bs_signer ctx)) (\<lambda>_.
     Inr (cfg, ps, dl))))))))))))))))))))))))))"

section \<open>The purchase\<close>

text \<open>\<open>sol_quantity * ask_price / LAMPORTS_PER_SOL\<close> in 128 bits, back to 64.\<close>

definition tokens_required :: "u64 \<Rightarrow> u64 \<Rightarrow> u64 result" where
  "tokens_required sol ask =
     and_then (ok_or (checked_mul (ucast sol :: u128) (ucast ask))
       (DoubleZero ArithmeticError)) (\<lambda>p.
     ok_or (try_into_u64 (p div ucast LAMPORTS_PER_SOL)) (DoubleZero ArithmeticError))"

text \<open>The first 8 bytes of the hash of \<open>dz::ix::withdraw_sol\<close>, as the source writes them.\<close>

definition WITHDRAW_SOL_SELECTOR :: "u8 list" where
  "WITHDRAW_SOL_SELECTOR = [122, 132, 40, 170, 61, 93, 253, 179]"

definition withdraw_sol_instruction :: "BuySol \<Rightarrow> u64 \<Rightarrow> Instruction" where
  "withdraw_sol_instruction ctx sol =
     \<lparr>ix_program_id = info_key (bs_revenue_distribution_program ctx),
      ix_accounts =
        [\<lparr>meta_pubkey = info_key (bs_program_config ctx), meta_is_signer = False, meta_is_writable = False\<rparr>,
         \<lparr>meta_pubkey = info_key (bs_withdraw_sol_authority ctx), meta_is_signer = True,
          meta_is_writable = False\<rparr>,
         \<lparr>meta_pubkey = info_key (bs_journal ctx), meta_is_signer = False, meta_is_writable = True\<rparr>,
         \<lparr>meta_pubkey = info_key (bs_signer ctx), meta_is_signer = False, meta_is_writable = True\<rparr>],
      ix_data = WITHDRAW_SOL_SELECTOR @ to_le_bytes sol\<rparr>"

text \<open>The two calls, in order: tokens from the buyer, then SOL to the buyer.\<close>

definition transfer_tokens :: "'d runtime \<Rightarrow> BuySol \<Rightarrow> u64 \<Rightarrow> ledger \<Rightarrow> ledger result" where
  "transfer_tokens rt ctx amount =
     transfer_checked rt (info_key (bs_token_program ctx))
       \<lparr>tc_mint = info_key (bs_double_zero_mint ctx), tc_from = info_key (bs_user_token_account ctx),
        tc_to = info_key (bs_protocol_treasury_token_account ctx),
        tc_authority = info_key (bs_signer ctx)\<rparr>
       amount TOKEN_DECIMALS"

definition withdraw_sol :: "'d runtime \<Rightarrow> BuySol \<Rightarrow> ProgramStateAccount \<Rightarrow> u64 \<Rightarrow> ledger \<Rightarrow> ledger result" where
  "withdraw_sol rt ctx ps sol =
     invoke_signed rt (withdraw_sol_instruction ctx sol)
       [bs_program_config ctx, bs_withdraw_sol_authority ctx, bs_journal ctx, bs_signer ctx]
       [[WITHDRAW_AUTHORITY, [withdraw_authority_bump (bump_registry ps)]]]"

text \<open>Lines 87 to 237: the new program state and the ledger after the calls.\<close>

definition process_buy_sol ::
    "'d runtime \<Rightarrow> ledger \<Rightarrow> BuySol \<Rightarrow> ConfigurationRegistry \<Rightarrow> ProgramStateAccount \<Rightarrow>
     DenyListRegistry \<Rightarrow> u64 \<Rightarrow> OraclePriceData \<Rightarrow> (ProgramStateAccount \<times> ledger) handler" where
  "process_buy_sol rt l ctx cfg ps dl bid_price oracle_price_data =
     (let signer = info_key (bs_signer ctx); c = clock_sysvar l; sol = sol_quantity cfg in
      if is_halted ps then fail (DoubleZero SystemIsHalted)
      else if contains (denied_addresses dl) signer then fail (DoubleZero UserInsideDenyList)
      else if \<not> last_trade_slot ps < slot c then fail (DoubleZero SingleTradePerSlot)
      else
        try_tx (verify_attestation (crypto_ops rt) (Inr c) oracle_price_data (oracle_pubkey cfg)
          (price_maximum_age cfg)) (\<lambda>_.
        try_tx (ask_price rt cfg ps c oracle_price_data) (\<lambda>ask.
        if bid_price < ask then
          emit (BidTooLowEvent sol bid_price ask (unix_timestamp c) signer (epoch c))
            (fail (DoubleZero BidTooLow))
        else
          try_tx (tokens_required sol ask) (\<lambda>tokens.
          try_tx (transfer_tokens rt ctx tokens l) (\<lambda>l.
          try_tx (withdraw_sol rt ctx ps sol l) (\<lambda>l.
          try_tx (load_mut l (bs_fills_registry ctx)) (\<lambda>r.
          try_tx (enqueue_fill sol tokens r) (\<lambda>r.
          let l = set_data (info_key (bs_fills_registry ctx)) (FillsData r) l;
              ps = ps\<lparr>last_trade_slot := slot c\<rparr> in
          emit (TradeEvent sol tokens bid_price (unix_timestamp c) signer (epoch c))
            (ok (ps, l))))))))))"

definition buy_sol ::
    "'d runtime \<Rightarrow> ledger \<Rightarrow> BuySol \<Rightarrow> u64 \<Rightarrow> OraclePriceData \<Rightarrow> (ledger \<times> u8 list) handler" where
  "buy_sol rt l ctx bid_price oracle_price_data =
     try_tx (validate_BuySol rt l ctx) (\<lambda>(cfg, ps, dl).
     map_tx (\<lambda>(ps, l). (set_data (info_key (bs_program_state ctx)) (ProgramStateData ps) l, []))
       (process_buy_sol rt l ctx cfg ps dl bid_price oracle_price_data))"

section \<open>Dequeuing fills\<close>

record DequeueFills =
  df_configuration_registry :: account_info
  df_program_state :: account_info
  df_fills_registry :: account_info
  df_signer :: account_info

definition validate_DequeueFills ::
    "'d runtime \<Rightarrow> ledger \<Rightarrow> DequeueFills \<Rightarrow>
     (pubkey \<times> ConfigurationRegistry \<times> FillsRegistry) result" where
  "validate_DequeueFills rt l ctx =
     and_then (load_configuration l (df_configuration_registry ctx)) (\<lambda>cfg.
     and_then (load_program_state l (df_program_state ctx)) (\<lambda>ps.
     and_then (load_fills l (df_fills_registry ctx)) (\<lambda>r.
     and_then (check_signer (df_signer ctx)) (\<lambda>signer.
     and_then (check_seeds rt [CONFIGURATION_REGISTRY]
       (configuration_registry_bump (bump_registry ps)) (df_configuration_registry ctx)) (\<lambda>_.
     and_then (check_seeds rt [PROGRAM_STATE] (program_state_bump (bump_registry ps))
       (df_program_state ctx)) (\<lambda>_.
     and_then (check_mut (df_fills_registry ctx)) (\<lambda>_.
     and_then (check_address (df_fills_registry ctx) (fills_registry_address ps)) (\<lambda>_.
     Inr (signer, cfg, r)))))))))"

text \<open>The return data of \<open>dequeue_fills\<close>: the three amounts of \<open>DequeueFillsResult\<close>.\<close>

definition encode_DequeueFillsResult :: "DequeueFillsResult \<Rightarrow> u8 list" where
  "encode_DequeueFillsResult d =
     to_le_bytes (sol_dequeued d) @ to_le_bytes (token_2z_dequeued d) @ to_le_bytes (fills_consumed d)"

definition dequeue_fills ::
    "'d runtime \<Rightarrow> ledger \<Rightarrow> DequeueFills \<Rightarrow> u64 \<Rightarrow> (ledger \<times> u8 list) handler" where
  "dequeue_fills rt l ctx max_sol_amount =
     try_tx (validate_DequeueFills rt l ctx) (\<lambda>(signer, cfg, r).
     map_tx (\<lambda>(r, d). (set_data (info_key (df_fills_registry ctx)) (FillsData r) l,
         encode_DequeueFillsResult d))
       (process_dequeue_fills (Inr (clock_sysvar l)) signer cfg r max_sol_amount))"

section \<open>When they succeed\<close>

lemma validate_CalculateAskPrice_Inr_iff [load_simps]:
  "validate_CalculateAskPrice rt l ctx = Inr (ps, cfg) \<longleftrightarrow>
     is_signer (ca_signer ctx) \<and>
     owner (account_of l (ca_program_state ctx)) = ID \<and>
     data (account_of l (ca_program_state ctx)) = ProgramStateData ps \<and>
     owner (account_of l (ca_configuration_registry ctx)) = ID \<and>
     data (account_of l (ca_configuration_registry ctx)) = ConfigurationData cfg \<and>
     create_program_address rt [PROGRAM_STATE, [program_state_bump (bump_registry ps)]] ID =
       Some (info_key (ca_program_state ctx)) \<and>
     create_program_address rt
       [CONFIGURATION_REGISTRY, [configuration_registry_bump (bump_registry ps)]] ID =
       Some (info_key (ca_configuration_registry ctx))"
  by (auto simp: validate_CalculateAskPrice_def tx_simps load_simps)

lemma validate_DequeueFills_Inr_iff [load_simps]:
  "validate_DequeueFills rt l ctx = Inr (signer, cfg, r) \<longleftrightarrow>
     (\<exists>ps. is_signer (df_signer ctx) \<and> signer = info_key (df_signer ctx) \<and>
     owner (account_of l (df_program_state ctx)) = ID \<and>
     data (account_of l (df_program_state ctx)) = ProgramStateData ps \<and>
     owner (account_of l (df_configuration_registry ctx)) = ID \<and>
     data (account_of l (df_configuration_registry ctx)) = ConfigurationData cfg \<and>
     owner (account_of l (df_fills_registry ctx)) = ID \<and>
     data (account_of l (df_fills_registry ctx)) = FillsData r \<and>
     create_program_address rt
       [CONFIGURATION_REGISTRY, [configuration_registry_bump (bump_registry ps)]] ID =
       Some (info_key (df_configuration_registry ctx)) \<and>
     create_program_address rt [PROGRAM_STATE, [program_state_bump (bump_registry ps)]] ID =
       Some (info_key (df_program_state ctx)) \<and>
     is_writable (df_fills_registry ctx) \<and>
     info_key (df_fills_registry ctx) = fills_registry_address ps)"
  by (auto simp: validate_DequeueFills_def tx_simps load_simps)

lemma load_interface_account_Inr_iff [load_simps]:
  "load_interface_account rt unwrap l a = Inr v \<longleftrightarrow>
     \<not> (owner (account_of l a) = SYSTEM_PROGRAM_ID \<and> lamports (account_of l a) = 0) \<and>
     owner (account_of l a) \<in> set (token_program_ids rt) \<and> unwrap (data (account_of l a)) = Some v"
  by (auto simp: load_interface_account_def Let_def tx_simps)

lemma validate_BuySol_Inr:
  assumes "validate_BuySol rt l ctx = Inr (cfg, ps, dl)"
  shows "owner (account_of l (bs_configuration_registry ctx)) = ID"
    "data (account_of l (bs_configuration_registry ctx)) = ConfigurationData cfg"
    "owner (account_of l (bs_program_state ctx)) = ID"
    "data (account_of l (bs_program_state ctx)) = ProgramStateData ps"
    "owner (account_of l (bs_deny_list_registry ctx)) = ID"
    "data (account_of l (bs_deny_list_registry ctx)) = DenyListData dl"
    "owner (account_of l (bs_fills_registry ctx)) = ID"
    "\<exists>r. data (account_of l (bs_fills_registry ctx)) = FillsData r"
    "info_key (bs_fills_registry ctx) = fills_registry_address ps"
    "is_signer (bs_signer ctx)"
    "info_key (bs_revenue_distribution_program ctx) = REVENUE_DISTRIBUTION_PROGRAM_ID"
    "create_program_address rt
       [CONFIGURATION_REGISTRY, [configuration_registry_bump (bump_registry ps)]] ID =
       Some (info_key (bs_configuration_registry ctx))"
    "create_program_address rt [PROGRAM_STATE, [program_state_bump (bump_registry ps)]] ID =
       Some (info_key (bs_program_state ctx))"
    "create_program_address rt
       [DENY_LIST_REGISTRY, [deny_list_registry_bump (bump_registry ps)]] ID =
       Some (info_key (bs_deny_list_registry ctx))"
    "create_program_address rt
       [WITHDRAW_AUTHORITY, [withdraw_authority_bump (bump_registry ps)]] ID =
       Some (info_key (bs_withdraw_sol_authority ctx))"
    "\<exists>amount. data (account_of l (bs_user_token_account ctx)) =
       TokenData (info_key (bs_double_zero_mint ctx)) (info_key (bs_signer ctx)) amount"
  using assms
  by (auto simp: validate_BuySol_def tx_simps load_simps as_token_account_def
      split: acct_data.splits)

lemma tokens_required_eq:
  "tokens_required q a =
     (if unat q * unat a div 1000000000 < 2 ^ 64
      then Inr (word_of_nat (unat q * unat a div 1000000000))
      else Inl (DoubleZero ArithmeticError))"
proof -
  obtain p where p: "checked_mul (ucast q :: u128) (ucast a) = Some p" "unat p = unat q * unat a"
    using checked_mul_u64_in_u128 by blast
  have d: "unat (p div ucast LAMPORTS_PER_SOL) = unat q * unat a div 1000000000"
    by (simp add: unat_div_distrib p num_simps)
  have "unat (ucast (p div ucast LAMPORTS_PER_SOL) :: u64) = unat q * unat a div 1000000000"
    if "unat q * unat a div 1000000000 < 2 ^ 64"
    using that try_into_u64_Some_iff [of "p div ucast LAMPORTS_PER_SOL"
        "ucast (p div ucast LAMPORTS_PER_SOL)"]
    by (simp add: try_into_u64_def d)
  then have "(ucast (p div ucast LAMPORTS_PER_SOL) :: u64) =
      word_of_nat (unat q * unat a div 1000000000)"
    if "unat q * unat a div 1000000000 < 2 ^ 64"
    using that by (simp add: word_unat_eq_iff unsigned_of_nat take_bit_nat_eq_self)
  then show ?thesis
    using d by (auto simp: tokens_required_def p try_into_u64_def)
qed

lemma tokens_required_Inr_iff:
  "tokens_required q a = Inr t \<longleftrightarrow> unat t = unat q * unat a div 1000000000"
  using u64_bound [of t]
  by (auto simp: tokens_required_eq unsigned_of_nat take_bit_nat_eq_self word_unat_eq_iff)

end
