(* ===== verification/Converter_Program.thy ===== *)
theory Converter_Program
  imports Admin_Instructions Init_System Buy_Sol
begin

text \<open>
  The program as a whole (\<open>lib.rs\<close>): the dispatch of its eleven instructions on a ledger, the
  four accounts seen as one state \<open>system\<close>, and the abstract transitions \<open>system_step\<close> on it.
  \<open>holds\<close> relates a ledger to the system it stores; every accepted instruction on a ledger is a
  \<open>system_step\<close>, whatever accounts the transaction passed.
\<close>

section \<open>Dispatch\<close>

datatype instruction =
    InitializeSystemIx InitializeSystem pubkey u64 i64 u64 u64 u64
  | UpdateConfigurationRegistryIx ConfigurationRegistryUpdate ConfigurationRegistryInput
  | SetFillsConsumerIx SetFillsConsumer pubkey
  | AddToDenyListIx UpdateDenyList pubkey
  | RemoveFromDenyListIx UpdateDenyList pubkey
  | SetAdminIx SetAdmin pubkey
  | SetDenyListAuthorityIx SetDenyListAuthority pubkey
  | ToggleSystemStateIx SystemState bool
  | BuySolIx BuySol u64 OraclePriceData
  | GetConversionRateIx CalculateAskPrice OraclePriceData
  | DequeueFillsIx DequeueFills u64

fun execute :: "'d runtime \<Rightarrow> ledger \<Rightarrow> instruction \<Rightarrow> outcome" where
  "execute rt l (InitializeSystemIx ctx oracle q age k mx mn) =
     initialize_system rt l ctx oracle q age k mx mn"
| "execute rt l (UpdateConfigurationRegistryIx ctx input) =
     update_configuration_registry rt l ctx input"
| "execute rt l (SetFillsConsumerIx ctx new_consumer) = set_fills_consumer rt l ctx new_consumer"
| "execute rt l (AddToDenyListIx ctx address) = ix_add_to_deny_list rt l ctx address"
| "execute rt l (RemoveFromDenyListIx ctx address) = ix_remove_from_deny_list rt l ctx address"
| "execute rt l (SetAdminIx ctx new_admin) = set_admin rt l ctx new_admin"
| "execute rt l (SetDenyListAuthorityIx ctx new_authority) =
     set_deny_list_authority rt l ctx new_authority"
| "execute rt l (ToggleSystemStateIx ctx set_to) = toggle_system_state rt l ctx set_to"
| "execute rt l (BuySolIx ctx bid_price oracle_price_data) =
     buy_sol rt l ctx bid_price oracle_price_data"
| "execute rt l (GetConversionRateIx ctx oracle_price_data) =
     get_conversion_rate rt l ctx oracle_price_data"
| "execute rt l (DequeueFillsIx ctx max_sol_amount) = dequeue_fills rt l ctx max_sol_amount"

section \<open>The system a ledger stores\<close>

record system =
  sys_configuration :: ConfigurationRegistry
  sys_state :: ProgramStateAccount
  sys_deny_list :: DenyListRegistry
  sys_fills :: FillsRegistry

definition configuration_key :: "'d runtime \<Rightarrow> pubkey" where
  "configuration_key rt = fst (find_program_address rt [CONFIGURATION_REGISTRY] ID)"

definition state_key :: "'d runtime \<Rightarrow> pubkey" where
  "state_key rt = fst (find_program_address rt [PROGRAM_STATE] ID)"

definition deny_list_key :: "'d runtime \<Rightarrow> pubkey" where
  "deny_list_key rt = fst (find_program_address rt [DENY_LIST_REGISTRY] ID)"

definition canonical_bumps :: "'d runtime \<Rightarrow> BumpRegistry \<Rightarrow> bool" where
  "canonical_bumps rt b \<longleftrightarrow>
     snd (find_program_address rt [CONFIGURATION_REGISTRY] ID) = configuration_registry_bump b \<and>
     snd (find_program_address rt [PROGRAM_STATE] ID) = program_state_bump b \<and>
     snd (find_program_address rt [DENY_LIST_REGISTRY] ID) = deny_list_registry_bump b \<and>
     snd (find_program_address rt [WITHDRAW_AUTHORITY] ID) = withdraw_authority_bump b"

definition stored :: "ledger \<Rightarrow> pubkey \<Rightarrow> acct_data \<Rightarrow> bool" where
  "stored l k d \<longleftrightarrow> owner (accounts l k) = ID \<and> data (accounts l k) = d"

definition system_keys :: "'d runtime \<Rightarrow> system \<Rightarrow> pubkey set" where
  "system_keys rt s =
     {configuration_key rt, state_key rt, deny_list_key rt, fills_registry_address (sys_state s)}"

text \<open>The four accounts, and nothing but blank space besides.\<close>

definition holds :: "'d runtime \<Rightarrow> ledger \<Rightarrow> system \<Rightarrow> bool" where
  "holds rt l s \<longleftrightarrow>
     stored l (configuration_key rt) (ConfigurationData (sys_configuration s)) \<and>
     stored l (state_key rt) (ProgramStateData (sys_state s)) \<and>
     stored l (deny_list_key rt) (DenyListData (sys_deny_list s)) \<and>
     stored l (fills_registry_address (sys_state s)) (FillsData (sys_fills s)) \<and>
     canonical_bumps rt (bump_registry (sys_state s)) \<and>
     (\<forall>k. owner (accounts l k) = ID \<and> k \<notin> system_keys rt s \<longrightarrow> blank (data (accounts l k)))"

definition uninitialised :: "ledger \<Rightarrow> bool" where
  "uninitialised l \<longleftrightarrow> (\<forall>k. owner (accounts l k) = ID \<longrightarrow> blank (data (accounts l k)))"

text \<open>The invariant of the stored system.\<close>

definition valid_system :: "system \<Rightarrow> bool" where
  "valid_system s \<longleftrightarrow> valid_configuration (sys_configuration s) \<and>
     valid_deny_list (sys_deny_list s) \<and> registry_inv (sys_fills s)"

section \<open>Transitions of the system\<close>

inductive system_step ::
    "'d runtime \<Rightarrow> clock \<Rightarrow> system \<Rightarrow> instruction \<Rightarrow> event list \<Rightarrow> u8 list \<Rightarrow> system \<Rightarrow> bool"
  for rt :: "'d runtime" and c :: clock and s :: system where
  update:
    "is_signer (cu_admin ctx) \<Longrightarrow>
     process_update (info_key (cu_admin ctx)) (sys_state s) (sys_configuration s) input =
       (es, Inr cfg) \<Longrightarrow>
     system_step rt c s (UpdateConfigurationRegistryIx ctx input) es []
       (s\<lparr>sys_configuration := cfg\<rparr>)"
| consumer:
    "is_signer (cu_admin ctx) \<Longrightarrow>
     process_set_fills_consumer (info_key (cu_admin ctx)) (sys_state s) (sys_configuration s) k =
       (es, Inr cfg) \<Longrightarrow>
     system_step rt c s (SetFillsConsumerIx ctx k) es [] (s\<lparr>sys_configuration := cfg\<rparr>)"
| deny:
    "is_signer (dl_admin ctx) \<Longrightarrow>
     add_to_deny_list (Inr c) (info_key (dl_admin ctx)) (sys_state s) (sys_deny_list s) k =
       (es, Inr dl) \<Longrightarrow>
     system_step rt c s (AddToDenyListIx ctx k) es [] (s\<lparr>sys_deny_list := dl\<rparr>)"
| undeny:
    "is_signer (dl_admin ctx) \<Longrightarrow>
     remove_from_deny_list (Inr c) (info_key (dl_admin ctx)) (sys_state s) (sys_deny_list s) k =
       (es, Inr dl) \<Longrightarrow>
     system_step rt c s (RemoveFromDenyListIx ctx k) es [] (s\<lparr>sys_deny_list := dl\<rparr>)"
| set_admin:
    "is_signer (sa_admin ctx) \<Longrightarrow>
     process_set_admin (info_key (sa_admin ctx)) (sys_state s) k = (es, Inr ps) \<Longrightarrow>
     system_step rt c s (SetAdminIx ctx k) es [] (s\<lparr>sys_state := ps\<rparr>)"
| set_authority:
    "is_signer (sa_admin ctx) \<Longrightarrow>
     process_set_deny_list_authority (info_key (sa_admin ctx)) (sys_state s) k = (es, Inr ps) \<Longrightarrow>
     system_step rt c s (SetDenyListAuthorityIx ctx k) es [] (s\<lparr>sys_state := ps\<rparr>)"
| toggle:
    "is_signer (ss_admin ctx) \<Longrightarrow>
     process_system_state (info_key (ss_admin ctx)) (sys_state s) set_to = (es, Inr ps) \<Longrightarrow>
     system_step rt c s (ToggleSystemStateIx ctx set_to) es [] (s\<lparr>sys_state := ps\<rparr>)"
| buy:
    "is_signer (bs_signer ctx) \<Longrightarrow> \<not> is_halted (sys_state s) \<Longrightarrow>
     info_key (bs_signer ctx) \<notin> set (denied_addresses (sys_deny_list s)) \<Longrightarrow>
     last_trade_slot (sys_state s) < slot c \<Longrightarrow>
     verify_attestation (crypto_ops rt) (Inr c) p (oracle_pubkey (sys_configuration s))
       (price_maximum_age (sys_configuration s)) = Inr () \<Longrightarrow>
     ask_price rt (sys_configuration s) (sys_state s) c p = Inr ask \<Longrightarrow> ask \<le> bid \<Longrightarrow>
     tokens_required (sol_quantity (sys_configuration s)) ask = Inr tokens \<Longrightarrow>
     enqueue_fill (sol_quantity (sys_configuration s)) tokens (sys_fills s) = Inr r \<Longrightarrow>
     system_step rt c s (BuySolIx ctx bid p)
       [TradeEvent (sol_quantity (sys_configuration s)) tokens bid (unix_timestamp c)
          (info_key (bs_signer ctx)) (epoch c)] []
       (s\<lparr>sys_state := (sys_state s)\<lparr>last_trade_slot := slot c\<rparr>, sys_fills := r\<rparr>)"
| quote:
    "process_get_conversion_rate rt (Inr c) (sys_configuration s) (sys_state s) p = Inr rate \<Longrightarrow>
     system_step rt c s (GetConversionRateIx ctx p) [] (to_le_bytes rate) s"
| dequeue:
    "is_signer (df_signer ctx) \<Longrightarrow>
     process_dequeue_fills (Inr c) (info_key (df_signer ctx)) (sys_configuration s) (sys_fills s) m =
       (es, Inr (r, d)) \<Longrightarrow>
     system_step rt c s (DequeueFillsIx ctx m) es (encode_DequeueFillsResult d)
       (s\<lparr>sys_fills := r\<rparr>)"

inductive_cases system_step_update: "system_step rt c s (UpdateConfigurationRegistryIx ctx i) es ret s'"
inductive_cases system_step_consumer: "system_step rt c s (SetFillsConsumerIx ctx k) es ret s'"
inductive_cases system_step_deny: "system_step rt c s (AddToDenyListIx ctx k) es ret s'"
inductive_cases system_step_undeny: "system_step rt c s (RemoveFromDenyListIx ctx k) es ret s'"
inductive_cases system_step_set_admin: "system_step rt c s (SetAdminIx ctx k) es ret s'"
inductive_cases system_step_set_authority:
  "system_step rt c s (SetDenyListAuthorityIx ctx k) es ret s'"
inductive_cases system_step_toggle: "system_step rt c s (ToggleSystemStateIx ctx b) es ret s'"
inductive_cases system_step_buy: "system_step rt c s (BuySolIx ctx bid p) es ret s'"
inductive_cases system_step_quote: "system_step rt c s (GetConversionRateIx ctx p) es ret s'"
inductive_cases system_step_dequeue: "system_step rt c s (DequeueFillsIx ctx m) es ret s'"

section \<open>The stored accounts are the ones a transaction can pass\<close>

lemma holds_unique:
  assumes "holds rt l s" "owner (account_of l a) = ID"
  shows "data (account_of l a) = ConfigurationData cfg \<longleftrightarrow>
      info_key a = configuration_key rt \<and> cfg = sys_configuration s"
    "data (account_of l a) = ProgramStateData ps \<longleftrightarrow> info_key a = state_key rt \<and> ps = sys_state s"
    "data (account_of l a) = DenyListData dl \<longleftrightarrow> info_key a = deny_list_key rt \<and> dl = sys_deny_list s"
    "data (account_of l a) = FillsData r \<longleftrightarrow>
      info_key a = fills_registry_address (sys_state s) \<and> r = sys_fills s"
proof -
  have "info_key a \<in> system_keys rt s \<or> blank (data (account_of l a))"
    using assms by (auto simp: holds_def account_of_def)
  then show "data (account_of l a) = ConfigurationData cfg \<longleftrightarrow>
      info_key a = configuration_key rt \<and> cfg = sys_configuration s"
    "data (account_of l a) = ProgramStateData ps \<longleftrightarrow> info_key a = state_key rt \<and> ps = sys_state s"
    "data (account_of l a) = DenyListData dl \<longleftrightarrow> info_key a = deny_list_key rt \<and> dl = sys_deny_list s"
    "data (account_of l a) = FillsData r \<longleftrightarrow>
      info_key a = fills_registry_address (sys_state s) \<and> r = sys_fills s"
    using assms(1) by (auto simp: holds_def stored_def account_of_def system_keys_def)
qed

lemma holds_keys_distinct:
  assumes "holds rt l s"
  shows "distinct [configuration_key rt, state_key rt, deny_list_key rt,
    fills_registry_address (sys_state s)]"
  using assms by (auto simp: holds_def stored_def)

text \<open>Writing one of the four accounts changes one part of the system.\<close>

lemma stored_set_data:
  "stored (set_data k d l) k' d' \<longleftrightarrow> (if k' = k then owner (accounts l k) = ID \<and> d' = d else stored l k' d')"
  by (auto simp: stored_def set_data_def)

lemma owner_set_data [simp]: "owner (accounts (set_data k d l) k') = owner (accounts l k')"
  by (simp add: set_data_def)

lemma data_set_data [simp]:
  "data (accounts (set_data k d l) k') = (if k' = k then d else data (accounts l k'))"
  by (simp add: set_data_def)

lemma holds_set_data:
  assumes "holds rt l s"
  shows "holds rt (set_data (configuration_key rt) (ConfigurationData cfg) l) (s\<lparr>sys_configuration := cfg\<rparr>)"
    "bump_registry ps = bump_registry (sys_state s) \<Longrightarrow>
     fills_registry_address ps = fills_registry_address (sys_state s) \<Longrightarrow>
     holds rt (set_data (state_key rt) (ProgramStateData ps) l) (s\<lparr>sys_state := ps\<rparr>)"
    "holds rt (set_data (deny_list_key rt) (DenyListData dl) l) (s\<lparr>sys_deny_list := dl\<rparr>)"
    "holds rt (set_data (fills_registry_address (sys_state s)) (FillsData r) l) (s\<lparr>sys_fills := r\<rparr>)"
  using assms holds_keys_distinct [OF assms]
  by (auto simp: holds_def stored_set_data system_keys_def) (auto simp: stored_def)

text \<open>What other programs do leaves the system alone.\<close>

lemma holds_foreign_change: "holds rt l s \<Longrightarrow> foreign_change l l' \<Longrightarrow> holds rt l' s"
  unfolding holds_def stored_def foreign_change_def by metis

lemma foreign_change_refl [simp]: "foreign_change l l"
  by (simp add: foreign_change_def)

lemma foreign_change_trans: "foreign_change l l1 \<Longrightarrow> foreign_change l1 l2 \<Longrightarrow> foreign_change l l2"
  unfolding foreign_change_def by metis

section \<open>Every accepted instruction is a transition of the system\<close>

text \<open>The handlers keep the addresses and bumps of the program state.\<close>

lemma process_keeps_addresses:
  "process_set_admin signer ps k = (es, Inr ps') \<Longrightarrow>
     bump_registry ps' = bump_registry ps \<and> fills_registry_address ps' = fills_registry_address ps"
  "process_set_deny_list_authority signer ps k = (es, Inr ps') \<Longrightarrow>
     bump_registry ps' = bump_registry ps \<and> fills_registry_address ps' = fills_registry_address ps"
  "process_system_state signer ps b = (es, Inr ps') \<Longrightarrow>
     bump_registry ps' = bump_registry ps \<and> fills_registry_address ps' = fills_registry_address ps"
  by (auto simp: tx_simps)

lemma try_tx_pair_Inr_iff:
  "try_tx r (\<lambda>(x, y). f x y) = (es, Inr v) \<longleftrightarrow> (\<exists>x y. r = Inr (x, y) \<and> f x y = (es, Inr v))"
  "try_tx t (\<lambda>(x, y, z). g x y z) = (es, Inr v) \<longleftrightarrow>
     (\<exists>x y z. t = Inr (x, y, z) \<and> g x y z = (es, Inr v))"
  by (auto simp: tx_simps)

lemma refine_update:
  assumes "holds rt l s"
    "execute rt l (UpdateConfigurationRegistryIx ctx input) = (es, Inr (l', ret))"
  shows "\<exists>s'. holds rt l' s' \<and>
     system_step rt (clock_sysvar l) s (UpdateConfigurationRegistryIx ctx input) es ret s'"
proof -
  from assms(2) obtain signer ps cfg cfg' where
    v: "validate_ConfigurationRegistryUpdate rt l ctx = Inr (signer, ps, cfg)" and
    h: "process_update signer ps cfg input = (es, Inr cfg')" and
    l': "l' = set_data (info_key (cu_configuration_registry ctx)) (ConfigurationData cfg') l" "ret = []"
    by (auto simp: update_configuration_registry_def try_tx_pair_Inr_iff load_simps)
  from v have "signer = info_key (cu_admin ctx)" "is_signer (cu_admin ctx)" "ps = sys_state s"
    "cfg = sys_configuration s" "info_key (cu_configuration_registry ctx) = configuration_key rt"
    using holds_unique [OF assms(1)] by (auto simp: load_simps)
  then show ?thesis
    using h l' holds_set_data(1) [OF assms(1), of cfg'] system_step.update by metis
qed

lemma refine_consumer:
  assumes "holds rt l s" "execute rt l (SetFillsConsumerIx ctx k) = (es, Inr (l', ret))"
  shows "\<exists>s'. holds rt l' s' \<and> system_step rt (clock_sysvar l) s (SetFillsConsumerIx ctx k) es ret s'"
proof -
  from assms(2) obtain signer ps cfg cfg' where
    v: "validate_ConfigurationRegistryUpdate rt l ctx = Inr (signer, ps, cfg)" and
    h: "process_set_fills_consumer signer ps cfg k = (es, Inr cfg')" and
    l': "l' = set_data (info_key (cu_configuration_registry ctx)) (ConfigurationData cfg') l" "ret = []"
    by (auto simp: set_fills_consumer_def try_tx_pair_Inr_iff load_simps)
  from v have "signer = info_key (cu_admin ctx)" "is_signer (cu_admin ctx)" "ps = sys_state s"
    "cfg = sys_configuration s" "info_key (cu_configuration_registry ctx) = configuration_key rt"
    using holds_unique [OF assms(1)] by (auto simp: load_simps)
  then show ?thesis
    using h l' holds_set_data(1) [OF assms(1), of cfg'] system_step.consumer by metis
qed

lemma refine_deny:
  assumes "holds rt l s" "execute rt l (AddToDenyListIx ctx k) = (es, Inr (l', ret))"
  shows "\<exists>s'. holds rt l' s' \<and> system_step rt (clock_sysvar l) s (AddToDenyListIx ctx k) es ret s'"
proof -
  from assms(2) obtain signer ps dl dl' where
    v: "validate_UpdateDenyList rt l ctx = Inr (signer, ps, dl)" and
    h: "add_to_deny_list (Inr (clock_sysvar l)) signer ps dl k = (es, Inr dl')" and
    l': "l' = set_data (info_key (dl_deny_list_registry ctx)) (DenyListData dl') l" "ret = []"
    by (auto simp: ix_add_to_deny_list_def try_tx_pair_Inr_iff load_simps)
  from v have "signer = info_key (dl_admin ctx)" "is_signer (dl_admin ctx)" "ps = sys_state s"
    "dl = sys_deny_list s" "info_key (dl_deny_list_registry ctx) = deny_list_key rt"
    using holds_unique [OF assms(1)] by (auto simp: load_simps)
  then show ?thesis
    using h l' holds_set_data(3) [OF assms(1), of dl'] system_step.deny by metis
qed

lemma refine_undeny:
  assumes "holds rt l s" "execute rt l (RemoveFromDenyListIx ctx k) = (es, Inr (l', ret))"
  shows "\<exists>s'. holds rt l' s' \<and> system_step rt (clock_sysvar l) s (RemoveFromDenyListIx ctx k) es ret s'"
proof -
  from assms(2) obtain signer ps dl dl' where
    v: "validate_UpdateDenyList rt l ctx = Inr (signer, ps, dl)" and
    h: "remove_from_deny_list (Inr (clock_sysvar l)) signer ps dl k = (es, Inr dl')" and
    l': "l' = set_data (info_key (dl_deny_list_registry ctx)) (DenyListData dl') l" "ret = []"
    by (auto simp: ix_remove_from_deny_list_def try_tx_pair_Inr_iff load_simps)
  from v have "signer = info_key (dl_admin ctx)" "is_signer (dl_admin ctx)" "ps = sys_state s"
    "dl = sys_deny_list s" "info_key (dl_deny_list_registry ctx) = deny_list_key rt"
    using holds_unique [OF assms(1)] by (auto simp: load_simps)
  then show ?thesis
    using h l' holds_set_data(3) [OF assms(1), of dl'] system_step.undeny by metis
qed

lemma refine_set_admin:
  assumes "holds rt l s" "execute rt l (SetAdminIx ctx k) = (es, Inr (l', ret))"
  shows "\<exists>s'. holds rt l' s' \<and> system_step rt (clock_sysvar l) s (SetAdminIx ctx k) es ret s'"
proof -
  from assms(2) obtain signer ps ps' where
    v: "validate_SetAdmin rt l ctx = Inr (signer, ps)" and
    h: "process_set_admin signer ps k = (es, Inr ps')" and
    l': "l' = set_data (info_key (sa_program_state ctx)) (ProgramStateData ps') l" "ret = []"
    by (auto simp: set_admin_def try_tx_pair_Inr_iff load_simps)
  from v have "signer = info_key (sa_admin ctx)" "is_signer (sa_admin ctx)" "ps = sys_state s"
    "info_key (sa_program_state ctx) = state_key rt"
    using holds_unique [OF assms(1)] by (auto simp: load_simps)
  then show ?thesis
    using h l' holds_set_data(2) [OF assms(1), of ps'] process_keeps_addresses system_step.set_admin by metis
qed

lemma refine_set_authority:
  assumes "holds rt l s" "execute rt l (SetDenyListAuthorityIx ctx k) = (es, Inr (l', ret))"
  shows "\<exists>s'. holds rt l' s' \<and> system_step rt (clock_sysvar l) s (SetDenyListAuthorityIx ctx k) es ret s'"
proof -
  from assms(2) obtain signer ps ps' where
    v: "validate_SetAdmin rt l ctx = Inr (signer, ps)" and
    h: "process_set_deny_list_authority signer ps k = (es, Inr ps')" and
    l': "l' = set_data (info_key (sa_program_state ctx)) (ProgramStateData ps') l" "ret = []"
    by (auto simp: set_deny_list_authority_def try_tx_pair_Inr_iff load_simps)
  from v have "signer = info_key (sa_admin ctx)" "is_signer (sa_admin ctx)" "ps = sys_state s"
    "info_key (sa_program_state ctx) = state_key rt"
    using holds_unique [OF assms(1)] by (auto simp: load_simps)
  then show ?thesis
    using h l' holds_set_data(2) [OF assms(1), of ps'] process_keeps_addresses system_step.set_authority by metis
qed

lemma refine_toggle:
  assumes "holds rt l s" "execute rt l (ToggleSystemStateIx ctx b) = (es, Inr (l', ret))"
  shows "\<exists>s'. holds rt l' s' \<and> system_step rt (clock_sysvar l) s (ToggleSystemStateIx ctx b) es ret s'"
proof -
  from assms(2) obtain signer ps ps' where
    v: "validate_SystemState rt l ctx = Inr (signer, ps)" and
    h: "process_system_state signer ps b = (es, Inr ps')" and
    l': "l' = set_data (info_key (ss_program_state ctx)) (ProgramStateData ps') l" "ret = []"
    by (auto simp: toggle_system_state_def try_tx_pair_Inr_iff load_simps)
  from v have "signer = info_key (ss_admin ctx)" "is_signer (ss_admin ctx)" "ps = sys_state s"
    "info_key (ss_program_state ctx) = state_key rt"
    using holds_unique [OF assms(1)] by (auto simp: load_simps)
  then show ?thesis
    using h l' holds_set_data(2) [OF assms(1), of ps'] process_keeps_addresses system_step.toggle by metis
qed

lemma refine_quote:
  assumes "holds rt l s" "execute rt l (GetConversionRateIx ctx p) = (es, Inr (l', ret))"
  shows "l' = l \<and> system_step rt (clock_sysvar l) s (GetConversionRateIx ctx p) es ret s"
proof -
  from assms(2) obtain ps cfg rate where
    v: "validate_CalculateAskPrice rt l ctx = Inr (ps, cfg)" and
    h: "process_get_conversion_rate rt (Inr (clock_sysvar l)) cfg ps p = Inr rate" and
    l': "l' = l" "es = []" "ret = to_le_bytes rate"
    by (auto simp: get_conversion_rate_def try_tx_pair_Inr_iff tx_simps)
  from v have "ps = sys_state s" "cfg = sys_configuration s"
    using holds_unique [OF assms(1)] by (auto simp: load_simps)
  then show ?thesis using h l' system_step.quote by metis
qed

lemma refine_dequeue:
  assumes "holds rt l s" "execute rt l (DequeueFillsIx ctx m) = (es, Inr (l', ret))"
  shows "\<exists>s'. holds rt l' s' \<and> system_step rt (clock_sysvar l) s (DequeueFillsIx ctx m) es ret s'"
proof -
  from assms(2) obtain signer cfg r r' d where
    v: "validate_DequeueFills rt l ctx = Inr (signer, cfg, r)" and
    h: "process_dequeue_fills (Inr (clock_sysvar l)) signer cfg r m = (es, Inr (r', d))" and
    l': "l' = set_data (info_key (df_fills_registry ctx)) (FillsData r') l"
      "ret = encode_DequeueFillsResult d"
    by (auto simp: dequeue_fills_def try_tx_pair_Inr_iff map_tx_Inr_iff)
  from v have "signer = info_key (df_signer ctx)" "is_signer (df_signer ctx)"
    "cfg = sys_configuration s" "r = sys_fills s"
    "info_key (df_fills_registry ctx) = fills_registry_address (sys_state s)"
    using holds_unique [OF assms(1)] by (auto simp: load_simps)
  then show ?thesis
    using h l' holds_set_data(4) [OF assms(1), of r'] system_step.dequeue by metis
qed

text \<open>A purchase: what it checked, and the ledgers between its calls.\<close>

lemma process_buy_sol_Inr_iff:
  "process_buy_sol rt l ctx cfg ps dl bid p = (es, Inr (ps', l')) \<longleftrightarrow>
     (\<exists>ask tokens l1 l2 r r'. \<not> is_halted ps \<and>
       info_key (bs_signer ctx) \<notin> set (denied_addresses dl) \<and>
       last_trade_slot ps < slot (clock_sysvar l) \<and>
       verify_attestation (crypto_ops rt) (Inr (clock_sysvar l)) p (oracle_pubkey cfg)
         (price_maximum_age cfg) = Inr () \<and>
       ask_price rt cfg ps (clock_sysvar l) p = Inr ask \<and> ask \<le> bid \<and>
       tokens_required (sol_quantity cfg) ask = Inr tokens \<and>
       transfer_tokens rt ctx tokens l = Inr l1 \<and>
       withdraw_sol rt ctx ps (sol_quantity cfg) l1 = Inr l2 \<and>
       data (account_of l2 (bs_fills_registry ctx)) = FillsData r \<and>
       enqueue_fill (sol_quantity cfg) tokens r = Inr r' \<and>
       ps' = ps\<lparr>last_trade_slot := slot (clock_sysvar l)\<rparr> \<and>
       l' = set_data (info_key (bs_fills_registry ctx)) (FillsData r') l2 \<and>
       es = [TradeEvent (sol_quantity cfg) tokens bid (unix_timestamp (clock_sysvar l))
              (info_key (bs_signer ctx)) (epoch (clock_sysvar l))])"
  unfolding process_buy_sol_def Let_def
  by (auto simp: tx_simps load_simps not_less not_le split: if_splits)

lemma runtime_laws_cpi:
  assumes "runtime_laws rt"
  shows "transfer_tokens rt ctx n l = Inr l' \<Longrightarrow> cpi_change l l'"
    "withdraw_sol rt ctx ps n l = Inr l' \<Longrightarrow> cpi_change l l'"
    "init_account rt payer k m seeds l = Inr l' \<Longrightarrow> init_change k m l l'"
  using assms unfolding runtime_laws_def transfer_tokens_def withdraw_sol_def by blast+

lemma refine_buy:
  assumes "runtime_laws rt" "holds rt l s" "execute rt l (BuySolIx ctx bid p) = (es, Inr (l', ret))"
  shows "\<exists>s'. holds rt l' s' \<and> system_step rt (clock_sysvar l) s (BuySolIx ctx bid p) es ret s'"
proof -
  from assms(3) obtain cfg ps dl ps' lf where
    v: "validate_BuySol rt l ctx = Inr (cfg, ps, dl)" and
    h: "process_buy_sol rt l ctx cfg ps dl bid p = (es, Inr (ps', lf))" and
    l': "l' = set_data (info_key (bs_program_state ctx)) (ProgramStateData ps') lf" "ret = []"
    by (auto simp: buy_sol_def try_tx_pair_Inr_iff map_tx_Inr_iff)
  note valid = validate_BuySol_Inr [OF v]
  have s: "cfg = sys_configuration s" "ps = sys_state s" "dl = sys_deny_list s"
    "info_key (bs_program_state ctx) = state_key rt" "is_signer (bs_signer ctx)"
    "info_key (bs_fills_registry ctx) = fills_registry_address (sys_state s)"
    using valid holds_unique [OF assms(2)] by auto
  from h obtain ask tokens l1 l2 r r' where
    guards: "\<not> is_halted ps" "info_key (bs_signer ctx) \<notin> set (denied_addresses dl)"
      "last_trade_slot ps < slot (clock_sysvar l)"
      "verify_attestation (crypto_ops rt) (Inr (clock_sysvar l)) p (oracle_pubkey cfg)
         (price_maximum_age cfg) = Inr ()"
      "ask_price rt cfg ps (clock_sysvar l) p = Inr ask" "ask \<le> bid"
      "tokens_required (sol_quantity cfg) ask = Inr tokens" and
    cpis: "transfer_tokens rt ctx tokens l = Inr l1"
      "withdraw_sol rt ctx ps (sol_quantity cfg) l1 = Inr l2" and
    r: "data (account_of l2 (bs_fills_registry ctx)) = FillsData r"
      "enqueue_fill (sol_quantity cfg) tokens r = Inr r'" and
    new: "ps' = ps\<lparr>last_trade_slot := slot (clock_sysvar l)\<rparr>"
      "lf = set_data (info_key (bs_fills_registry ctx)) (FillsData r') l2"
      "es = [TradeEvent (sol_quantity cfg) tokens bid (unix_timestamp (clock_sysvar l))
              (info_key (bs_signer ctx)) (epoch (clock_sysvar l))]"
    unfolding process_buy_sol_Inr_iff by blast
  have l2: "holds rt l2 s"
    using runtime_laws_cpi(1,2) [OF assms(1)] cpis assms(2) holds_foreign_change
    unfolding cpi_change_def by metis
  then have rf: "r = sys_fills s"
    using r(1) s(6) by (simp add: holds_def stored_def account_of_def)
  have "holds rt lf (s\<lparr>sys_fills := r'\<rparr>)"
    unfolding new(2) s(6) using holds_set_data(4) [OF l2] .
  then have "holds rt l' (s\<lparr>sys_fills := r'\<rparr>\<lparr>sys_state := ps'\<rparr>)"
    unfolding l'(1) s(4) by (rule holds_set_data(2)) (simp_all add: new(1) s(2))
  moreover have "s\<lparr>sys_fills := r'\<rparr>\<lparr>sys_state := ps'\<rparr> =
      s\<lparr>sys_state := (sys_state s)\<lparr>last_trade_slot := slot (clock_sysvar l)\<rparr>, sys_fills := r'\<rparr>"
    by (simp add: new(1) s(2))
  moreover have "system_step rt (clock_sysvar l) s (BuySolIx ctx bid p) es ret
      (s\<lparr>sys_state := (sys_state s)\<lparr>last_trade_slot := slot (clock_sysvar l)\<rparr>, sys_fills := r'\<rparr>)"
    unfolding new(3) l'(2)
    using guards r(2) s(5) unfolding s(1-3) rf by (intro system_step.buy)
  ultimately show ?thesis by metis
qed

section \<open>Initialisation\<close>

lemma uninitialised_foreign_change: "uninitialised l \<Longrightarrow> foreign_change l l' \<Longrightarrow> uninitialised l'"
  unfolding uninitialised_def foreign_change_def by metis

text \<open>The accounts that one initialisation creates, in order.\<close>

lemma initialize_system_Inr:
  assumes "execute rt l (InitializeSystemIx ctx oracle q age k mx mn) = (es, Inr (l', ret))"
  obtains l1 l2 l3 sz n1 n2 n3 bumps cfg ps where
    "find_program_address rt [CONFIGURATION_REGISTRY] ID =
       (info_key (is_configuration_registry ctx), bumps_configuration_registry bumps)"
    "find_program_address rt [PROGRAM_STATE] ID =
       (info_key (is_program_state ctx), bumps_program_state bumps)"
    "find_program_address rt [DENY_LIST_REGISTRY] ID =
       (info_key (is_deny_list_registry ctx), bumps_deny_list_registry bumps)"
    "find_program_address rt [WITHDRAW_AUTHORITY] ID =
       (info_key (is_withdraw_authority ctx), bumps_withdraw_authority bumps)"
    "init_account rt (info_key (is_authority ctx)) (info_key (is_configuration_registry ctx)) n1
       [CONFIGURATION_REGISTRY, [bumps_configuration_registry bumps]] l = Inr l1"
    "init_account rt (info_key (is_authority ctx)) (info_key (is_program_state ctx)) n2
       [PROGRAM_STATE, [bumps_program_state bumps]] l1 = Inr l2"
    "init_account rt (info_key (is_authority ctx)) (info_key (is_deny_list_registry ctx)) n3
       [DENY_LIST_REGISTRY, [bumps_deny_list_registry bumps]] l2 = Inr l3"
    "owner (account_of l3 (is_fills_registry ctx)) = ID"
    "info_key (is_fills_registry ctx) \<notin> {info_key (is_configuration_registry ctx),
       info_key (is_program_state ctx), info_key (is_deny_list_registry ctx)}"
    "is_signer (is_authority ctx)"
    "load_account (loader_id rt) as_program_data l (is_program_data ctx) =
       Inr (Some (info_key (is_authority ctx)))"
    "programdata_address rt l3 (is_program ctx) = Some (info_key (is_program_data ctx))"
    "process_initialize_system (Inr (clock_sysvar l3)) (Inr zero_fills_registry)
       (info_key (is_fills_registry ctx)) (info_key (is_authority ctx)) oracle q age k mx mn bumps
       zero_configuration zero_program_state = (es, Inr (cfg, ps, zero_fills_registry))"
    "l' = set_data (info_key (is_deny_list_registry ctx)) (DenyListData zero_deny_list)
            (set_data (info_key (is_program_state ctx)) (ProgramStateData ps)
               (set_data (info_key (is_configuration_registry ctx)) (ConfigurationData cfg)
                  (set_data (info_key (is_fills_registry ctx)) (FillsData zero_fills_registry) l3)))"
    "ret = []"
proof -
  from assms obtain l3 bumps cfg ps r where
    v: "validate_InitializeSystem rt l ctx = Inr (l3, bumps)" and
    h: "process_initialize_system (Inr (clock_sysvar l3)) (load_init l3 (is_fills_registry ctx))
       (info_key (is_fills_registry ctx)) (info_key (is_authority ctx)) oracle q age k mx mn bumps
       zero_configuration zero_program_state = (es, Inr (cfg, ps, r))" and
    l': "l' = set_data (info_key (is_deny_list_registry ctx)) (DenyListData zero_deny_list)
            (set_data (info_key (is_program_state ctx)) (ProgramStateData ps)
               (set_data (info_key (is_configuration_registry ctx)) (ConfigurationData cfg)
                  (set_data (info_key (is_fills_registry ctx)) (FillsData r) l3)))" "ret = []"
    by (auto simp: initialize_system_def try_tx_pair_Inr_iff map_tx_Inr_iff)
  have r: "load_init l3 (is_fills_registry ctx) = Inr zero_fills_registry" "r = zero_fills_registry"
    using h by (auto simp: tx_simps load_init_def split: acct_data.splits if_splits)
  from v h l' show thesis
    unfolding r
    by (auto simp: validate_InitializeSystem_def tx_simps load_simps
        intro!: that split: prod.splits)
qed

lemma init_change_foreign:
  "init_change k n l l' \<Longrightarrow> foreign_change l l' \<and> clock_sysvar l' = clock_sysvar l \<and>
     owner (accounts l k) \<noteq> ID \<and> owner (accounts l' k) = ID"
  by (simp add: init_change_def cpi_change_def)

lemma no_second_initialisation:
  assumes "runtime_laws rt" "holds rt l s"
  shows "execute rt l (InitializeSystemIx ctx oracle q age k mx mn) \<noteq> (es, Inr (l', ret))"
proof
  assume "execute rt l (InitializeSystemIx ctx oracle q age k mx mn) = (es, Inr (l', ret))"
  then obtain bumps :: InitializeSystemBumps and n1 l1 where
    "find_program_address rt [CONFIGURATION_REGISTRY] ID =
       (info_key (is_configuration_registry ctx), bumps_configuration_registry bumps)"
    "init_account rt (info_key (is_authority ctx)) (info_key (is_configuration_registry ctx)) n1
       [CONFIGURATION_REGISTRY, [bumps_configuration_registry bumps]] l = Inr l1"
    by (rule initialize_system_Inr) blast
  then have "owner (accounts l (configuration_key rt)) \<noteq> ID"
    using runtime_laws_cpi(3) [OF assms(1)] init_change_foreign
    by (fastforce simp: configuration_key_def)
  with assms(2) show False by (simp add: holds_def stored_def)
qed

text \<open>The system a first initialisation stores.\<close>

definition initial_system ::
    "pubkey \<Rightarrow> pubkey \<Rightarrow> BumpRegistry \<Rightarrow> u64 \<Rightarrow> pubkey \<Rightarrow> u64 \<Rightarrow> i64 \<Rightarrow> u64 \<Rightarrow> u64 \<Rightarrow> u64 \<Rightarrow> system" where
  "initial_system authority fills_key bumps now oracle q age k mx mn =
     \<lparr>sys_configuration = \<lparr>oracle_pubkey = oracle, sol_quantity = q, price_maximum_age = age,
        fills_consumer = 0, coefficient = k, max_discount_rate = mx, min_discount_rate = mn\<rparr>,
      sys_state = \<lparr>admin = authority, fills_registry_address = fills_key, is_halted = False,
        bump_registry = bumps, last_trade_slot = now, deny_list_authority = authority\<rparr>,
      sys_deny_list = \<lparr>denied_addresses = [], last_updated = 0, update_count = 0\<rparr>,
      sys_fills = zero_fills_registry\<rparr>"

lemma refine_initialize:
  assumes "runtime_laws rt" "uninitialised l"
    "execute rt l (InitializeSystemIx ctx oracle q age k mx mn) = (es, Inr (l', ret))"
  shows "\<exists>bumps. holds rt l' (initial_system (info_key (is_authority ctx))
       (info_key (is_fills_registry ctx)) bumps (slot (clock_sysvar l)) oracle q age k mx mn) \<and>
     valid_configuration (sys_configuration (initial_system (info_key (is_authority ctx))
       (info_key (is_fills_registry ctx)) bumps (slot (clock_sysvar l)) oracle q age k mx mn)) \<and>
     clock_sysvar l' = clock_sysvar l \<and> es = [SystemInitialized] \<and> ret = []"
  using assms(3)
proof (rule initialize_system_Inr)
  fix l1 l2 l3 n1 n2 n3 bumps cfg ps
  let ?kc = "info_key (is_configuration_registry ctx)" and ?ks = "info_key (is_program_state ctx)"
    and ?kd = "info_key (is_deny_list_registry ctx)" and ?kf = "info_key (is_fills_registry ctx)"
  assume pda: "find_program_address rt [CONFIGURATION_REGISTRY] ID =
       (?kc, bumps_configuration_registry bumps)"
    "find_program_address rt [PROGRAM_STATE] ID = (?ks, bumps_program_state bumps)"
    "find_program_address rt [DENY_LIST_REGISTRY] ID = (?kd, bumps_deny_list_registry bumps)"
    "find_program_address rt [WITHDRAW_AUTHORITY] ID =
       (info_key (is_withdraw_authority ctx), bumps_withdraw_authority bumps)"
    and init: "init_account rt (info_key (is_authority ctx)) ?kc n1
       [CONFIGURATION_REGISTRY, [bumps_configuration_registry bumps]] l = Inr l1"
    "init_account rt (info_key (is_authority ctx)) ?ks n2
       [PROGRAM_STATE, [bumps_program_state bumps]] l1 = Inr l2"
    "init_account rt (info_key (is_authority ctx)) ?kd n3
       [DENY_LIST_REGISTRY, [bumps_deny_list_registry bumps]] l2 = Inr l3"
    and kf: "owner (account_of l3 (is_fills_registry ctx)) = ID" "?kf \<notin> {?kc, ?ks, ?kd}"
    and h: "process_initialize_system (Inr (clock_sysvar l3)) (Inr zero_fills_registry)
       ?kf (info_key (is_authority ctx)) oracle q age k mx mn bumps
       zero_configuration zero_program_state = (es, Inr (cfg, ps, zero_fills_registry))"
    and l': "l' = set_data ?kd (DenyListData zero_deny_list) (set_data ?ks (ProgramStateData ps)
       (set_data ?kc (ConfigurationData cfg) (set_data ?kf (FillsData zero_fills_registry) l3)))"
    and ret: "ret = []"
  note ch = init [THEN runtime_laws_cpi(3) [OF assms(1)], THEN init_change_foreign]
  have l3: "foreign_change l l3" "clock_sysvar l3 = clock_sysvar l"
    using ch foreign_change_trans by metis+
  have own: "owner (accounts l3 ?kc) = ID" "owner (accounts l3 ?ks) = ID"
      "owner (accounts l3 ?kd) = ID" "owner (accounts l3 ?kf) = ID"
    using ch kf(1) unfolding foreign_change_def account_of_def by metis+
  have ne: "?kc \<noteq> ?ks" "?kc \<noteq> ?kd" "?ks \<noteq> ?kd"
    using ch unfolding foreign_change_def by metis+
  have blank: "owner (accounts l3 x) = ID \<Longrightarrow> blank (data (accounts l3 x))" for x
    using uninitialised_foreign_change [OF assms(2) l3(1)] by (simp add: uninitialised_def)
  let ?b = "\<lparr>configuration_registry_bump = bumps_configuration_registry bumps,
            program_state_bump = bumps_program_state bumps,
            deny_list_registry_bump = bumps_deny_list_registry bumps,
            withdraw_authority_bump = bumps_withdraw_authority bumps\<rparr>"
  let ?s = "initial_system (info_key (is_authority ctx)) ?kf ?b (slot (clock_sysvar l))
    oracle q age k mx mn"
  from h have cfg: "valid_configuration cfg" "cfg = sys_configuration ?s" and ps: "ps = sys_state ?s"
    and es: "es = [SystemInitialized]"
    by (auto simp: tx_simps initial_system_def zero_configuration_def zero_program_state_def l3(2))
  have keys: "configuration_key rt = ?kc" "state_key rt = ?ks" "deny_list_key rt = ?kd"
      "fills_registry_address (sys_state ?s) = ?kf"
    by (simp_all add: configuration_key_def state_key_def deny_list_key_def pda initial_system_def)
  have "holds rt l' ?s"
    unfolding holds_def keys system_keys_def l' using own ne kf(2) blank pda
    by (auto simp: stored_set_data cfg(2) ps canonical_bumps_def)
      (simp_all add: initial_system_def zero_deny_list_def)
  moreover have "clock_sysvar l' = clock_sysvar l" by (simp add: l' l3(2) set_data_def)
  ultimately show ?thesis using cfg es ret by blast
qed

section \<open>The clock stands still during an instruction\<close>

lemma clock_set_data [simp]: "clock_sysvar (set_data k d l) = clock_sysvar l"
  by (simp add: set_data_def)

lemma execute_keeps_clock:
  assumes "runtime_laws rt" "execute rt l ix = (es, Inr (l', ret))"
  shows "clock_sysvar l' = clock_sysvar l"
proof (cases ix)
  case (BuySolIx ctx bid p)
  then obtain cfg ps dl ps' lf where
    h: "process_buy_sol rt l ctx cfg ps dl bid p = (es, Inr (ps', lf))" and
    l': "l' = set_data (info_key (bs_program_state ctx)) (ProgramStateData ps') lf"
    using assms(2) by (auto simp: buy_sol_def try_tx_pair_Inr_iff map_tx_Inr_iff)
  from h obtain tokens l1 l2 r' where
    "transfer_tokens rt ctx tokens l = Inr l1" "withdraw_sol rt ctx ps (sol_quantity cfg) l1 = Inr l2"
    "lf = set_data (info_key (bs_fills_registry ctx)) (FillsData r') l2"
    unfolding process_buy_sol_Inr_iff by blast
  then show ?thesis
    using runtime_laws_cpi(1,2) [OF assms(1)] by (simp add: l' cpi_change_def)
next
  case (InitializeSystemIx ctx key q age k mx mn)
  obtain cfg ps bumps l3 a1 a2 a3 b1 b2 b3 c1 c2 c3 d1 d2 where
    init: "init_account rt a1 b1 c1 d1 l = Inr a2" "init_account rt a1 b2 c2 d2 a2 = Inr a3"
      "init_account rt a1 b3 c3 bumps a3 = Inr l3" and
    l': "clock_sysvar l' = clock_sysvar l3"
    using assms(2) unfolding InitializeSystemIx
    by (rule initialize_system_Inr) (metis clock_set_data)
  note init [THEN runtime_laws_cpi(3) [OF assms(1)], THEN init_change_foreign]
  then show ?thesis by (simp add: l')
qed (use assms(2) in \<open>auto simp: update_configuration_registry_def set_fills_consumer_def
      ix_add_to_deny_list_def ix_remove_from_deny_list_def set_admin_def
      set_deny_list_authority_def toggle_system_state_def get_conversion_rate_def
      dequeue_fills_def try_tx_pair_Inr_iff try_tx_Inr_iff map_tx_Inr_iff load_simps\<close>)

end
