(* ===== verification/Account_Layout.thy ===== *)
theory Account_Layout
  imports Codec Converter_Program
begin

text \<open>
  The bytes of the program's structures: the Borsh layout \<open>#[account]\<close> and \<open>AnchorSerialize\<close>
  derive, the fixed layout of the zero-copy fills registry, and the eight-byte discriminators in
  front of them.  The layouts are inverted by their readers and fit the space the accounts are
  created with.
\<close>

section \<open>The structures\<close>

definition put_ConfigurationRegistry :: "ConfigurationRegistry \<Rightarrow> u8 list" where
  "put_ConfigurationRegistry c =
     to_bytes (oracle_pubkey c) @ to_le_bytes (sol_quantity c) @ to_le_bytes (price_maximum_age c) @
     to_bytes (fills_consumer c) @ to_le_bytes (coefficient c) @ to_le_bytes (max_discount_rate c) @
     to_le_bytes (min_discount_rate c)"

definition get_ConfigurationRegistry :: "ConfigurationRegistry reader" where
  "get_ConfigurationRegistry =
     get_bind get_pubkey (\<lambda>oracle. get_bind get_u64 (\<lambda>quantity. get_bind get_u64 (\<lambda>age.
     get_bind get_pubkey (\<lambda>consumer. get_bind get_u64 (\<lambda>coeff. get_bind get_u64 (\<lambda>mx.
     get_bind get_u64 (\<lambda>mn.
     get_return \<lparr>oracle_pubkey = oracle, sol_quantity = quantity, price_maximum_age = age,
       fills_consumer = consumer, coefficient = coeff, max_discount_rate = mx,
       min_discount_rate = mn\<rparr>)))))))"

definition put_BumpRegistry :: "BumpRegistry \<Rightarrow> u8 list" where
  "put_BumpRegistry b =
     put_u8 (configuration_registry_bump b) @ put_u8 (program_state_bump b) @
     put_u8 (deny_list_registry_bump b) @ put_u8 (withdraw_authority_bump b)"

definition get_BumpRegistry :: "BumpRegistry reader" where
  "get_BumpRegistry =
     get_bind get_u8 (\<lambda>b1. get_bind get_u8 (\<lambda>b2. get_bind get_u8 (\<lambda>b3. get_bind get_u8 (\<lambda>b4.
     get_return \<lparr>configuration_registry_bump = b1, program_state_bump = b2,
       deny_list_registry_bump = b3, withdraw_authority_bump = b4\<rparr>))))"

definition put_ProgramStateAccount :: "ProgramStateAccount \<Rightarrow> u8 list" where
  "put_ProgramStateAccount p =
     to_bytes (admin p) @ to_bytes (fills_registry_address p) @ put_bool (is_halted p) @
     put_BumpRegistry (bump_registry p) @ to_le_bytes (last_trade_slot p) @
     to_bytes (deny_list_authority p)"

definition get_ProgramStateAccount :: "ProgramStateAccount reader" where
  "get_ProgramStateAccount =
     get_bind get_pubkey (\<lambda>a. get_bind get_pubkey (\<lambda>fills. get_bind get_bool (\<lambda>halted.
     get_bind get_BumpRegistry (\<lambda>bumps. get_bind get_u64 (\<lambda>slot. get_bind get_pubkey (\<lambda>authority.
     get_return \<lparr>admin = a, fills_registry_address = fills, is_halted = halted,
       bump_registry = bumps, last_trade_slot = slot, deny_list_authority = authority\<rparr>))))))"

definition put_DenyListRegistry :: "DenyListRegistry \<Rightarrow> u8 list" where
  "put_DenyListRegistry d =
     put_vec to_bytes (denied_addresses d) @ to_le_bytes (last_updated d) @
     to_le_bytes (update_count d)"

definition get_DenyListRegistry :: "DenyListRegistry reader" where
  "get_DenyListRegistry =
     get_bind (get_vec get_pubkey) (\<lambda>addresses. get_bind get_u64 (\<lambda>updated. get_bind get_u64 (\<lambda>count.
     get_return \<lparr>denied_addresses = addresses, last_updated = updated, update_count = count\<rparr>)))"

text \<open>The arguments that are structures.\<close>

definition put_ConfigurationRegistryInput :: "ConfigurationRegistryInput \<Rightarrow> u8 list" where
  "put_ConfigurationRegistryInput i =
     put_option to_bytes (in_oracle_pubkey i) @ put_option to_le_bytes (in_sol_quantity i) @
     put_option to_le_bytes (in_price_maximum_age i) @ put_option to_le_bytes (in_coefficient i) @
     put_option to_le_bytes (in_max_discount_rate i) @
     put_option to_le_bytes (in_min_discount_rate i)"

definition get_ConfigurationRegistryInput :: "ConfigurationRegistryInput reader" where
  "get_ConfigurationRegistryInput =
     get_bind (get_option get_pubkey) (\<lambda>oracle. get_bind (get_option get_u64) (\<lambda>quantity.
     get_bind (get_option get_u64) (\<lambda>age. get_bind (get_option get_u64) (\<lambda>coeff.
     get_bind (get_option get_u64) (\<lambda>mx. get_bind (get_option get_u64) (\<lambda>mn.
     get_return \<lparr>in_oracle_pubkey = oracle, in_sol_quantity = quantity, in_price_maximum_age = age,
       in_coefficient = coeff, in_max_discount_rate = mx, in_min_discount_rate = mn\<rparr>))))))"

definition put_OraclePriceData :: "OraclePriceData \<Rightarrow> u8 list" where
  "put_OraclePriceData p =
     to_le_bytes (swap_rate p) @ to_le_bytes (timestamp p) @ put_string (signature p)"

definition get_OraclePriceData :: "OraclePriceData reader" where
  "get_OraclePriceData =
     get_bind get_u64 (\<lambda>rate. get_bind get_u64 (\<lambda>time. get_bind get_string (\<lambda>sig.
     get_return \<lparr>swap_rate = rate, timestamp = time, signature = sig\<rparr>)))"

definition get_DequeueFillsResult :: "DequeueFillsResult reader" where
  "get_DequeueFillsResult =
     get_bind get_u64 (\<lambda>sol. get_bind get_u64 (\<lambda>tokens. get_bind get_u64 (\<lambda>consumed.
     get_return \<lparr>sol_dequeued = sol, token_2z_dequeued = tokens, fills_consumed = consumed\<rparr>)))"

section \<open>Every structure reads back\<close>

lemma option_iffs [codec_simps]:
  "get_option get_pubkey bs = Some (x, r) \<longleftrightarrow> bs = put_option to_bytes x @ r"
  "get_option get_u64 bs = Some (y, r) \<longleftrightarrow> bs = put_option to_le_bytes y @ r"
  using codec.get_iff [OF codec_option [OF pubkey_codec.codec_axioms]]
    codec.get_iff [OF codec_option [OF u64_codec.codec_axioms]]
  by (simp_all add: option.pred_True)

lemma option_reads [read_simps]:
  "get_option get_pubkey (put_option to_bytes x @ r) = Some (x, r)"
  "get_option get_u64 (put_option to_le_bytes y @ r) = Some (y, r)"
  by (simp_all add: codec_simps)

lemma keys_iff [codec_simps]:
  "get_vec get_pubkey bs = Some (xs, r) \<longleftrightarrow> length xs < 2 ^ 32 \<and> bs = put_vec to_bytes xs @ r"
  using codec.get_iff [OF codec_vec [OF pubkey_codec.codec_axioms]]
  by (simp add: ok_vec_def list_all_iff)

lemma keys_read [read_simps]:
  "length xs < 2 ^ 32 \<Longrightarrow> get_vec get_pubkey (put_vec to_bytes xs @ r) = Some (xs, r)"
  by (simp add: codec_simps)

interpretation configuration_codec:
  fixed_codec "\<lambda>_. True" put_ConfigurationRegistry get_ConfigurationRegistry CONFIGURATION_INIT_SPACE
proof (intro fixed_codec.intro codecI fixed_codec_axioms.intro)
  show "length (put_ConfigurationRegistry c) = CONFIGURATION_INIT_SPACE" for c
    by (simp add: put_ConfigurationRegistry_def codec_simps CONFIGURATION_INIT_SPACE_def)
qed (auto simp: get_ConfigurationRegistry_def put_ConfigurationRegistry_def read_simps codec_simps)

interpretation bumps_codec: fixed_codec "\<lambda>_. True" put_BumpRegistry get_BumpRegistry 4
proof (intro fixed_codec.intro codecI fixed_codec_axioms.intro)
  show "length (put_BumpRegistry b) = 4" for b
    by (simp add: put_BumpRegistry_def codec_simps)
qed (auto simp: get_BumpRegistry_def put_BumpRegistry_def read_simps codec_simps)

interpretation program_state_codec:
  fixed_codec "\<lambda>_. True" put_ProgramStateAccount get_ProgramStateAccount PROGRAM_STATE_INIT_SPACE
proof (intro fixed_codec.intro codecI fixed_codec_axioms.intro)
  show "length (put_ProgramStateAccount p) = PROGRAM_STATE_INIT_SPACE" for p
    by (simp add: put_ProgramStateAccount_def codec_simps bumps_codec.length_put
        PROGRAM_STATE_INIT_SPACE_def)
qed (auto simp: get_ProgramStateAccount_def put_ProgramStateAccount_def read_simps codec_simps
    bumps_codec.get_iff bumps_codec.get_put)

interpretation deny_list_codec:
  codec "\<lambda>d. length (denied_addresses d) < 2 ^ 32" put_DenyListRegistry get_DenyListRegistry
  by (rule codecI)
    (auto simp: get_DenyListRegistry_def put_DenyListRegistry_def read_simps codec_simps)

interpretation configuration_input_codec:
  codec "\<lambda>_. True" put_ConfigurationRegistryInput get_ConfigurationRegistryInput
  by (rule codecI)
    (auto simp: get_ConfigurationRegistryInput_def put_ConfigurationRegistryInput_def
      read_simps codec_simps)

interpretation oracle_price_codec:
  codec "\<lambda>p. ok_string (signature p)" put_OraclePriceData get_OraclePriceData
  by (rule codecI)
    (auto simp: get_OraclePriceData_def put_OraclePriceData_def read_simps codec_simps
      string_codec.get_iff)

interpretation dequeue_result_codec:
  fixed_codec "\<lambda>_. True" encode_DequeueFillsResult get_DequeueFillsResult 24
proof (intro fixed_codec.intro codecI fixed_codec_axioms.intro)
  show "length (encode_DequeueFillsResult d) = 24" for d
    by (simp add: encode_DequeueFillsResult_def)
qed (auto simp: get_DequeueFillsResult_def encode_DequeueFillsResult_def read_simps codec_simps)

section \<open>The fills registry\<close>

text \<open>A zero-copy account has the layout of \<open>repr(C)\<close>: its fields one after the other.\<close>

definition put_Fill :: "Fill \<Rightarrow> u8 list" where
  "put_Fill f = to_le_bytes (sol_in f) @ to_le_bytes (token_2z_out f)"

definition put_FillsRegistry :: "FillsRegistry \<Rightarrow> u8 list" where
  "put_FillsRegistry r =
     to_le_bytes (total_sol_pending r) @ to_le_bytes (total_2z_pending r) @
     concat (map (\<lambda>i. put_Fill (fills r i)) [0..<MAX_FILLS_QUEUE_SIZE]) @
     to_le_bytes (head r) @ to_le_bytes (tail r) @ to_le_bytes (count r)"

text \<open>Reading in place: the fields at their offsets.\<close>

definition u64_at :: "u8 list \<Rightarrow> nat \<Rightarrow> u64" where
  "u64_at bs k = word_of_nat (of_le_bytes (take 8 (drop k bs)))"

definition fill_at :: "u8 list \<Rightarrow> nat \<Rightarrow> Fill" where
  "fill_at bs k = \<lparr>sol_in = u64_at bs k, token_2z_out = u64_at bs (k + 8)\<rparr>"

definition cast_FillsRegistry :: "u8 list \<Rightarrow> FillsRegistry" where
  "cast_FillsRegistry bs =
     (let tail_part = 16 + MAX_FILLS_QUEUE_SIZE * 16 in
      \<lparr>total_sol_pending = u64_at bs 0, total_2z_pending = u64_at bs 8,
       fills = (\<lambda>i. fill_at bs (16 + 16 * i)), head = u64_at bs tail_part,
       tail = u64_at bs (tail_part + 8), count = u64_at bs (tail_part + 16)\<rparr>)"

definition same_registry :: "FillsRegistry \<Rightarrow> FillsRegistry \<Rightarrow> bool" where
  "same_registry r r' \<longleftrightarrow>
     total_sol_pending r = total_sol_pending r' \<and> total_2z_pending r = total_2z_pending r' \<and>
     head r = head r' \<and> tail r = tail r' \<and> count r = count r' \<and>
     (\<forall>i < MAX_FILLS_QUEUE_SIZE. fills r i = fills r' i)"

lemma u64_at_read:
  assumes "length pre = k"
  shows "u64_at (pre @ to_le_bytes w @ rest) k = w"
  using assms of_le_bytes_word [where 'l = 64 and k = 8, of w]
  by (simp add: u64_at_def to_le_bytes_def)

lemma u64_at_shift: "k < length bs \<Longrightarrow> u64_at (drop k bs) j = u64_at bs (k + j)"
  by (simp add: u64_at_def add.commute)

lemma length_put_Fill [simp]: "length (put_Fill f) = 16"
  by (simp add: put_Fill_def)

lemma fill_at_read:
  assumes "length pre = k"
  shows "fill_at (pre @ put_Fill f @ rest) k = f"
proof -
  have "u64_at (pre @ to_le_bytes (sol_in f) @ to_le_bytes (token_2z_out f) @ rest) k = sol_in f"
    by (rule u64_at_read [OF assms])
  moreover have "u64_at ((pre @ to_le_bytes (sol_in f)) @ to_le_bytes (token_2z_out f) @ rest) (k + 8) =
      token_2z_out f"
    by (rule u64_at_read) (simp add: assms)
  ultimately show ?thesis by (simp add: fill_at_def put_Fill_def)
qed

lemma length_put_fills [simp]:
  "length (concat (map (\<lambda>i. put_Fill (f i)) [0..<n])) = 16 * n"
  by (induction n) simp_all

lemma split_fills:
  assumes "i < n"
  shows "concat (map (\<lambda>i. put_Fill (f i)) [0..<n]) =
    concat (map (\<lambda>i. put_Fill (f i)) [0..<i]) @ put_Fill (f i) @
    concat (map (\<lambda>i. put_Fill (f i)) [Suc i..<n])"
proof -
  have "[0..<n] = [0..<i] @ i # [Suc i..<n]"
    using upt_add_eq_append [of 0 i "n - i"] upt_conv_Cons [OF assms] assms by simp
  then show ?thesis by simp
qed

lemma length_put_FillsRegistry: "length (put_FillsRegistry r) = FILLS_REGISTRY_SIZE"
  by (simp add: put_FillsRegistry_def FILLS_REGISTRY_SIZE_def)

lemma cast_put_FillsRegistry: "same_registry (cast_FillsRegistry (put_FillsRegistry r @ rest)) r"
proof -
  define fs where "fs = concat (map (\<lambda>i. put_Fill (fills r i)) [0..<MAX_FILLS_QUEUE_SIZE])"
  define pre where "pre = to_le_bytes (total_sol_pending r) @ to_le_bytes (total_2z_pending r)"
  have len: "length pre = 16" "length fs = 16 * MAX_FILLS_QUEUE_SIZE"
    by (simp_all add: pre_def fs_def)
  define bs where "bs = put_FillsRegistry r @ rest"
  have bs: "bs = pre @ fs @ to_le_bytes (head r) @ to_le_bytes (tail r) @ to_le_bytes (count r) @ rest"
    by (simp add: bs_def put_FillsRegistry_def pre_def fs_def)
  have "u64_at bs 0 = total_sol_pending r"
    unfolding bs pre_def using u64_at_read [of "[]"] by simp
  moreover have "u64_at bs 8 = total_2z_pending r"
    unfolding bs pre_def using u64_at_read [of "to_le_bytes (total_sol_pending r)"] by simp
  moreover have "u64_at bs (16 + MAX_FILLS_QUEUE_SIZE * 16) = head r"
    unfolding bs using u64_at_read [of "pre @ fs"] len by simp
  moreover have "u64_at bs (16 + MAX_FILLS_QUEUE_SIZE * 16 + 8) = tail r"
    unfolding bs using u64_at_read [of "pre @ fs @ to_le_bytes (head r)"] len by simp
  moreover have "u64_at bs (16 + MAX_FILLS_QUEUE_SIZE * 16 + 16) = count r"
    unfolding bs using u64_at_read [of "pre @ fs @ to_le_bytes (head r) @ to_le_bytes (tail r)"] len
    by simp
  moreover have "fill_at bs (16 + 16 * i) = fills r i" if "i < MAX_FILLS_QUEUE_SIZE" for i
    unfolding bs fs_def split_fills [OF that]
    using fill_at_read [of "pre @ concat (map (\<lambda>i. put_Fill (fills r i)) [0..<i])"] len by simp
  ultimately show ?thesis
    by (simp add: same_registry_def cast_FillsRegistry_def Let_def flip: bs_def)
qed

section \<open>Accounts\<close>

text \<open>The first eight bytes of the hash of a name: Anchor's discriminators.\<close>

definition discriminator :: "(u8 list \<Rightarrow> u8 list) \<Rightarrow> string \<Rightarrow> u8 list" where
  "discriminator sha name = take 8 (sha (bytes_of_string name))"

definition sha_laws :: "(u8 list \<Rightarrow> u8 list) \<Rightarrow> bool" where
  "sha_laws sha \<longleftrightarrow> (\<forall>bs. length (sha bs) = 32)"

lemma length_discriminator_sha [simp]: "sha_laws sha \<Longrightarrow> length (discriminator sha name) = 8"
  by (simp add: discriminator_def sha_laws_def)

definition account_image :: "(u8 list \<Rightarrow> u8 list) \<Rightarrow> acct_data \<Rightarrow> u8 list" where
  "account_image sha d =
     (case d of
        ConfigurationData c \<Rightarrow> discriminator sha ''account:ConfigurationRegistry'' @ put_ConfigurationRegistry c
      | ProgramStateData p \<Rightarrow> discriminator sha ''account:ProgramStateAccount'' @ put_ProgramStateAccount p
      | DenyListData l \<Rightarrow> discriminator sha ''account:DenyListRegistry'' @ put_DenyListRegistry l
      | FillsData r \<Rightarrow> discriminator sha ''account:FillsRegistry'' @ put_FillsRegistry r
      | _ \<Rightarrow> [])"

text \<open>
  The bytes of an account: the image and whatever is left of the space it was created with (a
  deny list that shrank leaves the bytes of removed entries behind it).
\<close>

definition stored_bytes :: "(u8 list \<Rightarrow> u8 list) \<Rightarrow> acct_data \<Rightarrow> u8 list \<Rightarrow> bool" where
  "stored_bytes sha d bs \<longleftrightarrow> (\<exists>rest. bs = account_image sha d @ rest)"

lemma length_put_DenyListRegistry:
  "length (put_DenyListRegistry d) = 4 + 32 * length (denied_addresses d) + 16"
  by (simp add: put_DenyListRegistry_def put_vec_def codec_simps pubkey_codec.length_puts)

end
