(* ===== verification/Instruction_Wire.thy ===== *)
theory Instruction_Wire
  imports Account_Layout
begin

text \<open>
  From the bytes of a transaction to the instructions of \<open>Converter_Program\<close>: the entry point that
  \<open>#[program]\<close> and \<open>#[derive(Accounts)]\<close> generate from \<open>lib.rs\<close>.  The first eight bytes select
  the function by the hash of \<open>global:<name>\<close>, the arguments follow in Borsh, and the accounts of
  the context are taken from the list in the order of the fields.
\<close>

section \<open>The accounts of each context\<close>

fun accounts_SystemState :: "account_info list \<Rightarrow> SystemState option" where
  "accounts_SystemState (a # b # _) = Some \<lparr>ss_admin = a, ss_program_state = b\<rparr>"
| "accounts_SystemState _ = None"

fun accounts_SetAdmin :: "account_info list \<Rightarrow> SetAdmin option" where
  "accounts_SetAdmin (a # b # c # d # _) =
     Some \<lparr>sa_admin = a, sa_program_state = b, sa_program = c, sa_program_data = d\<rparr>"
| "accounts_SetAdmin _ = None"

fun accounts_ConfigurationRegistryUpdate ::
    "account_info list \<Rightarrow> ConfigurationRegistryUpdate option" where
  "accounts_ConfigurationRegistryUpdate (a # b # c # _) =
     Some \<lparr>cu_configuration_registry = a, cu_program_state = b, cu_admin = c\<rparr>"
| "accounts_ConfigurationRegistryUpdate _ = None"

fun accounts_UpdateDenyList :: "account_info list \<Rightarrow> UpdateDenyList option" where
  "accounts_UpdateDenyList (a # b # c # _) =
     Some \<lparr>dl_deny_list_registry = a, dl_program_state = b, dl_admin = c\<rparr>"
| "accounts_UpdateDenyList _ = None"

fun accounts_InitializeSystem :: "account_info list \<Rightarrow> InitializeSystem option" where
  "accounts_InitializeSystem (a # b # c # d # e # f # g # h # i # _) =
     Some \<lparr>is_configuration_registry = a, is_program_state = b, is_deny_list_registry = c,
       is_fills_registry = d, is_withdraw_authority = e, is_program = f, is_program_data = g,
       is_system_program = h, is_authority = i\<rparr>"
| "accounts_InitializeSystem _ = None"

fun accounts_BuySol :: "account_info list \<Rightarrow> BuySol option" where
  "accounts_BuySol (a # b # c # d # e # f # g # h # i # j # k # m # n # _) =
     Some \<lparr>bs_configuration_registry = a, bs_program_state = b, bs_deny_list_registry = c,
       bs_fills_registry = d, bs_withdraw_sol_authority = e, bs_user_token_account = f,
       bs_protocol_treasury_token_account = g, bs_double_zero_mint = h, bs_program_config = i,
       bs_journal = j, bs_token_program = k, bs_revenue_distribution_program = m, bs_signer = n\<rparr>"
| "accounts_BuySol _ = None"

fun accounts_CalculateAskPrice :: "account_info list \<Rightarrow> CalculateAskPrice option" where
  "accounts_CalculateAskPrice (a # b # c # _) =
     Some \<lparr>ca_signer = a, ca_program_state = b, ca_configuration_registry = c\<rparr>"
| "accounts_CalculateAskPrice _ = None"

fun accounts_DequeueFills :: "account_info list \<Rightarrow> DequeueFills option" where
  "accounts_DequeueFills (a # b # c # d # _) =
     Some \<lparr>df_configuration_registry = a, df_program_state = b, df_fills_registry = c, df_signer = d\<rparr>"
| "accounts_DequeueFills _ = None"

section \<open>Dispatch\<close>

datatype dispatch_error =
    InstructionFallbackNotFound | InstructionDidNotDeserialize | AccountNotEnoughKeys

text \<open>Arguments first, then the accounts; bytes after the arguments are ignored.\<close>

definition with_args ::
    "'a reader \<Rightarrow> u8 list \<Rightarrow> 'c option \<Rightarrow> ('c \<Rightarrow> 'a \<Rightarrow> instruction) \<Rightarrow> dispatch_error + instruction" where
  "with_args get bs accs build =
     and_then (ok_or (get bs) InstructionDidNotDeserialize) (\<lambda>(x, _).
     and_then (ok_or accs AccountNotEnoughKeys) (\<lambda>ctx. Inr (build ctx x)))"

definition get_initialize_args :: "(pubkey \<times> u64 \<times> i64 \<times> u64 \<times> u64 \<times> u64) reader" where
  "get_initialize_args =
     get_bind get_pubkey (\<lambda>oracle. get_bind get_u64 (\<lambda>quantity. get_bind get_u64 (\<lambda>age.
     get_bind get_u64 (\<lambda>coeff. get_bind get_u64 (\<lambda>mx. get_bind get_u64 (\<lambda>mn.
     get_return (oracle, quantity, age, coeff, mx, mn)))))))"

definition get_buy_sol_args :: "(u64 \<times> OraclePriceData) reader" where
  "get_buy_sol_args =
     get_bind get_u64 (\<lambda>bid. get_bind get_OraclePriceData (\<lambda>price. get_return (bid, price)))"

text \<open>The functions of the module \<open>converter_program\<close>, in their order.\<close>

definition instruction_names :: "string list" where
  "instruction_names =
     [''initialize_system'', ''update_configuration_registry'', ''set_fills_consumer'',
      ''add_to_deny_list'', ''remove_from_deny_list'', ''set_admin'', ''set_deny_list_authority'',
      ''toggle_system_state'', ''buy_sol'', ''get_conversion_rate'', ''dequeue_fills'']"

definition call_function ::
    "string \<Rightarrow> u8 list \<Rightarrow> account_info list \<Rightarrow> dispatch_error + instruction" where
  "call_function name args accs =
     (if name = ''initialize_system'' then
        with_args get_initialize_args args (accounts_InitializeSystem accs)
          (\<lambda>ctx (oracle, quantity, age, coeff, mx, mn).
             InitializeSystemIx ctx oracle quantity age coeff mx mn)
      else if name = ''update_configuration_registry'' then
        with_args get_ConfigurationRegistryInput args (accounts_ConfigurationRegistryUpdate accs)
          UpdateConfigurationRegistryIx
      else if name = ''set_fills_consumer'' then
        with_args get_pubkey args (accounts_ConfigurationRegistryUpdate accs) SetFillsConsumerIx
      else if name = ''add_to_deny_list'' then
        with_args get_pubkey args (accounts_UpdateDenyList accs) AddToDenyListIx
      else if name = ''remove_from_deny_list'' then
        with_args get_pubkey args (accounts_UpdateDenyList accs) RemoveFromDenyListIx
      else if name = ''set_admin'' then
        with_args get_pubkey args (accounts_SetAdmin accs) SetAdminIx
      else if name = ''set_deny_list_authority'' then
        with_args get_pubkey args (accounts_SetAdmin accs) SetDenyListAuthorityIx
      else if name = ''toggle_system_state'' then
        with_args get_bool args (accounts_SystemState accs) ToggleSystemStateIx
      else if name = ''buy_sol'' then
        with_args get_buy_sol_args args (accounts_BuySol accs) (\<lambda>ctx (bid, price). BuySolIx ctx bid price)
      else if name = ''get_conversion_rate'' then
        with_args get_OraclePriceData args (accounts_CalculateAskPrice accs) GetConversionRateIx
      else if name = ''dequeue_fills'' then
        with_args get_u64 args (accounts_DequeueFills accs) DequeueFillsIx
      else Inl InstructionFallbackNotFound)"

definition decode_instruction ::
    "(u8 list \<Rightarrow> u8 list) \<Rightarrow> u8 list \<Rightarrow> account_info list \<Rightarrow> dispatch_error + instruction" where
  "decode_instruction sha bs accs =
     (if length bs < 8 then Inl InstructionFallbackNotFound
      else
        case find (\<lambda>name. take 8 bs = discriminator sha (''global:'' @ name)) instruction_names of
          None \<Rightarrow> Inl InstructionFallbackNotFound
        | Some name \<Rightarrow> call_function name (drop 8 bs) accs)"

text \<open>An instruction for the program, with the accounts its metas name.\<close>

definition received :: "(u8 list \<Rightarrow> u8 list) \<Rightarrow> Instruction \<Rightarrow> dispatch_error + instruction" where
  "received sha ix = decode_instruction sha (ix_data ix) (map info_of_meta (ix_accounts ix))"

section \<open>What the hash must provide\<close>

definition selector_laws :: "(u8 list \<Rightarrow> u8 list) \<Rightarrow> bool" where
  "selector_laws sha \<longleftrightarrow> sha_laws sha \<and>
     distinct (map (\<lambda>name. discriminator sha (''global:'' @ name)) instruction_names)"

text \<open>Under these laws the selector of each function reaches that function.\<close>

lemma find_by_image:
  "x \<in> set xs \<Longrightarrow> distinct (map f xs) \<Longrightarrow> find (\<lambda>y. f x = f y) xs = Some x"
  by (induction xs) (auto simp: image_iff)

lemma decode_selected:
  assumes "selector_laws sha" "name \<in> set instruction_names"
  shows "decode_instruction sha (discriminator sha (''global:'' @ name) @ args) accs =
    call_function name args accs"
proof -
  let ?sel = "\<lambda>n. discriminator sha (''global:'' @ n)"
  have "length (?sel name) = 8" "find (\<lambda>n. ?sel name = ?sel n) instruction_names = Some name"
    using assms find_by_image [of name instruction_names ?sel] by (simp_all add: selector_laws_def)
  then show ?thesis by (simp add: decode_instruction_def)
qed

text \<open>With arguments and accounts in place, the call is the instruction.\<close>

lemma with_args_Inr [simp]:
  "get bs = Some (x, r) \<Longrightarrow> accs = Some ctx \<Longrightarrow> with_args get bs accs build = Inr (build ctx x)"
  by (simp add: with_args_def)

lemma with_args_Inr_iff:
  "with_args get bs accs build = Inr i \<longleftrightarrow>
     (\<exists>x r ctx. get bs = Some (x, r) \<and> accs = Some ctx \<and> i = build ctx x)"
  by (auto simp: with_args_def tx_simps)

lemma received_selected:
  assumes "selector_laws sha" "name \<in> set instruction_names"
  shows "received sha \<lparr>ix_program_id = p, ix_accounts = metas,
      ix_data = discriminator sha (''global:'' @ name) @ args\<rparr> =
    call_function name args (map info_of_meta metas)"
  by (simp only: received_def Instruction.simps decode_selected [OF assms])

lemmas call_simps = call_function_def instruction_names_def

lemma received_simps:
  assumes "selector_laws sha"
  shows "received sha \<lparr>ix_program_id = p, ix_accounts = metas,
      ix_data = discriminator sha ''global:initialize_system'' @ args\<rparr> =
      with_args get_initialize_args args (accounts_InitializeSystem (map info_of_meta metas))
        (\<lambda>ctx (oracle, quantity, age, coeff, mx, mn).
           InitializeSystemIx ctx oracle quantity age coeff mx mn)"
    "received sha \<lparr>ix_program_id = p, ix_accounts = metas,
      ix_data = discriminator sha ''global:update_configuration_registry'' @ args\<rparr> =
      with_args get_ConfigurationRegistryInput args
        (accounts_ConfigurationRegistryUpdate (map info_of_meta metas)) UpdateConfigurationRegistryIx"
    "received sha \<lparr>ix_program_id = p, ix_accounts = metas,
      ix_data = discriminator sha ''global:set_fills_consumer'' @ args\<rparr> =
      with_args get_pubkey args (accounts_ConfigurationRegistryUpdate (map info_of_meta metas))
        SetFillsConsumerIx"
    "received sha \<lparr>ix_program_id = p, ix_accounts = metas,
      ix_data = discriminator sha ''global:add_to_deny_list'' @ args\<rparr> =
      with_args get_pubkey args (accounts_UpdateDenyList (map info_of_meta metas)) AddToDenyListIx"
    "received sha \<lparr>ix_program_id = p, ix_accounts = metas,
      ix_data = discriminator sha ''global:remove_from_deny_list'' @ args\<rparr> =
      with_args get_pubkey args (accounts_UpdateDenyList (map info_of_meta metas)) RemoveFromDenyListIx"
    "received sha \<lparr>ix_program_id = p, ix_accounts = metas,
      ix_data = discriminator sha ''global:set_admin'' @ args\<rparr> =
      with_args get_pubkey args (accounts_SetAdmin (map info_of_meta metas)) SetAdminIx"
    "received sha \<lparr>ix_program_id = p, ix_accounts = metas,
      ix_data = discriminator sha ''global:set_deny_list_authority'' @ args\<rparr> =
      with_args get_pubkey args (accounts_SetAdmin (map info_of_meta metas)) SetDenyListAuthorityIx"
    "received sha \<lparr>ix_program_id = p, ix_accounts = metas,
      ix_data = discriminator sha ''global:toggle_system_state'' @ args\<rparr> =
      with_args get_bool args (accounts_SystemState (map info_of_meta metas)) ToggleSystemStateIx"
    "received sha \<lparr>ix_program_id = p, ix_accounts = metas,
      ix_data = discriminator sha ''global:buy_sol'' @ args\<rparr> =
      with_args get_buy_sol_args args (accounts_BuySol (map info_of_meta metas))
        (\<lambda>ctx (bid, price). BuySolIx ctx bid price)"
    "received sha \<lparr>ix_program_id = p, ix_accounts = metas,
      ix_data = discriminator sha ''global:get_conversion_rate'' @ args\<rparr> =
      with_args get_OraclePriceData args (accounts_CalculateAskPrice (map info_of_meta metas))
        GetConversionRateIx"
    "received sha \<lparr>ix_program_id = p, ix_accounts = metas,
      ix_data = discriminator sha ''global:dequeue_fills'' @ args\<rparr> =
      with_args get_u64 args (accounts_DequeueFills (map info_of_meta metas)) DequeueFillsIx"
  using
    received_selected [OF assms, of "''initialize_system''" p metas args]
    received_selected [OF assms, of "''update_configuration_registry''" p metas args]
    received_selected [OF assms, of "''set_fills_consumer''" p metas args]
    received_selected [OF assms, of "''add_to_deny_list''" p metas args]
    received_selected [OF assms, of "''remove_from_deny_list''" p metas args]
    received_selected [OF assms, of "''set_admin''" p metas args]
    received_selected [OF assms, of "''set_deny_list_authority''" p metas args]
    received_selected [OF assms, of "''toggle_system_state''" p metas args]
    received_selected [OF assms, of "''buy_sol''" p metas args]
    received_selected [OF assms, of "''get_conversion_rate''" p metas args]
    received_selected [OF assms, of "''dequeue_fills''" p metas args]
  by (simp_all add: call_simps)

end
