(* ===== verification/Cli_Base.thy ===== *)
theory Cli_Base
  imports Instruction_Wire
begin

text \<open>
  The ground of the command line tools (\<open>cli-common\<close>): their constants and seeds, the packages
  and the network they run on, the configuration file, the payer's key in the environment, and the
  conversions between decimal text and the smallest units.  A command is a function of its session
  (the world behind the network and the lines printed so far) that fails or returns.  Progress
  messages are left out; the lines of the commands that display state are kept.
\<close>

section \<open>Constants and seeds\<close>

definition CONFIG_FILE_PATH :: string where
  "CONFIG_FILE_PATH = ''config.json''"

definition PRIVATE_KEY_ENV_VAR :: string where
  "PRIVATE_KEY_ENV_VAR = ''PRIVATE_KEY''"

definition CONFIG_PATH_ENV_VAR :: string where
  "CONFIG_PATH_ENV_VAR = ''DOUBLE_ZERO_CONFIG''"

definition RETRY_COUNT :: nat where
  "RETRY_COUNT = 5"

definition RETRY_DELAY :: u64 where
  "RETRY_DELAY = 2"

definition TOKEN_UNITS_cli :: u64 where
  "TOKEN_UNITS_cli = 100000000"

definition MAX_FILLS_QUEUE_SIZE_cli :: nat where
  "MAX_FILLS_QUEUE_SIZE_cli = 650000"

definition CONFIGURATION_REGISTRY_SEEDS :: "u8 list" where
  "CONFIGURATION_REGISTRY_SEEDS = bytes_of_string ''system_config''"

definition PROGRAM_STATE_SEEDS :: "u8 list" where
  "PROGRAM_STATE_SEEDS = bytes_of_string ''state''"

definition WITHDRAW_SOL_AUTHORITY_SEEDS :: "u8 list" where
  "WITHDRAW_SOL_AUTHORITY_SEEDS = bytes_of_string ''withdraw_sol''"

definition DENY_LIST_REGISTRY_SEEDS :: "u8 list" where
  "DENY_LIST_REGISTRY_SEEDS = bytes_of_string ''deny_list''"

definition MOCK_2Z_TOKEN_MINT_SEED_cli :: "u8 list" where
  "MOCK_2Z_TOKEN_MINT_SEED_cli = bytes_of_string ''double_zero_mint''"

definition MOCK_PROTOCOL_TREASURY_SEED_cli :: "u8 list" where
  "MOCK_PROTOCOL_TREASURY_SEED_cli = bytes_of_string ''protocol_treasury''"

definition MOCK_CONFIG_ACCOUNT :: "u8 list" where
  "MOCK_CONFIG_ACCOUNT = bytes_of_string ''config''"

definition MOCK_REVENUE_DISTRIBUTION_JOURNAL :: "u8 list" where
  "MOCK_REVENUE_DISTRIBUTION_JOURNAL = bytes_of_string ''jour''"

text \<open>The tools derive the program's addresses from the seeds the program uses.\<close>

lemma cli_seeds [simp]:
  "CONFIGURATION_REGISTRY_SEEDS = CONFIGURATION_REGISTRY"
  "PROGRAM_STATE_SEEDS = PROGRAM_STATE"
  "WITHDRAW_SOL_AUTHORITY_SEEDS = WITHDRAW_AUTHORITY"
  "DENY_LIST_REGISTRY_SEEDS = DENY_LIST_REGISTRY"
  by (simp_all add: CONFIGURATION_REGISTRY_SEEDS_def CONFIGURATION_REGISTRY_def
      PROGRAM_STATE_SEEDS_def PROGRAM_STATE_def WITHDRAW_SOL_AUTHORITY_SEEDS_def
      WITHDRAW_AUTHORITY_def DENY_LIST_REGISTRY_SEEDS_def DENY_LIST_REGISTRY_def)

lemma cli_constants [simp]:
  "unat TOKEN_UNITS_cli = 100000000" "MAX_FILLS_QUEUE_SIZE_cli = MAX_FILLS_QUEUE_SIZE"
  by (simp_all add: TOKEN_UNITS_cli_def MAX_FILLS_QUEUE_SIZE_cli_def MAX_FILLS_QUEUE_SIZE_def)

section \<open>Errors\<close>

text \<open>
  What a command ends with when it fails: a text of its own, an error of a package, the joined
  logs of a rejected transaction, or a panic (\<open>expect\<close>, an index out of range).
\<close>

datatype package_error =
    KeypairError | PubkeyError | UrlError | HttpError | DecimalError | Base64Error
  | SliceLengthError | BorshError | RpcError

datatype cli_error =
    Message string
  | EnvVarError string
  | ByteParseError string
  | ConfigSyntaxError
  | Package package_error
  | TransactionLogs "string list"
  | CliPanic string

section \<open>The session of a command\<close>

datatype 'd line =
    DeniedCount nat
  | NoDenied
  | DeniedEntry nat pubkey
  | TruncatedEntry nat
  | AccountTooSmall
  | InvalidFormat
  | FetchFailed
  | FillsSummary u64 u64 u64 'd u64 'd u64
      \<comment> \<open>count, head, tail, pending SOL, pending lamports, pending 2Z, pending 2Z units\<close>
  | NoPendingFills
  | FillEntry nat 'd u64
  | ConfigDump ConfigurationRegistry
  | SystemStateLine bool
  | QuantityLine u64 'd
  | ConversionRateLine 'd
  | DequeuedLine 'd u64 u64

record ('w, 'd) session =
  world :: 'w
  printed :: "'d line list"

type_synonym ('w, 'd, 'a) io = "('w, 'd) session \<Rightarrow> (cli_error + 'a) \<times> ('w, 'd) session"

definition io_ok :: "'a \<Rightarrow> ('w, 'd, 'a) io" where
  "io_ok x s = (Inr x, s)"

definition io_fail :: "cli_error \<Rightarrow> ('w, 'd, 'a) io" where
  "io_fail e s = (Inl e, s)"

definition io_try :: "cli_error + 'a \<Rightarrow> ('a \<Rightarrow> ('w, 'd, 'b) io) \<Rightarrow> ('w, 'd, 'b) io" where
  "io_try r f s = (case r of Inl e \<Rightarrow> (Inl e, s) | Inr x \<Rightarrow> f x s)"

definition io_bind :: "('w, 'd, 'a) io \<Rightarrow> ('a \<Rightarrow> ('w, 'd, 'b) io) \<Rightarrow> ('w, 'd, 'b) io" where
  "io_bind m f s = (case m s of (Inl e, s') \<Rightarrow> (Inl e, s') | (Inr x, s') \<Rightarrow> f x s')"

definition io_world :: "('w \<Rightarrow> 'a \<times> 'w) \<Rightarrow> ('a \<Rightarrow> ('w, 'd, 'b) io) \<Rightarrow> ('w, 'd, 'b) io" where
  "io_world g f s = (case g (world s) of (x, w) \<Rightarrow> f x (s\<lparr>world := w\<rparr>))"

definition io_print :: "'d line \<Rightarrow> ('w, 'd, unit) io" where
  "io_print out s = (Inr (), s\<lparr>printed := printed s @ [out]\<rparr>)"

definition io_prints :: "'d line list \<Rightarrow> ('w, 'd, unit) io" where
  "io_prints outs s = (Inr (), s\<lparr>printed := printed s @ outs\<rparr>)"

definition map_err :: "('e \<Rightarrow> 'f) \<Rightarrow> 'e + 'a \<Rightarrow> 'f + 'a" where
  "map_err f r = (case r of Inl e \<Rightarrow> Inl (f e) | Inr x \<Rightarrow> Inr x)"

named_theorems io_simps \<open>running a command step by step\<close>

lemma io_try_simps [io_simps]:
  "io_try (Inl e) f = io_fail e" "io_try (Inr x) f = f x"
  by (simp_all add: io_try_def io_fail_def fun_eq_iff)

lemma io_bind_simps [io_simps]:
  "io_bind (io_ok x) f = f x" "io_bind (io_fail e) f = io_fail e"
  by (simp_all add: io_bind_def io_ok_def io_fail_def fun_eq_iff)

lemma io_bind_run:
  "m s = (Inr x, s') \<Longrightarrow> io_bind m f s = f x s'"
  "m s = (Inl e, s') \<Longrightarrow> io_bind m f s = (Inl e, s')"
  by (simp_all add: io_bind_def)

lemma io_bind_print [io_simps]:
  "io_bind (io_print out) f s = f () (s\<lparr>printed := printed s @ [out]\<rparr>)"
  "io_bind (io_prints outs) f s = f () (s\<lparr>printed := printed s @ outs\<rparr>)"
  by (simp_all add: io_bind_def io_print_def io_prints_def)

lemma io_world_run: "g (world s) = (x, w) \<Longrightarrow> io_world g f s = f x (s\<lparr>world := w\<rparr>)"
  by (simp add: io_world_def)

lemma map_err_simps [simp]: "map_err f (Inl e) = Inl (f e)" "map_err f (Inr x) = Inr x"
  by (simp_all add: map_err_def)

section \<open>Packages and network\<close>

text \<open>The configuration file (\<open>cli-common/src/config.rs\<close>).\<close>

record Config =
  cfg_rpc_url :: string
  cfg_program_id :: string
  cfg_double_zero_program_id :: string
  cfg_oracle_pubkey :: "string option"
  cfg_sol_quantity :: "u64 option"
  cfg_price_maximum_age :: "i64 option"
  cfg_price_oracle_end_point :: "string option"
  cfg_coefficient :: "u64 option"
  cfg_max_discount_rate :: "u64 option"
  cfg_min_discount_rate :: "u64 option"

text \<open>A key pair is known by its public key.\<close>

type_synonym keypair = pubkey

record Transaction =
  tx_instructions :: "Instruction list"
  tx_payer :: pubkey
  tx_signers :: "keypair list"
  tx_blockhash :: "u8 list"

text \<open>
  The return data in the status of a confirmed transaction; the status may lack its metadata and
  the metadata its return data.
\<close>

record ReturnedData =
  rd_program_id :: string
  rd_data :: string

type_synonym TransactionStatus = "ReturnedData option option"

datatype client_error =
    PreflightFailure "string list option" string \<comment> \<open>logs, text\<close>
  | OtherClientError string

record 'd packages =
  env_var :: "string \<Rightarrow> string option"
  path_exists :: "string \<Rightarrow> bool"
  read_to_string :: "string \<Rightarrow> string option"
  config_of_json :: "string \<Rightarrow> Config option"
  keypair_of_bytes :: "u8 list \<Rightarrow> keypair option"
  pubkey_of_str :: "string \<Rightarrow> pubkey option"
  url_of_str :: "string \<Rightarrow> string option"
  base64_standard :: "string \<Rightarrow> u8 list option"
  sha256 :: "u8 list \<Rightarrow> u8 list"
  find_pda :: "u8 list list \<Rightarrow> pubkey \<Rightarrow> pubkey \<times> u8"
  program_data_address :: "pubkey \<Rightarrow> pubkey"
  associated_token_address :: "pubkey \<Rightarrow> pubkey \<Rightarrow> pubkey \<Rightarrow> pubkey"
  create_associated_token_account :: "pubkey \<Rightarrow> pubkey \<Rightarrow> pubkey \<Rightarrow> pubkey \<Rightarrow> Instruction"
  create_account_ix :: "pubkey \<Rightarrow> pubkey \<Rightarrow> u64 \<Rightarrow> u64 \<Rightarrow> pubkey \<Rightarrow> Instruction"
  spl_token_id :: pubkey
  rent_sysvar_id :: pubkey
  decimal_of_str :: "string \<Rightarrow> 'd option"
  decimal_of_u64 :: "u64 \<Rightarrow> 'd"
  dec_mul :: "'d \<Rightarrow> 'd \<Rightarrow> 'd option" \<comment> \<open>the operator \<open>*\<close>; \<open>None\<close> is its panic\<close>
  cli_decimals :: "'d decimal_ops"

text \<open>Every call may find and leave a different world: other parties act in between.\<close>

record 'w network =
  latest_blockhash :: "string \<Rightarrow> 'w \<Rightarrow> u8 list option \<times> 'w"
  send_and_confirm :: "string \<Rightarrow> Transaction \<Rightarrow> 'w \<Rightarrow> (client_error + string) \<times> 'w"
  get_transaction :: "string \<Rightarrow> string \<Rightarrow> 'w \<Rightarrow> TransactionStatus option \<times> 'w"
  account_bytes :: "string \<Rightarrow> pubkey \<Rightarrow> 'w \<Rightarrow> u8 list option \<times> 'w"
  rent_exemption :: "string \<Rightarrow> nat \<Rightarrow> 'w \<Rightarrow> u64 option \<times> 'w"
  request_airdrop :: "string \<Rightarrow> pubkey \<Rightarrow> u64 \<Rightarrow> 'w \<Rightarrow> string option \<times> 'w"
  http_get_price :: "string \<Rightarrow> 'w \<Rightarrow> OraclePriceData option \<times> 'w"
  new_keypair :: "'w \<Rightarrow> keypair \<times> 'w"
  sleep_secs :: "u64 \<Rightarrow> 'w \<Rightarrow> unit \<times> 'w"

section \<open>The payer's key\<close>

text \<open>\<open>str::split(',')\<close> and \<open>str::trim\<close>, the latter on the white space of ASCII.\<close>

fun split_commas :: "string \<Rightarrow> string list" where
  "split_commas [] = [[]]"
| "split_commas (c # s) =
     (if c = CHR '','' then [] # split_commas s
      else case split_commas s of [] \<Rightarrow> [[c]] | p # ps \<Rightarrow> (c # p) # ps)"

definition white_space :: "char \<Rightarrow> bool" where
  "white_space c \<longleftrightarrow> (let n = (of_char c :: nat) in n = 32 \<or> 9 \<le> n \<and> n \<le> 13)"

definition trim :: "string \<Rightarrow> string" where
  "trim s = rev (dropWhile white_space (rev (dropWhile white_space s)))"

text \<open>\<open>str::parse::<u8>()\<close>: an optional sign \<open>+\<close>, at least one digit, and no overflow on the way.\<close>

fun parse_digits :: "nat \<Rightarrow> string \<Rightarrow> nat option" where
  "parse_digits n [] = Some n"
| "parse_digits n (c # s) =
     (if is_digit c \<and> 10 * n + digit_val c \<le> 255 then parse_digits (10 * n + digit_val c) s
      else None)"

definition parse_u8 :: "string \<Rightarrow> u8 option" where
  "parse_u8 s =
     (let digits = (case s of c # rest \<Rightarrow> if c = CHR ''+'' then rest else s | [] \<Rightarrow> s) in
      if digits = [] then None else map_option word_of_nat (parse_digits 0 digits))"

text \<open>Collecting stops at the first part that does not parse.\<close>

fun parse_bytes :: "string list \<Rightarrow> cli_error + u8 list" where
  "parse_bytes [] = Inr []"
| "parse_bytes (p # ps) =
     and_then (ok_or (parse_u8 (trim p)) (ByteParseError p)) (\<lambda>b.
     and_then (parse_bytes ps) (\<lambda>bs. Inr (b # bs)))"

definition load_private_key :: "'d packages \<Rightarrow> cli_error + u8 list" where
  "load_private_key pk =
     and_then (ok_or (env_var pk PRIVATE_KEY_ENV_VAR) (EnvVarError PRIVATE_KEY_ENV_VAR))
       (\<lambda>private_key_str. parse_bytes (split_commas private_key_str))"

definition load_payer_from_env :: "'d packages \<Rightarrow> cli_error + keypair" where
  "load_payer_from_env pk =
     and_then (load_private_key pk) (\<lambda>private_key.
     ok_or (keypair_of_bytes pk private_key) (Package KeypairError))"

definition load_config_path_from_env :: "'d packages \<Rightarrow> cli_error + string" where
  "load_config_path_from_env pk =
     ok_or (env_var pk CONFIG_PATH_ENV_VAR) (EnvVarError CONFIG_PATH_ENV_VAR)"

section \<open>The configuration file\<close>

definition load_config :: "'d packages \<Rightarrow> cli_error + Config" where
  "load_config pk =
     (let config_path = (case load_config_path_from_env pk of Inr p \<Rightarrow> p | Inl _ \<Rightarrow> CONFIG_FILE_PATH) in
      if path_exists pk config_path then
        case read_to_string pk config_path of
          Some contents \<Rightarrow> ok_or (config_of_json pk contents) ConfigSyntaxError
        | None \<Rightarrow> Inl (Message ''Error Reading file'')
      else Inl (Message ''Config file not found''))"

text \<open>\<open>Pubkey::from_str(..)?\<close>\<close>

definition pubkey_from_str :: "'d packages \<Rightarrow> string \<Rightarrow> cli_error + pubkey" where
  "pubkey_from_str pk s = ok_or (pubkey_of_str pk s) (Package PubkeyError)"

section \<open>Fixed-point values\<close>

definition parse_units :: "'d packages \<Rightarrow> u64 \<Rightarrow> string \<Rightarrow> string \<Rightarrow> cli_error + u64" where
  "parse_units pk units msg text =
     (let multiplier = decimal_of_u64 pk units in
      and_then (ok_or (decimal_of_str pk text) (Package DecimalError)) (\<lambda>amount_input.
      and_then (ok_or (dec_mul pk amount_input multiplier) (CliPanic ''Multiplication overflowed'')) (\<lambda>product.
      ok_or (to_u64 (cli_decimals pk) product) (CliPanic msg))))"

definition parse_token_value :: "'d packages \<Rightarrow> string \<Rightarrow> cli_error + u64" where
  "parse_token_value pk token_value =
     parse_units pk TOKEN_UNITS_cli ''Token value overflow or conversion failed'' token_value"

definition parse_sol_value :: "'d packages \<Rightarrow> string \<Rightarrow> cli_error + u64" where
  "parse_sol_value pk sol_value =
     parse_units pk LAMPORTS_PER_SOL ''Sol value overflow or conversion failed'' sol_value"

definition convert_units :: "'d packages \<Rightarrow> u64 \<Rightarrow> string \<Rightarrow> u64 \<Rightarrow> cli_error + 'd" where
  "convert_units pk units msg amount =
     and_then (ok_or (from_u64 (cli_decimals pk) amount) (CliPanic msg)) (\<lambda>a.
     and_then (ok_or (from_u64 (cli_decimals pk) units) (CliPanic ''unwrap on None'')) (\<lambda>u.
     ok_or (dec_div (cli_decimals pk) a u) (CliPanic ''Division failed'')))"

definition convert_sol_value :: "'d packages \<Rightarrow> u64 \<Rightarrow> cli_error + 'd" where
  "convert_sol_value pk sol_amount = convert_units pk LAMPORTS_PER_SOL ''Invalid sol value'' sol_amount"

definition convert_token_value :: "'d packages \<Rightarrow> u64 \<Rightarrow> cli_error + 'd" where
  "convert_token_value pk token_amount =
     convert_units pk TOKEN_UNITS_cli ''Invalid token value'' token_amount"

text \<open>
  What the conversions rely on in the decimal package, besides \<open>decimal_laws\<close>: \<open>from\<close> and \<open>*\<close> are
  exact on values a decimal represents, and a text denotes the value it is read as.
\<close>

definition cli_decimal_laws :: "'d packages \<Rightarrow> ('d \<Rightarrow> rat) \<Rightarrow> bool" where
  "cli_decimal_laws pk val \<longleftrightarrow> decimal_laws (cli_decimals pk) val \<and>
     (\<forall>n. val (decimal_of_u64 pk n) = of_nat (unat n)) \<and>
     (\<forall>a b. representable (val a * val b) \<longrightarrow>
        (\<exists>d. dec_mul pk a b = Some d \<and> val d = val a * val b)) \<and>
     (\<forall>a. val a < 0 \<and> val a \<le> -1 \<or> 2 ^ 64 \<le> val a \<longrightarrow> to_u64 (cli_decimals pk) a = None)"

end
