(* ===== verification/Cli_Chain.thy ===== *)
theory Cli_Chain
  imports Cli_Base
begin

text \<open>
  How the command line tools reach the chain: the transaction executor with its retries
  (\<open>transaction_executor.rs\<close>), the program-derived addresses (\<open>pda_helper.rs\<close>), the account
  structures as the tools read them (\<open>structs.rs\<close>), associated token accounts (\<open>token_utils.rs\<close>)
  and the display of the fills registry (\<open>view_fills.rs\<close>).
\<close>

section \<open>Errors of the client\<close>

fun extract_tx_logs :: "client_error \<Rightarrow> string list option" where
  "extract_tx_logs (PreflightFailure logs text) = logs"
| "extract_tx_logs (OtherClientError text) = None"

fun client_error_text :: "client_error \<Rightarrow> string" where
  "client_error_text (PreflightFailure logs text) = text"
| "client_error_text (OtherClientError text) = text"

definition handle_error :: "client_error \<Rightarrow> cli_error" where
  "handle_error e =
     (case extract_tx_logs e of
        Some tx_logs \<Rightarrow> TransactionLogs tx_logs
      | None \<Rightarrow> TransactionLogs [client_error_text e])"

section \<open>Sending transactions\<close>

text \<open>
  \<open>Transaction::new_signed_with_payer\<close>: the payer and the signers of the instructions have to
  sign, and the given keys have to be among them; otherwise it panics.
\<close>

definition required_signers :: "Instruction list \<Rightarrow> pubkey \<Rightarrow> pubkey list" where
  "required_signers ixs payer =
     payer # map meta_pubkey (filter meta_is_signer (concat (map ix_accounts ixs)))"

definition new_signed_with_payer ::
    "Instruction list \<Rightarrow> pubkey \<Rightarrow> keypair list \<Rightarrow> u8 list \<Rightarrow> cli_error + Transaction" where
  "new_signed_with_payer ixs payer signers blockhash =
     (if list_all (\<lambda>k. contains signers k) (required_signers ixs payer) \<and>
         list_all (\<lambda>k. contains (required_signers ixs payer) k) signers
      then Inr \<lparr>tx_instructions = ixs, tx_payer = payer, tx_signers = signers, tx_blockhash = blockhash\<rparr>
      else Inl (CliPanic ''Transaction::sign failed''))"

definition load_config_or :: "'d packages \<Rightarrow> cli_error + Config" where
  "load_config_or pk = map_err (\<lambda>_. Message ''Error when reading config file'') (load_config pk)"

definition send_batch_instructions_with_signers ::
    "'d packages \<Rightarrow> 'w network \<Rightarrow> Instruction list \<Rightarrow> keypair list \<Rightarrow> ('w, 'd, string) io" where
  "send_batch_instructions_with_signers pk net ixs other_signers =
     io_try (load_payer_from_env pk) (\<lambda>payer.
     io_try (load_config_or pk) (\<lambda>config.
     io_world (latest_blockhash net (cfg_rpc_url config)) (\<lambda>recent.
     io_try (ok_or recent (Message ''Error when getting latest block hash'')) (\<lambda>recent_block_hash.
     io_try (new_signed_with_payer ixs payer (payer # other_signers) recent_block_hash) (\<lambda>transaction.
     io_world (send_and_confirm net (cfg_rpc_url config) transaction) (\<lambda>signature.
     case signature of
       Inr tx \<Rightarrow> io_ok tx
     | Inl e \<Rightarrow> io_fail (handle_error e)))))))"

definition send_batch_instructions ::
    "'d packages \<Rightarrow> 'w network \<Rightarrow> Instruction list \<Rightarrow> ('w, 'd, string) io" where
  "send_batch_instructions pk net ixs = send_batch_instructions_with_signers pk net ixs []"

text \<open>The return data of the confirmed transaction, if it comes from the program.\<close>

definition extract_return_data ::
    "'d packages \<Rightarrow> string \<Rightarrow> TransactionStatus \<Rightarrow> cli_error + u8 list" where
  "extract_return_data pk program_id tx_status =
     (case tx_status of
        Some (Some d) \<Rightarrow>
          if rd_program_id d = program_id
          then ok_or (base64_standard pk (rd_data d)) (Package Base64Error)
          else Inl (Message ''Deserialization error'')
      | _ \<Rightarrow> Inl (Message ''Deserialization error''))"

text \<open>
  The loop over \<open>0..RETRY_COUNT\<close>: every attempt but the first waits, the first answer ends the
  loop, and a missing answer is tried again.
\<close>

function read_result ::
    "'d packages \<Rightarrow> 'w network \<Rightarrow> Config \<Rightarrow> string \<Rightarrow> (u8 list \<Rightarrow> cli_error + 'a) \<Rightarrow> nat \<Rightarrow>
     ('w, 'd, 'a) io" where
  "read_result pk net config sig try_deserialize i =
     (if i < RETRY_COUNT then
        io_world (if 0 < i then sleep_secs net RETRY_DELAY else Pair ()) (\<lambda>_.
        io_world (get_transaction net (cfg_rpc_url config) sig) (\<lambda>tx_status.
        case tx_status of
          Some tx_status \<Rightarrow>
            io_try (extract_return_data pk (cfg_program_id config) tx_status) (\<lambda>return_data.
            io_try (try_deserialize return_data) io_ok)
        | None \<Rightarrow> read_result pk net config sig try_deserialize (Suc i)))
      else io_fail (Message ''Deserialization error''))"
  by auto
termination
  by (relation "measure (\<lambda>(pk, net, config, sig, de, i). RETRY_COUNT - i)") auto

declare read_result.simps [simp del]

definition send_instruction_with_return_data ::
    "'d packages \<Rightarrow> 'w network \<Rightarrow> (u8 list \<Rightarrow> cli_error + 'a) \<Rightarrow> Instruction \<Rightarrow> ('w, 'd, 'a) io" where
  "send_instruction_with_return_data pk net try_deserialize instruction =
     io_try (load_payer_from_env pk) (\<lambda>payer.
     io_try (load_config_or pk) (\<lambda>config.
     io_world (latest_blockhash net (cfg_rpc_url config)) (\<lambda>recent.
     io_try (ok_or recent (Message ''Error when getting latest block hash'')) (\<lambda>recent_block_hash.
     io_try (new_signed_with_payer [instruction] payer [payer] recent_block_hash) (\<lambda>transaction.
     io_world (send_and_confirm net (cfg_rpc_url config) transaction) (\<lambda>signature.
     case signature of
       Inl e \<Rightarrow> io_fail (handle_error e)
     | Inr sig \<Rightarrow> read_result pk net config sig try_deserialize 0))))))"

definition get_account_data ::
    "'w network \<Rightarrow> (u8 list \<Rightarrow> cli_error + 'a) \<Rightarrow> string \<Rightarrow> pubkey \<Rightarrow> ('w, 'd, 'a) io" where
  "get_account_data net try_deserialize url account =
     io_world (account_bytes net url account) (\<lambda>data.
     io_try (ok_or data (Package RpcError)) (\<lambda>data.
     io_try (try_deserialize data) io_ok))"

section \<open>Return data\<close>

text \<open>\<open>u64::from_le_bytes(data.try_into()?)\<close>\<close>

definition u64_return_data :: "u8 list \<Rightarrow> cli_error + u64" where
  "u64_return_data bytes = ok_or (from_le_bytes bytes) (Package SliceLengthError)"

section \<open>Accounts as the tools read them\<close>

text \<open>\<open>*buf = &buf[8..]\<close> panics on fewer than eight bytes; what follows the structure is ignored.\<close>

definition skip_discriminator :: "u8 list \<Rightarrow> cli_error + u8 list" where
  "skip_discriminator buf =
     (if length buf < 8 then Inl (CliPanic ''range start index out of range'') else Inr (drop 8 buf))"

definition borsh_prefix :: "'a reader \<Rightarrow> u8 list \<Rightarrow> cli_error + 'a" where
  "borsh_prefix get buf = map_err (\<lambda>_. Package BorshError) (ok_or (map_option fst (get buf)) ())"

definition get_ConfigurationRegistry_cli :: "ConfigurationRegistry reader" where
  "get_ConfigurationRegistry_cli =
     get_bind get_pubkey (\<lambda>oracle. get_bind get_u64 (\<lambda>quantity. get_bind get_u64 (\<lambda>age.
     get_bind get_pubkey (\<lambda>consumer. get_bind get_u64 (\<lambda>coeff. get_bind get_u64 (\<lambda>mx.
     get_bind get_u64 (\<lambda>mn.
     get_return \<lparr>oracle_pubkey = oracle, sol_quantity = quantity, price_maximum_age = age,
       fills_consumer = consumer, coefficient = coeff, max_discount_rate = mx,
       min_discount_rate = mn\<rparr>)))))))"

definition ConfigurationRegistry_try_deserialize :: "u8 list \<Rightarrow> cli_error + ConfigurationRegistry" where
  "ConfigurationRegistry_try_deserialize buf =
     and_then (skip_discriminator buf) (borsh_prefix get_ConfigurationRegistry_cli)"

record BumpRegistry_cli =
  br_configuration_registry_bump :: u8
  br_program_state_bump :: u8
  br_deny_list_registry_bump :: u8

record ProgramStateAccount_cli =
  ps_admin :: pubkey
  ps_fills_registry_address :: pubkey
  ps_is_halted :: bool
  ps_bump_registry :: BumpRegistry_cli
  ps_last_trade_slot :: u64
  ps_deny_list_authority :: pubkey

definition get_BumpRegistry_cli :: "BumpRegistry_cli reader" where
  "get_BumpRegistry_cli =
     get_bind get_u8 (\<lambda>b1. get_bind get_u8 (\<lambda>b2. get_bind get_u8 (\<lambda>b3.
     get_return \<lparr>br_configuration_registry_bump = b1, br_program_state_bump = b2,
       br_deny_list_registry_bump = b3\<rparr>)))"

definition get_ProgramStateAccount_cli :: "ProgramStateAccount_cli reader" where
  "get_ProgramStateAccount_cli =
     get_bind get_pubkey (\<lambda>a. get_bind get_pubkey (\<lambda>fills. get_bind get_bool (\<lambda>halted.
     get_bind get_BumpRegistry_cli (\<lambda>bumps. get_bind get_u64 (\<lambda>slot. get_bind get_pubkey (\<lambda>authority.
     get_return \<lparr>ps_admin = a, ps_fills_registry_address = fills, ps_is_halted = halted,
       ps_bump_registry = bumps, ps_last_trade_slot = slot, ps_deny_list_authority = authority\<rparr>))))))"

definition ProgramStateAccount_try_deserialize :: "u8 list \<Rightarrow> cli_error + ProgramStateAccount_cli" where
  "ProgramStateAccount_try_deserialize buf =
     and_then (skip_discriminator buf) (borsh_prefix get_ProgramStateAccount_cli)"

section \<open>Addresses\<close>

definition get_configuration_registry_pda :: "'d packages \<Rightarrow> pubkey \<Rightarrow> pubkey \<times> u8" where
  "get_configuration_registry_pda pk program_id = find_pda pk [CONFIGURATION_REGISTRY_SEEDS] program_id"

definition get_program_state_pda :: "'d packages \<Rightarrow> pubkey \<Rightarrow> pubkey \<times> u8" where
  "get_program_state_pda pk program_id = find_pda pk [PROGRAM_STATE_SEEDS] program_id"

definition get_fills_registry_address ::
    "'d packages \<Rightarrow> 'w network \<Rightarrow> pubkey \<Rightarrow> string \<Rightarrow> ('w, 'd, pubkey) io" where
  "get_fills_registry_address pk net program_id url =
     io_bind (get_account_data net ProgramStateAccount_try_deserialize url
       (fst (get_program_state_pda pk program_id))) (\<lambda>program_state_account.
     io_ok (ps_fills_registry_address program_state_account))"

definition get_deny_list_registry_pda :: "'d packages \<Rightarrow> pubkey \<Rightarrow> pubkey \<times> u8" where
  "get_deny_list_registry_pda pk program_id = find_pda pk [DENY_LIST_REGISTRY_SEEDS] program_id"

definition get_withdraw_authority_pda :: "'d packages \<Rightarrow> pubkey \<Rightarrow> pubkey \<times> u8" where
  "get_withdraw_authority_pda pk program_id = find_pda pk [WITHDRAW_SOL_AUTHORITY_SEEDS] program_id"

definition get_program_data_account_pda :: "'d packages \<Rightarrow> pubkey \<Rightarrow> pubkey" where
  "get_program_data_account_pda pk program_id = program_data_address pk program_id"

definition get_config_pda :: "'d packages \<Rightarrow> pubkey \<Rightarrow> pubkey \<times> u8" where
  "get_config_pda pk transfer_program_id = find_pda pk [MOCK_CONFIG_ACCOUNT] transfer_program_id"

definition get_journal_pda :: "'d packages \<Rightarrow> pubkey \<Rightarrow> pubkey \<times> u8" where
  "get_journal_pda pk transfer_program_id =
     find_pda pk [MOCK_REVENUE_DISTRIBUTION_JOURNAL] transfer_program_id"

definition get_token_mint_pda :: "'d packages \<Rightarrow> pubkey \<Rightarrow> pubkey \<times> u8" where
  "get_token_mint_pda pk transfer_program_id = find_pda pk [MOCK_2Z_TOKEN_MINT_SEED_cli] transfer_program_id"

definition get_protocol_treasury_token_account_pda :: "'d packages \<Rightarrow> pubkey \<Rightarrow> pubkey \<times> u8" where
  "get_protocol_treasury_token_account_pda pk transfer_program_id =
     find_pda pk [MOCK_PROTOCOL_TREASURY_SEED_cli] transfer_program_id"

section \<open>Associated token accounts\<close>

definition find_or_initialize_associated_token_account ::
    "'d packages \<Rightarrow> 'w network \<Rightarrow> keypair \<Rightarrow> pubkey \<Rightarrow> string \<Rightarrow> ('w, 'd, pubkey) io" where
  "find_or_initialize_associated_token_account pk net payer mint url =
     (let associated_token_account = associated_token_address pk payer mint (spl_token_id pk) in
      io_world (account_bytes net url associated_token_account) (\<lambda>data.
      if data \<noteq> None then io_ok associated_token_account
      else
        io_bind (send_batch_instructions pk net
          [create_associated_token_account pk payer payer mint (spl_token_id pk)]) (\<lambda>_.
        io_ok associated_token_account)))"

section \<open>The display of the fills registry\<close>

text \<open>
  The account in memory is cast to the structure (\<open>bytemuck::from_bytes\<close>): it has to be long
  enough.  The pending fills are shown in ring order; the workspace builds with overflow checks, so
  an index past 64 bits is a panic.
\<close>

definition cli_fills_registry :: "u8 list \<Rightarrow> cli_error + FillsRegistry" where
  "cli_fills_registry account_data =
     and_then (skip_discriminator account_data) (\<lambda>account_data_slice.
     if length account_data_slice < FILLS_REGISTRY_SIZE
     then Inl (CliPanic ''range end index out of range'')
     else Inr (cast_FillsRegistry (take FILLS_REGISTRY_SIZE account_data_slice)))"

fun show_fills ::
    "'d packages \<Rightarrow> FillsRegistry \<Rightarrow> nat list \<Rightarrow> ('w, 'd, unit) io" where
  "show_fills pk r [] = io_ok ()"
| "show_fills pk r (i # is) =
     (if 2 ^ 64 \<le> unat (head r) + i then io_fail (CliPanic ''attempt to add with overflow'')
      else
        let idx = (unat (head r) + i) mod MAX_FILLS_QUEUE_SIZE_cli; fill = fills r idx in
        io_try (convert_sol_value pk (sol_in fill)) (\<lambda>fill_quantity.
        io_bind (io_print (FillEntry i fill_quantity (token_2z_out fill))) (\<lambda>_.
        show_fills pk r is)))"

definition view_fills_registry :: "'d packages \<Rightarrow> 'w network \<Rightarrow> ('w, 'd, unit) io" where
  "view_fills_registry pk net =
     io_try (load_config pk) (\<lambda>config.
     io_try (pubkey_from_str pk (cfg_program_id config)) (\<lambda>program_id.
     io_bind (get_fills_registry_address pk net program_id (cfg_rpc_url config)) (\<lambda>address.
     io_world (account_bytes net (cfg_rpc_url config) address) (\<lambda>account_data.
     io_try (ok_or account_data (Package RpcError)) (\<lambda>account_data.
     io_try (cli_fills_registry account_data) (\<lambda>r.
     io_try (convert_sol_value pk (total_sol_pending r)) (\<lambda>sol.
     io_try (convert_token_value pk (total_2z_pending r)) (\<lambda>tokens.
     io_bind (io_print (FillsSummary (count r) (head r) (tail r) sol (total_sol_pending r) tokens
       (total_2z_pending r))) (\<lambda>_.
     if count r = 0 then io_print NoPendingFills
     else show_fills pk r [0..<unat (count r)])))))))))"

end
