(* ===== verification/Admin_Cli.thy ===== *)
theory Admin_Cli
  imports Cli_Chain
begin

text \<open>
  The administrators' command line tool (\<open>admin-cli\<close>): its configuration, the instruction each
  command builds, and the dispatch of the commands.
\<close>

section \<open>Configuration\<close>

record AdminConfig =
  ac_rpc_url :: string
  ac_program_id :: string
  ac_double_zero_program_id :: string
  ac_oracle_pubkey :: pubkey
  ac_sol_quantity :: u64
  ac_price_maximum_age :: i64
  ac_coefficient :: u64
  ac_max_discount_rate :: u64
  ac_min_discount_rate :: u64

definition missing :: "string \<Rightarrow> cli_error" where
  "missing field = Message (''Missing '' @ field @ '' in config file'')"

definition load_admin_config :: "'d packages \<Rightarrow> cli_error + AdminConfig" where
  "load_admin_config pk =
     and_then (load_config pk) (\<lambda>raw_config.
     and_then (ok_or (cfg_oracle_pubkey raw_config) (missing ''oracle_pubkey'')) (\<lambda>raw_pub_key.
     and_then (pubkey_from_str pk raw_pub_key) (\<lambda>oracle.
     and_then (ok_or (cfg_sol_quantity raw_config) (missing ''sol_quantity'')) (\<lambda>quantity.
     and_then (ok_or (cfg_price_maximum_age raw_config) (missing ''price_maximum_age'')) (\<lambda>age.
     and_then (ok_or (cfg_coefficient raw_config) (missing ''coefficient'')) (\<lambda>coeff.
     and_then (ok_or (cfg_max_discount_rate raw_config) (missing ''max_discount_rate'')) (\<lambda>mx.
     and_then (ok_or (cfg_min_discount_rate raw_config) (missing ''min_discount_rate'')) (\<lambda>mn.
     Inr \<lparr>ac_rpc_url = cfg_rpc_url raw_config, ac_program_id = cfg_program_id raw_config,
       ac_double_zero_program_id = cfg_double_zero_program_id raw_config, ac_oracle_pubkey = oracle,
       ac_sol_quantity = quantity, ac_price_maximum_age = age, ac_coefficient = coeff,
       ac_max_discount_rate = mx, ac_min_discount_rate = mn\<rparr>))))))))"

section \<open>Instruction names and account metas\<close>

definition INITIALIZE_SYSTEM_INSTRUCTION :: string where
  "INITIALIZE_SYSTEM_INSTRUCTION = ''global:initialize_system''"

definition SET_FILLS_CONSUMER_INSTRUCTION :: string where
  "SET_FILLS_CONSUMER_INSTRUCTION = ''global:set_fills_consumer''"

definition ADD_TO_DENY_LIST_INSTRUCTION :: string where
  "ADD_TO_DENY_LIST_INSTRUCTION = ''global:add_to_deny_list''"

definition REMOVE_FROM_DENY_LIST_INSTRUCTION :: string where
  "REMOVE_FROM_DENY_LIST_INSTRUCTION = ''global:remove_from_deny_list''"

definition UPDATE_CONFIGURATION_REGISTRY_INSTRUCTION :: string where
  "UPDATE_CONFIGURATION_REGISTRY_INSTRUCTION = ''global:update_configuration_registry''"

definition SET_ADMIN_INSTRUCTION :: string where
  "SET_ADMIN_INSTRUCTION = ''global:set_admin''"

definition TOGGLE_SYSTEM_STATE_INSTRUCTION :: string where
  "TOGGLE_SYSTEM_STATE_INSTRUCTION = ''global:toggle_system_state''"

definition SET_DENY_LIST_AUTHORITY_INSTRUCTION :: string where
  "SET_DENY_LIST_AUTHORITY_INSTRUCTION = ''global:set_deny_list_authority''"

definition MOCK_SYSTEM_INITIALIZE :: string where
  "MOCK_SYSTEM_INITIALIZE = ''dz::ix::initialize''"

definition MOCK_TOKEN_MINT_INSTRUCTION :: string where
  "MOCK_TOKEN_MINT_INSTRUCTION = ''dz::ix::mint2z''"

text \<open>\<open>AccountMeta::new\<close> and \<open>AccountMeta::new_readonly\<close>.\<close>

definition meta_new :: "pubkey \<Rightarrow> bool \<Rightarrow> AccountMeta" where
  "meta_new k signer = \<lparr>meta_pubkey = k, meta_is_signer = signer, meta_is_writable = True\<rparr>"

definition meta_new_readonly :: "pubkey \<Rightarrow> bool \<Rightarrow> AccountMeta" where
  "meta_new_readonly k signer = \<lparr>meta_pubkey = k, meta_is_signer = signer, meta_is_writable = False\<rparr>"

text \<open>\<open>hash(NAME).to_bytes()[..8]\<close> is \<open>discriminator\<close>.\<close>

section \<open>Initialisation\<close>

definition FILLS_ACCOUNT_SPACE :: nat where
  "FILLS_ACCOUNT_SPACE = 10485760"

definition initialize_instruction ::
    "'d packages \<Rightarrow> AdminConfig \<Rightarrow> pubkey \<Rightarrow> pubkey \<Rightarrow> pubkey \<Rightarrow> Instruction" where
  "initialize_instruction pk admin_config program_id payer fills_account =
     \<lparr>ix_program_id = program_id,
      ix_accounts =
        [meta_new (fst (get_configuration_registry_pda pk program_id)) False,
         meta_new (fst (get_program_state_pda pk program_id)) False,
         meta_new (fst (get_deny_list_registry_pda pk program_id)) False,
         meta_new fills_account False,
         meta_new (fst (get_withdraw_authority_pda pk program_id)) False,
         meta_new program_id False,
         meta_new (get_program_data_account_pda pk program_id) False,
         meta_new SYSTEM_PROGRAM_ID False,
         meta_new payer True],
      ix_data =
        discriminator (sha256 pk) INITIALIZE_SYSTEM_INSTRUCTION @
        to_bytes (ac_oracle_pubkey admin_config) @ to_le_bytes (ac_sol_quantity admin_config) @
        to_le_bytes (ac_price_maximum_age admin_config) @ to_le_bytes (ac_coefficient admin_config) @
        to_le_bytes (ac_max_discount_rate admin_config) @
        to_le_bytes (ac_min_discount_rate admin_config)\<rparr>"

definition admin_init :: "'d packages \<Rightarrow> 'w network \<Rightarrow> ('w, 'd, unit) io" where
  "admin_init pk net =
     io_try (load_admin_config pk) (\<lambda>admin_config.
     io_try (pubkey_from_str pk (ac_program_id admin_config)) (\<lambda>program_id.
     io_try (load_payer_from_env pk) (\<lambda>payer.
     io_world (new_keypair net) (\<lambda>fills_account.
     io_world (rent_exemption net (ac_rpc_url admin_config) FILLS_ACCOUNT_SPACE) (\<lambda>rent.
     io_try (ok_or rent (Package RpcError)) (\<lambda>rent.
     io_bind (send_batch_instructions_with_signers pk net
       [create_account_ix pk payer fills_account rent (word_of_nat FILLS_ACCOUNT_SPACE) program_id,
        initialize_instruction pk admin_config program_id payer fills_account]
       [fills_account]) (\<lambda>_.
     io_ok ())))))))"

section \<open>Configuration commands\<close>

definition view_config :: "'d packages \<Rightarrow> 'w network \<Rightarrow> ('w, 'd, unit) io" where
  "view_config pk net =
     io_try (load_admin_config pk) (\<lambda>admin_config.
     io_try (pubkey_from_str pk (ac_program_id admin_config)) (\<lambda>program_id.
     io_bind (get_account_data net ConfigurationRegistry_try_deserialize (ac_rpc_url admin_config)
       (fst (get_configuration_registry_pda pk program_id))) (\<lambda>config_registry.
     io_print (ConfigDump config_registry))))"

definition update_config_input :: "AdminConfig \<Rightarrow> ConfigurationRegistryInput" where
  "update_config_input admin_config =
     \<lparr>in_oracle_pubkey = Some (ac_oracle_pubkey admin_config),
      in_sol_quantity = Some (ac_sol_quantity admin_config),
      in_price_maximum_age = Some (ac_price_maximum_age admin_config),
      in_coefficient = Some (ac_coefficient admin_config),
      in_max_discount_rate = Some (ac_max_discount_rate admin_config),
      in_min_discount_rate = Some (ac_min_discount_rate admin_config)\<rparr>"

definition update_config :: "'d packages \<Rightarrow> 'w network \<Rightarrow> ('w, 'd, unit) io" where
  "update_config pk net =
     io_try (load_admin_config pk) (\<lambda>admin_config.
     io_try (pubkey_from_str pk (ac_program_id admin_config)) (\<lambda>program_id.
     io_try (load_payer_from_env pk) (\<lambda>payer.
     io_bind (send_batch_instructions pk net
       [\<lparr>ix_program_id = program_id,
         ix_accounts =
           [meta_new (fst (get_configuration_registry_pda pk program_id)) False,
            meta_new_readonly (fst (get_program_state_pda pk program_id)) False,
            meta_new payer True],
         ix_data = discriminator (sha256 pk) UPDATE_CONFIGURATION_REGISTRY_INSTRUCTION @
           put_ConfigurationRegistryInput (update_config_input admin_config)\<rparr>]) (\<lambda>_.
     io_ok ()))))"

definition change_fills_consumer :: "'d packages \<Rightarrow> 'w network \<Rightarrow> string \<Rightarrow> ('w, 'd, unit) io" where
  "change_fills_consumer pk net consumer_text =
     io_try (load_admin_config pk) (\<lambda>admin_config.
     io_try (pubkey_from_str pk (ac_program_id admin_config)) (\<lambda>program_id.
     io_try (load_payer_from_env pk) (\<lambda>payer.
     io_try (pubkey_from_str pk consumer_text) (\<lambda>fills_consumer_pub_key.
     io_bind (send_batch_instructions pk net
       [\<lparr>ix_program_id = program_id,
         ix_accounts =
           [meta_new (fst (get_configuration_registry_pda pk program_id)) False,
            meta_new (fst (get_program_state_pda pk program_id)) False,
            meta_new payer True],
         ix_data = discriminator (sha256 pk) SET_FILLS_CONSUMER_INSTRUCTION @
           to_bytes fills_consumer_pub_key\<rparr>]) (\<lambda>_.
     io_ok ())))))"

section \<open>System state\<close>

definition view_system_state :: "'d packages \<Rightarrow> 'w network \<Rightarrow> ('w, 'd, unit) io" where
  "view_system_state pk net =
     io_try (load_admin_config pk) (\<lambda>admin_config.
     io_try (pubkey_from_str pk (ac_program_id admin_config)) (\<lambda>program_id.
     io_bind (get_account_data net ProgramStateAccount_try_deserialize (ac_rpc_url admin_config)
       (fst (get_program_state_pda pk program_id))) (\<lambda>program_state.
     io_print (SystemStateLine (ps_is_halted program_state)))))"

definition INVALID_ARGUMENTS :: string where
  "INVALID_ARGUMENTS = ''Invalid arguments''"

definition COMMAND_NOT_SPECIFIED :: string where
  "COMMAND_NOT_SPECIFIED = ''No command specified. Use --help for available commands''"

definition validate_and_extract_user_input :: "bool \<Rightarrow> bool \<Rightarrow> cli_error + bool" where
  "validate_and_extract_user_input activate pause =
     (if activate \<and> pause then Inl (Message INVALID_ARGUMENTS)
      else
        let set_to = (if activate then Some False else if pause then Some True else None) in
        case set_to of
          Some value \<Rightarrow> Inr value
        | None \<Rightarrow> Inl (Message INVALID_ARGUMENTS))"

definition toggle_system_state_cmd ::
    "'d packages \<Rightarrow> 'w network \<Rightarrow> bool \<Rightarrow> bool \<Rightarrow> ('w, 'd, unit) io" where
  "toggle_system_state_cmd pk net activate pause =
     io_try (validate_and_extract_user_input activate pause) (\<lambda>set_to.
     io_try (load_payer_from_env pk) (\<lambda>payer.
     io_try (load_admin_config pk) (\<lambda>admin_config.
     io_try (pubkey_from_str pk (ac_program_id admin_config)) (\<lambda>program_id.
     io_bind (send_batch_instructions pk net
       [\<lparr>ix_program_id = program_id,
         ix_accounts =
           [meta_new payer True, meta_new (fst (get_program_state_pda pk program_id)) False],
         ix_data = discriminator (sha256 pk) TOGGLE_SYSTEM_STATE_INSTRUCTION @
           [if set_to then 1 else 0]\<rparr>]) (\<lambda>_.
     io_ok ())))))"

section \<open>Deny list\<close>

definition deny_list_metas :: "'d packages \<Rightarrow> pubkey \<Rightarrow> pubkey \<Rightarrow> AccountMeta list" where
  "deny_list_metas pk program_id payer =
     [meta_new (fst (get_deny_list_registry_pda pk program_id)) False,
      meta_new (fst (get_program_state_pda pk program_id)) False,
      meta_new payer True]"

definition add_to_deny_list_cmd :: "'d packages \<Rightarrow> 'w network \<Rightarrow> string \<Rightarrow> ('w, 'd, unit) io" where
  "add_to_deny_list_cmd pk net address =
     io_try (load_admin_config pk) (\<lambda>admin_config.
     io_try (pubkey_from_str pk (ac_program_id admin_config)) (\<lambda>program_id.
     io_try (pubkey_from_str pk address) (\<lambda>address_pubkey.
     io_try (load_payer_from_env pk) (\<lambda>payer.
     io_bind (send_batch_instructions pk net
       [\<lparr>ix_program_id = program_id, ix_accounts = deny_list_metas pk program_id payer,
         ix_data = discriminator (sha256 pk) ADD_TO_DENY_LIST_INSTRUCTION @
           to_bytes address_pubkey\<rparr>]) (\<lambda>_.
     io_ok ())))))"

definition remove_from_deny_list_cmd :: "'d packages \<Rightarrow> 'w network \<Rightarrow> string \<Rightarrow> ('w, 'd, unit) io" where
  "remove_from_deny_list_cmd pk net address =
     io_try (load_admin_config pk) (\<lambda>admin_config.
     io_try (pubkey_from_str pk (ac_program_id admin_config)) (\<lambda>program_id.
     io_try (pubkey_from_str pk address) (\<lambda>address_pubkey.
     io_try (load_payer_from_env pk) (\<lambda>payer.
     io_bind (send_batch_instructions pk net
       [\<lparr>ix_program_id = program_id, ix_accounts = deny_list_metas pk program_id payer,
         ix_data = discriminator (sha256 pk) REMOVE_FROM_DENY_LIST_INSTRUCTION @
           to_bytes address_pubkey\<rparr>]) (\<lambda>_.
     io_ok ())))))"

text \<open>
  The display parses the account by hand: the loop runs over the stored count and stops at the
  first entry that would reach past the data.
\<close>

definition pubkey_of_bytes :: "u8 list \<Rightarrow> pubkey" where
  "pubkey_of_bytes bs = word_of_nat (of_le_bytes (rev bs))"

fun denied_lines :: "u8 list \<Rightarrow> nat \<Rightarrow> nat \<Rightarrow> nat \<Rightarrow> 'd line list" where
  "denied_lines dat offset i 0 = []"
| "denied_lines dat offset i (Suc n) =
     (if offset + 32 \<le> length dat then
        DeniedEntry (i + 1) (pubkey_of_bytes (take 32 (drop offset dat))) #
        denied_lines dat (offset + 32) (i + 1) n
      else [TruncatedEntry (i + 1)])"

definition deny_list_lines :: "u8 list \<Rightarrow> 'd line list" where
  "deny_list_lines account_data =
     (if length account_data < 16 then [AccountTooSmall]
      else
        let dat = drop 8 account_data in
        if length dat < 4 then [InvalidFormat]
        else
          let vec_len = of_le_bytes [dat ! 0, dat ! 1, dat ! 2, dat ! 3] in
          DeniedCount vec_len #
          (if vec_len = 0 then [NoDenied] else denied_lines dat 4 0 vec_len))"

definition view_deny_list :: "'d packages \<Rightarrow> 'w network \<Rightarrow> ('w, 'd, unit) io" where
  "view_deny_list pk net =
     io_try (load_admin_config pk) (\<lambda>admin_config.
     io_try (pubkey_from_str pk (ac_program_id admin_config)) (\<lambda>program_id.
     io_world (account_bytes net (ac_rpc_url admin_config)
       (fst (get_deny_list_registry_pda pk program_id))) (\<lambda>account.
     case account of
       Some bytes \<Rightarrow> io_prints (deny_list_lines bytes)
     | None \<Rightarrow> io_print FetchFailed)))"

section \<open>The upgrade authority's commands\<close>

definition upgrade_authority_metas :: "'d packages \<Rightarrow> pubkey \<Rightarrow> pubkey \<Rightarrow> AccountMeta list" where
  "upgrade_authority_metas pk program_id payer =
     [meta_new payer True,
      meta_new (fst (get_program_state_pda pk program_id)) False,
      meta_new_readonly program_id False,
      meta_new_readonly (get_program_data_account_pda pk program_id) False]"

definition set_admin_cmd :: "'d packages \<Rightarrow> 'w network \<Rightarrow> string \<Rightarrow> ('w, 'd, unit) io" where
  "set_admin_cmd pk net admin_text =
     io_try (load_payer_from_env pk) (\<lambda>payer.
     io_try (load_admin_config pk) (\<lambda>admin_config.
     io_try (pubkey_from_str pk (ac_program_id admin_config)) (\<lambda>program_id.
     io_try (pubkey_from_str pk admin_text) (\<lambda>admin_pubkey.
     io_bind (send_batch_instructions pk net
       [\<lparr>ix_program_id = program_id, ix_accounts = upgrade_authority_metas pk program_id payer,
         ix_data = discriminator (sha256 pk) SET_ADMIN_INSTRUCTION @ to_bytes admin_pubkey\<rparr>]) (\<lambda>_.
     io_ok ())))))"

definition set_deny_authority :: "'d packages \<Rightarrow> 'w network \<Rightarrow> string \<Rightarrow> ('w, 'd, unit) io" where
  "set_deny_authority pk net authority_text =
     io_try (load_payer_from_env pk) (\<lambda>payer.
     io_try (load_admin_config pk) (\<lambda>admin_config.
     io_try (pubkey_from_str pk (ac_program_id admin_config)) (\<lambda>program_id.
     io_try (pubkey_from_str pk authority_text) (\<lambda>authority_pubkey.
     io_bind (send_batch_instructions pk net
       [\<lparr>ix_program_id = program_id, ix_accounts = upgrade_authority_metas pk program_id payer,
         ix_data = discriminator (sha256 pk) SET_DENY_LIST_AUTHORITY_INSTRUCTION @
           to_bytes authority_pubkey\<rparr>]) (\<lambda>_.
     io_ok ())))))"

section \<open>The mock program\<close>

definition mock_init :: "'d packages \<Rightarrow> 'w network \<Rightarrow> ('w, 'd, unit) io" where
  "mock_init pk net =
     io_try (load_admin_config pk) (\<lambda>admin_config.
     io_try (pubkey_from_str pk (ac_double_zero_program_id admin_config)) (\<lambda>mock_program_id.
     io_try (load_payer_from_env pk) (\<lambda>payer.
     io_bind (send_batch_instructions pk net
       [\<lparr>ix_program_id = mock_program_id,
         ix_accounts =
           [meta_new (fst (get_config_pda pk mock_program_id)) False,
            meta_new (fst (get_journal_pda pk mock_program_id)) False,
            meta_new (fst (get_token_mint_pda pk mock_program_id)) False,
            meta_new (fst (get_protocol_treasury_token_account_pda pk mock_program_id)) False,
            meta_new (spl_token_id pk) False,
            meta_new (rent_sysvar_id pk) False,
            meta_new SYSTEM_PROGRAM_ID False,
            meta_new payer True],
         ix_data = discriminator (sha256 pk) MOCK_SYSTEM_INITIALIZE\<rparr>]) (\<lambda>_.
     io_ok ()))))"

definition mint_to_account :: "'d packages \<Rightarrow> 'w network \<Rightarrow> pubkey \<Rightarrow> string \<Rightarrow> ('w, 'd, unit) io" where
  "mint_to_account pk net recipient_pub_key amount =
     io_try (load_admin_config pk) (\<lambda>admin_config.
     io_try (pubkey_from_str pk (ac_double_zero_program_id admin_config)) (\<lambda>mock_program_id.
     io_try (parse_token_value pk amount) (\<lambda>amount_parsed.
     io_bind (send_batch_instructions pk net
       [\<lparr>ix_program_id = mock_program_id,
         ix_accounts =
           [meta_new recipient_pub_key False,
            meta_new (fst (get_token_mint_pda pk mock_program_id)) False,
            meta_new (spl_token_id pk) False],
         ix_data = discriminator (sha256 pk) MOCK_TOKEN_MINT_INSTRUCTION @
           to_le_bytes amount_parsed\<rparr>]) (\<lambda>_.
     io_ok ()))))"

definition mint :: "'d packages \<Rightarrow> 'w network \<Rightarrow> string option \<Rightarrow> string \<Rightarrow> ('w, 'd, unit) io" where
  "mint pk net to_pub_key amount =
     io_try (load_admin_config pk) (\<lambda>admin_config.
     io_try (pubkey_from_str pk (ac_double_zero_program_id admin_config)) (\<lambda>mock_program_id.
     io_try (load_payer_from_env pk) (\<lambda>payer.
     io_bind
       (case to_pub_key of
          Some key_str \<Rightarrow> io_try (pubkey_from_str pk key_str) io_ok
        | None \<Rightarrow> find_or_initialize_associated_token_account pk net payer
            (fst (get_token_mint_pda pk mock_program_id)) (ac_rpc_url admin_config))
       (\<lambda>recipient_pub_key. mint_to_account pk net recipient_pub_key amount))))"

definition mint_to_protocol_treasury_token_account ::
    "'d packages \<Rightarrow> 'w network \<Rightarrow> string \<Rightarrow> ('w, 'd, unit) io" where
  "mint_to_protocol_treasury_token_account pk net amount =
     io_try (load_admin_config pk) (\<lambda>admin_config.
     io_try (pubkey_from_str pk (ac_double_zero_program_id admin_config)) (\<lambda>mock_program_id.
     mint_to_account pk net (fst (get_protocol_treasury_token_account_pda pk mock_program_id)) amount))"

definition airdrop_journal :: "'d packages \<Rightarrow> 'w network \<Rightarrow> string \<Rightarrow> ('w, 'd, unit) io" where
  "airdrop_journal pk net amount =
     io_try (load_admin_config pk) (\<lambda>admin_config.
     io_try (pubkey_from_str pk (ac_double_zero_program_id admin_config)) (\<lambda>mock_program_id.
     io_try (load_payer_from_env pk) (\<lambda>_.
     io_try (parse_sol_value pk amount) (\<lambda>amount_parsed.
     io_world (request_airdrop net (ac_rpc_url admin_config) (fst (get_journal_pda pk mock_program_id))
       amount_parsed) (\<lambda>sig.
     io_try (ok_or sig (CliPanic ''Airdrop failed'')) (\<lambda>_.
     io_ok ()))))))"

section \<open>Commands\<close>

datatype AdminCommands =
    Init
  | ViewConfig
  | UpdateConfig
  | ViewSystemState
  | ToggleSystemState bool bool \<comment> \<open>activate, pause\<close>
  | SetFillsConsumerCmd string
  | AddToDenyList string
  | RemoveFromDenyList string
  | ViewDenyList
  | SetAdminCmd string
  | SetDenyAuthority string
  | InitMockProgram
  | MockTokenMint "string option" string \<comment> \<open>to_address, amount\<close>
  | MintToMockProtocolTreasury string
  | AirdropToMockJournal string
  | ViewFills

definition admin_handle ::
    "'d packages \<Rightarrow> 'w network \<Rightarrow> AdminCommands option \<Rightarrow> ('w, 'd, unit) io" where
  "admin_handle pk net command =
     (case command of
        Some Init \<Rightarrow> admin_init pk net
      | Some ViewConfig \<Rightarrow> view_config pk net
      | Some UpdateConfig \<Rightarrow> update_config pk net
      | Some ViewSystemState \<Rightarrow> view_system_state pk net
      | Some (ToggleSystemState activate pause) \<Rightarrow> toggle_system_state_cmd pk net activate pause
      | Some (SetFillsConsumerCmd consumer) \<Rightarrow> change_fills_consumer pk net consumer
      | Some (AddToDenyList address) \<Rightarrow> add_to_deny_list_cmd pk net address
      | Some (RemoveFromDenyList address) \<Rightarrow> remove_from_deny_list_cmd pk net address
      | Some ViewDenyList \<Rightarrow> view_deny_list pk net
      | Some (SetAdminCmd new_admin) \<Rightarrow> set_admin_cmd pk net new_admin
      | Some (SetDenyAuthority authority) \<Rightarrow> set_deny_authority pk net authority
      | Some InitMockProgram \<Rightarrow> mock_init pk net
      | Some (MockTokenMint to_address amount) \<Rightarrow> mint pk net to_address amount
      | Some (MintToMockProtocolTreasury amount) \<Rightarrow> mint_to_protocol_treasury_token_account pk net amount
      | Some (AirdropToMockJournal amount) \<Rightarrow> airdrop_journal pk net amount
      | Some ViewFills \<Rightarrow> view_fills_registry pk net
      | None \<Rightarrow> io_fail (Message COMMAND_NOT_SPECIFIED))"

end
