(* ===== verification/User_Cli.thy ===== *)
theory User_Cli
  imports Admin_Cli
begin

text \<open>
  The users' command line tool (\<open>user-cli\<close>), which buys SOL and asks for the price, and the
  integrators' (\<open>integration-cli\<close>), which takes fills from the registry.
\<close>

section \<open>Configuration and oracle\<close>

record UserConfig =
  uc_program_id :: string
  uc_price_oracle_end_point :: string \<comment> \<open>the parsed URL\<close>
  uc_rpc_url :: string
  uc_double_zero_program_id :: string

definition load_user_config :: "'d packages \<Rightarrow> cli_error + UserConfig" where
  "load_user_config pk =
     and_then (load_config pk) (\<lambda>raw_config.
     and_then (ok_or (cfg_price_oracle_end_point raw_config)
       (Message ''Missing oracle end point in config file'')) (\<lambda>oracle_price_end_point.
     and_then (ok_or (url_of_str pk oracle_price_end_point) (Package UrlError)) (\<lambda>url.
     Inr \<lparr>uc_program_id = cfg_program_id raw_config, uc_price_oracle_end_point = url,
       uc_rpc_url = cfg_rpc_url raw_config,
       uc_double_zero_program_id = cfg_double_zero_program_id raw_config\<rparr>)))"

definition fetch_oracle_price :: "'w network \<Rightarrow> string \<Rightarrow> ('w, 'd, OraclePriceData) io" where
  "fetch_oracle_price net price_oracle_end_point =
     io_world (http_get_price net price_oracle_end_point) (\<lambda>response.
     io_try (ok_or response (Package HttpError)) io_ok)"

definition BUY_SOL_INSTRUCTION :: string where
  "BUY_SOL_INSTRUCTION = ''global:buy_sol''"

definition GET_PRICE_INSTRUCTION :: string where
  "GET_PRICE_INSTRUCTION = ''global:get_conversion_rate''"

definition DEQUEUE_FILLS_INSTRUCTION :: string where
  "DEQUEUE_FILLS_INSTRUCTION = ''global:dequeue_fills''"

section \<open>Buying SOL\<close>

definition buy_sol_instruction ::
    "'d packages \<Rightarrow> pubkey \<Rightarrow> pubkey \<Rightarrow> pubkey \<Rightarrow> pubkey \<Rightarrow> pubkey \<Rightarrow> u64 \<Rightarrow> OraclePriceData \<Rightarrow> Instruction" where
  "buy_sol_instruction pk program_id revenue_distribution_program fills_registry from_pub_key
       payer_pub_key bid_price_parsed oracle_price_data =
     \<lparr>ix_program_id = program_id,
      ix_accounts =
        [meta_new (fst (get_configuration_registry_pda pk program_id)) False,
         meta_new (fst (get_program_state_pda pk program_id)) False,
         meta_new (fst (get_deny_list_registry_pda pk program_id)) False,
         meta_new fills_registry False,
         meta_new (fst (get_withdraw_authority_pda pk program_id)) False,
         meta_new from_pub_key False,
         meta_new (fst (get_protocol_treasury_token_account_pda pk revenue_distribution_program)) False,
         meta_new (fst (get_token_mint_pda pk revenue_distribution_program)) False,
         meta_new (fst (get_config_pda pk revenue_distribution_program)) False,
         meta_new (fst (get_journal_pda pk revenue_distribution_program)) False,
         meta_new (spl_token_id pk) False,
         meta_new revenue_distribution_program False,
         meta_new payer_pub_key True],
      ix_data =
        discriminator (sha256 pk) BUY_SOL_INSTRUCTION @ to_le_bytes bid_price_parsed @
        put_OraclePriceData oracle_price_data\<rparr>"

definition buy_sol_cmd :: "'d packages \<Rightarrow> 'w network \<Rightarrow> string \<Rightarrow> string option \<Rightarrow> ('w, 'd, unit) io" where
  "buy_sol_cmd pk net bid_price from_address =
     io_try (load_user_config pk) (\<lambda>user_config.
     io_try (pubkey_from_str pk (uc_program_id user_config)) (\<lambda>program_id.
     io_try (pubkey_from_str pk (uc_double_zero_program_id user_config)) (\<lambda>revenue_distribution_program.
     io_try (parse_token_value pk bid_price) (\<lambda>bid_price_parsed.
     io_try (load_payer_from_env pk) (\<lambda>payer.
     io_bind
       (case from_address of
          Some key_str \<Rightarrow> io_try (pubkey_from_str pk key_str) io_ok
        | None \<Rightarrow> find_or_initialize_associated_token_account pk net payer
            (fst (get_token_mint_pda pk revenue_distribution_program)) (uc_rpc_url user_config))
       (\<lambda>from_pub_key.
     io_bind (fetch_oracle_price net (uc_price_oracle_end_point user_config)) (\<lambda>oracle_price_data.
     io_bind (get_fills_registry_address pk net program_id (uc_rpc_url user_config)) (\<lambda>fills_registry.
     io_bind (send_batch_instructions pk net
       [buy_sol_instruction pk program_id revenue_distribution_program fills_registry from_pub_key
          payer bid_price_parsed oracle_price_data]) (\<lambda>_.
     io_ok ())))))))))"

section \<open>Queries\<close>

definition get_quantity :: "'d packages \<Rightarrow> 'w network \<Rightarrow> ('w, 'd, unit) io" where
  "get_quantity pk net =
     io_try (load_user_config pk) (\<lambda>user_config.
     io_try (pubkey_from_str pk (uc_program_id user_config)) (\<lambda>program_id.
     io_bind (get_account_data net ConfigurationRegistry_try_deserialize (uc_rpc_url user_config)
       (fst (get_configuration_registry_pda pk program_id))) (\<lambda>config_registry.
     io_try (convert_sol_value pk (sol_quantity config_registry)) (\<lambda>sol_quantity_in_sol.
     io_print (QuantityLine (sol_quantity config_registry) sol_quantity_in_sol)))))"

definition get_price_instruction :: "'d packages \<Rightarrow> pubkey \<Rightarrow> pubkey \<Rightarrow> OraclePriceData \<Rightarrow> Instruction" where
  "get_price_instruction pk program_id payer oracle_price_data =
     \<lparr>ix_program_id = program_id,
      ix_accounts =
        [meta_new payer True,
         meta_new (fst (get_program_state_pda pk program_id)) False,
         meta_new (fst (get_configuration_registry_pda pk program_id)) False],
      ix_data = discriminator (sha256 pk) GET_PRICE_INSTRUCTION @ put_OraclePriceData oracle_price_data\<rparr>"

definition get_price :: "'d packages \<Rightarrow> 'w network \<Rightarrow> ('w, 'd, unit) io" where
  "get_price pk net =
     io_try (load_payer_from_env pk) (\<lambda>payer.
     io_try (load_user_config pk) (\<lambda>user_config.
     io_bind (fetch_oracle_price net (uc_price_oracle_end_point user_config)) (\<lambda>oracle_price_data.
     io_try (pubkey_from_str pk (uc_program_id user_config)) (\<lambda>program_id.
     io_bind (send_instruction_with_return_data pk net u64_return_data
       (get_price_instruction pk program_id payer oracle_price_data)) (\<lambda>result_bps.
     io_try (convert_token_value pk result_bps) (\<lambda>result.
     io_print (ConversionRateLine result)))))))"

datatype UserCommands =
    BuySolCmd string "string option" \<comment> \<open>bid_price, from_address\<close>
  | GetPrice
  | GetQuantity
  | GetFillsInfo

definition user_handle ::
    "'d packages \<Rightarrow> 'w network \<Rightarrow> UserCommands option \<Rightarrow> ('w, 'd, unit) io" where
  "user_handle pk net command =
     (case command of
        Some (BuySolCmd bid_price from_address) \<Rightarrow> buy_sol_cmd pk net bid_price from_address
      | Some GetQuantity \<Rightarrow> get_quantity pk net
      | Some GetPrice \<Rightarrow> get_price pk net
      | Some GetFillsInfo \<Rightarrow> view_fills_registry pk net
      | None \<Rightarrow> io_fail (Message COMMAND_NOT_SPECIFIED))"

section \<open>Taking fills\<close>

definition DequeueFillsResult_try_deserialize :: "u8 list \<Rightarrow> cli_error + DequeueFillsResult" where
  "DequeueFillsResult_try_deserialize bytes =
     borsh_prefix
       (get_bind get_u64 (\<lambda>sol. get_bind get_u64 (\<lambda>tokens. get_bind get_u64 (\<lambda>consumed.
        get_return \<lparr>sol_dequeued = sol, token_2z_dequeued = tokens, fills_consumed = consumed\<rparr>)))) bytes"

definition dequeue_fills_instruction ::
    "'d packages \<Rightarrow> pubkey \<Rightarrow> pubkey \<Rightarrow> pubkey \<Rightarrow> u64 \<Rightarrow> Instruction" where
  "dequeue_fills_instruction pk program_id fills_registry payer_pub_key amount =
     \<lparr>ix_program_id = program_id,
      ix_accounts =
        [meta_new (fst (get_configuration_registry_pda pk program_id)) False,
         meta_new (fst (get_program_state_pda pk program_id)) False,
         meta_new fills_registry False,
         meta_new payer_pub_key True],
      ix_data = discriminator (sha256 pk) DEQUEUE_FILLS_INSTRUCTION @ to_le_bytes amount\<rparr>"

definition dequeue_fills_cmd :: "'d packages \<Rightarrow> 'w network \<Rightarrow> string \<Rightarrow> ('w, 'd, unit) io" where
  "dequeue_fills_cmd pk net max_sol_value =
     io_try (load_config pk) (\<lambda>config.
     io_try (pubkey_from_str pk (cfg_program_id config)) (\<lambda>program_id.
     io_try (parse_sol_value pk max_sol_value) (\<lambda>bid_price_parsed.
     io_try (load_payer_from_env pk) (\<lambda>payer.
     io_bind (get_fills_registry_address pk net program_id (cfg_rpc_url config)) (\<lambda>fills_registry.
     io_bind (send_instruction_with_return_data pk net DequeueFillsResult_try_deserialize
       (dequeue_fills_instruction pk program_id fills_registry payer bid_price_parsed)) (\<lambda>result_bps.
     io_try (convert_sol_value pk (sol_dequeued result_bps)) (\<lambda>quantity.
     io_print (DequeuedLine quantity (token_2z_dequeued result_bps) (fills_consumed result_bps)))))))))"

datatype IntegrationCommands = DequeueFillsCmd string

definition integration_handle ::
    "'d packages \<Rightarrow> 'w network \<Rightarrow> IntegrationCommands option \<Rightarrow> ('w, 'd, unit) io" where
  "integration_handle pk net command =
     (case command of
        Some (DequeueFillsCmd amount) \<Rightarrow> dequeue_fills_cmd pk net amount
      | None \<Rightarrow> io_fail (Message COMMAND_NOT_SPECIFIED))"

end
