(* ===== verification/Mock_Program.thy ===== *)
theory Mock_Program
  imports Ledger
begin

text \<open>
  The stand-in for the revenue distribution program (\<open>mock-double-zero-program/\<close>): the decoding
  of its instruction data and its three instructions.  The hash, the derivation of addresses, the
  system program and the token program are package code, the fields of \<open>mock_env\<close>.
\<close>

section \<open>Seeds and errors\<close>

definition MOCK_2Z_TOKEN_MINT_SEED :: "u8 list" where
  "MOCK_2Z_TOKEN_MINT_SEED = bytes_of_string ''double_zero_mint''"

definition MOCK_PROTOCOL_TREASURY_SEED :: "u8 list" where
  "MOCK_PROTOCOL_TREASURY_SEED = bytes_of_string ''protocol_treasury''"

definition MOCK_CONFIG_ACCOUNT_SEED :: "u8 list" where
  "MOCK_CONFIG_ACCOUNT_SEED = bytes_of_string ''config''"

definition MOCK_JOURNAL_SEED :: "u8 list" where
  "MOCK_JOURNAL_SEED = bytes_of_string ''jour''"

datatype MockError =
    UninitializedAccount | InvalidPDA | InvalidAccount | InvalidDataLength | InvalidRating

text \<open>\<open>ProgramError::Custom(e as u32)\<close>: the position of the variant.\<close>

fun program_error_of :: "MockError \<Rightarrow> error" where
  "program_error_of UninitializedAccount = Program (CustomError 0)"
| "program_error_of InvalidPDA = Program (CustomError 1)"
| "program_error_of InvalidAccount = Program (CustomError 2)"
| "program_error_of InvalidDataLength = Program (CustomError 3)"
| "program_error_of InvalidRating = Program (CustomError 4)"

section \<open>The packages\<close>

record mock_env =
  hash :: "u8 list \<Rightarrow> u8 list"
  find_address :: "u8 list list \<Rightarrow> pubkey \<Rightarrow> pubkey \<times> u8"
  minimum_balance :: "nat \<Rightarrow> u64 result" \<comment> \<open>\<open>Rent::get()?.minimum_balance(space)\<close>\<close>
  create_account :: "pubkey \<Rightarrow> pubkey \<Rightarrow> u64 \<Rightarrow> nat \<Rightarrow> pubkey \<Rightarrow> u8 list list \<Rightarrow> ledger \<Rightarrow> ledger result"
    \<comment> \<open>payer, new account, lamports, space, owner, signer seeds\<close>
  initialize_mint :: "pubkey \<Rightarrow> pubkey \<Rightarrow> pubkey \<Rightarrow> pubkey option \<Rightarrow> u8 \<Rightarrow> u8 list list \<Rightarrow> ledger \<Rightarrow> ledger result"
    \<comment> \<open>token program, mint, mint authority, freeze authority, decimals, signer seeds\<close>
  initialize_account :: "pubkey \<Rightarrow> pubkey \<Rightarrow> pubkey \<Rightarrow> pubkey \<Rightarrow> u8 list list \<Rightarrow> ledger \<Rightarrow> ledger result"
    \<comment> \<open>token program, account, mint, owner, signer seeds\<close>
  mint_to :: "pubkey \<Rightarrow> pubkey \<Rightarrow> pubkey \<Rightarrow> pubkey \<Rightarrow> u64 \<Rightarrow> u8 list list \<Rightarrow> ledger \<Rightarrow> ledger result"
    \<comment> \<open>token program, mint, account, mint authority, amount, signer seeds\<close>
  TOKEN_PROGRAM_ID :: pubkey
  RENT_SYSVAR_ID :: pubkey
  MINT_LEN :: nat
  ACCOUNT_LEN :: nat

section \<open>Instruction data\<close>

datatype MockProgramInstruction = Initialize | WithdrawSol u64 | Mint2Z u64

definition compute_discriminator :: "mock_env \<Rightarrow> string \<Rightarrow> u8 list" where
  "compute_discriminator env name = take 8 (hash env (bytes_of_string name))"

text \<open>\<open>AmountPayload::try_from_slice\<close>: a \<open>u64\<close> and nothing after it.\<close>

definition amount_payload :: "u8 list \<Rightarrow> u64 result" where
  "amount_payload rest = ok_or (from_le_bytes rest) (Program InvalidInstructionData)"

definition unpack :: "mock_env \<Rightarrow> u8 list \<Rightarrow> MockProgramInstruction result" where
  "unpack env input =
     (if length input < 8 then Inl (Program InvalidInstructionData)
      else
        let discriminator_bytes = take 8 input; rest = drop 8 input in
        if discriminator_bytes = compute_discriminator env ''dz::ix::initialize'' then Inr Initialize
        else if discriminator_bytes = compute_discriminator env ''dz::ix::withdraw_sol'' then
          and_then (amount_payload rest) (\<lambda>amount. Inr (WithdrawSol amount))
        else if discriminator_bytes = compute_discriminator env ''dz::ix::mint2z'' then
          and_then (amount_payload rest) (\<lambda>amount. Inr (Mint2Z amount))
        else Inl (Program InvalidInstructionData))"

section \<open>Account checks\<close>

fun next_account_info :: "account_info list \<Rightarrow> (account_info \<times> account_info list) result" where
  "next_account_info [] = Inl (Program NotEnoughAccountKeys)"
| "next_account_info (a # as) = Inr (a, as)"

definition assert_pda :: "pubkey \<Rightarrow> account_info \<Rightarrow> unit result" where
  "assert_pda expected actual =
     (if expected \<noteq> info_key actual then Inl (program_error_of InvalidPDA) else Inr ())"

definition assert_address :: "pubkey \<Rightarrow> pubkey \<Rightarrow> unit result" where
  "assert_address expected actual =
     (if expected \<noteq> actual then Inl (program_error_of InvalidAccount) else Inr ())"

definition assert_signer :: "account_info \<Rightarrow> unit result" where
  "assert_signer a =
     (if \<not> is_signer a then Inl (Program MissingRequiredSignature) else Inr ())"

definition set_lamports :: "pubkey \<Rightarrow> u64 \<Rightarrow> ledger \<Rightarrow> ledger" where
  "set_lamports k n l = l\<lparr>accounts := (accounts l)(k := (accounts l k)\<lparr>lamports := n\<rparr>)\<rparr>"

section \<open>Withdrawing SOL\<close>

definition mock_withdraw_sol ::
    "mock_env \<Rightarrow> pubkey \<Rightarrow> account_info list \<Rightarrow> u64 \<Rightarrow> ledger \<Rightarrow> ledger result" where
  "mock_withdraw_sol env program_id accs amount l =
     and_then (next_account_info accs) (\<lambda>(program_config_key, accs).
     and_then (next_account_info accs) (\<lambda>(withdraw_sol_authority, accs).
     and_then (next_account_info accs) (\<lambda>(journal, accs).
     and_then (next_account_info accs) (\<lambda>(sol_recipient, accs).
     and_then (assert_signer withdraw_sol_authority) (\<lambda>_.
     let (program_config_pda, _) = find_address env [MOCK_CONFIG_ACCOUNT_SEED] program_id;
         (journal_pda, _) = find_address env [MOCK_JOURNAL_SEED] program_id in
     and_then (assert_pda program_config_pda program_config_key) (\<lambda>_.
     and_then (assert_pda journal_pda journal) (\<lambda>_.
     if lamports (account_of l journal) < amount then Inl (Program InsufficientFunds)
     else
       and_then (sub_or_panic (lamports (account_of l journal)) amount) (\<lambda>n.
       let l = set_lamports (info_key journal) n l in
       and_then (add_or_panic (lamports (account_of l sol_recipient)) amount) (\<lambda>n.
       Inr (set_lamports (info_key sol_recipient) n l))))))))))"

section \<open>Minting tokens\<close>

definition mock_mint_2z ::
    "mock_env \<Rightarrow> pubkey \<Rightarrow> account_info list \<Rightarrow> u64 \<Rightarrow> ledger \<Rightarrow> ledger result" where
  "mock_mint_2z env program_id accs amount l =
     and_then (next_account_info accs) (\<lambda>(user_token_account, accs).
     and_then (next_account_info accs) (\<lambda>(double_zero_mint, accs).
     and_then (next_account_info accs) (\<lambda>(token_program, accs).
     let (mint_pda, mint_bump) = find_address env [bytes_of_string ''double_zero_mint''] program_id in
     and_then (assert_pda mint_pda double_zero_mint) (\<lambda>_.
     and_then (assert_address (TOKEN_PROGRAM_ID env) (info_key token_program)) (\<lambda>_.
     mint_to env (info_key token_program) (info_key double_zero_mint) (info_key user_token_account)
       (info_key double_zero_mint) amount [MOCK_2Z_TOKEN_MINT_SEED, [mint_bump]] l)))))"

section \<open>Initialisation\<close>

definition create_pda_account ::
    "mock_env \<Rightarrow> account_info \<Rightarrow> account_info \<Rightarrow> u8 list list \<Rightarrow> nat \<Rightarrow> pubkey \<Rightarrow> ledger \<Rightarrow> ledger result" where
  "create_pda_account env payer new_account seeds space own l =
     and_then (minimum_balance env space) (\<lambda>lamps.
     create_account env (info_key payer) (info_key new_account) lamps space own seeds l)"

definition mock_initialize ::
    "mock_env \<Rightarrow> pubkey \<Rightarrow> account_info list \<Rightarrow> ledger \<Rightarrow> ledger result" where
  "mock_initialize env program_id accs l =
     and_then (next_account_info accs) (\<lambda>(program_config, accs).
     and_then (next_account_info accs) (\<lambda>(journal, accs).
     and_then (next_account_info accs) (\<lambda>(double_zero_mint, accs).
     and_then (next_account_info accs) (\<lambda>(treasury, accs).
     and_then (next_account_info accs) (\<lambda>(token_program, accs).
     and_then (next_account_info accs) (\<lambda>(sysvar_rent, accs).
     and_then (next_account_info accs) (\<lambda>(system_program, accs).
     and_then (next_account_info accs) (\<lambda>(signer, accs).
     let (mint_pda, mint_bump) = find_address env [MOCK_2Z_TOKEN_MINT_SEED] program_id;
         (program_config_pda, config_bump) = find_address env [MOCK_CONFIG_ACCOUNT_SEED] program_id;
         (journal_pda, journal_bump) = find_address env [MOCK_JOURNAL_SEED] program_id;
         (protocol_treasury_pda, treasury_bump) =
           find_address env [MOCK_PROTOCOL_TREASURY_SEED] program_id in
     and_then (assert_pda mint_pda double_zero_mint) (\<lambda>_.
     and_then (assert_pda program_config_pda program_config) (\<lambda>_.
     and_then (assert_pda journal_pda journal) (\<lambda>_.
     and_then (assert_pda protocol_treasury_pda treasury) (\<lambda>_.
     and_then (assert_address (TOKEN_PROGRAM_ID env) (info_key token_program)) (\<lambda>_.
     and_then (assert_address SYSTEM_PROGRAM_ID (info_key system_program)) (\<lambda>_.
     and_then (assert_address (RENT_SYSVAR_ID env) (info_key sysvar_rent)) (\<lambda>_.
     and_then (create_pda_account env signer double_zero_mint [MOCK_2Z_TOKEN_MINT_SEED, [mint_bump]]
       (MINT_LEN env) (info_key token_program) l) (\<lambda>l.
     and_then (initialize_mint env (info_key token_program) (info_key double_zero_mint)
       (info_key double_zero_mint) None 8 [MOCK_2Z_TOKEN_MINT_SEED, [mint_bump]] l) (\<lambda>l.
     and_then (create_pda_account env signer treasury [MOCK_PROTOCOL_TREASURY_SEED, [treasury_bump]]
       (ACCOUNT_LEN env) (info_key token_program) l) (\<lambda>l.
     and_then (initialize_account env (info_key token_program) (info_key treasury)
       (info_key double_zero_mint) (info_key token_program)
       [MOCK_PROTOCOL_TREASURY_SEED, [treasury_bump]] l) (\<lambda>l.
     and_then (create_pda_account env signer program_config [MOCK_CONFIG_ACCOUNT_SEED, [config_bump]]
       8 program_id l) (\<lambda>l.
     create_pda_account env signer journal [MOCK_JOURNAL_SEED, [journal_bump]] 8 program_id l))))))))))))))))))))"

definition process_instruction ::
    "mock_env \<Rightarrow> pubkey \<Rightarrow> account_info list \<Rightarrow> u8 list \<Rightarrow> ledger \<Rightarrow> ledger result" where
  "process_instruction env program_id accs instruction_data l =
     and_then (unpack env instruction_data) (\<lambda>ix.
     case ix of
       Initialize \<Rightarrow> mock_initialize env program_id accs l
     | WithdrawSol amount \<Rightarrow> mock_withdraw_sol env program_id accs amount l
     | Mint2Z amount \<Rightarrow> mock_mint_2z env program_id accs amount l)"

end
