(* ===== verification/State_Machine.thy ===== *)
theory State_Machine
  imports Main
begin

text \<open>
  Runs of a labelled transition system, and the contracts a transition may satisfy: it
  preserves an invariant, it changes a balance by what its label says, it moves a clock mark
  forward and past every tick of its label, its label alone tells what becomes of a view of the
  state, it keeps a condition and is quiet under it unless its label is a trigger, it keeps the
  state in a relation with the history its labels write.  Each contract carries over to runs.
\<close>

inductive steps :: "('s \<Rightarrow> 'l \<Rightarrow> 's \<Rightarrow> bool) \<Rightarrow> 's \<Rightarrow> 'l list \<Rightarrow> 's \<Rightarrow> bool"
  for step :: "'s \<Rightarrow> 'l \<Rightarrow> 's \<Rightarrow> bool" where
  none: "steps step s [] s"
| more: "steps step s ls s' \<Longrightarrow> step s' a s'' \<Longrightarrow> steps step s (ls @ [a]) s''"

inductive_simps steps_Nil: "steps step s [] s'"

lemma steps_single: "step s a s' \<Longrightarrow> steps step s [a] s'"
  using steps.more [OF steps.none, of step s a s'] by simp

locale preserved =
  fixes step :: "'s \<Rightarrow> 'l \<Rightarrow> 's \<Rightarrow> bool"
    and inv :: "'s \<Rightarrow> bool"
  assumes inv_step: "inv s \<Longrightarrow> step s a s' \<Longrightarrow> inv s'"
begin

lemma inv_steps: "steps step s ls s' \<Longrightarrow> inv s \<Longrightarrow> inv s'"
  by (induction rule: steps.induct) (auto intro: inv_step)

end

locale accounted = preserved +
  fixes balance :: "'a \<Rightarrow> int"
    and gain :: "'b \<Rightarrow> int"
  assumes balance_step: "inv s \<Longrightarrow> step s a s' \<Longrightarrow> balance s' = balance s + gain a"
begin

lemma balance_steps:
  "steps step s ls s' \<Longrightarrow> inv s \<Longrightarrow> balance s' = balance s + sum_list (map gain ls)"
proof (induction rule: steps.induct)
  case (more s ls s' a s'')
  then show ?case using balance_step [OF inv_steps] by simp
qed simp

end

locale ticking = preserved +
  fixes mark :: "'a \<Rightarrow> nat"
    and ticks :: "'b \<Rightarrow> nat list"
  assumes mark_step: "inv s \<Longrightarrow> step s a s' \<Longrightarrow> mark s \<le> mark s'"
    and ticks_step: "inv s \<Longrightarrow> step s a s' \<Longrightarrow> t \<in> set (ticks a) \<Longrightarrow> mark s < t \<and> t \<le> mark s'"
    and ticks_sorted: "sorted_wrt (<) (ticks a)"
begin

lemma ticks_steps:
  "steps step s ls s' \<Longrightarrow> inv s \<Longrightarrow>
     sorted_wrt (<) (concat (map ticks ls)) \<and> mark s \<le> mark s' \<and>
     (\<forall>t \<in> set (concat (map ticks ls)). mark s < t \<and> t \<le> mark s')"
proof (induction rule: steps.induct)
  case (more s ls s' a s'')
  note inv = inv_steps [OF more.hyps(1) more.prems]
  note step = mark_step [OF inv more.hyps(2)] ticks_step [OF inv more.hyps(2)]
  from more.IH [OF more.prems] step show ?case
    by (fastforce simp: sorted_wrt_append ticks_sorted)
qed simp

end

locale replayed = preserved +
  fixes view :: "'a \<Rightarrow> 'v"
    and effect :: "'b \<Rightarrow> 'v \<Rightarrow> 'v"
  assumes view_step: "inv s \<Longrightarrow> step s a s' \<Longrightarrow> view s' = effect a (view s)"
begin

lemma view_steps: "steps step s ls s' \<Longrightarrow> inv s \<Longrightarrow> view s' = fold effect ls (view s)"
proof (induction rule: steps.induct)
  case (more s ls s' a s'')
  note step = view_step [OF inv_steps [OF more.hyps(1) more.prems] more.hyps(2)]
  show ?case by (simp add: step more.IH [OF more.prems])
qed simp

end

locale suspended = preserved +
  fixes held :: "'a \<Rightarrow> bool"
    and trigger :: "'b \<Rightarrow> bool"
    and quiet :: "'b \<Rightarrow> bool"
  assumes held_step:
    "inv s \<Longrightarrow> held s \<Longrightarrow> step s a s' \<Longrightarrow> \<not> trigger a \<Longrightarrow> held s' \<and> quiet a"
begin

lemma held_steps:
  "steps step s ls s' \<Longrightarrow> inv s \<Longrightarrow> held s \<Longrightarrow> \<forall>a \<in> set ls. \<not> trigger a \<Longrightarrow>
     held s' \<and> (\<forall>a \<in> set ls. quiet a)"
proof (induction rule: steps.induct)
  case (more s ls s' a s'')
  note step = held_step [OF inv_steps [OF more.hyps(1) more.prems(1)] _ more.hyps(2)]
  from more.IH [OF more.prems(1,2)] more.prems(3) have "held s' \<and> (\<forall>a \<in> set ls. quiet a)"
    by simp
  with step more.prems(3) show ?case by simp
qed simp

end

locale chronicled = preserved +
  fixes matches :: "'c list \<Rightarrow> 'a \<Rightarrow> bool"
    and entries :: "'b \<Rightarrow> 'c list"
  assumes matches_step: "inv s \<Longrightarrow> matches h s \<Longrightarrow> step s a s' \<Longrightarrow> matches (h @ entries a) s'"
begin

lemma matches_steps:
  "steps step s ls s' \<Longrightarrow> inv s \<Longrightarrow> matches h s \<Longrightarrow> matches (h @ concat (map entries ls)) s'"
proof (induction rule: steps.induct)
  case (more s ls s' a s'')
  note step = matches_step [OF inv_steps [OF more.hyps(1) more.prems(1)] more.IH [OF more.prems]
      more.hyps(2)]
  then show ?case by simp
qed simp

end

end
