(* ===== verification/Program_Runs.thy ===== *)
theory Program_Runs
  imports Converter_Program State_Machine
begin

text \<open>
  Runs of the program: accepted instructions interleaved with anything other programs do between
  them.  A rejected instruction leaves the ledger as it was, which is a step of the environment.
  The invariant, the accounting of the events and the order of the trades follow from the
  transitions of the system through the contracts of \<open>State_Machine\<close>.
\<close>

section \<open>The transition relation\<close>

datatype label =
    Executed clock instruction "event list" "u8 list"
  | Environment

inductive ledger_step :: "'d runtime \<Rightarrow> ledger \<Rightarrow> label \<Rightarrow> ledger \<Rightarrow> bool" for rt :: "'d runtime" where
  executed:
    "execute rt l ix = (es, Inr (l', ret)) \<Longrightarrow>
     ledger_step rt l (Executed (clock_sysvar l) ix es ret) l'"
| environment:
    "foreign_change l l' \<Longrightarrow> slot (clock_sysvar l) \<le> slot (clock_sysvar l') \<Longrightarrow>
     ledger_step rt l Environment l'"

inductive_cases ledger_step_executed: "ledger_step rt l (Executed c ix es ret) l'"
inductive_cases ledger_step_environment: "ledger_step rt l Environment l'"

section \<open>Reading the system from a ledger\<close>

definition owned_data :: "ledger \<Rightarrow> pubkey \<Rightarrow> acct_data" where
  "owned_data l k = (if owner (accounts l k) = ID then data (accounts l k) else NoData)"

definition system_of :: "'d runtime \<Rightarrow> ledger \<Rightarrow> system option" where
  "system_of rt l =
     Option.bind (as_configuration (owned_data l (configuration_key rt))) (\<lambda>cfg.
     Option.bind (as_program_state (owned_data l (state_key rt))) (\<lambda>ps.
     Option.bind (as_deny_list (owned_data l (deny_list_key rt))) (\<lambda>dl.
     Option.bind (as_fills (owned_data l (fills_registry_address ps))) (\<lambda>r.
     Some \<lparr>sys_configuration = cfg, sys_state = ps, sys_deny_list = dl, sys_fills = r\<rparr>))))"

lemma system_of_holds: "holds rt l s \<Longrightarrow> system_of rt l = Some s"
  by (auto simp: holds_def stored_def system_of_def owned_data_def
      configuration_account.unwrap_wrap program_state_account.unwrap_wrap
      deny_list_account.unwrap_wrap fills_account.unwrap_wrap)

lemma system_of_uninitialised: "uninitialised l \<Longrightarrow> system_of rt l = None"
proof -
  assume "uninitialised l"
  then have "blank (owned_data l k)" for k
    by (auto simp: uninitialised_def owned_data_def)
  then have "as_configuration (owned_data l (configuration_key rt)) = None"
    using configuration_account.wrap_not_blank configuration_account.unwrap_Some_iff
    by (metis option.exhaust)
  then show ?thesis by (simp add: system_of_def)
qed

definition program_inv :: "'d runtime \<Rightarrow> ledger \<Rightarrow> bool" where
  "program_inv rt l \<longleftrightarrow> uninitialised l \<or>
     (\<exists>s. holds rt l s \<and> valid_system s \<and> last_trade_slot (sys_state s) \<le> slot (clock_sysvar l))"

lemma program_inv_cases:
  assumes "program_inv rt l"
  obtains "uninitialised l" "system_of rt l = None"
  | s where "holds rt l s" "valid_system s" "last_trade_slot (sys_state s) \<le> slot (clock_sysvar l)"
      "system_of rt l = Some s"
  using assms system_of_holds system_of_uninitialised unfolding program_inv_def by metis

section \<open>Transitions of the system keep its invariant\<close>

lemma system_step_valid:
  assumes "system_step rt c s ix es ret s'" "valid_system s"
  shows "valid_system s'"
  using assms
proof cases
  case (update ctx input cfg)
  then show ?thesis using assms(2) process_update_Inr_iff valid_configuration_merged
    by (auto simp: valid_system_def)
next
  case (buy ctx p ask bid tokens r)
  then show ?thesis using assms(2) enqueue_fill_inv by (auto simp: valid_system_def)
next
  case (dequeue ctx m r d)
  then show ?thesis using assms(2) process_dequeue_fills_Inr by (fastforce simp: valid_system_def)
next
  case (deny ctx k dl)
  then show ?thesis using assms(2) valid_deny_list_add by (simp add: valid_system_def) blast
next
  case (undeny ctx k dl)
  then show ?thesis using assms(2) valid_deny_list_remove by (simp add: valid_system_def) blast
next
  case (consumer ctx k cfg)
  then show ?thesis
    using assms(2) by (auto simp: valid_system_def process_set_fills_consumer_Inr_iff)
qed (use assms(2) in \<open>simp_all add: valid_system_def\<close>)

lemma system_step_slot:
  assumes "system_step rt c s ix es ret s'"
  shows "last_trade_slot (sys_state s') =
    (case ix of BuySolIx _ _ _ \<Rightarrow> slot c | _ \<Rightarrow> last_trade_slot (sys_state s))"
    "(case ix of BuySolIx _ _ _ \<Rightarrow> last_trade_slot (sys_state s) < slot c | _ \<Rightarrow> True)"
  using assms by (cases; auto simp: tx_simps)+

section \<open>What a step does to the system\<close>

lemma uninitialised_no_account:
  assumes "uninitialised l" "owner (account_of l a) = ID"
  shows "data (account_of l a) \<noteq> ProgramStateData ps"
  using assms blank_simps(4) unfolding uninitialised_def account_of_def by metis

text \<open>Before the initialisation every other instruction is rejected.\<close>

lemma uninitialised_execute:
  assumes "uninitialised l" "execute rt l ix = (es, Inr (l', ret))"
  shows "\<exists>ctx orc q age k mx mn. ix = InitializeSystemIx ctx orc q age k mx mn"
proof (cases ix)
  case (BuySolIx ctx bid p)
  then show ?thesis
    using assms validate_BuySol_Inr(3,4) uninitialised_no_account
    by (fastforce simp: buy_sol_def try_tx_pair_Inr_iff)
qed (use assms uninitialised_no_account [OF assms(1)] in
    \<open>fastforce simp: update_configuration_registry_def set_fills_consumer_def
      ix_add_to_deny_list_def ix_remove_from_deny_list_def set_admin_def
      set_deny_list_authority_def toggle_system_state_def get_conversion_rate_def
      dequeue_fills_def try_tx_pair_Inr_iff load_simps\<close>)+

lemma execute_refines:
  assumes "runtime_laws rt" "holds rt l s" "execute rt l ix = (es, Inr (l', ret))"
  shows "\<exists>s'. holds rt l' s' \<and> system_step rt (clock_sysvar l) s ix es ret s'"
proof (cases ix)
  case (InitializeSystemIx ctx key q age k mx mn)
  then show ?thesis using no_second_initialisation [OF assms(1,2)] assms(3) by blast
next
  case (GetConversionRateIx ctx p)
  then show ?thesis using refine_quote assms(2,3) by metis
next
  case (BuySolIx ctx bid p)
  then show ?thesis using refine_buy [OF assms(1,2)] assms(3) by blast
next
  case (UpdateConfigurationRegistryIx ctx i)
  then show ?thesis using refine_update [OF assms(2)] assms(3) by simp
next
  case (SetFillsConsumerIx ctx k)
  then show ?thesis using refine_consumer [OF assms(2)] assms(3) by simp
next
  case (AddToDenyListIx ctx k)
  then show ?thesis using refine_deny [OF assms(2)] assms(3) by simp
next
  case (RemoveFromDenyListIx ctx k)
  then show ?thesis using refine_undeny [OF assms(2)] assms(3) by simp
next
  case (SetAdminIx ctx k)
  then show ?thesis using refine_set_admin [OF assms(2)] assms(3) by simp
next
  case (SetDenyListAuthorityIx ctx k)
  then show ?thesis using refine_set_authority [OF assms(2)] assms(3) by simp
next
  case (ToggleSystemStateIx ctx b)
  then show ?thesis using refine_toggle [OF assms(2)] assms(3) by simp
next
  case (DequeueFillsIx ctx m)
  then show ?thesis using refine_dequeue [OF assms(2)] assms(3) by simp
qed

text \<open>The three kinds of steps from a ledger that satisfies the invariant.\<close>

lemma ledger_step_cases:
  assumes "runtime_laws rt" "program_inv rt l" "ledger_step rt l a l'"
  obtains (foreign) "a = Environment" "system_of rt l' = system_of rt l" "program_inv rt l'"
  | (initialised) ctx orc q age k mx mn s' where
      "a = Executed (clock_sysvar l) (InitializeSystemIx ctx orc q age k mx mn)
             [SystemInitialized] []"
      "uninitialised l" "system_of rt l = None" "system_of rt l' = Some s'"
      "holds rt l' s'" "valid_system s'" "sys_fills s' = zero_fills_registry"
      "program_inv rt l'"
  | (transition) ix es ret s s' where
      "a = Executed (clock_sysvar l) ix es ret" "execute rt l ix = (es, Inr (l', ret))"
      "system_of rt l = Some s" "system_of rt l' = Some s'" "holds rt l s" "holds rt l' s'"
      "valid_system s" "valid_system s'" "system_step rt (clock_sysvar l) s ix es ret s'"
      "program_inv rt l'"
  using assms(3)
proof cases
  case environment
  from assms(2) have "system_of rt l' = system_of rt l \<and> program_inv rt l'"
  proof (cases rule: program_inv_cases)
    case 1
    then have "uninitialised l'" using environment uninitialised_foreign_change by blast
    then show ?thesis using 1 system_of_uninitialised by (simp add: program_inv_def)
  next
    case (2 s)
    then have "holds rt l' s" using environment holds_foreign_change by blast
    then show ?thesis using 2 environment system_of_holds order.trans
      unfolding program_inv_def by metis
  qed
  then show thesis using foreign environment by blast
next
  case (executed ix es ret)
  note clk = execute_keeps_clock [OF assms(1) executed(2)]
  from assms(2) show thesis
  proof (cases rule: program_inv_cases)
    case 1
    then obtain ctx key q age k mx mn where ix: "ix = InitializeSystemIx ctx key q age k mx mn"
      using uninitialised_execute executed(2) by blast
    from refine_initialize [OF assms(1) 1(1) executed(2) [unfolded ix]] obtain s' where
      s': "holds rt l' s'" "valid_configuration (sys_configuration s')"
        "es = [SystemInitialized]" "ret = []" "sys_fills s' = zero_fills_registry"
        "valid_deny_list (sys_deny_list s')" "last_trade_slot (sys_state s') = slot (clock_sysvar l)"
      by (force simp: initial_system_def valid_deny_list_def)
    then have "valid_system s'" by (simp add: valid_system_def)
    moreover from this have "program_inv rt l'"
      using s' clk by (auto simp: program_inv_def)
    ultimately show thesis
      using initialised [of ctx key q age k mx mn s'] executed(1) ix s' 1 system_of_holds by blast
  next
    case (2 s)
    from execute_refines [OF assms(1) 2(1) executed(2)] obtain s' where
      s': "holds rt l' s'" "system_step rt (clock_sysvar l) s ix es ret s'" by blast
    note valid = system_step_valid [OF s'(2) 2(2)]
    have "last_trade_slot (sys_state s') \<le> slot (clock_sysvar l)"
      using system_step_slot [OF s'(2)] 2(3) by (auto split: instruction.splits)
    then have "program_inv rt l'"
      using s' valid clk by (auto simp: program_inv_def)
    then show thesis
      using transition executed 2 s' valid system_of_holds by blast
  qed
qed

section \<open>Accounting\<close>

text \<open>What an event adds to the pending lamports and tokens.\<close>

definition event_sol :: "event \<Rightarrow> int" where
  "event_sol e = (case e of TradeEvent sol tokens bid ts buyer ep \<Rightarrow> uint sol
     | FillsDequeued requester sol tokens n ts \<Rightarrow> - uint sol | _ \<Rightarrow> 0)"

definition event_2z :: "event \<Rightarrow> int" where
  "event_2z e = (case e of TradeEvent sol tokens bid ts buyer ep \<Rightarrow> uint tokens
     | FillsDequeued requester sol tokens n ts \<Rightarrow> - uint tokens | _ \<Rightarrow> 0)"

definition label_events :: "label \<Rightarrow> event list" where
  "label_events a = (case a of Executed c ix es ret \<Rightarrow> es | Environment \<Rightarrow> [])"

definition label_sol :: "label \<Rightarrow> int" where
  "label_sol a = sum_list (map event_sol (label_events a))"

definition label_2z :: "label \<Rightarrow> int" where
  "label_2z a = sum_list (map event_2z (label_events a))"

definition pending_sol :: "'d runtime \<Rightarrow> ledger \<Rightarrow> int" where
  "pending_sol rt l =
     (case system_of rt l of None \<Rightarrow> 0 | Some s \<Rightarrow> uint (total_sol_pending (sys_fills s)))"

definition pending_2z :: "'d runtime \<Rightarrow> ledger \<Rightarrow> int" where
  "pending_2z rt l =
     (case system_of rt l of None \<Rightarrow> 0 | Some s \<Rightarrow> uint (total_2z_pending (sys_fills s)))"

lemma uint_sumI: "unat a = unat b + unat c \<Longrightarrow> uint a = uint b + uint (c :: 'l::len word)"
  by (metis of_nat_add of_nat_unat)

lemma enqueue_fill_totals:
  assumes "registry_inv r" "enqueue_fill s t r = Inr r'"
  shows "uint (total_sol_pending r') = uint (total_sol_pending r) + uint s"
    "uint (total_2z_pending r') = uint (total_2z_pending r) + uint t"
  using enqueue_fill_inv [OF assms] assms(1)
  by (auto intro!: uint_sumI simp: registry_inv_def)

lemma dequeue_totals:
  assumes "registry_inv r" "process_dequeue_fills clk signer cfg r m = (es, Inr (r', d))"
  shows "uint (total_sol_pending r) = uint (total_sol_pending r') + uint (sol_dequeued d)"
    "uint (total_2z_pending r) = uint (total_2z_pending r') + uint (token_2z_dequeued d)"
    "\<exists>n ts. es = [FillsDequeued signer (sol_dequeued d) (token_2z_dequeued d) n ts]"
proof -
  from process_dequeue_fills_Inr [OF assms] have inv: "registry_inv r'" and
    take: "take_fills (unat m) (backlog r) =
       (unat (sol_dequeued d), unat (token_2z_dequeued d), unat (fills_consumed d), backlog r')" and
    es: "\<exists>n ts. es = [FillsDequeued signer (sol_dequeued d) (token_2z_dequeued d) n ts]"
    by auto
  show "uint (total_sol_pending r) = uint (total_sol_pending r') + uint (sol_dequeued d)"
    "uint (total_2z_pending r) = uint (total_2z_pending r') + uint (token_2z_dequeued d)"
    using take_fills_conserves [OF take] inv assms(1)
    by (auto intro!: uint_sumI simp: registry_inv_def)
  show "\<exists>n ts. es = [FillsDequeued signer (sol_dequeued d) (token_2z_dequeued d) n ts]" by (fact es)
qed

lemma system_step_totals:
  assumes "system_step rt c s ix es ret s'" "valid_system s"
  shows "uint (total_sol_pending (sys_fills s')) =
      uint (total_sol_pending (sys_fills s)) + sum_list (map event_sol es) \<and>
    uint (total_2z_pending (sys_fills s')) =
      uint (total_2z_pending (sys_fills s)) + sum_list (map event_2z es)"
  using assms(1)
proof cases
  case (buy ctx p ask bid tokens r)
  then show ?thesis
    using enqueue_fill_totals [OF _ buy(13)] assms(2) by (simp add: event_sol_def event_2z_def valid_system_def)
next
  case (dequeue ctx m r d)
  then show ?thesis
    using dequeue_totals [OF _ dequeue(5)] assms(2)
    by (auto simp: event_sol_def event_2z_def valid_system_def)
next
  case (update ctx input cfg)
  then show ?thesis by (auto simp: process_update_Inr_iff event_sol_def event_2z_def)
next
  case (toggle ctx b ps)
  then show ?thesis
    by (auto simp: process_system_state_Inr_iff event_sol_def event_2z_def)
qed (auto simp: tx_simps event_sol_def event_2z_def)

abbreviation good :: "'d runtime \<Rightarrow> ledger \<Rightarrow> bool" where
  "good rt l \<equiv> runtime_laws rt \<and> program_inv rt l"

lemma good_step: "good rt l \<Longrightarrow> ledger_step rt l a l' \<Longrightarrow> good rt l'"
  by (elim conjE, frule (2) ledger_step_cases) simp_all

lemma ledger_step_totals:
  assumes "good rt l" "ledger_step rt l a l'"
  shows "pending_sol rt l' = pending_sol rt l + label_sol a \<and>
    pending_2z rt l' = pending_2z rt l + label_2z a"
proof -
  from assms have "runtime_laws rt" "program_inv rt l" by auto
  from this assms(2) show ?thesis
  proof (cases rule: ledger_step_cases)
    case foreign
    then show ?thesis
      by (simp add: pending_sol_def pending_2z_def label_sol_def label_2z_def label_events_def)
  next
    case (initialised ctx orc q age k mx mn s')
    then show ?thesis
      by (simp add: pending_sol_def pending_2z_def label_sol_def label_2z_def label_events_def
          event_sol_def event_2z_def zero_fills_registry_def)
  next
    case (transition ix es ret s s')
    then show ?thesis
      using system_step_totals [OF transition(9,7)]
      by (simp add: pending_sol_def pending_2z_def label_sol_def label_2z_def label_events_def)
  qed
qed

interpretation sol_account: accounted "ledger_step rt" "good rt" "pending_sol rt" label_sol for rt
  by unfold_locales (use good_step ledger_step_totals in blast)+

interpretation token_account: accounted "ledger_step rt" "good rt" "pending_2z rt" label_2z for rt
  by unfold_locales (use ledger_step_totals in blast)

section \<open>The order of the trades\<close>

definition last_slot :: "'d runtime \<Rightarrow> ledger \<Rightarrow> nat" where
  "last_slot rt l =
     (case system_of rt l of None \<Rightarrow> 0 | Some s \<Rightarrow> unat (last_trade_slot (sys_state s)))"

text \<open>The slot of a trade.\<close>

definition trade_slots :: "label \<Rightarrow> nat list" where
  "trade_slots a = (case a of Executed c ix es ret \<Rightarrow>
       (case ix of BuySolIx ctx bid p \<Rightarrow> [unat (slot c)] | _ \<Rightarrow> []) | Environment \<Rightarrow> [])"

lemma ledger_step_slots:
  assumes "good rt l" "ledger_step rt l a l'"
  shows "last_slot rt l \<le> last_slot rt l' \<and>
    (\<forall>t \<in> set (trade_slots a). last_slot rt l < t \<and> t \<le> last_slot rt l')"
proof -
  from assms have "runtime_laws rt" "program_inv rt l" by auto
  from this assms(2) show ?thesis
  proof (cases rule: ledger_step_cases)
    case (transition ix es ret s s')
    then show ?thesis
      using system_step_slot [OF transition(9)]
      by (auto simp: last_slot_def trade_slots_def word_less_nat_alt split: instruction.splits)
  qed (simp_all add: last_slot_def trade_slots_def)
qed

interpretation trade_clock: ticking "ledger_step rt" "good rt" "last_slot rt" trade_slots for rt
proof unfold_locales
  fix a
  show "sorted_wrt (<) (trade_slots a)"
    by (auto simp: trade_slots_def split: label.splits instruction.splits)
qed (use ledger_step_slots in blast)+

end
