(* ===== verification/Fills_Properties.thy ===== *)
theory Fills_Properties
  imports Fills_Accounting
begin

text \<open>
  The properties of the fills registry, each a few steps over the lemmas of
  \<open>Fills_Accounting\<close>, with a witness on a registry whose two fills wrap around the end of
  the array.
\<close>

section \<open>A sample registry\<close>

definition sample_registry :: FillsRegistry where
  "sample_registry =
     \<lparr>total_sol_pending = 30, total_2z_pending = 65,
      fills = (\<lambda>_. \<lparr>sol_in = 0, token_2z_out = 0\<rparr>)
        (649999 := \<lparr>sol_in = 10, token_2z_out = 20\<rparr>, 0 := \<lparr>sol_in = 20, token_2z_out = 45\<rparr>),
      head = 649999, tail = 1, count = 2\<rparr>"

lemma upt_0_2: "[0..<2] = [0, 1 :: nat]"
  by (simp add: numeral_2_eq_2)

lemma sample_backlog [simp]: "backlog sample_registry = [(10, 20), (20, 45)]"
  by (simp add: backlog_def pending_def sample_registry_def MAX_FILLS_QUEUE_SIZE_def amounts_def
      upt_0_2)

lemma sample_registry_simps [simp]:
  "total_sol_pending sample_registry = 30" "total_2z_pending sample_registry = 65"
  "count sample_registry = 2"
  by (simp_all add: sample_registry_def)

lemma sample_inv [simp]: "registry_inv sample_registry"
  unfolding registry_inv_def sample_backlog
  by (simp add: ring_inv_def sample_registry_def MAX_FILLS_QUEUE_SIZE_def)

section \<open>Splitting a withdrawal\<close>

lemma take_fills_0 [simp]: "take_fills 0 q = (0, 0, 0, q)"
  by (cases q) auto

text \<open>
  Two proportional parts of one entry, the second taken from the remainder of the first, never
  exceed the part taken at once, and fall short of it by at most one unit.
\<close>

lemma split_part_bounds:
  fixes s t m1 m2 :: nat
  assumes "m1 + m2 < s"
  defines "b1 \<equiv> t * m1 div s"
  shows "b1 + (t - b1) * m2 div (s - m1) \<le> t * (m1 + m2) div s"
    and "t * (m1 + m2) div s \<le> b1 + (t - b1) * m2 div (s - m1) + 1"
proof -
  let ?s' = "s - m1" and ?t' = "t - b1"
  let ?b2 = "?t' * m2 div ?s'"
  have pos: "0 < s" "0 < ?s'" "m2 \<le> ?s'" using assms(1) by auto
  have b1_le: "b1 * s \<le> t * m1" by (simp add: b1_def)
  have b1_gt: "t * m1 < b1 * s + s"
    using pos(1) by (metis b1_def add.commute dividend_less_div_times)
  have b1_t: "b1 \<le> t"
    unfolding b1_def using assms(1) by (intro div_part_le) simp
  have b2_le: "?b2 * ?s' \<le> ?t' * m2" by simp
  have b2_gt: "?t' * m2 < ?b2 * ?s' + ?s'"
    using pos(2) by (metis add.commute dividend_less_div_times)
  text \<open>Everything over the integers, multiplied by the two denominators.\<close>
  define S T M1 M2 B1 B2 where
    "S = int s" and "T = int t" and "M1 = int m1" and "M2 = int m2" and
    "B1 = int b1" and "B2 = int ?b2"
  have i: "B1 * S \<le> T * M1" "T * M1 < B1 * S + S" "B1 \<le> T" "0 < S - M1" "M2 < S - M1"
    "0 \<le> M2" "0 \<le> M1" "0 < S"
    using b1_le b1_gt b1_t assms(1)
    by (auto simp: S_def T_def M1_def M2_def B1_def simp flip: of_nat_mult of_nat_add)
  have j: "B2 * (S - M1) \<le> (T - B1) * M2" "(T - B1) * M2 < B2 * (S - M1) + (S - M1)"
  proof -
    have c: "int ?s' = S - M1" "int ?t' = T - B1"
      using assms(1) b1_t by (auto simp: S_def T_def M1_def B1_def of_nat_diff)
    show "B2 * (S - M1) \<le> (T - B1) * M2"
      using b2_le unfolding c [symmetric] B2_def M2_def
      by (simp only: flip: of_nat_mult of_nat_le_iff)
    show "(T - B1) * M2 < B2 * (S - M1) + (S - M1)"
      using b2_gt unfolding c [symmetric] B2_def M2_def
      by (simp only: flip: of_nat_mult of_nat_add of_nat_less_iff)
  qed
  have e: "0 \<le> T * M1 - B1 * S" "T * M1 - B1 * S \<le> S" using i by linarith+
  text \<open>The error of the first part, carried over to the second.\<close>
  have key: "S * ((T - B1) * M2) = T * M2 * (S - M1) + (T * M1 - B1 * S) * M2"
    by (simp add: algebra_simps)
  have "(B1 + B2) * S * (S - M1) \<le> T * (M1 + M2) * (S - M1)"
  proof -
    have "S * (B2 * (S - M1)) \<le> S * ((T - B1) * M2)"
      using i(8) j(1) by (intro mult_left_mono) auto
    also have "\<dots> \<le> T * M2 * (S - M1) + (T * M1 - B1 * S) * (S - M1)"
      unfolding key using e(1) i(5) by (intro add_left_mono mult_left_mono) auto
    finally show ?thesis by (simp add: algebra_simps)
  qed
  then have "(B1 + B2) * S \<le> T * (M1 + M2)"
    using i(4) by (simp add: mult_le_cancel_right)
  then have "(b1 + ?b2) * s \<le> t * (m1 + m2)"
    unfolding S_def T_def M1_def M2_def B1_def B2_def
    by (simp only: flip: of_nat_mult of_nat_add of_nat_le_iff)
  then show "b1 + ?b2 \<le> t * (m1 + m2) div s"
    using pos(1) by (simp add: less_eq_div_iff_mult_less_eq)
  have "T * (M1 + M2) * (S - M1) < (B1 + B2 + 2) * S * (S - M1)"
  proof -
    have "T * M2 * (S - M1) \<le> S * ((T - B1) * M2)"
      unfolding key using e(1) i(6) by simp
    also have "\<dots> < S * (B2 * (S - M1) + (S - M1))"
      using i(8) j(2) by (intro mult_strict_left_mono) auto
    finally have "T * M2 * (S - M1) < S * (B2 + 1) * (S - M1)" by (simp add: algebra_simps)
    moreover have "T * M1 * (S - M1) \<le> (B1 * S + S) * (S - M1)"
      using i(2,4) by (intro mult_right_mono) auto
    ultimately show ?thesis by (simp add: algebra_simps)
  qed
  then have "T * (M1 + M2) < (B1 + B2 + 2) * S"
    using i(4) by (simp add: mult_less_cancel_right)
  then have "t * (m1 + m2) < (b1 + ?b2 + 2) * s"
    unfolding S_def T_def M1_def M2_def B1_def B2_def
    by (simp flip: of_nat_mult of_nat_add of_nat_less_iff add: algebra_simps)
  then have "t * (m1 + m2) div s < b1 + ?b2 + 2"
    using pos(1) by (simp add: div_less_iff_less_mult)
  then show "t * (m1 + m2) div s \<le> b1 + ?b2 + 1" by simp
qed

lemma take_fills_split:
  assumes "take_fills m1 q = (a1, b1, n1, q1)" "take_fills m2 q1 = (a2, b2, n2, q2)"
    "take_fills (m1 + m2) q = (a, b, n, q')"
  shows "a = a1 + a2 \<and> b1 + b2 \<le> b \<and> b \<le> b1 + b2 + 1 \<and> n = n1 + n2"
  using assms
proof (induction m1 q arbitrary: a1 b1 n1 q1 a b n q' rule: take_fills.induct)
  case (1 m)
  then show ?case by auto
next
  case (2 m s t q)
  consider "m = 0" | "0 < m" "s \<le> m" | "0 < m" "m < s" "s \<le> m + m2" | "0 < m" "m + m2 < s"
    by linarith
  then show ?case
  proof cases
    case 2
    obtain a1' b1' n1' where h1: "take_fills (m - s) q = (a1', b1', n1', q1)"
      "a1 = s + a1'" "b1 = t + b1'" "n1 = Suc n1'"
      using "2.prems"(1) 2 by (auto split: prod.splits)
    obtain a' b' n' where h: "take_fills (m - s + m2) q = (a', b', n', q')"
      "a = s + a'" "b = t + b'" "n = Suc n'"
      using "2.prems"(3) 2 by (auto split: prod.splits)
    show ?thesis
      using "2.IH" [OF _ 2(2) h1(1) "2.prems"(2) h(1)] 2(1) h1 h by auto
  next
    case 3
    have q1: "a1 = m" "b1 = t * m div s" "n1 = 0" "q1 = (s - m, t - t * m div s) # q"
      using "2.prems"(1) 3 by auto
    have "t * m div s \<le> t" using 3 by (intro div_part_le)
    then show ?thesis
      using "2.prems"(2,3) 3 q1 by (auto split: prod.splits if_splits simp: add.commute)
  next
    case 4
    have q1: "a1 = m" "b1 = t * m div s" "n1 = 0" "q1 = (s - m, t - t * m div s) # q"
      using "2.prems"(1) 4 by auto
    show ?thesis
      using "2.prems"(2,3) 4 q1 split_part_bounds [OF 4(2), of t] by (auto split: if_splits)
  qed (use "2.prems" in auto)
qed

section \<open>Properties\<close>

text \<open>
  C17: entering a fill refines appending it to the pending fills: the call succeeds exactly when
  the ring has a free slot and the totals do not overflow, it keeps the invariant and adds the
  fill behind the others; otherwise it ends with the error of the failed check.
\<close>

theorem enqueue_fill_refines_append:
  assumes "registry_inv r"
  shows "case enqueue_fill s t r of
      Inr r' \<Rightarrow> unat (count r) < MAX_FILLS_QUEUE_SIZE \<and> registry_inv r' \<and>
        backlog r' = backlog r @ [(unat s, unat t)]
    | Inl e \<Rightarrow>
        (if unat (count r) = MAX_FILLS_QUEUE_SIZE then e = DoubleZero RegistryFull
         else e = Panicked ArithmeticOverflow \<and>
           (2 ^ 64 \<le> unat (total_sol_pending r) + unat s \<or>
            2 ^ 64 \<le> unat (total_2z_pending r) + unat t))"
proof (cases "unat (count r) < MAX_FILLS_QUEUE_SIZE")
  case False
  with assms show ?thesis by (auto simp: enqueue_fill_def registry_inv_def ring_inv_def)
next
  case room: True
  have ring: "ring_inv r" using assms by (simp add: registry_inv_def)
  obtain r1 where r1: "push_back \<lparr>sol_in = s, token_2z_out = t\<rparr> r = Inr r1"
    "total_sol_pending r1 = total_sol_pending r" "total_2z_pending r1 = total_2z_pending r"
    using push_back_ring [OF ring room] by blast
  show ?thesis
  proof (cases "enqueue_fill s t r")
    case (Inr r')
    with enqueue_fill_inv [OF assms Inr] room show ?thesis by simp
  next
    case (Inl e)
    then show ?thesis
      using room r1
      by (auto simp: enqueue_fill_def add_or_panic_def checked_add_def split: if_splits)
  qed
qed

theorem enqueue_fill_refines_append_witness:
  "case enqueue_fill 7 14 sample_registry of
     Inr r' \<Rightarrow> backlog r' = [(10, 20), (20, 45), (7, 14)] | Inl e \<Rightarrow> False"
  using enqueue_fill_refines_append [OF sample_inv, of 7 14]
  by (auto simp: MAX_FILLS_QUEUE_SIZE_def split: sum.splits)

text \<open>
  C3: the dequeue handler is total on the invariant and refines the specification.  It rejects a
  foreign signer, a zero amount and an empty registry, in this order, with the program's own
  errors; every other call succeeds, takes from the pending fills what \<open>take_fills\<close> takes,
  reports it in the result and in one \<open>FillsDequeued\<close> event, and keeps the invariant: none of
  the arithmetic errors and panics of the loop can occur.
\<close>

theorem dequeue_fills_refines_take_fills:
  assumes "registry_inv r"
  shows "if signer \<noteq> fills_consumer cfg
         then process_dequeue_fills (Inr c) signer cfg r m =
                fail (DoubleZero UnauthorizedFillConsumer)
         else if m = 0
         then process_dequeue_fills (Inr c) signer cfg r m = fail (DoubleZero InvalidMaxSolAmount)
         else if backlog r = []
         then process_dequeue_fills (Inr c) signer cfg r m = fail (DoubleZero EmptyFillsRegistry)
         else \<exists>r' d. process_dequeue_fills (Inr c) signer cfg r m =
                ([FillsDequeued signer (sol_dequeued d) (token_2z_dequeued d) (fills_consumed d)
                   (unix_timestamp c)], Inr (r', d)) \<and> registry_inv r' \<and>
              take_fills (unat m) (backlog r) =
                (unat (sol_dequeued d), unat (token_2z_dequeued d), unat (fills_consumed d),
                 backlog r')"
proof -
  show ?thesis
    using process_dequeue_fills_ok [OF assms, of signer cfg m c]
    by (auto simp: backlog_eq_Nil_iff process_dequeue_fills_def word_gt_0)
qed

theorem dequeue_fills_refines_take_fills_witness:
  "\<exists>r' d. process_dequeue_fills (Inr \<lparr>slot = 5, epoch = 0, unix_timestamp = 77\<rparr>) 9
       sample_configuration sample_registry 15 = ([FillsDequeued 9 15 31 1 77], Inr (r', d)) \<and>
     backlog r' = [(15, 34)]"
proof -
  have consumer: "fills_consumer sample_configuration = 9"
    by (simp add: sample_configuration_def)
  obtain r' d where rd:
    "process_dequeue_fills (Inr \<lparr>slot = 5, epoch = 0, unix_timestamp = 77\<rparr>) 9
       sample_configuration sample_registry 15 =
       ([FillsDequeued 9 (sol_dequeued d) (token_2z_dequeued d) (fills_consumed d) 77], Inr (r', d))"
    "take_fills 15 [(10, 20), (20, 45)] =
       (unat (sol_dequeued d), unat (token_2z_dequeued d), unat (fills_consumed d), backlog r')"
    using dequeue_fills_refines_take_fills [OF sample_inv, of 9 sample_configuration
        "\<lparr>slot = 5, epoch = 0, unix_timestamp = 77\<rparr>" 15] consumer by auto
  then have "unat (sol_dequeued d) = 15" "unat (token_2z_dequeued d) = 31"
    "unat (fills_consumed d) = 1" "backlog r' = [(15, 34)]"
    by simp_all
  then have "unat (sol_dequeued d) = unat (15::u64)" "unat (token_2z_dequeued d) = unat (31::u64)"
    "unat (fills_consumed d) = unat (1::u64)" "backlog r' = [(15, 34)]"
    by simp_all
  then have "sol_dequeued d = 15" "token_2z_dequeued d = 31" "fills_consumed d = 1"
    by (simp_all only: word_unat_eq_iff)
  with rd(1) \<open>backlog r' = _\<close> show ?thesis by auto
qed

text \<open>
  What a dequeue takes.  It takes the requested lamports, or everything if less is pending;
  lamports and tokens leave the running totals exactly as they are reported; whole fills leave
  in the order they entered, and at most the first remaining fill is cut.
\<close>

theorem dequeue_fills_amounts:
  assumes "registry_inv r"
    and "process_dequeue_fills clk signer cfg r m = (es, Inr (r', d))"
  shows "unat (sol_dequeued d) = min (unat m) (unat (total_sol_pending r)) \<and>
     unat (total_sol_pending r') + unat (sol_dequeued d) = unat (total_sol_pending r) \<and>
     unat (total_2z_pending r') + unat (token_2z_dequeued d) = unat (total_2z_pending r) \<and>
     unat (count r') + unat (fills_consumed d) = unat (count r) \<and>
     (backlog r' = drop (unat (fills_consumed d)) (backlog r) \<or>
      (\<exists>x. backlog r' = x # drop (Suc (unat (fills_consumed d))) (backlog r)))"
proof -
  have inv: "registry_inv r'" and take: "take_fills (unat m) (backlog r) =
      (unat (sol_dequeued d), unat (token_2z_dequeued d), unat (fills_consumed d), backlog r')"
    using process_dequeue_fills_Inr [OF assms] by auto
  have "length (backlog r') = unat (count r')" "length (backlog r) = unat (count r)" by simp_all
  with inv assms(1) take_fills_conserves [OF take] take_fills_amount [OF take]
    take_fills_suffix [OF take]
  show ?thesis by (auto simp: registry_inv_def)
qed

theorem dequeue_fills_amounts_witness:
  "\<exists>es r' d. process_dequeue_fills (Inr \<lparr>slot = 5, epoch = 0, unix_timestamp = 77\<rparr>) 9
       sample_configuration sample_registry 100 = (es, Inr (r', d)) \<and>
     unat (sol_dequeued d) = 30 \<and> unat (total_sol_pending r') = 0"
proof -
  have "fills_consumer sample_configuration = 9" "0 < count sample_registry"
    by (simp_all add: sample_configuration_def)
  then obtain es r' d where ok: "process_dequeue_fills (Inr \<lparr>slot = 5, epoch = 0, unix_timestamp = 77\<rparr>) 9
       sample_configuration sample_registry 100 = (es, Inr (r', d))"
    using process_dequeue_fills_ok [OF sample_inv, of 9 sample_configuration 100] by fastforce
  show ?thesis
    using dequeue_fills_amounts [OF sample_inv ok] ok by (auto simp: sample_registry_def)
qed

text \<open>
  C34: splitting a dequeue in two takes the same lamports and the same whole fills as one dequeue
  of the sum, never more tokens, and at most one token unit less: the rounding of a partial fill
  cannot be exploited by asking in pieces.
\<close>

theorem dequeue_fills_split:
  assumes "registry_inv r"
    and "process_dequeue_fills clk1 signer cfg r m1 = (es1, Inr (r1, d1))"
    and "process_dequeue_fills clk2 signer cfg r1 m2 = (es2, Inr (r2, d2))"
    and "process_dequeue_fills clk3 signer cfg r m = (es3, Inr (r', d))"
    and "unat m = unat m1 + unat m2"
  shows "unat (sol_dequeued d) = unat (sol_dequeued d1) + unat (sol_dequeued d2) \<and>
     unat (fills_consumed d) = unat (fills_consumed d1) + unat (fills_consumed d2) \<and>
     unat (token_2z_dequeued d1) + unat (token_2z_dequeued d2) \<le> unat (token_2z_dequeued d) \<and>
     unat (token_2z_dequeued d) \<le> unat (token_2z_dequeued d1) + unat (token_2z_dequeued d2) + 1"
proof -
  from process_dequeue_fills_Inr [OF assms(1,2)]
  have i1: "registry_inv r1" and t1: "take_fills (unat m1) (backlog r) =
      (unat (sol_dequeued d1), unat (token_2z_dequeued d1), unat (fills_consumed d1), backlog r1)"
    by auto
  from process_dequeue_fills_Inr [OF i1 assms(3)]
  have t2: "take_fills (unat m2) (backlog r1) =
      (unat (sol_dequeued d2), unat (token_2z_dequeued d2), unat (fills_consumed d2), backlog r2)"
    by auto
  from process_dequeue_fills_Inr [OF assms(1,4)]
  have t: "take_fills (unat m1 + unat m2) (backlog r) =
      (unat (sol_dequeued d), unat (token_2z_dequeued d), unat (fills_consumed d), backlog r')"
    using assms(5) by auto
  show ?thesis using take_fills_split [OF t1 t2 t] by auto
qed

theorem dequeue_fills_split_witness:
  "\<exists>c r1 d1 r2 d2 r' d es1 es2 es3.
     process_dequeue_fills (Inr c) 9 sample_configuration sample_registry 13 = (es1, Inr (r1, d1)) \<and>
     process_dequeue_fills (Inr c) 9 sample_configuration r1 4 = (es2, Inr (r2, d2)) \<and>
     process_dequeue_fills (Inr c) 9 sample_configuration sample_registry 17 = (es3, Inr (r', d)) \<and>
     unat (sol_dequeued d) = unat (sol_dequeued d1) + unat (sol_dequeued d2)"
proof -
  define c where "c = \<lparr>slot = 5, epoch = 0, unix_timestamp = 77\<rparr>"
  have h: "9 = fills_consumer sample_configuration" "0 < count sample_registry"
    by (simp_all add: sample_configuration_def)
  obtain es1 r1 d1 where p1:
    "process_dequeue_fills (Inr c) 9 sample_configuration sample_registry 13 = (es1, Inr (r1, d1))"
    "registry_inv r1" "take_fills 13 [(10, 20), (20, 45)] =
       (unat (sol_dequeued d1), unat (token_2z_dequeued d1), unat (fills_consumed d1), backlog r1)"
    using process_dequeue_fills_ok [OF sample_inv h(1) _ h(2), of 13 c] by auto
  have "backlog r1 \<noteq> []" using p1(3) by auto
  then have c1: "0 < count r1" by (simp add: backlog_eq_Nil_iff word_gt_0)
  obtain es2 r2 d2 where p2:
    "process_dequeue_fills (Inr c) 9 sample_configuration r1 4 = (es2, Inr (r2, d2))"
    using process_dequeue_fills_ok [OF p1(2) h(1) _ c1, of 4 c] by auto
  obtain es3 r' d where p3:
    "process_dequeue_fills (Inr c) 9 sample_configuration sample_registry 17 = (es3, Inr (r', d))"
    using process_dequeue_fills_ok [OF sample_inv h(1) _ h(2), of 17 c] by auto
  have "unat (sol_dequeued d) = unat (sol_dequeued d1) + unat (sol_dequeued d2)"
    using dequeue_fills_split [OF sample_inv p1(1) p2 p3] by simp
  with p1(1) p2 p3 show ?thesis by blast
qed

text \<open>
  The ring buffer is first in, first out across the wrap-around of its indices: whatever the
  position of the head, fills pushed on an empty ring leave it in the order they were pushed.
\<close>

theorem ring_buffer_fifo:
  assumes "ring_inv r" "count r = 0" "length fs \<le> MAX_FILLS_QUEUE_SIZE"
  shows "\<exists>r1 r2. push_all push_back fs r = Inr r1 \<and>
     pop_many front pop_front (length fs) r1 = Inr (fs, r2) \<and> count r2 = 0"
proof -
  have "pending r = []" using assms(2) by (simp add: pending_eq_Nil_iff)
  then obtain r1 r2 where "push_all push_back fs r = Inr r1"
    "pop_many front pop_front (length fs) r1 = Inr (fs, r2)" "pending r2 = []"
    using ring.fifo_order [OF assms(1) _ assms(3)] by blast
  moreover have "count r2 = 0" using \<open>pending r2 = []\<close> by (simp add: pending_eq_Nil_iff)
  ultimately show ?thesis by blast
qed

theorem ring_buffer_fifo_witness:
  "\<exists>r1 r2. push_all push_back [\<lparr>sol_in = 1, token_2z_out = 2\<rparr>, \<lparr>sol_in = 3, token_2z_out = 4\<rparr>]
       (zero_fills_registry\<lparr>head := 649999, tail := 649999\<rparr>) = Inr r1 \<and>
     pop_many front pop_front 2 r1 =
       Inr ([\<lparr>sol_in = 1, token_2z_out = 2\<rparr>, \<lparr>sol_in = 3, token_2z_out = 4\<rparr>], r2)"
proof -
  let ?r = "zero_fills_registry\<lparr>head := 649999, tail := 649999\<rparr>"
  have "ring_inv ?r" "count ?r = 0"
    by (simp_all add: ring_inv_def zero_fills_registry_def MAX_FILLS_QUEUE_SIZE_def)
  then show ?thesis
    using ring_buffer_fifo [of ?r
        "[\<lparr>sol_in = 1, token_2z_out = 2\<rparr>, \<lparr>sol_in = 3, token_2z_out = 4\<rparr>]"]
    by (auto simp: MAX_FILLS_QUEUE_SIZE_def numeral_2_eq_2)
qed

end
