(* ===== verification/Scenario.thy ===== *)
theory Scenario
  imports Program_Runs Fills_Properties
begin

text \<open>
  A concrete chain for the witnesses: a runtime that satisfies \<open>runtime_laws\<close>, a ledger before
  the initialisation and one that stores a running system.
\<close>

section \<open>A runtime\<close>

definition sample_pda :: "u8 list list \<Rightarrow> pubkey \<times> u8" where
  "sample_pda seeds =
     (if seeds = [CONFIGURATION_REGISTRY] then (11, 255)
      else if seeds = [PROGRAM_STATE] then (12, 254)
      else if seeds = [DENY_LIST_REGISTRY] then (13, 253)
      else if seeds = [WITHDRAW_AUTHORITY] then (14, 252) else (15, 251))"

text \<open>In this chain a signature is the signed message itself.\<close>

definition sample_crypto :: crypto where
  "sample_crypto =
     \<lparr>base64_decode = (\<lambda>s. Some (bytes_of_string s)), sig_verify = (\<lambda>k sig m. sig = m)\<rparr>"

definition sample_init_account :: "pubkey \<Rightarrow> pubkey \<Rightarrow> nat \<Rightarrow> u8 list list \<Rightarrow> ledger \<Rightarrow> ledger result" where
  "sample_init_account payer k n seeds l =
     (if owner (accounts l k) = SYSTEM_PROGRAM_ID
      then Inr (l\<lparr>accounts := (accounts l)(k := (accounts l k)\<lparr>owner := ID, data := Zeroed n\<rparr>)\<rparr>)
      else Inl (Program (CustomError 1)))"

definition sample_runtime :: "rat runtime" where
  "sample_runtime =
     \<lparr>create_program_address = (\<lambda>seeds p. case sample_pda (butlast seeds) of (k, b) \<Rightarrow>
        if last seeds = [b] then Some k else None),
      find_program_address = (\<lambda>seeds p. sample_pda seeds),
      init_account = sample_init_account,
      transfer_checked = (\<lambda>p t a d l. Inr l),
      invoke_signed = (\<lambda>ix infos seeds l. Inr l),
      loader_id = 77, token_program_ids = [30], decimals = rat_ops, crypto_ops = sample_crypto\<rparr>"

lemma sample_runtime_simps [simp]:
  "find_program_address sample_runtime seeds p = sample_pda seeds"
  "init_account sample_runtime = sample_init_account"
  "transfer_checked sample_runtime q t a d l = Inr l"
  "invoke_signed sample_runtime ix infos ss l = Inr l"
  "loader_id sample_runtime = 77" "token_program_ids sample_runtime = [30]"
  "decimals sample_runtime = rat_ops" "crypto_ops sample_runtime = sample_crypto"
  by (simp_all add: sample_runtime_def)

lemma seeds_distinct [simp]:
  "CONFIGURATION_REGISTRY \<noteq> PROGRAM_STATE" "CONFIGURATION_REGISTRY \<noteq> DENY_LIST_REGISTRY"
  "CONFIGURATION_REGISTRY \<noteq> WITHDRAW_AUTHORITY" "PROGRAM_STATE \<noteq> DENY_LIST_REGISTRY"
  "PROGRAM_STATE \<noteq> WITHDRAW_AUTHORITY" "DENY_LIST_REGISTRY \<noteq> WITHDRAW_AUTHORITY"
  by (simp_all add: CONFIGURATION_REGISTRY_def PROGRAM_STATE_def DENY_LIST_REGISTRY_def
      WITHDRAW_AUTHORITY_def)

lemma sample_pda_simps [simp]:
  "sample_pda [CONFIGURATION_REGISTRY] = (11, 255)" "sample_pda [PROGRAM_STATE] = (12, 254)"
  "sample_pda [DENY_LIST_REGISTRY] = (13, 253)" "sample_pda [WITHDRAW_AUTHORITY] = (14, 252)"
  by (simp_all add: sample_pda_def seeds_distinct [symmetric])

lemma sample_create [simp]:
  "create_program_address sample_runtime [CONFIGURATION_REGISTRY, [b]] p =
     (if b = 255 then Some 11 else None)"
  "create_program_address sample_runtime [PROGRAM_STATE, [b]] p = (if b = 254 then Some 12 else None)"
  "create_program_address sample_runtime [DENY_LIST_REGISTRY, [b]] p =
     (if b = 253 then Some 13 else None)"
  "create_program_address sample_runtime [WITHDRAW_AUTHORITY, [b]] p =
     (if b = 252 then Some 14 else None)"
  by (simp_all add: sample_runtime_def)

lemma sample_keys [simp]:
  "configuration_key sample_runtime = 11" "state_key sample_runtime = 12"
  "deny_list_key sample_runtime = 13"
  by (simp_all add: configuration_key_def state_key_def deny_list_key_def)

lemma sample_runtime_laws [simp]: "runtime_laws sample_runtime"
proof -
  have "create_program_address sample_runtime (seeds @ [[b]]) p = Some k"
    if "sample_pda seeds = (k, b)" for seeds p k b
    using that by (simp add: sample_runtime_def)
  then show ?thesis
    by (auto simp: runtime_laws_def cpi_change_def sample_init_account_def init_change_def
        foreign_change_def split: if_splits)
qed

section \<open>Ledgers\<close>

lemma ID_eq: "ID = 3690718092553134154891737278366716349130422910389940148344620993622994963827"
  by (simp add: ID_def pubkey_of_base58_def ID_digits del: base58_digits.simps)

definition system_account :: account where
  "system_account = \<lparr>lamports = 1000000, owner = SYSTEM_PROGRAM_ID, executable = False, data = NoData\<rparr>"

definition program_account :: account where
  "program_account = \<lparr>lamports = 1000000, owner = 77, executable = True, data = LoaderProgram 78\<rparr>"

definition owned_account :: "pubkey \<Rightarrow> acct_data \<Rightarrow> account" where
  "owned_account k d = \<lparr>lamports = 1000000, owner = k, executable = False, data = d\<rparr>"

text \<open>The programs and token accounts of the chain, common to both ledgers.\<close>

definition sample_chain :: "pubkey \<Rightarrow> account" where
  "sample_chain =
     (\<lambda>_. system_account)
       (ID := program_account, 78 := owned_account 77 (LoaderProgramData (Some 1)),
        0 := \<lparr>lamports = 1, owner = 79, executable = True, data = NoData\<rparr>,
        30 := \<lparr>lamports = 1, owner = 79, executable = True, data = NoData\<rparr>,
        21 := owned_account 30 (TokenData 23 5 900000000000),
        22 := owned_account 30 (TokenData 23 6 0),
        23 := owned_account 30 (MintData 8))"

definition fresh_ledger :: ledger where
  "fresh_ledger = \<lparr>accounts = sample_chain(40 := owned_account ID (Zeroed 20000000)),
     clock_sysvar = sample_clock\<rparr>"

definition sample_system :: system where
  "sample_system = \<lparr>sys_configuration = sample_configuration, sys_state = sample_program_state,
     sys_deny_list = sample_deny_list, sys_fills = sample_registry\<rparr>"

definition sample_ledger :: ledger where
  "sample_ledger = \<lparr>accounts = sample_chain
       (11 := owned_account ID (ConfigurationData sample_configuration),
        12 := owned_account ID (ProgramStateData sample_program_state),
        13 := owned_account ID (DenyListData sample_deny_list),
        40 := owned_account ID (FillsData sample_registry)),
     clock_sysvar = sample_clock\<rparr>"

lemma sample_fresh [simp]: "uninitialised fresh_ledger"
  by (auto simp: uninitialised_def fresh_ledger_def sample_chain_def owned_account_def
      system_account_def program_account_def ID_eq SYSTEM_PROGRAM_ID_eq)

lemma sample_holds [simp]: "holds sample_runtime sample_ledger sample_system"
  by (auto simp: holds_def stored_def sample_ledger_def sample_system_def sample_chain_def
      owned_account_def system_account_def program_account_def system_keys_def
      sample_program_state_def canonical_bumps_def ID_eq SYSTEM_PROGRAM_ID_eq)

lemma sample_valid [simp]: "valid_system sample_system"
  by (simp add: valid_system_def sample_system_def valid_deny_list_def sample_deny_list_def
      MAX_DENY_LIST_SIZE_def)

lemma sample_clock_ledger [simp]: "clock_sysvar sample_ledger = sample_clock"
  "clock_sysvar fresh_ledger = sample_clock"
  by (simp_all add: sample_ledger_def fresh_ledger_def)

lemma sample_good [simp]: "good sample_runtime sample_ledger" "good sample_runtime fresh_ledger"
proof -
  have "last_trade_slot (sys_state sample_system) \<le> slot (clock_sysvar sample_ledger)"
    by (simp add: sample_system_def sample_program_state_def sample_clock_def)
  then show "good sample_runtime sample_ledger"
    unfolding program_inv_def by (auto intro!: exI [of _ sample_system])
  show "good sample_runtime fresh_ledger"
    by (simp add: program_inv_def)
qed

section \<open>Transactions\<close>

definition reads :: "pubkey \<Rightarrow> account_info" where
  "reads k = \<lparr>info_key = k, is_signer = False, is_writable = False\<rparr>"

definition writes :: "pubkey \<Rightarrow> account_info" where
  "writes k = \<lparr>info_key = k, is_signer = False, is_writable = True\<rparr>"

definition signs :: "pubkey \<Rightarrow> account_info" where
  "signs k = \<lparr>info_key = k, is_signer = True, is_writable = True\<rparr>"

lemma info_simps [simp]:
  "info_key (reads k) = k" "info_key (writes k) = k" "info_key (signs k) = k"
  "is_signer (signs k)" "is_writable (signs k)" "is_writable (writes k)"
  by (simp_all add: reads_def writes_def signs_def)

definition sample_quote :: "u64 \<Rightarrow> i64 \<Rightarrow> OraclePriceData" where
  "sample_quote rate ts =
     \<lparr>swap_rate = rate, timestamp = ts, signature = show_u64 rate @ ''|'' @ show_i64 ts\<rparr>"

lemma sample_quote_signed [simp]: "signed_by sample_crypto k (sample_quote rate ts)"
  by (simp add: signed_by_def sample_quote_def message_string_def sample_crypto_def)

definition sample_purchase :: "pubkey \<Rightarrow> BuySol" where
  "sample_purchase buyer =
     \<lparr>bs_configuration_registry = reads 11, bs_program_state = writes 12,
      bs_deny_list_registry = reads 13, bs_fills_registry = writes 40,
      bs_withdraw_sol_authority = reads 14, bs_user_token_account = writes 21,
      bs_protocol_treasury_token_account = writes 22, bs_double_zero_mint = reads 23,
      bs_program_config = reads 24, bs_journal = writes 25, bs_token_program = reads 30,
      bs_revenue_distribution_program = reads REVENUE_DISTRIBUTION_PROGRAM_ID,
      bs_signer = signs buyer\<rparr>"

definition sample_initialisation :: InitializeSystem where
  "sample_initialisation =
     \<lparr>is_configuration_registry = writes 11, is_program_state = writes 12,
      is_deny_list_registry = writes 13, is_fills_registry = writes 40,
      is_withdraw_authority = reads 14, is_program = reads ID, is_program_data = reads 78,
      is_system_program = reads 0, is_authority = signs 1\<rparr>"

end
