(* ===== verification/Mock_Properties.thy ===== *)
theory Mock_Properties
  imports Mock_Program Scenario
begin

text \<open>
  The mock program as the callee of \<open>buy_sol\<close>: it decodes exactly the instruction data the
  converter writes, and its withdrawal pays the buyer the lamports the journal loses.
\<close>

section \<open>Decoding\<close>

text \<open>
  What the decoding relies on in the hash: at least eight bytes, no collision among the three
  names, and the selector that the converter hard-codes.
\<close>

definition discriminator_laws :: "mock_env \<Rightarrow> bool" where
  "discriminator_laws env \<longleftrightarrow>
     (\<forall>s. 8 \<le> length (hash env s)) \<and>
     distinct [compute_discriminator env ''dz::ix::initialize'',
       compute_discriminator env ''dz::ix::withdraw_sol'', compute_discriminator env ''dz::ix::mint2z''] \<and>
     compute_discriminator env ''dz::ix::withdraw_sol'' = WITHDRAW_SOL_SELECTOR"

lemma length_discriminator:
  "discriminator_laws env \<Longrightarrow> length (compute_discriminator env name) = 8"
  by (simp add: discriminator_laws_def compute_discriminator_def)

lemma amount_payload_Inr_iff: "amount_payload rest = Inr a \<longleftrightarrow> rest = to_le_bytes a"
  using to_from_le_bytes [of rest a] by (auto simp: amount_payload_def tx_simps)

lemma split_eight: "8 \<le> length bs \<Longrightarrow> take 8 bs = d \<and> drop 8 bs = r \<longleftrightarrow> bs = d @ r \<and> length d = 8"
  by (metis append_eq_conv_conj append_take_drop_id length_take min.absorb2)

lemma unpack_amount_iff:
  assumes "discriminator_laws env"
  shows "unpack env bs = Inr (WithdrawSol a) \<longleftrightarrow>
      bs = compute_discriminator env ''dz::ix::withdraw_sol'' @ to_le_bytes a"
    "unpack env bs = Inr (Mint2Z a) \<longleftrightarrow>
      bs = compute_discriminator env ''dz::ix::mint2z'' @ to_le_bytes a"
    "unpack env bs = Inr Initialize \<longleftrightarrow>
      (\<exists>rest. bs = compute_discriminator env ''dz::ix::initialize'' @ rest)"
proof -
  let ?i = "compute_discriminator env ''dz::ix::initialize''"
    and ?w = "compute_discriminator env ''dz::ix::withdraw_sol''"
    and ?m = "compute_discriminator env ''dz::ix::mint2z''"
  have d: "?i \<noteq> ?w" "?i \<noteq> ?m" "?w \<noteq> ?m" and len: "length ?i = 8" "length ?w = 8" "length ?m = 8"
    using assms by (simp_all only: length_discriminator) (auto simp: discriminator_laws_def)
  show "unpack env bs = Inr (WithdrawSol a) \<longleftrightarrow> bs = ?w @ to_le_bytes a"
    using split_eight [of bs ?w "to_le_bytes a"] d len
    by (auto simp: unpack_def Let_def tx_simps amount_payload_Inr_iff split: if_splits)
  show "unpack env bs = Inr (Mint2Z a) \<longleftrightarrow> bs = ?m @ to_le_bytes a"
    using split_eight [of bs ?m "to_le_bytes a"] d len
    by (auto simp: unpack_def Let_def tx_simps amount_payload_Inr_iff split: if_splits)
  show "unpack env bs = Inr Initialize \<longleftrightarrow> (\<exists>rest. bs = ?i @ rest)"
  proof -
    have "unpack env bs = Inr Initialize \<longleftrightarrow> 8 \<le> length bs \<and> take 8 bs = ?i"
      using d by (auto simp: unpack_def Let_def tx_simps split: if_splits)
    moreover have "take 8 bs = ?i \<Longrightarrow> bs = ?i @ drop 8 bs" by (metis append_take_drop_id)
    moreover have "bs = ?i @ rest \<Longrightarrow> 8 \<le> length bs \<and> take 8 bs = ?i" for rest
      by (simp add: len)
    ultimately show ?thesis by blast
  qed
qed

section \<open>Withdrawing\<close>

lemma assert_Inr_iffs [load_simps]:
  "assert_pda k a = Inr u \<longleftrightarrow> info_key a = k"
  "assert_address k k' = Inr u \<longleftrightarrow> k' = k"
  "assert_signer a = Inr u \<longleftrightarrow> is_signer a"
  by (auto simp: assert_pda_def assert_address_def assert_signer_def)

lemma set_lamports_simps [simp]:
  "lamports (accounts (set_lamports k n l) k') = (if k' = k then n else lamports (accounts l k'))"
  "owner (accounts (set_lamports k n l) k') = owner (accounts l k')"
  "data (accounts (set_lamports k n l) k') = data (accounts l k')"
  "clock_sysvar (set_lamports k n l) = clock_sysvar l"
  by (simp_all add: set_lamports_def)

lemma mock_withdraw_sol_Inr_iff:
  "mock_withdraw_sol env program_id [cfg, auth, journal, recipient] amount l = Inr l' \<longleftrightarrow>
     is_signer auth \<and> info_key cfg = fst (find_address env [MOCK_CONFIG_ACCOUNT_SEED] program_id) \<and>
     info_key journal = fst (find_address env [MOCK_JOURNAL_SEED] program_id) \<and>
     amount \<le> lamports (account_of l journal) \<and>
     (\<exists>m n. unat m = unat (lamports (account_of l journal)) - unat amount \<and>
       unat n = unat (lamports (account_of (set_lamports (info_key journal) m l) recipient)) + unat amount \<and>
       l' = set_lamports (info_key recipient) n (set_lamports (info_key journal) m l))"
  (is "?run \<longleftrightarrow> ?moved")
proof
  show ?moved if ?run
    using that
    by (auto simp: mock_withdraw_sol_def Let_def tx_simps load_simps not_less sub_or_panic_Inr_iff
        add_or_panic_Inr_iff split: prod.splits if_splits)
  show ?run if ?moved
  proof -
    from that obtain m n where "unat m = unat (lamports (account_of l journal)) - unat amount"
      and n: "unat n = unat (lamports (account_of (set_lamports (info_key journal) m l) recipient)) + unat amount"
      and l': "l' = set_lamports (info_key recipient) n (set_lamports (info_key journal) m l)"
      and guards: "is_signer auth" "info_key cfg = fst (find_address env [MOCK_CONFIG_ACCOUNT_SEED] program_id)"
        "info_key journal = fst (find_address env [MOCK_JOURNAL_SEED] program_id)"
        "\<not> lamports (account_of l journal) < amount"
      by (auto simp: not_less)
    then have "sub_or_panic (lamports (account_of l journal)) amount = Inr m"
      "add_or_panic (lamports (account_of (set_lamports (info_key journal) m l) recipient)) amount = Inr n"
      using unsigned_less [of n, where ?'a = nat]
      by (simp_all add: sub_or_panic_Inr_iff add_or_panic_Inr_iff word_le_nat_alt not_less)
    then show ?thesis
      using guards unfolding l'
      by (simp add: mock_withdraw_sol_def Let_def load_simps tx_simps case_prod_beta)
  qed
qed

text \<open>
  The program decodes as a withdrawal of \<open>sol_quantity\<close> lamports exactly the instruction data
  that \<open>buy_sol\<close> writes for that quantity, the selector followed by eight little-endian bytes.
\<close>

theorem withdraw_instruction_decodes:
  assumes "discriminator_laws env"
  shows "unpack env bs = Inr (WithdrawSol sol) \<longleftrightarrow> bs = ix_data (withdraw_sol_instruction ctx sol)"
  using unpack_amount_iff(1) [OF assms] assms
  by (simp add: withdraw_sol_instruction_def discriminator_laws_def)

definition sample_env :: mock_env where
  "sample_env =
     \<lparr>hash = (\<lambda>s. if s = bytes_of_string ''dz::ix::withdraw_sol'' then WITHDRAW_SOL_SELECTOR
        else if s = bytes_of_string ''dz::ix::mint2z'' then replicate 8 1 else replicate 8 2),
      find_address = (\<lambda>seeds p. if seeds = [MOCK_CONFIG_ACCOUNT_SEED] then (24, 250)
        else if seeds = [MOCK_JOURNAL_SEED] then (25, 249) else (26, 248)),
      minimum_balance = (\<lambda>n. Inr (of_nat (n + 128) * 6960)),
      create_account = (\<lambda>p a lamps n own s l. Inr l), initialize_mint = (\<lambda>t m a f d s l. Inr l),
      initialize_account = (\<lambda>t a m own s l. Inr l), mint_to = (\<lambda>t m a auth n s l. Inr l),
      TOKEN_PROGRAM_ID = 30, RENT_SYSVAR_ID = 31, MINT_LEN = 82, ACCOUNT_LEN = 165\<rparr>"

lemma sample_env_laws: "discriminator_laws sample_env"
proof -
  have "replicate 8 (1::u8) = [1, 1, 1, 1, 1, 1, 1, 1]" "replicate 8 (2::u8) = [2, 2, 2, 2, 2, 2, 2, 2]"
    by (simp_all add: numeral_eq_Suc)
  then show ?thesis
    by (simp add: discriminator_laws_def compute_discriminator_def sample_env_def
        WITHDRAW_SOL_SELECTOR_def)
qed

theorem withdraw_instruction_decodes_witness:
  "unpack sample_env (WITHDRAW_SOL_SELECTOR @ to_le_bytes 25000000000) = Inr (WithdrawSol 25000000000)"
  using withdraw_instruction_decodes [OF sample_env_laws, where sol = 25000000000]
  by (simp add: withdraw_sol_instruction_def)

section \<open>The call from the converter\<close>

text \<open>
  What \<open>invoke_signed\<close> does when the mock program is deployed at the called address: it runs it on
  the accounts of the instruction, in their order, with the privileges their metas grant.
\<close>

definition mock_invoke :: "mock_env \<Rightarrow> Instruction \<Rightarrow> ledger \<Rightarrow> ledger result" where
  "mock_invoke env ix l =
     process_instruction env (ix_program_id ix) (map info_of_meta (ix_accounts ix)) (ix_data ix) l"

lemma withdraw_sol_Inr_iff:
  assumes "discriminator_laws env" "\<And>ix infos seeds l. invoke_signed rt ix infos seeds l = mock_invoke env ix l"
  shows "withdraw_sol rt ctx ps sol l = Inr l' \<longleftrightarrow>
    (let journal = info_key (bs_journal ctx); buyer = info_key (bs_signer ctx);
         revenue = info_key (bs_revenue_distribution_program ctx) in
     info_key (bs_program_config ctx) = fst (find_address env [MOCK_CONFIG_ACCOUNT_SEED] revenue) \<and>
     journal = fst (find_address env [MOCK_JOURNAL_SEED] revenue) \<and>
     sol \<le> lamports (accounts l journal) \<and>
     (\<exists>m n. unat m = unat (lamports (accounts l journal)) - unat sol \<and>
       unat n = unat (lamports (accounts (set_lamports journal m l) buyer)) + unat sol \<and>
       l' = set_lamports buyer n (set_lamports journal m l)))"
proof -
  have "unpack env (ix_data (withdraw_sol_instruction ctx sol)) = Inr (WithdrawSol sol)"
    using unpack_amount_iff(1) [OF assms(1)] assms(1)
    by (simp add: withdraw_sol_instruction_def discriminator_laws_def)
  then have "withdraw_sol rt ctx ps sol l =
      mock_withdraw_sol env (info_key (bs_revenue_distribution_program ctx))
        (map info_of_meta (ix_accounts (withdraw_sol_instruction ctx sol))) sol l"
    using assms(2)
    by (simp add: withdraw_sol_def mock_invoke_def process_instruction_def)
      (simp add: withdraw_sol_instruction_def)
  then show ?thesis
    by (simp add: withdraw_sol_instruction_def mock_withdraw_sol_Inr_iff info_of_meta_def
        account_of_def Let_def)
qed

lemma withdrawal_effect:
  assumes "discriminator_laws env" "\<And>ix infos seeds l. invoke_signed rt ix infos seeds l = mock_invoke env ix l"
    and "withdraw_sol rt ctx ps sol l = Inr l'"
  shows "sol \<le> lamports (accounts l (info_key (bs_journal ctx)))"
    "\<exists>m n. unat m = unat (lamports (accounts l (info_key (bs_journal ctx)))) - unat sol \<and>
       unat n = unat (lamports (accounts (set_lamports (info_key (bs_journal ctx)) m l)
         (info_key (bs_signer ctx)))) + unat sol \<and>
       l' = set_lamports (info_key (bs_signer ctx)) n (set_lamports (info_key (bs_journal ctx)) m l)"
  using assms(3) unfolding withdraw_sol_Inr_iff [OF assms(1,2)] Let_def by blast+

text \<open>The withdrawal looks at lamports only: it goes the same way on ledgers that agree on them.\<close>

lemma withdrawal_lamports:
  assumes "discriminator_laws env" "\<And>ix infos seeds l. invoke_signed rt ix infos seeds l = mock_invoke env ix l"
    and "withdraw_sol rt ctx ps sol l1 = Inr l2"
    and "\<And>k. lamports (accounts l k) = lamports (accounts l1 k)"
  shows "\<exists>m n. l2 = set_lamports (info_key (bs_signer ctx)) n (set_lamports (info_key (bs_journal ctx)) m l1) \<and>
    withdraw_sol rt ctx ps sol l =
      Inr (set_lamports (info_key (bs_signer ctx)) n (set_lamports (info_key (bs_journal ctx)) m l))"
  using assms(3,4) unfolding withdraw_sol_Inr_iff [OF assms(1,2)] Let_def set_lamports_simps by metis

text \<open>
  With the mock program as the revenue distribution program, the withdrawal of a purchase
  moves exactly \<open>sol_quantity\<close> lamports from the journal to the buyer and does nothing else: every
  other account keeps its lamports, no account changes its owner or data.
\<close>

theorem withdrawal_pays_buyer:
  assumes "discriminator_laws env" "\<And>ix infos seeds l. invoke_signed rt ix infos seeds l = mock_invoke env ix l"
    and "withdraw_sol rt ctx ps sol l = Inr l'"
    and "info_key (bs_journal ctx) \<noteq> info_key (bs_signer ctx)"
  shows "unat (lamports (accounts l' (info_key (bs_signer ctx)))) =
      unat (lamports (accounts l (info_key (bs_signer ctx)))) + unat sol \<and>
    unat (lamports (accounts l' (info_key (bs_journal ctx)))) + unat sol =
      unat (lamports (accounts l (info_key (bs_journal ctx)))) \<and>
    (\<forall>k. k \<notin> {info_key (bs_signer ctx), info_key (bs_journal ctx)} \<longrightarrow>
       accounts l' k = accounts l k) \<and> cpi_change l l'"
  using withdrawal_effect [OF assms(1-3)] assms(4)
  by (auto simp: word_le_nat_alt cpi_change_def foreign_change_def) (simp_all add: set_lamports_def)

definition mock_runtime :: "rat runtime" where
  "mock_runtime = sample_runtime\<lparr>invoke_signed := (\<lambda>ix infos seeds. mock_invoke sample_env ix)\<rparr>"

definition funded_ledger :: ledger where
  "funded_ledger = set_lamports 25 1000000000000 sample_ledger"

lemma mock_withdrawal_runs:
  "\<exists>l'. withdraw_sol mock_runtime (sample_purchase 5) sample_program_state 25000000000 funded_ledger = Inr l'"
proof -
  have "unpack sample_env (WITHDRAW_SOL_SELECTOR @ to_le_bytes 25000000000) = Inr (WithdrawSol 25000000000)"
    using unpack_amount_iff(1) [OF sample_env_laws] sample_env_laws
    by (simp add: discriminator_laws_def)
  then show ?thesis
    by (simp add: withdraw_sol_def mock_runtime_def mock_invoke_def process_instruction_def
        withdraw_sol_instruction_def sample_purchase_def info_of_meta_def mock_withdraw_sol_def
        assert_signer_def assert_pda_def sample_env_def MOCK_CONFIG_ACCOUNT_SEED_def
        MOCK_JOURNAL_SEED_def account_of_def funded_ledger_def sub_or_panic_def checked_sub_def
        add_or_panic_def checked_add_def sample_ledger_def sample_chain_def system_account_def ID_eq)
qed

theorem withdrawal_pays_buyer_witness:
  "\<exists>l'. withdraw_sol mock_runtime (sample_purchase 5) sample_program_state 25000000000 funded_ledger = Inr l' \<and>
     unat (lamports (accounts l' 5)) = 25001000000"
proof -
  obtain l' where run: "withdraw_sol mock_runtime (sample_purchase 5) sample_program_state 25000000000
      funded_ledger = Inr l'" using mock_withdrawal_runs by blast
  have inv: "invoke_signed mock_runtime ix infos seeds l = mock_invoke sample_env ix l" for ix infos seeds l
    by (simp add: mock_runtime_def)
  have "lamports (accounts funded_ledger 5) = 1000000"
    by (simp add: funded_ledger_def sample_ledger_def sample_chain_def system_account_def ID_eq)
  moreover have "info_key (bs_journal (sample_purchase 5)) = 25" "info_key (bs_signer (sample_purchase 5)) = 5"
    by (simp_all add: sample_purchase_def)
  ultimately show ?thesis
    using withdrawal_pays_buyer [OF sample_env_laws inv run] run by auto
qed

end
