(* ===== verification/Cli_Instructions.thy ===== *)
theory Cli_Instructions
  imports User_Cli Mock_Properties
begin

text \<open>
  What the program receives from the command line tools.  For every command the request is stated
  as an instruction of the program with its accounts and arguments; the lemmas show that the bytes
  and metas a tool builds are received as exactly that, and that the accounts pass the program's
  checks on every ledger that holds the system.
\<close>

section \<open>The requests of the administrators' tool\<close>

abbreviation pda :: "'d packages \<Rightarrow> u8 list \<Rightarrow> pubkey \<Rightarrow> pubkey" where
  "pda pk seed program \<equiv> fst (find_pda pk [seed] program)"

definition update_accounts :: "'d packages \<Rightarrow> pubkey \<Rightarrow> pubkey \<Rightarrow> ConfigurationRegistryUpdate" where
  "update_accounts pk program payer =
     \<lparr>cu_configuration_registry = writes (pda pk CONFIGURATION_REGISTRY program),
      cu_program_state = reads (pda pk PROGRAM_STATE program), cu_admin = signs payer\<rparr>"

definition consumer_accounts :: "'d packages \<Rightarrow> pubkey \<Rightarrow> pubkey \<Rightarrow> SetFillsConsumer" where
  "consumer_accounts pk program payer =
     \<lparr>cu_configuration_registry = writes (pda pk CONFIGURATION_REGISTRY program),
      cu_program_state = writes (pda pk PROGRAM_STATE program), cu_admin = signs payer\<rparr>"

definition deny_accounts :: "'d packages \<Rightarrow> pubkey \<Rightarrow> pubkey \<Rightarrow> UpdateDenyList" where
  "deny_accounts pk program payer =
     \<lparr>dl_deny_list_registry = writes (pda pk DENY_LIST_REGISTRY program),
      dl_program_state = writes (pda pk PROGRAM_STATE program), dl_admin = signs payer\<rparr>"

definition upgrade_accounts :: "'d packages \<Rightarrow> pubkey \<Rightarrow> pubkey \<Rightarrow> SetAdmin" where
  "upgrade_accounts pk program payer =
     \<lparr>sa_admin = signs payer, sa_program_state = writes (pda pk PROGRAM_STATE program),
      sa_program = reads program, sa_program_data = reads (program_data_address pk program)\<rparr>"

definition toggle_accounts :: "'d packages \<Rightarrow> pubkey \<Rightarrow> pubkey \<Rightarrow> SystemState" where
  "toggle_accounts pk program payer =
     \<lparr>ss_admin = signs payer, ss_program_state = writes (pda pk PROGRAM_STATE program)\<rparr>"

fun admin_intent ::
    "'d packages \<Rightarrow> AdminConfig \<Rightarrow> pubkey \<Rightarrow> pubkey \<Rightarrow> AdminCommands \<Rightarrow> instruction option" where
  "admin_intent pk cfg program payer UpdateConfig =
     Some (UpdateConfigurationRegistryIx (update_accounts pk program payer) (update_config_input cfg))"
| "admin_intent pk cfg program payer (SetFillsConsumerCmd t) =
     map_option (SetFillsConsumerIx (consumer_accounts pk program payer)) (pubkey_of_str pk t)"
| "admin_intent pk cfg program payer (AddToDenyList t) =
     map_option (AddToDenyListIx (deny_accounts pk program payer)) (pubkey_of_str pk t)"
| "admin_intent pk cfg program payer (RemoveFromDenyList t) =
     map_option (RemoveFromDenyListIx (deny_accounts pk program payer)) (pubkey_of_str pk t)"
| "admin_intent pk cfg program payer (SetAdminCmd t) =
     map_option (SetAdminIx (upgrade_accounts pk program payer)) (pubkey_of_str pk t)"
| "admin_intent pk cfg program payer (SetDenyAuthority t) =
     map_option (SetDenyListAuthorityIx (upgrade_accounts pk program payer)) (pubkey_of_str pk t)"
| "admin_intent pk cfg program payer (ToggleSystemState activate pause) =
     (if activate = pause then None
      else Some (ToggleSystemStateIx (toggle_accounts pk program payer) pause))"
| "admin_intent pk cfg program payer _ = None"

text \<open>The commands that ask the program for a change of the running system.\<close>

fun administers :: "AdminCommands \<Rightarrow> bool" where
  "administers UpdateConfig = True"
| "administers (SetFillsConsumerCmd t) = True"
| "administers (AddToDenyList t) = True"
| "administers (RemoveFromDenyList t) = True"
| "administers (SetAdminCmd t) = True"
| "administers (SetDenyAuthority t) = True"
| "administers (ToggleSystemState activate pause) = True"
| "administers _ = False"

text \<open>The request of a command: there is none unless the configuration, the payer's key and the
  arguments are all usable.\<close>

definition admin_request :: "'d packages \<Rightarrow> AdminCommands \<Rightarrow> (pubkey \<times> instruction) option" where
  "admin_request pk cmd =
     (case (load_admin_config pk, load_payer_from_env pk) of
        (Inr cfg, Inr payer) \<Rightarrow>
          (case pubkey_of_str pk (ac_program_id cfg) of
             Some program \<Rightarrow> map_option (Pair program) (admin_intent pk cfg program payer cmd)
           | None \<Rightarrow> None)
      | _ \<Rightarrow> None)"

section \<open>What is received\<close>

lemma info_of_new [simp]:
  "info_of_meta (meta_new k True) = signs k" "info_of_meta (meta_new k False) = writes k"
  "info_of_meta (meta_new_readonly k False) = reads k"
  by (simp_all add: info_of_meta_def meta_new_def meta_new_readonly_def signs_def writes_def reads_def)

lemma meta_signer [simp]:
  "meta_is_signer (meta_new k b) = b" "meta_is_signer (meta_new_readonly k b) = b"
  by (simp_all add: meta_new_def meta_new_readonly_def)

lemmas pda_defs = get_configuration_registry_pda_def get_program_state_pda_def
  get_deny_list_registry_pda_def get_withdraw_authority_pda_def get_program_data_account_pda_def

lemmas instruction_name_defs = INITIALIZE_SYSTEM_INSTRUCTION_def SET_FILLS_CONSUMER_INSTRUCTION_def
  ADD_TO_DENY_LIST_INSTRUCTION_def REMOVE_FROM_DENY_LIST_INSTRUCTION_def
  UPDATE_CONFIGURATION_REGISTRY_INSTRUCTION_def SET_ADMIN_INSTRUCTION_def
  TOGGLE_SYSTEM_STATE_INSTRUCTION_def SET_DENY_LIST_AUTHORITY_INSTRUCTION_def
  BUY_SOL_INSTRUCTION_def GET_PRICE_INSTRUCTION_def DEQUEUE_FILLS_INSTRUCTION_def

lemmas read_alone [read_simps] =
  u64_codec.get_put_only pubkey_codec.get_put_only bool_codec.get_put_only
  configuration_input_codec.get_put_only oracle_price_codec.get_put_only

lemma get_flag [read_simps]: "get_bool [0] = Some (False, [])" "get_bool [1] = Some (True, [])"
  using bool_codec.get_put_only [of False] bool_codec.get_put_only [of True]
  by (simp_all add: put_bool_def)

lemma pubkey_from_str_Inl:
  "pubkey_of_str pk t = None \<Longrightarrow> pubkey_from_str pk t = Inl (Package PubkeyError)"
  "pubkey_of_str pk t = Some k \<Longrightarrow> pubkey_from_str pk t = Inr k"
  by (simp_all add: pubkey_from_str_def)

definition asks :: "'d packages \<Rightarrow> 'w network \<Rightarrow> ('w, 'd, unit) io \<Rightarrow> pubkey \<times> instruction \<Rightarrow> bool" where
  "asks pk net run request \<longleftrightarrow>
     (\<exists>ix payer. run = io_bind (send_batch_instructions pk net [ix]) (\<lambda>_. io_ok ()) \<and>
       ix_program_id ix = fst request \<and> received (sha256 pk) ix = Inr (snd request) \<and>
       load_payer_from_env pk = Inr payer \<and> filter meta_is_signer (ix_accounts ix) = [meta_new payer True])"

lemma asksI:
  assumes "run = io_bind (send_batch_instructions pk net [ix]) (\<lambda>_. io_ok ())"
    "ix_program_id ix = program" "received (sha256 pk) ix = Inr i"
    "load_payer_from_env pk = Inr payer" "filter meta_is_signer (ix_accounts ix) = [meta_new payer True]"
  shows "asks pk net run (program, i)"
  using assms by (auto simp: asks_def)

text \<open>A command with unusable inputs fails before it reaches the network.\<close>

definition fails :: "('w, 'd, 'a) io \<Rightarrow> bool" where
  "fails run \<longleftrightarrow> (\<exists>e. run = io_fail e)"

lemma fails_io_fail [intro!]: "fails (io_fail e)"
  unfolding fails_def by (rule exI) (rule refl)

lemma fails_try: "(\<And>x. r = Inr x \<Longrightarrow> fails (f x)) \<Longrightarrow> fails (io_try r f)"
  by (cases r) (auto simp: io_simps)

definition answers :: "'d packages \<Rightarrow> 'w network \<Rightarrow> ('w, 'd, unit) io \<Rightarrow> (pubkey \<times> instruction) option \<Rightarrow> bool" where
  "answers pk net run request =
     (case request of
        None \<Rightarrow> fails run
      | Some rq \<Rightarrow> asks pk net run rq)"

lemma admin_request_cases:
  assumes "\<And>cfg program payer. load_admin_config pk = Inr cfg \<Longrightarrow>
      pubkey_of_str pk (ac_program_id cfg) = Some program \<Longrightarrow> load_payer_from_env pk = Inr payer \<Longrightarrow>
      answers pk net run (map_option (Pair program) (admin_intent pk cfg program payer cmd))"
    and "\<And>e. load_admin_config pk = Inl e \<Longrightarrow> fails run"
    and "\<And>cfg. load_admin_config pk = Inr cfg \<Longrightarrow> pubkey_of_str pk (ac_program_id cfg) = None \<Longrightarrow>
      fails run"
    and "\<And>cfg program e. load_admin_config pk = Inr cfg \<Longrightarrow>
      pubkey_of_str pk (ac_program_id cfg) = Some program \<Longrightarrow> load_payer_from_env pk = Inl e \<Longrightarrow>
      fails run"
  shows "answers pk net run (admin_request pk cmd)"
proof (cases "load_admin_config pk")
  case (Inl e)
  then show ?thesis using assms(2) by (simp add: admin_request_def answers_def)
next
  case (Inr cfg)
  show ?thesis
  proof (cases "pubkey_of_str pk (ac_program_id cfg)")
    case None
    then show ?thesis
      using Inr assms(3) by (auto simp: admin_request_def answers_def split: sum.splits)
  next
    case (Some program)
    then show ?thesis
      using Inr assms(1,4) by (auto simp: admin_request_def answers_def split: sum.splits)
  qed
qed

lemmas command_defs = update_config_def change_fills_consumer_def toggle_system_state_cmd_def
  add_to_deny_list_cmd_def remove_from_deny_list_cmd_def set_admin_cmd_def set_deny_authority_def

lemma admin_command_answers:
  assumes "selector_laws (sha256 pk)" "administers cmd"
  shows "answers pk net (admin_handle pk net (Some cmd)) (admin_request pk cmd)"
proof (rule admin_request_cases)
  fix cfg program payer
  assume inputs: "load_admin_config pk = Inr cfg" "pubkey_of_str pk (ac_program_id cfg) = Some program"
    "load_payer_from_env pk = Inr payer"
  note simps = inputs admin_handle_def command_defs io_simps answers_def pubkey_from_str_Inl
    validate_and_extract_user_input_def fails_io_fail
  note wire = received_simps [OF assms(1)] read_simps pda_defs instruction_name_defs
    update_accounts_def consumer_accounts_def deny_accounts_def upgrade_accounts_def
    toggle_accounts_def deny_list_metas_def upgrade_authority_metas_def
  show "answers pk net (admin_handle pk net (Some cmd))
     (map_option (Pair program) (admin_intent pk cfg program payer cmd))"
    using assms(2)
  proof (cases cmd)
    case UpdateConfig
    then show ?thesis by (auto simp: simps intro!: asksI) (simp add: wire)
  next
    case (ToggleSystemState activate pause)
    then show ?thesis by (cases activate; cases pause) (auto simp: simps intro!: asksI, auto simp: wire)
  next
    case (SetFillsConsumerCmd t)
    then show ?thesis
      by (cases "pubkey_of_str pk t") (auto simp: simps intro!: asksI, auto simp: wire)
  next
    case (AddToDenyList t)
    then show ?thesis
      by (cases "pubkey_of_str pk t") (auto simp: simps intro!: asksI, auto simp: wire)
  next
    case (RemoveFromDenyList t)
    then show ?thesis
      by (cases "pubkey_of_str pk t") (auto simp: simps intro!: asksI, auto simp: wire)
  next
    case (SetAdminCmd t)
    then show ?thesis
      by (cases "pubkey_of_str pk t") (auto simp: simps intro!: asksI, auto simp: wire)
  next
    case (SetDenyAuthority t)
    then show ?thesis
      by (cases "pubkey_of_str pk t") (auto simp: simps intro!: asksI, auto simp: wire)
  qed simp_all
qed (use assms(2) in \<open>cases cmd; auto simp: admin_handle_def command_defs
  pubkey_from_str_def tx_simps intro!: fails_try\<close>)+

section \<open>The accounts pass the program's checks\<close>

text \<open>The tools derive addresses with the function the runtime checks them by.\<close>

lemma holds_seeds:
  assumes "runtime_laws rt" "holds rt l s"
  shows "create_program_address rt
      [CONFIGURATION_REGISTRY, [configuration_registry_bump (bump_registry (sys_state s))]] ID =
      Some (configuration_key rt)"
    "create_program_address rt
      [PROGRAM_STATE, [program_state_bump (bump_registry (sys_state s))]] ID = Some (state_key rt)"
    "create_program_address rt
      [DENY_LIST_REGISTRY, [deny_list_registry_bump (bump_registry (sys_state s))]] ID =
      Some (deny_list_key rt)"
    "create_program_address rt
      [WITHDRAW_AUTHORITY, [withdraw_authority_bump (bump_registry (sys_state s))]] ID =
      Some (fst (find_program_address rt [WITHDRAW_AUTHORITY] ID))"
proof -
  have found: "create_program_address rt [seed, [b]] ID = Some (fst (find_program_address rt [seed] ID))"
    if "snd (find_program_address rt [seed] ID) = b" for seed b
    using assms(1) that unfolding runtime_laws_def
    by (metis append_Cons append_Nil prod.collapse)
  have "canonical_bumps rt (bump_registry (sys_state s))"
    using assms(2) by (simp add: holds_def)
  then show "create_program_address rt
      [CONFIGURATION_REGISTRY, [configuration_registry_bump (bump_registry (sys_state s))]] ID =
      Some (configuration_key rt)"
    "create_program_address rt
      [PROGRAM_STATE, [program_state_bump (bump_registry (sys_state s))]] ID = Some (state_key rt)"
    "create_program_address rt
      [DENY_LIST_REGISTRY, [deny_list_registry_bump (bump_registry (sys_state s))]] ID =
      Some (deny_list_key rt)"
    "create_program_address rt
      [WITHDRAW_AUTHORITY, [withdraw_authority_bump (bump_registry (sys_state s))]] ID =
      Some (fst (find_program_address rt [WITHDRAW_AUTHORITY] ID))"
    by (auto simp: canonical_bumps_def configuration_key_def state_key_def deny_list_key_def
        intro!: found)
qed

lemma holds_accounts:
  assumes "holds rt l s"
  shows "owner (accounts l (configuration_key rt)) = ID"
    "data (accounts l (configuration_key rt)) = ConfigurationData (sys_configuration s)"
    "owner (accounts l (state_key rt)) = ID"
    "data (accounts l (state_key rt)) = ProgramStateData (sys_state s)"
    "owner (accounts l (deny_list_key rt)) = ID"
    "data (accounts l (deny_list_key rt)) = DenyListData (sys_deny_list s)"
    "owner (accounts l (fills_registry_address (sys_state s))) = ID"
    "data (accounts l (fills_registry_address (sys_state s))) = FillsData (sys_fills s)"
  using assms by (simp_all add: holds_def stored_def)

definition same_addresses :: "'d packages \<Rightarrow> 'e runtime \<Rightarrow> bool" where
  "same_addresses pk rt \<longleftrightarrow> find_pda pk = find_program_address rt"

lemma pda_keys:
  assumes "same_addresses pk rt"
  shows "pda pk CONFIGURATION_REGISTRY ID = configuration_key rt"
    "pda pk PROGRAM_STATE ID = state_key rt" "pda pk DENY_LIST_REGISTRY ID = deny_list_key rt"
  using assms
  by (simp_all add: same_addresses_def configuration_key_def state_key_def deny_list_key_def)

lemma written_keys:
  assumes "same_addresses pk rt"
  shows "info_key (cu_configuration_registry (update_accounts pk ID payer)) = configuration_key rt"
    "info_key (cu_configuration_registry (consumer_accounts pk ID payer)) = configuration_key rt"
    "info_key (dl_deny_list_registry (deny_accounts pk ID payer)) = deny_list_key rt"
    "info_key (sa_program_state (upgrade_accounts pk ID payer)) = state_key rt"
    "info_key (ss_program_state (toggle_accounts pk ID payer)) = state_key rt"
  by (simp_all add: update_accounts_def consumer_accounts_def deny_accounts_def
      upgrade_accounts_def toggle_accounts_def pda_keys [OF assms])

lemma cli_accounts_pass:
  assumes "runtime_laws rt" "holds rt l s" "same_addresses pk rt"
  shows "validate_SystemState rt l (toggle_accounts pk ID payer) = Inr (payer, sys_state s)"
    "validate_ConfigurationRegistryUpdate rt l (update_accounts pk ID payer) =
       Inr (payer, sys_state s, sys_configuration s)"
    "validate_ConfigurationRegistryUpdate rt l (consumer_accounts pk ID payer) =
       Inr (payer, sys_state s, sys_configuration s)"
    "validate_UpdateDenyList rt l (deny_accounts pk ID payer) =
       Inr (payer, sys_state s, sys_deny_list s)"
  by (simp_all add: load_simps toggle_accounts_def update_accounts_def consumer_accounts_def
      deny_accounts_def account_of_def pda_keys [OF assms(3)] holds_accounts [OF assms(2)]
      holds_seeds [OF assms(1,2)])

text \<open>The payer is the upgrade authority the loader records for the program.\<close>

definition is_upgrade_authority :: "'d packages \<Rightarrow> 'e runtime \<Rightarrow> ledger \<Rightarrow> pubkey \<Rightarrow> bool" where
  "is_upgrade_authority pk rt l payer \<longleftrightarrow>
     executable (accounts l ID) \<and>
     programdata_address rt l (reads ID) = Some (program_data_address pk ID) \<and>
     load_account (loader_id rt) as_program_data l (reads (program_data_address pk ID)) = Inr (Some payer)"

lemma upgrade_accounts_pass:
  assumes "runtime_laws rt" "holds rt l s" "same_addresses pk rt" "is_upgrade_authority pk rt l payer"
  shows "validate_SetAdmin rt l (upgrade_accounts pk ID payer) = Inr (payer, sys_state s)"
  using assms(4)
  by (simp add: load_simps upgrade_accounts_def account_of_def pda_keys [OF assms(3)]
      holds_accounts [OF assms(2)] holds_seeds [OF assms(1,2)] is_upgrade_authority_def)

section \<open>The effect of a request on the system\<close>

fun admin_effect :: "clock \<Rightarrow> system \<Rightarrow> pubkey \<Rightarrow> instruction \<Rightarrow> system handler" where
  "admin_effect c s payer (UpdateConfigurationRegistryIx ctx input) =
     map_tx (\<lambda>cfg. s\<lparr>sys_configuration := cfg\<rparr>)
       (process_update payer (sys_state s) (sys_configuration s) input)"
| "admin_effect c s payer (SetFillsConsumerIx ctx k) =
     map_tx (\<lambda>cfg. s\<lparr>sys_configuration := cfg\<rparr>)
       (process_set_fills_consumer payer (sys_state s) (sys_configuration s) k)"
| "admin_effect c s payer (AddToDenyListIx ctx k) =
     map_tx (\<lambda>dl. s\<lparr>sys_deny_list := dl\<rparr>)
       (add_to_deny_list (Inr c) payer (sys_state s) (sys_deny_list s) k)"
| "admin_effect c s payer (RemoveFromDenyListIx ctx k) =
     map_tx (\<lambda>dl. s\<lparr>sys_deny_list := dl\<rparr>)
       (remove_from_deny_list (Inr c) payer (sys_state s) (sys_deny_list s) k)"
| "admin_effect c s payer (SetAdminIx ctx k) =
     map_tx (\<lambda>ps. s\<lparr>sys_state := ps\<rparr>) (process_set_admin payer (sys_state s) k)"
| "admin_effect c s payer (SetDenyListAuthorityIx ctx k) =
     map_tx (\<lambda>ps. s\<lparr>sys_state := ps\<rparr>) (process_set_deny_list_authority payer (sys_state s) k)"
| "admin_effect c s payer (ToggleSystemStateIx ctx b) =
     map_tx (\<lambda>ps. s\<lparr>sys_state := ps\<rparr>) (process_system_state payer (sys_state s) b)"
| "admin_effect c s payer _ = ok s"

text \<open>Executing has the effect \<open>eff\<close>: the same events, the same error, or a ledger that holds it.\<close>

definition executes_as :: "'d runtime \<Rightarrow> ledger \<Rightarrow> instruction \<Rightarrow> system handler \<Rightarrow> bool" where
  "executes_as rt l i eff \<longleftrightarrow>
     (case eff of
        (es, Inl e) \<Rightarrow> execute rt l i = (es, Inl e)
      | (es, Inr s') \<Rightarrow> \<exists>l'. execute rt l i = (es, Inr (l', [])) \<and> holds rt l' s')"

lemma executes_as_exit:
  assumes "execute rt l i = exit_with a wrap l h"
    "\<And>es v. h = (es, Inr v) \<Longrightarrow> holds rt (set_data (info_key a) (wrap v) l) (upd v)"
  shows "executes_as rt l i (map_tx upd h)"
proof (cases h)
  case (Pair es r)
  with assms show ?thesis
    by (cases r) (auto simp: executes_as_def map_tx_def exit_with_def)
qed

fun needs_upgrade_authority :: "AdminCommands \<Rightarrow> bool" where
  "needs_upgrade_authority (SetAdminCmd t) = True"
| "needs_upgrade_authority (SetDenyAuthority t) = True"
| "needs_upgrade_authority _ = False"

lemma admin_intent_executes:
  assumes "runtime_laws rt" "holds rt l s" "same_addresses pk rt"
    and "admin_intent pk cfg ID payer cmd = Some i"
    and "needs_upgrade_authority cmd \<longrightarrow> is_upgrade_authority pk rt l payer"
  shows "executes_as rt l i (admin_effect (clock_sysvar l) s payer i)"
proof -
  note pass = cli_accounts_pass [OF assms(1-3)] upgrade_accounts_pass [OF assms(1-3)]
  note store = holds_set_data [OF assms(2)] process_keeps_addresses
  note keys = written_keys [OF assms(3)]
  show ?thesis
    using assms(4,5)
  proof (cases cmd)
    case UpdateConfig
    then have i: "i = UpdateConfigurationRegistryIx (update_accounts pk ID payer) (update_config_input cfg)"
      using assms(4) by simp
    show ?thesis unfolding i admin_effect.simps
      by (rule executes_as_exit [where a = "cu_configuration_registry (update_accounts pk ID payer)"
          and wrap = ConfigurationData])
        (auto simp: update_configuration_registry_def pass store keys)
  next
    case (SetFillsConsumerCmd t)
    then obtain k where i: "i = SetFillsConsumerIx (consumer_accounts pk ID payer) k"
      using assms(4) by auto
    show ?thesis unfolding i admin_effect.simps
      by (rule executes_as_exit [where a = "cu_configuration_registry (consumer_accounts pk ID payer)"
          and wrap = ConfigurationData])
        (auto simp: set_fills_consumer_def pass store keys)
  next
    case (AddToDenyList t)
    then obtain k where i: "i = AddToDenyListIx (deny_accounts pk ID payer) k"
      using assms(4) by auto
    show ?thesis unfolding i admin_effect.simps
      by (rule executes_as_exit [where a = "dl_deny_list_registry (deny_accounts pk ID payer)"
          and wrap = DenyListData])
        (auto simp: ix_add_to_deny_list_def pass store keys)
  next
    case (RemoveFromDenyList t)
    then obtain k where i: "i = RemoveFromDenyListIx (deny_accounts pk ID payer) k"
      using assms(4) by auto
    show ?thesis unfolding i admin_effect.simps
      by (rule executes_as_exit [where a = "dl_deny_list_registry (deny_accounts pk ID payer)"
          and wrap = DenyListData])
        (auto simp: ix_remove_from_deny_list_def pass store keys)
  next
    case (SetAdminCmd t)
    then obtain k where i: "i = SetAdminIx (upgrade_accounts pk ID payer) k"
      using assms(4) by auto
    show ?thesis unfolding i admin_effect.simps
      by (rule executes_as_exit [where a = "sa_program_state (upgrade_accounts pk ID payer)"
          and wrap = ProgramStateData])
        (use SetAdminCmd assms(5) in \<open>auto simp: set_admin_def pass store keys\<close>)
  next
    case (SetDenyAuthority t)
    then obtain k where i: "i = SetDenyListAuthorityIx (upgrade_accounts pk ID payer) k"
      using assms(4) by auto
    show ?thesis unfolding i admin_effect.simps
      by (rule executes_as_exit [where a = "sa_program_state (upgrade_accounts pk ID payer)"
          and wrap = ProgramStateData])
        (use SetDenyAuthority assms(5) in \<open>auto simp: set_deny_list_authority_def pass store keys\<close>)
  next
    case (ToggleSystemState activate pause)
    then have i: "i = ToggleSystemStateIx (toggle_accounts pk ID payer) pause"
      using assms(4) by (simp split: if_splits)
    show ?thesis unfolding i admin_effect.simps
      by (rule executes_as_exit [where a = "ss_program_state (toggle_accounts pk ID payer)"
          and wrap = ProgramStateData])
        (auto simp: toggle_system_state_def pass store keys)
  qed simp_all
qed

section \<open>The requests of users and integrators\<close>

definition purchase_accounts ::
    "'d packages \<Rightarrow> pubkey \<Rightarrow> pubkey \<Rightarrow> pubkey \<Rightarrow> pubkey \<Rightarrow> pubkey \<Rightarrow> BuySol" where
  "purchase_accounts pk program revenue registry from payer =
     \<lparr>bs_configuration_registry = writes (pda pk CONFIGURATION_REGISTRY program),
      bs_program_state = writes (pda pk PROGRAM_STATE program),
      bs_deny_list_registry = writes (pda pk DENY_LIST_REGISTRY program),
      bs_fills_registry = writes registry,
      bs_withdraw_sol_authority = writes (pda pk WITHDRAW_AUTHORITY program),
      bs_user_token_account = writes from,
      bs_protocol_treasury_token_account = writes (pda pk MOCK_PROTOCOL_TREASURY_SEED revenue),
      bs_double_zero_mint = writes (pda pk MOCK_2Z_TOKEN_MINT_SEED revenue),
      bs_program_config = writes (pda pk MOCK_CONFIG_ACCOUNT_SEED revenue),
      bs_journal = writes (pda pk MOCK_JOURNAL_SEED revenue),
      bs_token_program = writes (spl_token_id pk),
      bs_revenue_distribution_program = writes revenue, bs_signer = signs payer\<rparr>"

definition quote_accounts :: "'d packages \<Rightarrow> pubkey \<Rightarrow> pubkey \<Rightarrow> CalculateAskPrice" where
  "quote_accounts pk program payer =
     \<lparr>ca_signer = signs payer, ca_program_state = writes (pda pk PROGRAM_STATE program),
      ca_configuration_registry = writes (pda pk CONFIGURATION_REGISTRY program)\<rparr>"

definition dequeue_accounts :: "'d packages \<Rightarrow> pubkey \<Rightarrow> pubkey \<Rightarrow> pubkey \<Rightarrow> DequeueFills" where
  "dequeue_accounts pk program registry payer =
     \<lparr>df_configuration_registry = writes (pda pk CONFIGURATION_REGISTRY program),
      df_program_state = writes (pda pk PROGRAM_STATE program), df_fills_registry = writes registry,
      df_signer = signs payer\<rparr>"

definition initialisation_accounts :: "'d packages \<Rightarrow> pubkey \<Rightarrow> pubkey \<Rightarrow> pubkey \<Rightarrow> InitializeSystem" where
  "initialisation_accounts pk program registry payer =
     \<lparr>is_configuration_registry = writes (pda pk CONFIGURATION_REGISTRY program),
      is_program_state = writes (pda pk PROGRAM_STATE program),
      is_deny_list_registry = writes (pda pk DENY_LIST_REGISTRY program),
      is_fills_registry = writes registry,
      is_withdraw_authority = writes (pda pk WITHDRAW_AUTHORITY program),
      is_program = writes program, is_program_data = writes (program_data_address pk program),
      is_system_program = writes SYSTEM_PROGRAM_ID, is_authority = signs payer\<rparr>"

lemma mock_seeds [simp]:
  "MOCK_2Z_TOKEN_MINT_SEED_cli = MOCK_2Z_TOKEN_MINT_SEED"
  "MOCK_PROTOCOL_TREASURY_SEED_cli = MOCK_PROTOCOL_TREASURY_SEED"
  "MOCK_CONFIG_ACCOUNT = MOCK_CONFIG_ACCOUNT_SEED"
  "MOCK_REVENUE_DISTRIBUTION_JOURNAL = MOCK_JOURNAL_SEED"
  by (simp_all add: MOCK_2Z_TOKEN_MINT_SEED_cli_def MOCK_2Z_TOKEN_MINT_SEED_def
      MOCK_PROTOCOL_TREASURY_SEED_cli_def MOCK_PROTOCOL_TREASURY_SEED_def MOCK_CONFIG_ACCOUNT_def
      MOCK_CONFIG_ACCOUNT_SEED_def MOCK_REVENUE_DISTRIBUTION_JOURNAL_def MOCK_JOURNAL_SEED_def)

lemmas mock_pda_defs = get_config_pda_def get_journal_pda_def get_token_mint_pda_def
  get_protocol_treasury_token_account_pda_def

lemma buy_sol_received:
  assumes "selector_laws (sha256 pk)" "ok_string (signature p)"
  shows "received (sha256 pk) (buy_sol_instruction pk program revenue registry from payer bid p) =
    Inr (BuySolIx (purchase_accounts pk program revenue registry from payer) bid p)"
  using assms(2)
  by (simp add: buy_sol_instruction_def received_simps [OF assms(1)] instruction_name_defs pda_defs
      mock_pda_defs get_buy_sol_args_def purchase_accounts_def read_simps)

lemma get_price_received:
  assumes "selector_laws (sha256 pk)" "ok_string (signature p)"
  shows "received (sha256 pk) (get_price_instruction pk program payer p) =
    Inr (GetConversionRateIx (quote_accounts pk program payer) p)"
  using assms(2)
  by (simp add: get_price_instruction_def received_simps [OF assms(1)] instruction_name_defs pda_defs
      quote_accounts_def read_simps)

lemma dequeue_fills_received:
  assumes "selector_laws (sha256 pk)"
  shows "received (sha256 pk) (dequeue_fills_instruction pk program registry payer m) =
    Inr (DequeueFillsIx (dequeue_accounts pk program registry payer) m)"
  by (simp add: dequeue_fills_instruction_def received_simps [OF assms(1)] instruction_name_defs
      pda_defs dequeue_accounts_def read_simps)

lemma initialize_received:
  assumes "selector_laws (sha256 pk)"
  shows "received (sha256 pk) (initialize_instruction pk cfg program payer registry) =
    Inr (InitializeSystemIx (initialisation_accounts pk program registry payer) (ac_oracle_pubkey cfg)
      (ac_sol_quantity cfg) (ac_price_maximum_age cfg) (ac_coefficient cfg)
      (ac_max_discount_rate cfg) (ac_min_discount_rate cfg))"
  by (simp add: initialize_instruction_def received_simps [OF assms(1)] instruction_name_defs
      pda_defs initialisation_accounts_def get_initialize_args_def read_simps)

section \<open>Their accounts pass as well\<close>

text \<open>
  What the tool relies on having been deployed: the mint and the treasury's account of the mock
  program, the token program, and an untouched authority address; addresses of different programs
  differ.  A buyer pays from a token account of the mint that he owns.
\<close>

abbreviation token_mint :: "'d packages \<Rightarrow> pubkey" where
  "token_mint pk \<equiv> pda pk MOCK_2Z_TOKEN_MINT_SEED REVENUE_DISTRIBUTION_PROGRAM_ID"

abbreviation protocol_treasury :: "'d packages \<Rightarrow> pubkey" where
  "protocol_treasury pk \<equiv> pda pk MOCK_PROTOCOL_TREASURY_SEED REVENUE_DISTRIBUTION_PROGRAM_ID"

definition exchange_deployed :: "'d packages \<Rightarrow> 'e runtime \<Rightarrow> ledger \<Rightarrow> bool" where
  "exchange_deployed pk rt l \<longleftrightarrow>
     SYSTEM_PROGRAM_ID \<notin> set (token_program_ids rt) \<and> ID \<notin> set (token_program_ids rt) \<and>
     spl_token_id pk \<in> set (token_program_ids rt) \<and> executable (accounts l (spl_token_id pk)) \<and>
     owner (accounts l (pda pk WITHDRAW_AUTHORITY ID)) = SYSTEM_PROGRAM_ID \<and>
     owner (accounts l (token_mint pk)) \<in> set (token_program_ids rt) \<and>
     (\<exists>dec. data (accounts l (token_mint pk)) = MintData dec) \<and>
     owner (accounts l (protocol_treasury pk)) \<in> set (token_program_ids rt) \<and>
     (\<exists>own a. data (accounts l (protocol_treasury pk)) = TokenData (token_mint pk) own a)"

definition pays_from :: "'d packages \<Rightarrow> 'e runtime \<Rightarrow> ledger \<Rightarrow> pubkey \<Rightarrow> pubkey \<Rightarrow> bool" where
  "pays_from pk rt l from payer \<longleftrightarrow>
     owner (accounts l from) \<in> set (token_program_ids rt) \<and>
     (\<exists>a. data (accounts l from) = TokenData (token_mint pk) payer a)"

lemma purchase_accounts_pass_iff:
  assumes "runtime_laws rt" "holds rt l s" "same_addresses pk rt" "exchange_deployed pk rt l"
  shows "validate_BuySol rt l (purchase_accounts pk ID REVENUE_DISTRIBUTION_PROGRAM_ID
      (fills_registry_address (sys_state s)) from payer) = Inr v \<longleftrightarrow>
    pays_from pk rt l from payer \<and> v = (sys_configuration s, sys_state s, sys_deny_list s)"
proof -
  have loads: "load_configuration l (writes (configuration_key rt)) = Inr (sys_configuration s)"
    "load_program_state l (writes (state_key rt)) = Inr (sys_state s)"
    "load_deny_list l (writes (deny_list_key rt)) = Inr (sys_deny_list s)"
    "load_fills l (writes (fills_registry_address (sys_state s))) = Inr (sys_fills s)"
    by (simp_all add: load_simps account_of_def holds_accounts [OF assms(2)])
  have withdraw: "pda pk WITHDRAW_AUTHORITY ID = fst (find_program_address rt [WITHDRAW_AUTHORITY] ID)"
    using assms(3) by (simp add: same_addresses_def)
  have token: "as_token_account d = Some (m, own) \<longleftrightarrow> (\<exists>a. d = TokenData m own a)" for d m own
    by (simp add: as_token_account_def split: acct_data.splits)
  have mint: "as_mint (MintData dec) = Some dec" for dec
    by (simp add: as_mint_def)
  have "owner (accounts l from) \<noteq> SYSTEM_PROGRAM_ID" if "owner (accounts l from) \<in> set (token_program_ids rt)"
    using that assms(4) by (auto simp: exchange_deployed_def)
  then show ?thesis
    using assms(4) holds_seeds [OF assms(1,2)]
    by (auto simp: validate_BuySol_def purchase_accounts_def pda_keys [OF assms(3)] loads token mint
        pays_from_def exchange_deployed_def tx_simps load_simps account_of_def withdraw
        check_system_account_def check_program_def check_signer_def check_mut_def check_seeds_def
        check_address_def contains_def)
qed

lemma quote_accounts_pass:
  assumes "runtime_laws rt" "holds rt l s" "same_addresses pk rt"
  shows "validate_CalculateAskPrice rt l (quote_accounts pk ID payer) =
    Inr (sys_state s, sys_configuration s)"
  by (simp add: load_simps quote_accounts_def account_of_def pda_keys [OF assms(3)]
      holds_accounts [OF assms(2)] holds_seeds [OF assms(1,2)])

lemma dequeue_accounts_pass:
  assumes "runtime_laws rt" "holds rt l s" "same_addresses pk rt"
  shows "validate_DequeueFills rt l
      (dequeue_accounts pk ID (fills_registry_address (sys_state s)) payer) =
    Inr (payer, sys_configuration s, sys_fills s)"
  by (simp add: load_simps dequeue_accounts_def account_of_def pda_keys [OF assms(3)]
      holds_accounts [OF assms(2)] holds_seeds [OF assms(1,2)])

end
