(* ===== verification/Cli_Views.thy ===== *)
theory Cli_Views
  imports Cli_Instructions
begin

text \<open>
  What the command line tools read back: the stored accounts through the structures of
  \<open>cli-common\<close>, the deny list through its hand-written parser, and the pending fills in ring
  order.  The accounts of the network are related to the typed view of the program by
  \<open>stored_bytes\<close>.
\<close>

section \<open>Structures\<close>

lemma get_ConfigurationRegistry_cli [simp]: "get_ConfigurationRegistry_cli = get_ConfigurationRegistry"
  by (simp add: get_ConfigurationRegistry_cli_def get_ConfigurationRegistry_def)

lemma skip_image:
  assumes "sha_laws sha"
  shows "skip_discriminator (discriminator sha name @ bs) = Inr bs"
  using assms by (simp add: skip_discriminator_def)

lemma borsh_prefix_read: "get bs = Some (x, r) \<Longrightarrow> borsh_prefix get bs = Inr x"
  by (simp add: borsh_prefix_def)

lemma configuration_read_back:
  assumes "sha_laws sha" "stored_bytes sha (ConfigurationData c) bs"
  shows "ConfigurationRegistry_try_deserialize bs = Inr c"
  using assms(2)
  by (auto simp: stored_bytes_def account_image_def ConfigurationRegistry_try_deserialize_def
      skip_image [OF assms(1)] intro!: borsh_prefix_read configuration_codec.get_put)

text \<open>
  The tools' \<open>BumpRegistry\<close> has three bumps where the program stores four, so what follows the
  bumps is read one byte early.
\<close>

definition misread_program_state :: "ProgramStateAccount \<Rightarrow> ProgramStateAccount_cli" where
  "misread_program_state p =
     (let bumps = bump_registry p;
          shifted = put_u8 (withdraw_authority_bump bumps) @ to_le_bytes (last_trade_slot p) @
            to_bytes (deny_list_authority p) in
      \<lparr>ps_admin = admin p, ps_fills_registry_address = fills_registry_address p,
       ps_is_halted = is_halted p,
       ps_bump_registry =
         \<lparr>br_configuration_registry_bump = configuration_registry_bump bumps,
          br_program_state_bump = program_state_bump bumps,
          br_deny_list_registry_bump = deny_list_registry_bump bumps\<rparr>,
       ps_last_trade_slot = word_of_nat (of_le_bytes (take 8 shifted)),
       ps_deny_list_authority = pubkey_of_bytes (take 32 (drop 8 shifted))\<rparr>)"

lemma get_u64_take:
  "8 \<le> length bs \<Longrightarrow> get_u64 (bs @ r) = Some (word_of_nat (of_le_bytes (take 8 bs)), drop 8 bs @ r)"
  by (simp add: get_u64_def get_word_def)

lemma get_pubkey_take:
  "32 \<le> length bs \<Longrightarrow> get_pubkey (bs @ r) = Some (pubkey_of_bytes (take 32 bs), drop 32 bs @ r)"
  by (simp add: get_pubkey_def pubkey_of_bytes_def)

lemma program_state_misread:
  assumes "sha_laws sha" "stored_bytes sha (ProgramStateData p) bs"
  shows "ProgramStateAccount_try_deserialize bs = Inr (misread_program_state p)"
proof -
  define bumps where "bumps = bump_registry p"
  define shifted where "shifted = put_u8 (withdraw_authority_bump bumps) @
    to_le_bytes (last_trade_slot p) @ to_bytes (deny_list_authority p)"
  have len: "length shifted = 41" by (simp add: shifted_def codec_simps)
  obtain rest where bs: "bs = discriminator sha ''account:ProgramStateAccount'' @
      put_ProgramStateAccount p @ rest"
    using assms(2) by (auto simp: stored_bytes_def account_image_def)
  have body: "put_ProgramStateAccount p @ rest = to_bytes (admin p) @
      to_bytes (fills_registry_address p) @ put_bool (is_halted p) @
      put_u8 (configuration_registry_bump bumps) @ put_u8 (program_state_bump bumps) @
      put_u8 (deny_list_registry_bump bumps) @ shifted @ rest"
    by (simp add: put_ProgramStateAccount_def put_BumpRegistry_def shifted_def bumps_def)
  have misread: "misread_program_state p =
      \<lparr>ps_admin = admin p, ps_fills_registry_address = fills_registry_address p,
       ps_is_halted = is_halted p,
       ps_bump_registry =
         \<lparr>br_configuration_registry_bump = configuration_registry_bump bumps,
          br_program_state_bump = program_state_bump bumps,
          br_deny_list_registry_bump = deny_list_registry_bump bumps\<rparr>,
       ps_last_trade_slot = word_of_nat (of_le_bytes (take 8 shifted)),
       ps_deny_list_authority = pubkey_of_bytes (take 32 (drop 8 shifted))\<rparr>"
    by (simp only: misread_program_state_def Let_def bumps_def shifted_def)
  have "get_ProgramStateAccount_cli (put_ProgramStateAccount p @ rest) =
      Some (misread_program_state p, drop 40 shifted @ rest)"
    unfolding body misread
    by (simp add: get_ProgramStateAccount_cli_def get_BumpRegistry_cli_def read_simps
        get_u64_take [of shifted] get_pubkey_take [of "drop 8 shifted"] len)
  then show ?thesis
    by (simp add: ProgramStateAccount_try_deserialize_def bs skip_image [OF assms(1)]
        borsh_prefix_read)
qed

section \<open>The deny list\<close>

lemma pubkey_of_to_bytes [simp]: "pubkey_of_bytes (to_bytes k) = k"
  using of_le_bytes_word [where 'l = 256 and k = 32, of k]
  by (simp add: pubkey_of_bytes_def to_bytes_def)

fun entry_lines :: "nat \<Rightarrow> pubkey list \<Rightarrow> 'd line list" where
  "entry_lines i [] = []"
| "entry_lines i (k # ks) = DeniedEntry (i + 1) k # entry_lines (i + 1) ks"

lemma denied_lines_stored:
  "denied_lines (pre @ concat (map to_bytes ks) @ rest) (length pre) i (length ks) = entry_lines i ks"
proof (induction ks arbitrary: pre i)
  case (Cons k ks)
  show ?case using Cons [of "pre @ to_bytes k" "i + 1"] by (simp add: codec_simps)
qed simp

lemma denied_lines_after_count:
  "denied_lines (b0 # b1 # b2 # b3 # concat (map to_bytes ks) @ rest) 4 0 (length ks) = entry_lines 0 ks"
  using denied_lines_stored [of "[b0, b1, b2, b3]" ks rest 0] by (simp add: numeral_eq_Suc)

definition listing :: "pubkey list \<Rightarrow> 'd line list" where
  "listing ks = DeniedCount (length ks) # (if ks = [] then [NoDenied] else entry_lines 0 ks)"

lemma deny_list_lines_stored:
  assumes "sha_laws sha" "stored_bytes sha (DenyListData d) bs"
    "length (denied_addresses d) < 2 ^ 32"
  shows "deny_list_lines bs = listing (denied_addresses d)"
proof -
  let ?ks = "denied_addresses d"
  define count where "count = put_u32 (word_of_nat (length ?ks))"
  obtain rest where bs: "bs = discriminator sha ''account:DenyListRegistry'' @ count @
      concat (map to_bytes ?ks) @ to_le_bytes (last_updated d) @ to_le_bytes (update_count d) @ rest"
    using assms(2)
    by (auto simp: stored_bytes_def account_image_def put_DenyListRegistry_def put_vec_def count_def)
  have count4: "length count = 4" by (simp add: count_def codec_simps)
  then obtain b0 b1 b2 b3 where count: "count = [b0, b1, b2, b3]"
    by (auto simp: length_Suc_conv numeral_eq_Suc)
  have "of_le_bytes count = length ?ks"
    using assms(3)
    by (simp add: count_def put_u32_def put_word_def of_le_bytes_le_bytes unsigned_of_nat
        take_bit_nat_eq_self)
  then have n: "of_le_bytes [b0, b1, b2, b3] = length ?ks" by (simp only: count)
  have "drop 8 bs = count @ concat (map to_bytes ?ks) @ to_le_bytes (last_updated d) @
      to_le_bytes (update_count d) @ rest"
    using assms(1) by (simp add: bs)
  moreover have "\<not> length bs < 16" using assms(1) by (simp add: bs count4)
  ultimately show ?thesis
    using n by (simp add: deny_list_lines_def Let_def listing_def count denied_lines_after_count
        del: of_le_bytes.simps)
qed

text \<open>Whatever the bytes are, the loop ends within the data: the count alone cannot drive it.\<close>

lemma denied_lines_bound:
  assumes "offset \<le> length dat"
  shows "length (denied_lines dat offset i n :: 'd line list) \<le> (length dat - offset) div 32 + 1"
  using assms
proof (induction n arbitrary: offset i)
  case (Suc n)
  have "(length dat - offset) div 32 = (length dat - (offset + 32)) div 32 + 1"
    if "offset + 32 \<le> length dat"
    using that by (simp add: le_div_geq)
  then show ?case using Suc by auto
qed simp

section \<open>Amounts\<close>

lemma convert_units_exact:
  assumes "decimal_laws (cli_decimals pk) val" "unat units = 10 ^ e" "e \<le> 28"
  shows "\<exists>d. convert_units pk units msg n = Inr d \<and> val d = of_nat (unat n) / 10 ^ e"
proof -
  obtain a where a: "from_u64 (cli_decimals pk) n = Some a" "val a = of_nat (unat n)"
    using assms(1) unfolding decimal_laws_def by blast
  obtain u where u: "from_u64 (cli_decimals pk) units = Some u" "val u = 10 ^ e"
    using assms(1,2) unfolding decimal_laws_def by (metis of_nat_numeral of_nat_power)
  have "unat n < 2 ^ 96" using u64_bound [of n] by simp
  then have "representable (val a / val u)"
    using representable_nat_frac [of "unat n" e] assms(3) a u by simp
  moreover have "\<forall>a b. val b \<noteq> 0 \<and> representable (val a / val b) \<longrightarrow>
      (\<exists>d. dec_div (cli_decimals pk) a b = Some d \<and> val d = val a / val b)"
    using assms(1) unfolding decimal_laws_def by (elim conjE)
  moreover have "val u \<noteq> 0" by (simp add: u)
  ultimately obtain d where "dec_div (cli_decimals pk) a u = Some d" "val d = val a / val u"
    by blast
  then show ?thesis using a u by (simp add: convert_units_def)
qed

lemma convert_sol_value_exact:
  assumes "decimal_laws (cli_decimals pk) val"
  shows "\<exists>d. convert_sol_value pk n = Inr d \<and> val d = of_nat (unat n) / 10 ^ 9"
  unfolding convert_sol_value_def by (rule convert_units_exact [OF assms]) simp_all

lemma convert_token_value_exact:
  assumes "decimal_laws (cli_decimals pk) val"
  shows "\<exists>d. convert_token_value pk n = Inr d \<and> val d = of_nat (unat n) / 10 ^ 8"
  unfolding convert_token_value_def by (rule convert_units_exact [OF assms]) simp_all

text \<open>The decimal a tool shows for an amount.\<close>

definition in_sol :: "'d packages \<Rightarrow> u64 \<Rightarrow> 'd" where
  "in_sol pk n = projr (convert_sol_value pk n)"

definition in_tokens :: "'d packages \<Rightarrow> u64 \<Rightarrow> 'd" where
  "in_tokens pk n = projr (convert_token_value pk n)"

lemma shown_amounts:
  assumes "decimal_laws (cli_decimals pk) val"
  shows "convert_sol_value pk n = Inr (in_sol pk n)" "val (in_sol pk n) = of_nat (unat n) / 10 ^ 9"
    "convert_token_value pk n = Inr (in_tokens pk n)"
    "val (in_tokens pk n) = of_nat (unat n) / 10 ^ 8"
  using convert_sol_value_exact [OF assms, of n] convert_token_value_exact [OF assms, of n]
  by (auto simp: in_sol_def in_tokens_def)

text \<open>Reading an amount: exact scaling, and the fraction of a unit is cut off.\<close>

lemma parse_units_cases:
  assumes "cli_decimal_laws pk val" "decimal_of_str pk t = Some d"
    and "unat units = 10 ^ e" "representable (val d * 10 ^ e)"
  shows "0 \<le> val d \<and> val d * 10 ^ e < 2 ^ 64 \<Longrightarrow>
      parse_units pk units msg t = Inr (word_of_int \<lfloor>val d * 10 ^ e\<rfloor>)"
    "val d * 10 ^ e \<le> - 1 \<or> 2 ^ 64 \<le> val d * 10 ^ e \<Longrightarrow> parse_units pk units msg t = Inl (CliPanic msg)"
proof -
  have m: "val (decimal_of_u64 pk units) = 10 ^ e"
    using assms(1,3) unfolding cli_decimal_laws_def by (metis of_nat_numeral of_nat_power)
  have "\<forall>a b. representable (val a * val b) \<longrightarrow>
      (\<exists>p. dec_mul pk a b = Some p \<and> val p = val a * val b)"
    using assms(1) unfolding cli_decimal_laws_def by (elim conjE)
  moreover have "representable (val d * val (decimal_of_u64 pk units))"
    using assms(4) by (simp only: m)
  ultimately obtain p where p: "dec_mul pk d (decimal_of_u64 pk units) = Some p"
      "val p = val d * 10 ^ e"
    by (metis m)
  have out: "to_u64 (cli_decimals pk) a = None" if "val a < 0 \<and> val a \<le> -1 \<or> 2 ^ 64 \<le> val a" for a
    using assms(1) that unfolding cli_decimal_laws_def by blast
  have inside: "to_u64 (cli_decimals pk) a = Some (word_of_int \<lfloor>val a\<rfloor>)"
    if "0 \<le> val a \<and> val a < 2 ^ 64" for a
    using assms(1) that unfolding cli_decimal_laws_def decimal_laws_def by blast
  show "parse_units pk units msg t = Inr (word_of_int \<lfloor>val d * 10 ^ e\<rfloor>)"
    if "0 \<le> val d \<and> val d * 10 ^ e < 2 ^ 64"
    using that p inside [of p] by (simp add: parse_units_def Let_def assms(2))
  show "parse_units pk units msg t = Inl (CliPanic msg)"
    if "val d * 10 ^ e \<le> - 1 \<or> 2 ^ 64 \<le> val d * 10 ^ e"
  proof -
    have "val p < 0 \<and> val p \<le> -1 \<or> 2 ^ 64 \<le> val p"
      using that p(2) by auto
    then show ?thesis using p(1) out [of p] by (simp add: parse_units_def Let_def assms(2))
  qed
qed

section \<open>The pending fills\<close>

lemma cli_fills_registry_stored:
  assumes "sha_laws sha" "stored_bytes sha (FillsData r) bs"
  shows "\<exists>r'. cli_fills_registry bs = Inr r' \<and> same_registry r' r"
proof -
  obtain rest where bs: "bs = discriminator sha ''account:FillsRegistry'' @ put_FillsRegistry r @ rest"
    using assms(2) by (auto simp: stored_bytes_def account_image_def)
  have "cli_fills_registry bs = Inr (cast_FillsRegistry (put_FillsRegistry r))"
    using length_put_FillsRegistry [of r]
    by (simp add: cli_fills_registry_def bs skip_image [OF assms(1)])
  then show ?thesis using cast_put_FillsRegistry [of r "[]"] by auto
qed

lemma same_registry_pending:
  assumes "same_registry r r'"
  shows "pending r = pending r'"
  using assms by (auto simp: pending_def same_registry_def)

definition fill_line :: "'d packages \<Rightarrow> nat \<Rightarrow> Fill \<Rightarrow> 'd line" where
  "fill_line pk i f = FillEntry i (in_sol pk (sol_in f)) (token_2z_out f)"

lemma show_fills_run:
  assumes "decimal_laws (cli_decimals pk) val" "\<forall>i \<in> set is. unat (head r) + i < 2 ^ 64"
  shows "show_fills pk r is s = (Inr (), s\<lparr>printed := printed s @
    map (\<lambda>i. fill_line pk i (fills r ((unat (head r) + i) mod MAX_FILLS_QUEUE_SIZE))) is\<rparr>)"
  using assms(2)
proof (induction "is" arbitrary: s)
  case Nil
  then show ?case by (simp add: io_ok_def)
next
  case (Cons i "is")
  then show ?case
    by (simp add: Let_def shown_amounts [OF assms(1)] io_simps fill_line_def not_le)
qed

lemma show_pending:
  assumes "decimal_laws (cli_decimals pk) val" "unat (head r) + unat (count r) \<le> 2 ^ 64"
  shows "show_fills pk r [0..<unat (count r)] s = (Inr (), s\<lparr>printed := printed s @
    map2 (fill_line pk) [0..<length (pending r)] (pending r)\<rparr>)"
proof -
  have "map2 (fill_line pk) [0..<n] (map f [0..<n]) = map (\<lambda>i. fill_line pk i (f i)) [0..<n]" for n f
    by (rule nth_equalityI) simp_all
  moreover have "\<forall>i \<in> set [0..<unat (count r)]. unat (head r) + i < 2 ^ 64"
    using assms(2) by auto
  ultimately show ?thesis
    by (simp add: show_fills_run [OF assms(1)] pending_def)
qed

end
