(* ===== verification/Program_Properties.thy ===== *)
theory Program_Properties
  imports Scenario
begin

text \<open>
  The properties of the converter program as a whole: what a purchase does and when it is
  rejected, who may change what, and what holds after every run.
\<close>

section \<open>The decision on a purchase\<close>

text \<open>
  What \<open>buy_sol\<close> decides before it moves anything, with exact numbers: the rejection with its
  events, or the ask price and the tokens to pay.
\<close>

definition decide_purchase ::
    "crypto \<Rightarrow> clock \<Rightarrow> ConfigurationRegistry \<Rightarrow> ProgramStateAccount \<Rightarrow> DenyListRegistry \<Rightarrow>
     pubkey \<Rightarrow> u64 \<Rightarrow> OraclePriceData \<Rightarrow> event list \<times> error + nat \<times> nat" where
  "decide_purchase cr c cfg ps dl buyer bid p =
     (if is_halted ps then Inl ([], DoubleZero SystemIsHalted)
      else if buyer \<in> set (denied_addresses dl) then Inl ([], DoubleZero UserInsideDenyList)
      else if slot c \<le> last_trade_slot ps then Inl ([], DoubleZero SingleTradePerSlot)
      else case verify_attestation cr (Inr c) p (oracle_pubkey cfg) (price_maximum_age cfg) of
        Inl e \<Rightarrow> Inl ([], e)
      | Inr _ \<Rightarrow>
          let ask = ask_price_spec (unat (swap_rate p)) (unat (coefficient cfg))
                (unat (max_discount_rate cfg)) (unat (min_discount_rate cfg))
                (unat (slot c) - unat (last_trade_slot ps));
              tokens = unat (sol_quantity cfg) * ask div 1000000000 in
          if unat bid < ask then
            Inl ([BidTooLowEvent (sol_quantity cfg) bid (word_of_nat ask) (unix_timestamp c) buyer
                    (epoch c)], DoubleZero BidTooLow)
          else if 2 ^ 64 \<le> tokens then Inl ([], DoubleZero ArithmeticError)
          else Inr (ask, tokens))"

lemma ask_price_valid:
  assumes "decimal_laws (decimals rt) val" "valid_configuration cfg" "last_trade_slot ps \<le> slot c"
  shows "ask_price rt cfg ps c p = Inr (word_of_nat (ask_price_spec (unat (swap_rate p))
     (unat (coefficient cfg)) (unat (max_discount_rate cfg)) (unat (min_discount_rate cfg))
     (unat (slot c) - unat (last_trade_slot ps))))"
proof -
  have "unat (coefficient cfg) \<le> 100000000" "unat (max_discount_rate cfg) \<le> 10000"
    "unat (min_discount_rate cfg) \<le> 10000"
    using assms(2) by (auto simp: valid_configuration_def)
  from conversion_rate_exact [OF assms(1,3) this, of p] show ?thesis
    by (simp add: ask_price_def)
qed

text \<open>The handler carries out the decision.\<close>

lemma process_buy_sol_rejects:
  assumes "decimal_laws (decimals rt) val" "valid_configuration cfg"
    "decide_purchase (crypto_ops rt) (clock_sysvar l) cfg ps dl (info_key (bs_signer ctx)) bid p =
       Inl (es, e)"
  shows "process_buy_sol rt l ctx cfg ps dl bid p = (es, Inl e)"
proof (cases "is_halted ps \<or> info_key (bs_signer ctx) \<in> set (denied_addresses dl) \<or>
    slot (clock_sysvar l) \<le> last_trade_slot ps")
  case True
  with assms(3) show ?thesis
    by (auto simp: decide_purchase_def process_buy_sol_def Let_def fail_def not_less split: if_splits)
next
  case guards: False
  let ?v = "verify_attestation (crypto_ops rt) (Inr (clock_sysvar l)) p (oracle_pubkey cfg)
    (price_maximum_age cfg)"
  let ?ask = "ask_price_spec (unat (swap_rate p)) (unat (coefficient cfg))
    (unat (max_discount_rate cfg)) (unat (min_discount_rate cfg))
    (unat (slot (clock_sysvar l)) - unat (last_trade_slot ps))"
  show ?thesis
  proof (cases ?v)
    case (Inl e')
    with guards assms(3) show ?thesis
      by (auto simp: decide_purchase_def process_buy_sol_def Let_def fail_def not_le
          split: if_splits)
  next
    case (Inr u)
    have price: "ask_price rt cfg ps (clock_sysvar l) p = Inr (word_of_nat ?ask)"
      using guards by (intro ask_price_valid [OF assms(1,2)]) auto
    have less: "bid < word_of_nat ?ask \<longleftrightarrow> unat bid < ?ask"
      by (simp add: word_less_nat_alt unat_ask_price)
    have tokens: "tokens_required (sol_quantity cfg) (word_of_nat ?ask) =
        (if unat (sol_quantity cfg) * ?ask div 1000000000 < 2 ^ 64
         then Inr (word_of_nat (unat (sol_quantity cfg) * ?ask div 1000000000))
         else Inl (DoubleZero ArithmeticError))"
      by (simp only: tokens_required_eq unat_ask_price)
    from guards Inr assms(3) show ?thesis
      by (simp add: decide_purchase_def process_buy_sol_def Let_def price less tokens not_le
          fail_def emit_def split: if_splits)
  qed
qed

lemma process_buy_sol_decided:
  assumes "decimal_laws (decimals rt) val" "valid_configuration cfg"
    "process_buy_sol rt l ctx cfg ps dl bid p = (es, Inr (ps', l'))"
  obtains ask tokens where
    "decide_purchase (crypto_ops rt) (clock_sysvar l) cfg ps dl (info_key (bs_signer ctx)) bid p =
       Inr (ask, tokens)"
  using process_buy_sol_rejects [OF assms(1,2)] assms(3)
  by (cases "decide_purchase (crypto_ops rt) (clock_sysvar l) cfg ps dl (info_key (bs_signer ctx)) bid p")
    fastforce+

lemma decide_purchase_Inr:
  assumes "decimal_laws (decimals rt) val" "valid_configuration cfg"
    "decide_purchase (crypto_ops rt) c cfg ps dl buyer bid p = Inr (ask, tokens)"
  shows "\<not> is_halted ps" "buyer \<notin> set (denied_addresses dl)" "last_trade_slot ps < slot c"
    "verify_attestation (crypto_ops rt) (Inr c) p (oracle_pubkey cfg) (price_maximum_age cfg) = Inr ()"
    "ask_price rt cfg ps c p = Inr (word_of_nat ask)" "unat (word_of_nat ask :: u64) = ask"
    "ask \<le> unat bid"
    "tokens_required (sol_quantity cfg) (word_of_nat ask) = Inr (word_of_nat tokens)"
    "unat (word_of_nat tokens :: u64) = tokens" "tokens < 2 ^ 64" "tokens = unat (sol_quantity cfg) * ask div 1000000000"
    "ask = ask_price_spec (unat (swap_rate p)) (unat (coefficient cfg))
       (unat (max_discount_rate cfg)) (unat (min_discount_rate cfg))
       (unat (slot c) - unat (last_trade_slot ps))"
proof -
  let ?ask = "ask_price_spec (unat (swap_rate p)) (unat (coefficient cfg))
       (unat (max_discount_rate cfg)) (unat (min_discount_rate cfg))
       (unat (slot c) - unat (last_trade_slot ps))"
  from assms(3) show guards: "\<not> is_halted ps" "buyer \<notin> set (denied_addresses dl)"
    "last_trade_slot ps < slot c"
    "verify_attestation (crypto_ops rt) (Inr c) p (oracle_pubkey cfg) (price_maximum_age cfg) = Inr ()"
    by (auto simp: decide_purchase_def not_le split: if_splits sum.splits)
  with assms(3) have "ask = ?ask \<and> ask \<le> unat bid \<and> tokens < 2 ^ 64 \<and>
      tokens = unat (sol_quantity cfg) * ask div 1000000000"
    by (auto simp: decide_purchase_def Let_def not_le split: if_splits)
  then show ask: "ask = ?ask" and "ask \<le> unat bid" and
    tok: "tokens = unat (sol_quantity cfg) * ask div 1000000000" and lt: "tokens < 2 ^ 64"
    by blast+
  show "ask_price rt cfg ps c p = Inr (word_of_nat ask)"
    unfolding ask(1) using guards(3) by (intro ask_price_valid [OF assms(1,2)]) simp
  show unat_ask: "unat (word_of_nat ask :: u64) = ask"
    unfolding ask(1) by (rule unat_ask_price)
  show "tokens_required (sol_quantity cfg) (word_of_nat ask) = Inr (word_of_nat tokens)"
    using lt by (simp add: tokens_required_eq unat_ask flip: tok)
  show "unat (word_of_nat tokens :: u64) = tokens"
    using lt by (simp add: unsigned_of_nat take_bit_nat_eq_self)
qed

text \<open>The sample chain decides a purchase.\<close>

lemma sample_verify [simp]:
  "verify_attestation sample_crypto (Inr sample_clock) (sample_quote 2000000000 1000) k 324 = Inr ()"
  by (simp add: verify_attestation_Inr_iff clock_distance_def sample_clock_def)
    (simp add: sample_quote_def)

lemma sample_decision:
  "decide_purchase sample_crypto sample_clock sample_configuration sample_program_state
     sample_deny_list 5 2000000000 (sample_quote 2000000000 1000) = Inr (1891000000, 47275000000)"
  using sample_verify
  by (simp add: decide_purchase_def sample_configuration_def sample_program_state_def
      sample_deny_list_def) (simp add: sample_quote_def sample_clock_def ask_price_spec_def discount_e8_def)

section \<open>Purchases\<close>

text \<open>
  C5: A purchase that the account checks let through is decided exactly: \<open>buy_sol\<close> rejects it
  with the error, and the events, of the first check that fails (halted, denied, slot already
  traded, attestation, bid below the exact ask price, token amount beyond 64 bits), before any
  tokens or SOL move.  On a valid configuration no arithmetic of the price can fail.
\<close>

theorem buy_sol_rejections:
  assumes "decimal_laws (decimals rt) val" "valid_configuration cfg"
    and "validate_BuySol rt l ctx = Inr (cfg, ps, dl)"
    and "decide_purchase (crypto_ops rt) (clock_sysvar l) cfg ps dl (info_key (bs_signer ctx)) bid p =
       Inl (es, e)"
  shows "buy_sol rt l ctx bid p = (es, Inl e)"
  using process_buy_sol_rejects [OF assms(1,2,4)] assms(3)
  by (simp add: buy_sol_def map_tx_def)

lemma sample_validates:
  "validate_BuySol sample_runtime sample_ledger (sample_purchase k) =
     (if k = 5 then Inr (sample_configuration, sample_program_state, sample_deny_list)
      else Inl (Anchor ConstraintRaw))"
  by (simp add: validate_BuySol_def sample_purchase_def load_configuration_def
      load_program_state_def load_deny_list_def load_fills_def load_account_def account_of_def
      check_system_account_def load_interface_account_def check_program_def check_signer_def
      check_seeds_def check_mut_def check_address_def sample_ledger_def sample_chain_def
      owned_account_def system_account_def program_account_def as_configuration_def
      as_program_state_def as_deny_list_def as_fills_def as_token_account_def as_mint_def
      ID_eq SYSTEM_PROGRAM_ID_eq sample_program_state_def)

lemma sample_signer [simp]: "bs_signer (sample_purchase k) = signs k"
  by (simp add: sample_purchase_def)

theorem buy_sol_rejections_witness:
  "buy_sol sample_runtime sample_ledger (sample_purchase 5) 1800000000 (sample_quote 2000000000 1000) =
     ([BidTooLowEvent 25000000000 1800000000 1891000000 1000 5 5], Inl (DoubleZero BidTooLow))"
proof -
  have "decide_purchase sample_crypto sample_clock sample_configuration sample_program_state
     sample_deny_list 5 1800000000 (sample_quote 2000000000 1000) =
     Inl ([BidTooLowEvent 25000000000 1800000000 1891000000 1000 5 5], DoubleZero BidTooLow)"
    using sample_verify
    by (simp add: decide_purchase_def sample_configuration_def sample_program_state_def
        sample_deny_list_def)
      (simp add: sample_quote_def sample_clock_def ask_price_spec_def discount_e8_def)
  then show ?thesis
    using buy_sol_rejections [OF _ valid_sample_configuration, of sample_runtime "\<lambda>q. q"
        sample_ledger "sample_purchase 5" sample_program_state sample_deny_list]
    by (simp add: sample_validates rat_ops_laws sample_signer)
qed

text \<open>The sample purchase, run on the sample ledger.\<close>

lemma sample_system_simps [simp]:
  "sys_configuration sample_system = sample_configuration"
  "sys_state sample_system = sample_program_state"
  "sys_deny_list sample_system = sample_deny_list" "sys_fills sample_system = sample_registry"
  "sol_quantity sample_configuration = 25000000000"
  "unix_timestamp sample_clock = 1000" "epoch sample_clock = 5" "slot sample_clock = 200"
  by (simp_all add: sample_system_def sample_configuration_def sample_clock_def)

lemma sample_calls [simp]:
  "transfer_tokens sample_runtime ctx n l = Inr l" "withdraw_sol sample_runtime ctx ps q l = Inr l"
  by (simp_all add: transfer_tokens_def withdraw_sol_def)

lemma sample_laws: "decimal_laws (decimals sample_runtime) (\<lambda>q. q)"
  by (simp add: rat_ops_laws)

lemma sample_buy:
  "\<exists>l'. execute sample_runtime sample_ledger
       (BuySolIx (sample_purchase 5) 2000000000 (sample_quote 2000000000 1000)) =
     ([TradeEvent 25000000000 47275000000 2000000000 1000 5 5], Inr (l', []))"
proof -
  have "decide_purchase (crypto_ops sample_runtime) sample_clock sample_configuration
     sample_program_state sample_deny_list 5 2000000000 (sample_quote 2000000000 1000) =
       Inr (1891000000, 47275000000)"
    by (simp add: sample_decision)
  note decided = decide_purchase_Inr [OF sample_laws valid_sample_configuration this]
  obtain r' where "enqueue_fill 25000000000 47275000000 sample_registry = Inr r'"
    using enqueue_fill_ok [OF sample_inv, of 25000000000 47275000000]
    by (auto simp: MAX_FILLS_QUEUE_SIZE_def)
  moreover have "data (account_of sample_ledger (bs_fills_registry (sample_purchase 5))) =
      FillsData sample_registry"
    by (simp add: sample_purchase_def account_of_def sample_ledger_def owned_account_def)
  ultimately have "\<exists>ps l'. process_buy_sol sample_runtime sample_ledger (sample_purchase 5)
      sample_configuration sample_program_state sample_deny_list 2000000000
      (sample_quote 2000000000 1000) =
    ([TradeEvent 25000000000 47275000000 2000000000 1000 5 5], Inr (ps, l'))"
    unfolding process_buy_sol_Inr_iff using decided(1-5,8) by auto
  then show ?thesis
    by (auto simp: buy_sol_def map_tx_def sample_validates)
qed

text \<open>The two calls an accepted purchase made.\<close>

lemma buy_sol_calls:
  assumes "execute rt l (BuySolIx ctx bid p) = (es, Inr (l', ret))" "holds rt l s"
  obtains tokens l1 l2 where
    "process_buy_sol rt l ctx (sys_configuration s) (sys_state s) (sys_deny_list s) bid p =
       (es, Inr ((sys_state s)\<lparr>last_trade_slot := slot (clock_sysvar l)\<rparr>,
         set_data (info_key (bs_fills_registry ctx)) (FillsData l2) l1))"
    "\<exists>l0. transfer_tokens rt ctx tokens l = Inr l0 \<and>
       withdraw_sol rt ctx (sys_state s) (sol_quantity (sys_configuration s)) l0 = Inr l1"
    "es = [TradeEvent (sol_quantity (sys_configuration s)) tokens bid
       (unix_timestamp (clock_sysvar l)) (info_key (bs_signer ctx)) (epoch (clock_sysvar l))]"
proof -
  from assms(1) obtain cfg ps dl ps' lf where
    v: "validate_BuySol rt l ctx = Inr (cfg, ps, dl)" and
    h: "process_buy_sol rt l ctx cfg ps dl bid p = (es, Inr (ps', lf))"
    by (auto simp: buy_sol_def try_tx_pair_Inr_iff map_tx_Inr_iff)
  have "cfg = sys_configuration s" "ps = sys_state s" "dl = sys_deny_list s"
    using validate_BuySol_Inr [OF v] holds_unique [OF assms(2)] by auto
  then show thesis using h that process_buy_sol_Inr_iff by metis
qed

text \<open>
  C1: An accepted purchase on a running system pays and records exactly what was decided.  The
  bid covers the ask price; the tokens, \<open>sol_quantity * ask / 10^9\<close> rounded down, are transferred
  from the buyer before the SOL is withdrawn; one fill with these amounts joins the end of the
  backlog; the last trade slot becomes the current slot; nothing else of the system changes; one
  \<open>TradeEvent\<close> reports it.
\<close>

theorem buy_sol_trade:
  assumes "runtime_laws rt" "decimal_laws (decimals rt) val" "holds rt l s" "valid_system s"
    and "execute rt l (BuySolIx ctx bid p) = (es, Inr (l', ret))"
  shows "\<exists>ask tokens s' l1 l2.
     decide_purchase (crypto_ops rt) (clock_sysvar l) (sys_configuration s) (sys_state s)
       (sys_deny_list s) (info_key (bs_signer ctx)) bid p = Inr (ask, tokens) \<and>
     ask \<le> unat bid \<and> tokens = unat (sol_quantity (sys_configuration s)) * ask div 1000000000 \<and>
     transfer_tokens rt ctx (word_of_nat tokens) l = Inr l1 \<and>
     withdraw_sol rt ctx (sys_state s) (sol_quantity (sys_configuration s)) l1 = Inr l2 \<and>
     es = [TradeEvent (sol_quantity (sys_configuration s)) (word_of_nat tokens) bid
       (unix_timestamp (clock_sysvar l)) (info_key (bs_signer ctx)) (epoch (clock_sysvar l))] \<and>
     holds rt l' s' \<and> sys_configuration s' = sys_configuration s \<and>
     sys_state s' = (sys_state s)\<lparr>last_trade_slot := slot (clock_sysvar l)\<rparr> \<and>
     sys_deny_list s' = sys_deny_list s \<and>
     backlog (sys_fills s') =
       backlog (sys_fills s) @ [(unat (sol_quantity (sys_configuration s)), tokens)]"
proof -
  have cfg: "valid_configuration (sys_configuration s)" and inv: "registry_inv (sys_fills s)"
    using assms(4) by (auto simp: valid_system_def)
  from buy_sol_calls [OF assms(5,3)] obtain t l1 l2 r where
    h: "process_buy_sol rt l ctx (sys_configuration s) (sys_state s) (sys_deny_list s) bid p =
       (es, Inr ((sys_state s)\<lparr>last_trade_slot := slot (clock_sysvar l)\<rparr>,
         set_data (info_key (bs_fills_registry ctx)) (FillsData r) l2))" and
    cpis: "transfer_tokens rt ctx t l = Inr l1"
       "withdraw_sol rt ctx (sys_state s) (sol_quantity (sys_configuration s)) l1 = Inr l2" and
    es: "es = [TradeEvent (sol_quantity (sys_configuration s)) t bid
       (unix_timestamp (clock_sysvar l)) (info_key (bs_signer ctx)) (epoch (clock_sysvar l))]"
    by metis
  from process_buy_sol_decided [OF assms(2) cfg h] obtain ask tokens where
    d: "decide_purchase (crypto_ops rt) (clock_sysvar l) (sys_configuration s) (sys_state s)
       (sys_deny_list s) (info_key (bs_signer ctx)) bid p = Inr (ask, tokens)" by metis
  note decided = decide_purchase_Inr [OF assms(2) cfg d]
  from refine_buy [OF assms(1,3,5)] obtain s' where
    s': "holds rt l' s'" "system_step rt (clock_sysvar l) s (BuySolIx ctx bid p) es ret s'"
    by blast
  from s'(2) have t: "t = word_of_nat tokens" and
    enq: "enqueue_fill (sol_quantity (sys_configuration s)) t (sys_fills s) = Inr (sys_fills s')" and
    rest: "sys_configuration s' = sys_configuration s" "sys_deny_list s' = sys_deny_list s"
      "sys_state s' = (sys_state s)\<lparr>last_trade_slot := slot (clock_sysvar l)\<rparr>"
    using decided(5,8) es by (cases rule: system_step_buy; simp)+
  have "backlog (sys_fills s') =
      backlog (sys_fills s) @ [(unat (sol_quantity (sys_configuration s)), tokens)]"
    using enqueue_fill_inv(2) [OF inv enq] decided(9) by (simp add: t)
  with d decided(7,11) cpis es s'(1) rest show ?thesis
    unfolding t by blast
qed

theorem buy_sol_trade_witness:
  "\<exists>l' s'. execute sample_runtime sample_ledger
       (BuySolIx (sample_purchase 5) 2000000000 (sample_quote 2000000000 1000)) =
     ([TradeEvent 25000000000 47275000000 2000000000 1000 5 5], Inr (l', [])) \<and>
     holds sample_runtime l' s' \<and> sys_state s' = sample_program_state\<lparr>last_trade_slot := 200\<rparr> \<and>
     backlog (sys_fills s') = [(10, 20), (20, 45), (25000000000, 47275000000)]"
proof -
  obtain l' where run: "execute sample_runtime sample_ledger
       (BuySolIx (sample_purchase 5) 2000000000 (sample_quote 2000000000 1000)) =
     ([TradeEvent 25000000000 47275000000 2000000000 1000 5 5], Inr (l', []))"
    using sample_buy by blast
  obtain s' where "holds sample_runtime l' s'"
    "sys_state s' = sample_program_state\<lparr>last_trade_slot := 200\<rparr>"
    "backlog (sys_fills s') = [(10, 20), (20, 45), (25000000000, 47275000000)]"
    using buy_sol_trade [OF sample_runtime_laws sample_laws sample_holds sample_valid run]
    by (auto simp: sample_decision)
  with run show ?thesis by blast
qed

text \<open>The handler carries out what was decided.\<close>

lemma decided_purchase_accepted:
  assumes "runtime_laws rt" "decimal_laws (decimals rt) val" "holds rt l s" "valid_system s"
    and "validate_BuySol rt l ctx = Inr (sys_configuration s, sys_state s, sys_deny_list s)"
    and "decide_purchase (crypto_ops rt) (clock_sysvar l) (sys_configuration s) (sys_state s)
       (sys_deny_list s) (info_key (bs_signer ctx)) bid p = Inr (ask, tokens)"
    and "transfer_tokens rt ctx (word_of_nat tokens) l = Inr l1"
    and "withdraw_sol rt ctx (sys_state s) (sol_quantity (sys_configuration s)) l1 = Inr l2"
    and "length (backlog (sys_fills s)) < MAX_FILLS_QUEUE_SIZE"
    and "sum_sol (backlog (sys_fills s)) + unat (sol_quantity (sys_configuration s)) < 2 ^ 64"
    and "sum_2z (backlog (sys_fills s)) + tokens < 2 ^ 64"
  shows "\<exists>l'. execute rt l (BuySolIx ctx bid p) =
     ([TradeEvent (sol_quantity (sys_configuration s)) (word_of_nat tokens) bid
         (unix_timestamp (clock_sysvar l)) (info_key (bs_signer ctx)) (epoch (clock_sysvar l))],
      Inr (l', []))"
proof -
  have cfg: "valid_configuration (sys_configuration s)" and inv: "registry_inv (sys_fills s)"
    using assms(4) by (auto simp: valid_system_def)
  note decided = decide_purchase_Inr [OF assms(2) cfg assms(6)]
  have "holds rt l2 s"
    using runtime_laws_cpi(1,2) [OF assms(1)] assms(3,7,8) holds_foreign_change
    unfolding cpi_change_def by metis
  moreover have "info_key (bs_fills_registry ctx) = fills_registry_address (sys_state s)"
    using validate_BuySol_Inr(9) [OF assms(5)] .
  ultimately have r: "data (account_of l2 (bs_fills_registry ctx)) = FillsData (sys_fills s)"
    by (simp add: holds_def stored_def account_of_def)
  obtain r' where r': "enqueue_fill (sol_quantity (sys_configuration s)) (word_of_nat tokens)
      (sys_fills s) = Inr r'"
    using enqueue_fill_ok [OF inv, of "sol_quantity (sys_configuration s)" "word_of_nat tokens"]
      inv assms(9-11) decided(9) by (auto simp: registry_inv_def)
  have ask: "word_of_nat ask \<le> bid"
    using decided(6,7) by (simp add: word_le_nat_alt)
  have "process_buy_sol rt l ctx (sys_configuration s) (sys_state s) (sys_deny_list s) bid p =
     ([TradeEvent (sol_quantity (sys_configuration s)) (word_of_nat tokens) bid
         (unix_timestamp (clock_sysvar l)) (info_key (bs_signer ctx)) (epoch (clock_sysvar l))],
      Inr ((sys_state s)\<lparr>last_trade_slot := slot (clock_sysvar l)\<rparr>,
        set_data (info_key (bs_fills_registry ctx)) (FillsData r') l2))"
    unfolding process_buy_sol_Inr_iff
    using decided(1-5,8) ask assms(7,8) r r' by blast
  then show ?thesis
    using assms(5) by (simp add: buy_sol_def map_tx_def)
qed

text \<open>
  C13: The converse: a purchase whose accounts check, which is not rejected, and whose two calls
  succeed, is accepted, unless the backlog is full or a pending total would pass 64 bits.
\<close>

theorem buy_sol_accepts:
  assumes "runtime_laws rt" "decimal_laws (decimals rt) val" "holds rt l s" "valid_system s"
    and "validate_BuySol rt l ctx = Inr (sys_configuration s, sys_state s, sys_deny_list s)"
    and "decide_purchase (crypto_ops rt) (clock_sysvar l) (sys_configuration s) (sys_state s)
       (sys_deny_list s) (info_key (bs_signer ctx)) bid p = Inr (ask, tokens)"
    and "transfer_tokens rt ctx (word_of_nat tokens) l = Inr l1"
    and "withdraw_sol rt ctx (sys_state s) (sol_quantity (sys_configuration s)) l1 = Inr l2"
    and "length (backlog (sys_fills s)) < MAX_FILLS_QUEUE_SIZE"
    and "sum_sol (backlog (sys_fills s)) + unat (sol_quantity (sys_configuration s)) < 2 ^ 64"
    and "sum_2z (backlog (sys_fills s)) + tokens < 2 ^ 64"
  shows "\<exists>l'. execute rt l (BuySolIx ctx bid p) =
     ([TradeEvent (sol_quantity (sys_configuration s)) (word_of_nat tokens) bid
         (unix_timestamp (clock_sysvar l)) (info_key (bs_signer ctx)) (epoch (clock_sysvar l))],
      Inr (l', []))"
  using assms by (rule decided_purchase_accepted)

theorem buy_sol_accepts_witness:
  "\<exists>l'. execute sample_runtime sample_ledger
       (BuySolIx (sample_purchase 5) 2000000000 (sample_quote 2000000000 1000)) =
     ([TradeEvent 25000000000 47275000000 2000000000 1000 5 5], Inr (l', []))"
  using buy_sol_accepts [OF sample_runtime_laws sample_laws sample_holds sample_valid,
      of "sample_purchase 5" 2000000000 "sample_quote 2000000000 1000" 1891000000 47275000000
      sample_ledger sample_ledger]
  by (simp add: sample_validates sample_decision MAX_FILLS_QUEUE_SIZE_def)

section \<open>The quote\<close>

text \<open>
  C19: \<open>get_conversion_rate\<close> changes nothing and returns, as eight little-endian bytes, the very
  price \<open>buy_sol\<close> charges: a purchase on the same ledger with the same oracle data is accepted
  only with a bid of at least the quoted rate, and pays \<open>sol_quantity * rate / 10^9\<close> tokens.
\<close>

theorem quote_is_charged:
  assumes "runtime_laws rt" "holds rt l s"
    and "execute rt l (GetConversionRateIx ctx p) = (es, Inr (l', ret))"
  shows "l' = l \<and> es = [] \<and>
    (\<exists>rate. from_le_bytes ret = Some rate \<and>
      (\<forall>ctx' bid es' l''. execute rt l (BuySolIx ctx' bid p) = (es', Inr (l'', [])) \<longrightarrow>
         rate \<le> bid \<and>
         (\<exists>tokens. unat tokens =
             unat (sol_quantity (sys_configuration s)) * unat rate div 1000000000 \<and>
           es' = [TradeEvent (sol_quantity (sys_configuration s)) tokens bid
             (unix_timestamp (clock_sysvar l)) (info_key (bs_signer ctx')) (epoch (clock_sysvar l))])))"
proof -
  from refine_quote [OF assms(2,3)] have l': "l' = l" and
    q: "system_step rt (clock_sysvar l) s (GetConversionRateIx ctx p) es ret s" by auto
  from q obtain rate where es: "es = []" "ret = to_le_bytes rate" and
    rate: "ask_price rt (sys_configuration s) (sys_state s) (clock_sysvar l) p = Inr rate"
    by (cases rule: system_step_quote) (auto simp: process_get_conversion_rate_def tx_simps)
  have "rate \<le> bid \<and> (\<exists>tokens. unat tokens =
             unat (sol_quantity (sys_configuration s)) * unat rate div 1000000000 \<and>
           es' = [TradeEvent (sol_quantity (sys_configuration s)) tokens bid
             (unix_timestamp (clock_sysvar l)) (info_key (bs_signer ctx')) (epoch (clock_sysvar l))])"
    if buy: "execute rt l (BuySolIx ctx' bid p) = (es', Inr (l'', []))" for ctx' bid es' l''
  proof -
    from refine_buy [OF assms(1,2) buy] obtain s' where
      "system_step rt (clock_sysvar l) s (BuySolIx ctx' bid p) es' [] s'" by blast
    then show ?thesis
      using rate by (cases rule: system_step_buy) (auto simp: tokens_required_Inr_iff)
  qed
  then show ?thesis using l' es by auto
qed

definition sample_inquiry :: CalculateAskPrice where
  "sample_inquiry = \<lparr>ca_signer = signs 5, ca_program_state = reads 12,
     ca_configuration_registry = reads 11\<rparr>"

theorem quote_is_charged_witness:
  "\<exists>ret. from_le_bytes ret = Some 1891000000 \<and>
     execute sample_runtime sample_ledger (GetConversionRateIx sample_inquiry (sample_quote 2000000000 1000)) =
       ([], Inr (sample_ledger, ret))"
proof -
  have v: "validate_CalculateAskPrice sample_runtime sample_ledger sample_inquiry =
      Inr (sample_program_state, sample_configuration)"
    using sample_holds
    by (simp add: validate_CalculateAskPrice_Inr_iff sample_inquiry_def holds_def stored_def
        account_of_def sample_program_state_def)
  have price: "ask_price sample_runtime sample_configuration sample_program_state sample_clock
      (sample_quote 2000000000 1000) = Inr 1891000000"
    using decide_purchase_Inr(5) [OF sample_laws valid_sample_configuration] sample_decision
    by fastforce
  have "price_maximum_age sample_configuration = 324"
    by (simp add: sample_configuration_def)
  then have run: "execute sample_runtime sample_ledger
      (GetConversionRateIx sample_inquiry (sample_quote 2000000000 1000)) =
       ([], Inr (sample_ledger, to_le_bytes 1891000000))"
    by (simp add: get_conversion_rate_def v process_get_conversion_rate_def price ok_def)
  show ?thesis
    using quote_is_charged [OF sample_runtime_laws sample_holds run] run by auto
qed

section \<open>The price of a trade\<close>

text \<open>
  C16: An accepted purchase never costs the buyer more than the bid and never leaves the protocol
  with less than the largest discount allows: with \<open>w\<close> the oracle rate, the tokens paid lie
  between \<open>sol_quantity\<close> at \<open>w\<close> less the maximum discount and at \<open>w\<close> less the minimum one, each
  rounded down.
\<close>

theorem trade_price_bounds:
  assumes "runtime_laws rt" "decimal_laws (decimals rt) val" "holds rt l s" "valid_system s"
    and "execute rt l (BuySolIx ctx bid p) = (es, Inr (l', ret))"
    and "TradeEvent sol tokens bid' ts buyer ep \<in> set es"
  shows "unat tokens * 1000000000 \<le> unat sol * unat bid \<and>
    unat sol * (unat (swap_rate p) * (10000 - unat (max_discount_rate (sys_configuration s))) div 10000)
      div 1000000000 \<le> unat tokens \<and>
    unat tokens \<le> unat sol *
      (unat (swap_rate p) * (10000 - unat (min_discount_rate (sys_configuration s))) div 10000)
      div 1000000000"
proof -
  let ?cfg = "sys_configuration s"
  have cfg: "valid_configuration ?cfg" using assms(4) by (simp add: valid_system_def)
  from buy_sol_calls [OF assms(5,3)] obtain t ps' lf where
    h: "process_buy_sol rt l ctx ?cfg (sys_state s) (sys_deny_list s) bid p = (es, Inr (ps', lf))" and
    es: "es = [TradeEvent (sol_quantity ?cfg) t bid
       (unix_timestamp (clock_sysvar l)) (info_key (bs_signer ctx)) (epoch (clock_sysvar l))]"
    by metis
  from process_buy_sol_decided [OF assms(2) cfg h] obtain ask n where
    "decide_purchase (crypto_ops rt) (clock_sysvar l) ?cfg (sys_state s)
       (sys_deny_list s) (info_key (bs_signer ctx)) bid p = Inr (ask, n)" by metis
  note d = decide_purchase_Inr [OF assms(2) cfg this]
  have t: "t = word_of_nat n"
    using h d(5,8) unfolding process_buy_sol_Inr_iff es by auto
  have sol: "sol = sol_quantity ?cfg" "unat tokens = n"
    using assms(6) d(9) by (simp_all add: es t)
  have ask: "unat (swap_rate p) * (10000 - unat (max_discount_rate ?cfg)) div 10000 \<le> ask"
    "ask \<le> unat (swap_rate p) * (10000 - unat (min_discount_rate ?cfg)) div 10000"
    unfolding d(12) using cfg
    by (intro ask_price_spec_eq_rates(1,2); simp add: valid_configuration_def)+
  have "n * 1000000000 \<le> unat sol * ask" by (simp add: d(11) sol(1))
  also have "\<dots> \<le> unat sol * unat bid" using d(7) by simp
  finally have "n * 1000000000 \<le> unat sol * unat bid" .
  moreover have "unat sol * (unat (swap_rate p) * (10000 - unat (max_discount_rate ?cfg)) div 10000)
      div 1000000000 \<le> n"
    unfolding d(11) sol(1) using ask(1) by (intro div_le_mono mult_le_mono2)
  moreover have "n \<le> unat sol *
      (unat (swap_rate p) * (10000 - unat (min_discount_rate ?cfg)) div 10000) div 1000000000"
    unfolding d(11) sol(1) using ask(2) by (intro div_le_mono mult_le_mono2)
  ultimately show ?thesis by (simp add: sol(2))
qed

theorem trade_price_bounds_witness:
  "\<exists>l'. execute sample_runtime sample_ledger
       (BuySolIx (sample_purchase 5) 2000000000 (sample_quote 2000000000 1000)) =
     ([TradeEvent 25000000000 47275000000 2000000000 1000 5 5], Inr (l', [])) \<and>
     (47275000000::nat) * 1000000000 \<le> 25000000000 * 2000000000 \<and>
     25000000000 * (2000000000 * 5000 div 10000) div 1000000000 \<le> (47275000000::nat)"
proof -
  obtain l' where run: "execute sample_runtime sample_ledger
       (BuySolIx (sample_purchase 5) 2000000000 (sample_quote 2000000000 1000)) =
     ([TradeEvent 25000000000 47275000000 2000000000 1000 5 5], Inr (l', []))"
    using sample_buy by blast
  moreover have "(47275000000::nat) * 1000000000 \<le> 25000000000 * 2000000000 \<and>
      25000000000 * (2000000000 * 5000 div 10000) div 1000000000 \<le> (47275000000::nat)"
    using trade_price_bounds [OF sample_runtime_laws sample_laws sample_holds sample_valid run,
        of 25000000000 47275000000 2000000000 1000 5 5]
    by (simp add: sample_configuration_def sample_quote_def)
  ultimately show ?thesis by blast
qed

section \<open>Who may change what\<close>

text \<open>The account an instruction names as its authority.\<close>

fun authority_of :: "instruction \<Rightarrow> account_info" where
  "authority_of (InitializeSystemIx ctx orc q age k mx mn) = is_authority ctx"
| "authority_of (UpdateConfigurationRegistryIx ctx input) = cu_admin ctx"
| "authority_of (SetFillsConsumerIx ctx k) = cu_admin ctx"
| "authority_of (AddToDenyListIx ctx k) = dl_admin ctx"
| "authority_of (RemoveFromDenyListIx ctx k) = dl_admin ctx"
| "authority_of (SetAdminIx ctx k) = sa_admin ctx"
| "authority_of (SetDenyListAuthorityIx ctx k) = sa_admin ctx"
| "authority_of (ToggleSystemStateIx ctx b) = ss_admin ctx"
| "authority_of (BuySolIx ctx bid p) = bs_signer ctx"
| "authority_of (GetConversionRateIx ctx p) = ca_signer ctx"
| "authority_of (DequeueFillsIx ctx m) = df_signer ctx"

definition signed :: "instruction \<Rightarrow> pubkey \<Rightarrow> bool" where
  "signed ix k \<longleftrightarrow> is_signer (authority_of ix) \<and> info_key (authority_of ix) = k"

text \<open>The upgrade authority, as the loader's accounts record it.\<close>

definition upgrade_authority :: "'d runtime \<Rightarrow> ledger \<Rightarrow> pubkey option" where
  "upgrade_authority rt l =
     (case (owner (accounts l ID) = loader_id rt, data (accounts l ID)) of
        (True, LoaderProgram k) \<Rightarrow>
          if owner (accounts l k) = loader_id rt
          then Option.bind (as_program_data (data (accounts l k))) (\<lambda>a. a) else None
      | _ \<Rightarrow> None)"

lemma validate_SetAdmin_upgrade_authority:
  assumes "validate_SetAdmin rt l ctx = Inr (signer, ps)"
  shows "upgrade_authority rt l = Some (info_key (sa_admin ctx)) \<and> is_signer (sa_admin ctx)"
proof -
  from assms have *: "is_signer (sa_admin ctx)" "signer = info_key (sa_admin ctx)"
    "info_key (sa_program ctx) = ID"
    "load_account (loader_id rt) as_program_data l (sa_program_data ctx) = Inr (Some signer)"
    "programdata_address rt l (sa_program ctx) = Some (info_key (sa_program_data ctx))"
    by (simp_all add: load_simps)
  from *(4) have "owner (account_of l (sa_program_data ctx)) = loader_id rt"
    "as_program_data (data (account_of l (sa_program_data ctx))) = Some (Some signer)"
    by (auto simp: load_account_def Let_def tx_simps split: if_splits)
  with * show ?thesis
    by (auto simp: programdata_address_def account_of_def upgrade_authority_def
        split: if_splits acct_data.splits)
qed

text \<open>What a transition of the system changed, and under whose signature.\<close>

lemma system_step_authority:
  assumes "system_step rt c s ix es ret s'"
  shows "sys_configuration s' \<noteq> sys_configuration s \<Longrightarrow> signed ix (admin (sys_state s))"
    "sys_deny_list s' \<noteq> sys_deny_list s \<Longrightarrow> signed ix (deny_list_authority (sys_state s))"
    "is_halted (sys_state s') \<noteq> is_halted (sys_state s) \<Longrightarrow> signed ix (admin (sys_state s))"
    "admin (sys_state s') \<noteq> admin (sys_state s) \<Longrightarrow> (\<exists>ctx k. ix = SetAdminIx ctx k)"
    "deny_list_authority (sys_state s') \<noteq> deny_list_authority (sys_state s) \<Longrightarrow>
       (\<exists>ctx k. ix = SetDenyListAuthorityIx ctx k)"
    "last_trade_slot (sys_state s') \<noteq> last_trade_slot (sys_state s) \<Longrightarrow>
       (\<exists>ctx bid p. ix = BuySolIx ctx bid p)"
  using assms
  by (cases; auto simp: signed_def tx_simps process_update_Inr_iff process_dequeue_fills_def
      split: if_splits)+

text \<open>
  How a transition changes the pending fills: a purchase adds one at the end, the fills consumer
  takes them from the front, and no other instruction touches them.
\<close>

definition fills_step :: "instruction \<Rightarrow> system \<Rightarrow> system \<Rightarrow> bool" where
  "fills_step ix s s' \<longleftrightarrow>
     (case ix of
        BuySolIx ctx bid p \<Rightarrow> \<exists>tokens. backlog (sys_fills s') =
          backlog (sys_fills s) @ [(unat (sol_quantity (sys_configuration s)), tokens)]
      | DequeueFillsIx ctx m \<Rightarrow> signed ix (fills_consumer (sys_configuration s)) \<and>
          (\<exists>a b n. take_fills (unat m) (backlog (sys_fills s)) = (a, b, n, backlog (sys_fills s')))
      | _ \<Rightarrow> sys_fills s' = sys_fills s)"

lemma system_step_fills:
  assumes "system_step rt c s ix es ret s'" "valid_system s"
  shows "fills_step ix s s'"
proof -
  have inv: "registry_inv (sys_fills s)" using assms(2) by (simp add: valid_system_def)
  from assms(1) show ?thesis
  proof cases
    case (buy ctx p ask bid tokens r)
    then show ?thesis using enqueue_fill_inv(2) [OF inv buy(13)] by (simp add: fills_step_def)
  next
    case (dequeue ctx m r d)
    then have "info_key (df_signer ctx) = fills_consumer (sys_configuration s)"
      by (auto simp: process_dequeue_fills_def tx_simps split: if_splits)
    then show ?thesis
      using process_dequeue_fills_Inr [OF inv dequeue(5)] dequeue
      by (simp add: fills_step_def signed_def)
  qed (simp_all add: fills_step_def)
qed

text \<open>
  C7: Only its authority can change a part of the running system, whatever accounts a
  transaction passes: the configuration and the halt flag change only under the signature of the
  administrator, the deny list only under that of the deny list authority, the two authorities
  themselves only under that of the program's upgrade authority, the last trade slot only by a
  purchase.  Pending fills leave only by a dequeue under the signature of the fills consumer,
  from the front; a purchase keeps every one of them and adds its own at the end, and no other
  instruction touches them.
\<close>

theorem only_authority_changes:
  assumes "runtime_laws rt" "holds rt l s" "valid_system s"
    and "execute rt l ix = (es, Inr (l', ret))" "holds rt l' s'"
  shows "(sys_configuration s' \<noteq> sys_configuration s \<longrightarrow> signed ix (admin (sys_state s))) \<and>
    (is_halted (sys_state s') \<noteq> is_halted (sys_state s) \<longrightarrow> signed ix (admin (sys_state s))) \<and>
    (sys_deny_list s' \<noteq> sys_deny_list s \<longrightarrow> signed ix (deny_list_authority (sys_state s))) \<and>
    (admin (sys_state s') \<noteq> admin (sys_state s) \<or>
     deny_list_authority (sys_state s') \<noteq> deny_list_authority (sys_state s) \<longrightarrow>
       (\<exists>k. upgrade_authority rt l = Some k \<and> signed ix k)) \<and>
    (last_trade_slot (sys_state s') \<noteq> last_trade_slot (sys_state s) \<longrightarrow>
       (\<exists>ctx bid p. ix = BuySolIx ctx bid p)) \<and>
    (case ix of
       BuySolIx ctx bid p \<Rightarrow> \<exists>tokens. backlog (sys_fills s') =
         backlog (sys_fills s) @ [(unat (sol_quantity (sys_configuration s)), tokens)]
     | DequeueFillsIx ctx m \<Rightarrow> signed ix (fills_consumer (sys_configuration s)) \<and>
         (\<exists>a b n. take_fills (unat m) (backlog (sys_fills s)) = (a, b, n, backlog (sys_fills s')))
     | _ \<Rightarrow> sys_fills s' = sys_fills s)"
proof -
  from execute_refines [OF assms(1,2,4)] obtain s1 where
    "holds rt l' s1" and step: "system_step rt (clock_sysvar l) s ix es ret s1" by blast
  then have "s1 = s'"
    using assms(5) system_of_holds by (metis option.inject)
  note step = step [unfolded this]
  note auth = system_step_authority [OF step]
  have "\<exists>k. upgrade_authority rt l = Some k \<and> signed ix k"
    if "(\<exists>ctx k. ix = SetAdminIx ctx k) \<or> (\<exists>ctx k. ix = SetDenyListAuthorityIx ctx k)"
    using that assms(4) validate_SetAdmin_upgrade_authority
    by (fastforce simp: set_admin_def set_deny_list_authority_def try_tx_pair_Inr_iff signed_def)
  then show ?thesis
    using auth system_step_fills [OF step assms(3), unfolded fills_step_def] by blast
qed

definition sample_toggle :: "pubkey \<Rightarrow> SystemState" where
  "sample_toggle k = \<lparr>ss_admin = signs k, ss_program_state = writes 12\<rparr>"

lemma sample_toggle_state [simp]: "ss_program_state (sample_toggle k) = writes 12"
  by (simp add: sample_toggle_def)

lemma sample_halt:
  "\<exists>l' s'. execute sample_runtime sample_ledger (ToggleSystemStateIx (sample_toggle 1) True) =
     ([SystemHalted 1], Inr (l', [])) \<and> holds sample_runtime l' s' \<and> is_halted (sys_state s')"
proof -
  have v: "validate_SystemState sample_runtime sample_ledger (sample_toggle 1) =
      Inr (1, sample_program_state)"
    using sample_holds
    by (simp add: validate_SystemState_Inr_iff sample_toggle_def holds_def stored_def
        account_of_def sample_program_state_def)
  have halt: "process_system_state 1 sample_program_state True =
      ([SystemHalted 1], Inr (sample_program_state\<lparr>is_halted := True\<rparr>))"
    by (simp add: process_system_state_def sample_program_state_def emit_def ok_def)
  have run: "execute sample_runtime sample_ledger (ToggleSystemStateIx (sample_toggle 1) True) =
     ([SystemHalted 1], Inr (set_data 12 (ProgramStateData (sample_program_state\<lparr>is_halted := True\<rparr>))
        sample_ledger, []))"
    by (simp add: toggle_system_state_def v halt exit_with_def map_tx_def)
  moreover have "holds sample_runtime (set_data 12 (ProgramStateData
      (sample_program_state\<lparr>is_halted := True\<rparr>)) sample_ledger)
      (sample_system\<lparr>sys_state := sample_program_state\<lparr>is_halted := True\<rparr>\<rparr>)"
    using holds_set_data(2) [OF sample_holds, of "sample_program_state\<lparr>is_halted := True\<rparr>"] by simp
  ultimately show ?thesis by fastforce
qed

text \<open>A purchase by a stranger: it adds its fill and leaves what the authorities control alone.\<close>

theorem only_authority_changes_witness:
  "\<exists>l' s' tokens. execute sample_runtime sample_ledger
       (BuySolIx (sample_purchase 5) 2000000000 (sample_quote 2000000000 1000)) =
     ([TradeEvent 25000000000 47275000000 2000000000 1000 5 5], Inr (l', [])) \<and>
     holds sample_runtime l' s' \<and> sys_configuration s' = sample_configuration \<and>
     sys_deny_list s' = sample_deny_list \<and> \<not> is_halted (sys_state s') \<and> admin (sys_state s') = 1 \<and>
     backlog (sys_fills s') = [(10, 20), (20, 45), (25000000000, tokens)]"
proof -
  obtain l' where run: "execute sample_runtime sample_ledger
       (BuySolIx (sample_purchase 5) 2000000000 (sample_quote 2000000000 1000)) =
     ([TradeEvent 25000000000 47275000000 2000000000 1000 5 5], Inr (l', []))"
    using sample_buy by blast
  obtain s' where s': "holds sample_runtime l' s'"
    using execute_refines [OF sample_runtime_laws sample_holds run] by blast
  have strangers: "admin sample_program_state = 1" "deny_list_authority sample_program_state \<noteq> 5"
    "\<not> is_halted sample_program_state" "upgrade_authority sample_runtime sample_ledger = Some 1"
    by (simp_all add: sample_program_state_def upgrade_authority_def sample_ledger_def
        sample_chain_def program_account_def owned_account_def as_program_data_def ID_eq)
  then have unsigned: "\<not> signed (BuySolIx (sample_purchase 5) bid p) 1"
    "\<not> signed (BuySolIx (sample_purchase 5) bid p) (deny_list_authority sample_program_state)" for bid p
    by (auto simp: signed_def)
  from only_authority_changes [OF sample_runtime_laws sample_holds sample_valid run s']
  obtain tokens where "sys_configuration s' = sample_configuration" "sys_deny_list s' = sample_deny_list"
    "\<not> is_halted (sys_state s')" "admin (sys_state s') = 1"
    "backlog (sys_fills s') = [(10, 20), (20, 45), (25000000000, tokens)]"
    using strangers unsigned by (auto simp: upgrade_authority_def)
  with run s' show ?thesis by blast
qed

end
