(* ===== verification/Run_Properties.thy ===== *)
theory Run_Properties
  imports Program_Properties
begin

text \<open>
  What holds after every run from a chain on which the program was not initialised: the
  invariant of the stored system, the order of the trades, the agreement of the event log with
  the pending totals, and that there is one initialisation.
\<close>

section \<open>One initialisation\<close>

definition label_initialisations :: "label \<Rightarrow> int" where
  "label_initialisations a = (case a of Executed c ix es ret \<Rightarrow>
       (case ix of InitializeSystemIx ctx orc q age k mx mn \<Rightarrow> 1 | _ \<Rightarrow> 0) | Environment \<Rightarrow> 0)"

definition initialised :: "'d runtime \<Rightarrow> ledger \<Rightarrow> int" where
  "initialised rt l = (case system_of rt l of None \<Rightarrow> 0 | Some s \<Rightarrow> 1)"

lemma ledger_step_initialised:
  assumes "good rt l" "ledger_step rt l a l'"
  shows "initialised rt l' = initialised rt l + label_initialisations a"
proof -
  from assms have laws: "runtime_laws rt" "program_inv rt l" by auto
  from this assms(2) show ?thesis
  proof (cases rule: ledger_step_cases)
    case (transition ix es ret s s')
    then have "ix \<noteq> InitializeSystemIx ctx orc q age k mx mn" for ctx orc q age k mx mn
      using no_second_initialisation [OF laws(1) transition(5)] by blast
    then have "label_initialisations a = 0"
      by (auto simp: transition(1) label_initialisations_def split: instruction.split)
    then show ?thesis using transition(3,4) by (simp add: initialised_def)
  qed (simp_all add: initialised_def label_initialisations_def)
qed

interpretation initialisation: accounted "ledger_step rt" "good rt" "initialised rt"
    label_initialisations for rt
  by unfold_locales (use good_step ledger_step_initialised in blast)+

section \<open>A sample run\<close>

lemma sample_initialisation_simps [simp]:
  "is_configuration_registry sample_initialisation = writes 11"
  "is_program_state sample_initialisation = writes 12"
  "is_deny_list_registry sample_initialisation = writes 13"
  "is_fills_registry sample_initialisation = writes 40"
  "is_withdraw_authority sample_initialisation = reads 14"
  "is_program sample_initialisation = reads ID" "is_program_data sample_initialisation = reads 78"
  "is_system_program sample_initialisation = reads 0" "is_authority sample_initialisation = signs 1"
  by (simp_all add: sample_initialisation_def)

lemma sample_initialises:
  "\<exists>l'. execute sample_runtime fresh_ledger
     (InitializeSystemIx sample_initialisation 7 25000000000 324 4500 5000 500) =
       ([SystemInitialized], Inr (l', []))"
proof -
  have chain: "accounts fresh_ledger 11 = system_account" "accounts fresh_ledger 12 = system_account"
    "accounts fresh_ledger 13 = system_account" "accounts fresh_ledger 14 = system_account"
    "accounts fresh_ledger ID = program_account"
    "accounts fresh_ledger 78 = owned_account 77 (LoaderProgramData (Some 1))"
    "accounts fresh_ledger 40 = owned_account ID (Zeroed 20000000)"
    "accounts fresh_ledger 0 = \<lparr>lamports = 1, owner = 79, executable = True, data = NoData\<rparr>"
    by (simp_all add: fresh_ledger_def sample_chain_def ID_eq)
  have ne: "ID \<noteq> 11" "ID \<noteq> 12" "ID \<noteq> 13" by (simp_all add: ID_eq)
  obtain l3 b where v: "validate_InitializeSystem sample_runtime fresh_ledger sample_initialisation =
      Inr (l3, b)" "accounts l3 40 = owned_account ID (Zeroed 20000000)"
    by (simp add: ne validate_InitializeSystem_def check_system_account_def check_program_def
        account_of_def chain load_account_def as_program_data_def check_signer_def init_pda_def
        check_canonical_seeds_def sample_init_account_def check_mut_def check_zero_def
        check_upgrade_authority_def programdata_address_def check_address_def
        system_account_def program_account_def owned_account_def SYSTEM_PROGRAM_ID_eq
        DISCRIMINATOR_SIZE_def)
  have "load_init l3 (writes 40) = Inr zero_fills_registry"
    by (simp add: load_init_def account_of_def v(2) owned_account_def DISCRIMINATOR_SIZE_def
        FILLS_REGISTRY_SIZE_def MAX_FILLS_QUEUE_SIZE_def)
  then have "\<exists>cfg ps r. process_initialize_system (Inr (clock_sysvar l3)) (load_init l3 (writes 40)) 40 1
      7 25000000000 324 4500 5000 500 b zero_configuration zero_program_state =
      ([SystemInitialized], Inr (cfg, ps, r))"
    by (simp add: process_initialize_system_def Let_def emit_def ok_def)
  then show ?thesis
    by (auto simp: initialize_system_def v map_tx_def)
qed

lemma sample_run:
  "\<exists>l' s. steps (ledger_step sample_runtime) fresh_ledger
     [Executed sample_clock (InitializeSystemIx sample_initialisation 7 25000000000 324 4500 5000 500)
        [SystemInitialized] []] l' \<and> system_of sample_runtime l' = Some s"
proof -
  obtain l' where run: "execute sample_runtime fresh_ledger
     (InitializeSystemIx sample_initialisation 7 25000000000 324 4500 5000 500) =
       ([SystemInitialized], Inr (l', []))" using sample_initialises by blast
  have "ledger_step sample_runtime fresh_ledger
     (Executed sample_clock (InitializeSystemIx sample_initialisation 7 25000000000 324 4500 5000 500)
        [SystemInitialized] []) l'"
    using ledger_step.executed [OF run] by simp
  moreover obtain s where "holds sample_runtime l' s"
    using refine_initialize [OF sample_runtime_laws sample_fresh run] by (elim exE conjE) (rule that)
  ultimately show ?thesis using steps_single system_of_holds by fast
qed

lemma sample_trade_run:
  "\<exists>l'. steps (ledger_step sample_runtime) sample_ledger
     [Executed sample_clock (BuySolIx (sample_purchase 5) 2000000000 (sample_quote 2000000000 1000))
        [TradeEvent 25000000000 47275000000 2000000000 1000 5 5] []] l'"
proof -
  obtain l' where run: "execute sample_runtime sample_ledger
       (BuySolIx (sample_purchase 5) 2000000000 (sample_quote 2000000000 1000)) =
     ([TradeEvent 25000000000 47275000000 2000000000 1000 5 5], Inr (l', []))"
    using sample_buy by blast
  show ?thesis
    using steps_single [of "ledger_step sample_runtime", OF ledger_step.executed [OF run]]
    by (intro exI) simp
qed

section \<open>Properties\<close>

text \<open>
  C2: After every run the stored system is well formed, whatever instructions and other programs
  did: the pricing parameters are within their bounds, the deny list has no duplicate and fits
  its account, the ring buffer is consistent with totals that equal the sums of its entries, and
  the last trade slot is not in the future.
\<close>

theorem reachable_system_valid:
  assumes "runtime_laws rt" "uninitialised l0" "steps (ledger_step rt) l0 ls l"
    and "system_of rt l = Some s"
  shows "holds rt l s \<and> valid_configuration (sys_configuration s) \<and>
    valid_deny_list (sys_deny_list s) \<and> registry_inv (sys_fills s) \<and>
    last_trade_slot (sys_state s) \<le> slot (clock_sysvar l)"
proof -
  have "good rt l"
    using sol_account.inv_steps [OF assms(3)] assms(1,2) by (simp add: program_inv_def)
  then have "program_inv rt l" by simp
  then show ?thesis
    using assms(4) by (cases rule: program_inv_cases) (auto simp: valid_system_def)
qed

theorem reachable_system_valid_witness:
  "\<exists>l s. system_of sample_runtime l = Some s \<and> valid_configuration (sys_configuration s)"
  using reachable_system_valid [OF sample_runtime_laws sample_fresh] sample_run by blast

text \<open>
  C8: At most one trade per slot: along every run the slots of the accepted purchases strictly
  increase.
\<close>

theorem one_trade_per_slot:
  assumes "runtime_laws rt" "program_inv rt l0" "steps (ledger_step rt) l0 ls l"
  shows "sorted_wrt (<) (concat (map trade_slots ls))"
  using trade_clock.ticks_steps [OF assms(3)] assms(1,2) by blast

theorem one_trade_per_slot_witness:
  "\<exists>l'. steps (ledger_step sample_runtime) sample_ledger
     [Executed sample_clock (BuySolIx (sample_purchase 5) 2000000000 (sample_quote 2000000000 1000))
        [TradeEvent 25000000000 47275000000 2000000000 1000 5 5] []] l' \<and>
   sorted_wrt (<) (trade_slots (Executed sample_clock
     (BuySolIx (sample_purchase 5) 2000000000 (sample_quote 2000000000 1000))
        [TradeEvent 25000000000 47275000000 2000000000 1000 5 5] []))"
  using one_trade_per_slot [OF sample_runtime_laws _] sample_trade_run sample_good(1)
  by fastforce

text \<open>
  C6: The event log accounts for every lamport and token: after every run from an uninitialised
  chain, the pending totals of the fills registry are the amounts of all \<open>TradeEvent\<close>s less those
  of all \<open>FillsDequeued\<close> events.
\<close>

theorem events_account_for_pending:
  assumes "runtime_laws rt" "uninitialised l0" "steps (ledger_step rt) l0 ls l"
  shows "pending_sol rt l = sum_list (map label_sol ls) \<and>
    pending_2z rt l = sum_list (map label_2z ls)"
proof -
  have good: "good rt l0" using assms(1,2) by (simp add: program_inv_def)
  have "pending_sol rt l0 = 0" "pending_2z rt l0 = 0"
    using system_of_uninitialised [OF assms(2), of rt] by (simp_all add: pending_sol_def pending_2z_def)
  then show ?thesis
    using sol_account.balance_steps [OF assms(3) good] token_account.balance_steps [OF assms(3) good]
    by simp
qed

theorem events_account_for_pending_witness:
  "\<exists>l. steps (ledger_step sample_runtime) fresh_ledger
     [Executed sample_clock (InitializeSystemIx sample_initialisation 7 25000000000 324 4500 5000 500)
        [SystemInitialized] []] l \<and> pending_sol sample_runtime l = 0"
proof -
  obtain l where run: "steps (ledger_step sample_runtime) fresh_ledger
     [Executed sample_clock (InitializeSystemIx sample_initialisation 7 25000000000 324 4500 5000 500)
        [SystemInitialized] []] l" using sample_run by blast
  then show ?thesis
    using events_account_for_pending [OF sample_runtime_laws sample_fresh run]
    by (auto simp: label_sol_def label_events_def event_sol_def)
qed

text \<open>
  C37: The program is initialised at most once: along every run from an uninitialised chain at
  most one \<open>initialize_system\<close> is accepted, and it is accepted exactly when the chain ends up
  storing a system.
\<close>

theorem initialised_once:
  assumes "runtime_laws rt" "uninitialised l0" "steps (ledger_step rt) l0 ls l"
  shows "sum_list (map label_initialisations ls) = (if system_of rt l = None then 0 else 1)"
proof -
  have good: "good rt l0" using assms(1,2) by (simp add: program_inv_def)
  have "initialised rt l0 = 0"
    using system_of_uninitialised [OF assms(2), of rt] by (simp add: initialised_def)
  then show ?thesis
    using initialisation.balance_steps [OF assms(3) good]
    by (auto simp: initialised_def split: option.splits)
qed

theorem initialised_once_witness:
  "\<exists>l. steps (ledger_step sample_runtime) fresh_ledger
     [Executed sample_clock (InitializeSystemIx sample_initialisation 7 25000000000 324 4500 5000 500)
        [SystemInitialized] []] l \<and> system_of sample_runtime l \<noteq> None"
proof -
  obtain l where run: "steps (ledger_step sample_runtime) fresh_ledger
     [Executed sample_clock (InitializeSystemIx sample_initialisation 7 25000000000 324 4500 5000 500)
        [SystemInitialized] []] l" using sample_run by blast
  then show ?thesis
    using initialised_once [OF sample_runtime_laws sample_fresh run]
    by (auto simp: label_initialisations_def split: if_splits)
qed

text \<open>
  C38: An accepted initialisation stores exactly the system it is asked for: the given pricing
  parameters, checked against their bounds, the caller as administrator and deny list authority,
  no fills, no denied address, trading open, and the current slot as the last trade slot.
\<close>

theorem initialisation_stores_system:
  assumes "runtime_laws rt" "uninitialised l"
    "execute rt l (InitializeSystemIx ctx orc q age k mx mn) = (es, Inr (l', ret))"
  shows "\<exists>bumps. let s = initial_system (info_key (is_authority ctx))
       (info_key (is_fills_registry ctx)) bumps (slot (clock_sysvar l)) orc q age k mx mn in
     holds rt l' s \<and> valid_system s \<and> backlog (sys_fills s) = [] \<and> is_signer (is_authority ctx) \<and>
     es = [SystemInitialized]"
proof -
  have signer: "is_signer (is_authority ctx)"
    using assms(3) by (rule initialize_system_Inr)
  from refine_initialize [OF assms] obtain bumps where
    "holds rt l' (initial_system (info_key (is_authority ctx)) (info_key (is_fills_registry ctx))
       bumps (slot (clock_sysvar l)) orc q age k mx mn)"
    "valid_configuration (sys_configuration (initial_system (info_key (is_authority ctx))
       (info_key (is_fills_registry ctx)) bumps (slot (clock_sysvar l)) orc q age k mx mn))"
    "es = [SystemInitialized]" by blast
  with signer show ?thesis
    by (intro exI [of _ bumps])
      (simp add: Let_def valid_system_def initial_system_def valid_deny_list_def)
qed

theorem initialisation_stores_system_witness:
  "\<exists>l' s. holds sample_runtime l' s \<and> admin (sys_state s) = 1 \<and>
     last_trade_slot (sys_state s) = 200 \<and> coefficient (sys_configuration s) = 4500"
proof -
  obtain l' where run: "execute sample_runtime fresh_ledger
     (InitializeSystemIx sample_initialisation 7 25000000000 324 4500 5000 500) =
       ([SystemInitialized], Inr (l', []))" using sample_initialises by blast
  obtain bumps where "holds sample_runtime l'
      (initial_system 1 40 bumps 200 7 25000000000 324 4500 5000 500)"
    using initialisation_stores_system [OF sample_runtime_laws sample_fresh run]
    by (auto simp: Let_def)
  then show ?thesis
    by (intro exI [of _ l'] exI [of _ "initial_system 1 40 bumps 200 7 25000000000 324 4500 5000 500"])
      (simp add: initial_system_def)
qed

end
