(* ===== verification/Cli_Scenario.thy ===== *)
theory Cli_Scenario
  imports Cli_Views Run_Properties
begin

text \<open>
  A concrete machine for the witnesses of the tools: packages and a network on which the commands
  run against the sample ledger, and a runtime with the addresses of the mock program.
\<close>

section \<open>Addresses and runtime\<close>

definition cli_pda :: "u8 list list \<Rightarrow> pubkey \<times> u8" where
  "cli_pda seeds =
     (if seeds = [MOCK_2Z_TOKEN_MINT_SEED] then (23, 250)
      else if seeds = [MOCK_PROTOCOL_TREASURY_SEED] then (22, 249) else sample_pda seeds)"

lemma cli_seeds_distinct [simp]:
  "CONFIGURATION_REGISTRY \<noteq> MOCK_2Z_TOKEN_MINT_SEED" "CONFIGURATION_REGISTRY \<noteq> MOCK_PROTOCOL_TREASURY_SEED"
  "PROGRAM_STATE \<noteq> MOCK_2Z_TOKEN_MINT_SEED" "PROGRAM_STATE \<noteq> MOCK_PROTOCOL_TREASURY_SEED"
  "DENY_LIST_REGISTRY \<noteq> MOCK_2Z_TOKEN_MINT_SEED" "DENY_LIST_REGISTRY \<noteq> MOCK_PROTOCOL_TREASURY_SEED"
  "WITHDRAW_AUTHORITY \<noteq> MOCK_2Z_TOKEN_MINT_SEED" "WITHDRAW_AUTHORITY \<noteq> MOCK_PROTOCOL_TREASURY_SEED"
  "MOCK_PROTOCOL_TREASURY_SEED \<noteq> MOCK_2Z_TOKEN_MINT_SEED"
  by (simp_all add: CONFIGURATION_REGISTRY_def PROGRAM_STATE_def DENY_LIST_REGISTRY_def
      WITHDRAW_AUTHORITY_def MOCK_2Z_TOKEN_MINT_SEED_def MOCK_PROTOCOL_TREASURY_SEED_def)

lemma cli_pda_simps [simp]:
  "cli_pda [CONFIGURATION_REGISTRY] = (11, 255)" "cli_pda [PROGRAM_STATE] = (12, 254)"
  "cli_pda [DENY_LIST_REGISTRY] = (13, 253)" "cli_pda [WITHDRAW_AUTHORITY] = (14, 252)"
  "cli_pda [MOCK_2Z_TOKEN_MINT_SEED] = (23, 250)" "cli_pda [MOCK_PROTOCOL_TREASURY_SEED] = (22, 249)"
  by (simp_all add: cli_pda_def)

definition cli_runtime :: "rat runtime" where
  "cli_runtime = sample_runtime
     \<lparr>create_program_address := (\<lambda>seeds p. case cli_pda (butlast seeds) of (k, b) \<Rightarrow>
        if last seeds = [b] then Some k else None),
      find_program_address := (\<lambda>seeds p. cli_pda seeds)\<rparr>"

lemma cli_runtime_simps [simp]:
  "find_program_address cli_runtime = (\<lambda>seeds p. cli_pda seeds)"
  "init_account cli_runtime = sample_init_account" "loader_id cli_runtime = 77"
  "token_program_ids cli_runtime = [30]" "decimals cli_runtime = rat_ops"
  "crypto_ops cli_runtime = sample_crypto"
  by (simp_all add: cli_runtime_def)

lemma cli_runtime_laws [simp]: "runtime_laws cli_runtime"
proof -
  have "create_program_address cli_runtime (seeds @ [[b]]) p = Some k"
    if "cli_pda seeds = (k, b)" for seeds p k b
    using that by (simp add: cli_runtime_def)
  then show ?thesis
    using sample_runtime_laws by (simp add: runtime_laws_def) (simp add: cli_runtime_def)
qed

lemma cli_keys [simp]:
  "configuration_key cli_runtime = 11" "state_key cli_runtime = 12" "deny_list_key cli_runtime = 13"
  by (simp_all add: configuration_key_def state_key_def deny_list_key_def)

lemma cli_holds [simp]: "holds cli_runtime sample_ledger sample_system"
  using sample_holds
  by (simp add: holds_def canonical_bumps_def system_keys_def)

section \<open>Packages\<close>

text \<open>The first eight bytes of this hash are the first eight after a prefix of seven.\<close>

definition cli_sha :: "u8 list \<Rightarrow> u8 list" where
  "cli_sha bs = take 32 (drop 7 bs @ replicate 32 0)"

lemma cli_sha_laws [simp]: "sha_laws cli_sha"
  by (auto simp: sha_laws_def cli_sha_def min_def)

lemma drop_global: "drop 7 (bytes_of_string (''global:'' @ s)) = bytes_of_string s"
  by (simp add: bytes_of_string_def)

lemma cli_selector_laws [simp]: "selector_laws cli_sha"
proof -
  have d: "discriminator cli_sha (''global:'' @ s) = take 8 (bytes_of_string s @ replicate 32 0)" for s
    by (simp only: discriminator_def cli_sha_def drop_global) (auto simp: take_map min_def)
  show ?thesis
    by (simp only: selector_laws_def d cli_sha_laws) (simp add: instruction_names_def bytes_of_string_def byte_of_char_def)
qed

definition cli_config :: Config where
  "cli_config =
     \<lparr>cfg_rpc_url = ''url'', cfg_program_id = ''program'', cfg_double_zero_program_id = ''revenue'',
      cfg_oracle_pubkey = Some ''7'', cfg_sol_quantity = Some 25000000000,
      cfg_price_maximum_age = Some 60, cfg_price_oracle_end_point = Some ''oracle'',
      cfg_coefficient = Some 4500, cfg_max_discount_rate = Some 5000, cfg_min_discount_rate = Some 100\<rparr>"

definition cli_key :: "string \<Rightarrow> pubkey option" where
  "cli_key s =
     (if s = ''program'' then Some ID else if s = ''revenue'' then Some REVENUE_DISTRIBUTION_PROGRAM_ID
      else if list_all is_digit s then Some (word_of_nat (read_nat s)) else None)"

definition cli_decimal :: "string \<Rightarrow> rat option" where
  "cli_decimal s =
     (if s = ''0.123456789'' then Some (123456789 / 10 ^ 9)
      else if list_all is_digit s then Some (of_nat (read_nat s)) else None)"

definition cli_packages :: "string \<Rightarrow> rat packages" where
  "cli_packages payer =
     \<lparr>env_var = (\<lambda>name. if name = PRIVATE_KEY_ENV_VAR then Some payer else None),
      path_exists = (\<lambda>path. True), read_to_string = (\<lambda>path. Some ''{}''),
      config_of_json = (\<lambda>s. Some cli_config),
      keypair_of_bytes = (\<lambda>bs. if bs = [] then None else Some (ucast (hd bs))),
      pubkey_of_str = cli_key, url_of_str = Some, base64_standard = (\<lambda>s. Some (bytes_of_string s)),
      sha256 = cli_sha, find_pda = (\<lambda>seeds p. cli_pda seeds), program_data_address = (\<lambda>p. 78),
      associated_token_address = (\<lambda>owner mint token. 21),
      create_associated_token_account = (\<lambda>payer owner mint token.
        \<lparr>ix_program_id = 31, ix_accounts = [], ix_data = []\<rparr>),
      create_account_ix = (\<lambda>payer k rent space owner.
        \<lparr>ix_program_id = SYSTEM_PROGRAM_ID, ix_accounts = [meta_new payer True, meta_new k True],
          ix_data = to_le_bytes space\<rparr>),
      spl_token_id = 30, rent_sysvar_id = 32, decimal_of_str = cli_decimal,
      decimal_of_u64 = (\<lambda>n. of_nat (unat n)), dec_mul = (\<lambda>a b. Some (a * b)), cli_decimals = rat_ops\<rparr>"

lemma cli_packages_simps [simp]:
  "sha256 (cli_packages payer) = cli_sha" "cli_decimals (cli_packages payer) = rat_ops"
  "pubkey_of_str (cli_packages payer) = cli_key" "decimal_of_str (cli_packages payer) = cli_decimal"
  "find_pda (cli_packages payer) = (\<lambda>seeds p. cli_pda seeds)"
  "base64_standard (cli_packages payer) = (\<lambda>s. Some (bytes_of_string s))"
  "program_data_address (cli_packages payer) = (\<lambda>p. 78)" "spl_token_id (cli_packages payer) = 30"
  "env_var (cli_packages payer) PRIVATE_KEY_ENV_VAR = Some payer"
  by (simp_all add: cli_packages_def)

lemma cli_decimal_laws [simp]: "cli_decimal_laws (cli_packages payer) (\<lambda>q. q)"
  using rat_ops_laws by (simp add: cli_decimal_laws_def) (simp add: cli_packages_def rat_ops_def)

lemma cli_same_addresses [simp]: "same_addresses (cli_packages payer) cli_runtime"
  by (simp add: same_addresses_def)

lemma cli_shown:
  "in_sol (cli_packages payer) n = of_nat (unat n) / 10 ^ 9"
  "in_tokens (cli_packages payer) n = of_nat (unat n) / 10 ^ 8"
  using shown_amounts(2,4) [of "cli_packages payer" "\<lambda>q. q"] rat_ops_laws by simp_all

lemma cli_load_config [simp]: "load_config (cli_packages payer) = Inr cli_config"
  by (simp add: load_config_def load_config_path_from_env_def cli_packages_def Let_def
      PRIVATE_KEY_ENV_VAR_def CONFIG_PATH_ENV_VAR_def)

lemma cli_key_simps [simp]:
  "cli_key ''program'' = Some ID" "cli_key ''revenue'' = Some REVENUE_DISTRIBUTION_PROGRAM_ID"
  "cli_key ''7'' = Some 7" "cli_key ''21'' = Some 21"
  by (simp_all add: cli_key_def is_digit_def read_nat_def digit_val_def)

definition cli_admin_config :: AdminConfig where
  "cli_admin_config =
     \<lparr>ac_rpc_url = ''url'', ac_program_id = ''program'', ac_double_zero_program_id = ''revenue'',
      ac_oracle_pubkey = 7, ac_sol_quantity = 25000000000, ac_price_maximum_age = 60,
      ac_coefficient = 4500, ac_max_discount_rate = 5000, ac_min_discount_rate = 100\<rparr>"

definition cli_user_config :: UserConfig where
  "cli_user_config =
     \<lparr>uc_program_id = ''program'', uc_price_oracle_end_point = ''oracle'', uc_rpc_url = ''url'',
      uc_double_zero_program_id = ''revenue''\<rparr>"

lemma cli_load_configs [simp]:
  "load_admin_config (cli_packages payer) = Inr cli_admin_config"
  "load_user_config (cli_packages payer) = Inr cli_user_config"
proof -
  show "load_admin_config (cli_packages payer) = Inr cli_admin_config"
    by (simp add: load_admin_config_def pubkey_from_str_def tx_simps cli_admin_config_def)
      (simp add: cli_config_def)
  show "load_user_config (cli_packages payer) = Inr cli_user_config"
    by (simp add: load_user_config_def tx_simps cli_user_config_def)
      (simp add: cli_config_def cli_packages_def)
qed

lemma cli_payers [simp]:
  "load_payer_from_env (cli_packages ''1'') = Inr 1" "load_payer_from_env (cli_packages ''5'') = Inr 5"
  "load_payer_from_env (cli_packages ''9'') = Inr 9"
  by (simp_all add: load_payer_from_env_def load_private_key_def parse_u8_def trim_def white_space_def
      is_digit_def digit_val_def tx_simps, simp_all add: cli_packages_def)

section \<open>Network\<close>

text \<open>The network confirms every transaction, with the given return data.\<close>

definition cli_network :: "u8 list \<Rightarrow> OraclePriceData \<Rightarrow> unit network" where
  "cli_network ret quote =
     \<lparr>latest_blockhash = (\<lambda>url w. (Some [1], w)),
      send_and_confirm = (\<lambda>url tx w. (Inr ''sig'', w)),
      get_transaction = (\<lambda>url sig w. (Some (Some (Some
        \<lparr>rd_program_id = ''program'', rd_data = string_of_bytes ret\<rparr>)), w)),
      account_bytes = (\<lambda>url k w. (if k = 11 then Some (account_image cli_sha (ConfigurationData sample_configuration))
        else if k = 12 then Some (account_image cli_sha (ProgramStateData sample_program_state))
        else if k = 13 then Some (account_image cli_sha (DenyListData sample_deny_list))
        else if k = 40 then Some (account_image cli_sha (FillsData sample_registry)) else None, w)),
      rent_exemption = (\<lambda>url n w. (Some 73000000000, w)),
      request_airdrop = (\<lambda>url k n w. (Some ''sig'', w)),
      http_get_price = (\<lambda>url w. (Some quote, w)),
      new_keypair = (\<lambda>w. (40, w)), sleep_secs = (\<lambda>n w. ((), w))\<rparr>"

definition cli_session :: "(unit, rat) session" where
  "cli_session = \<lparr>world = (), printed = []\<rparr>"

lemma bytes_of_string_of_bytes [simp]: "bytes_of_string (string_of_bytes bs) = bs"
  using string_of_bytes_iff by metis

lemma cli_stored [simp]: "stored_bytes sha d (account_image sha d)"
  by (simp add: stored_bytes_def)

lemma cli_network_simps [simp]:
  "account_bytes (cli_network ret q) url 12 w =
     (Some (account_image cli_sha (ProgramStateData sample_program_state)), w)"
  "account_bytes (cli_network ret q) url 13 w =
     (Some (account_image cli_sha (DenyListData sample_deny_list)), w)"
  "account_bytes (cli_network ret q) url 40 w =
     (Some (account_image cli_sha (FillsData sample_registry)), w)"
  "http_get_price (cli_network ret q) url w = (Some q, w)"
  "new_keypair (cli_network ret q) w = (40, w)"
  "rent_exemption (cli_network ret q) url n w = (Some 73000000000, w)"
  by (simp_all add: cli_network_def)

lemma quote_ok_string [simp]: "ok_string (signature (sample_quote 2000000000 1000))"
  by (simp add: sample_quote_def ok_string_def show_u64_def show_i64_def show_nat.simps digit_char_def
      bytes_of_string_def byte_of_char_def)

lemma cli_amounts_typed [simp]:
  "parse_token_value (cli_packages payer) ''20'' = Inr 2000000000"
  "parse_sol_value (cli_packages payer) ''15'' = Inr 15000000000"
  by (simp_all add: parse_token_value_def parse_sol_value_def parse_units_def cli_decimal_def
      is_digit_def read_nat_def digit_val_def) (simp_all add: cli_packages_def rat_ops_def
      TOKEN_UNITS_cli_def LAMPORTS_PER_SOL_def)

end
