(* ===== verification/Cli_Properties.thy ===== *)
theory Cli_Properties
  imports Cli_Scenario
begin

text \<open>
  What the commands of the three tools ask of the program and report of it: the requests of the
  administrators, dequeues and the initialisation, for any network and
  any packages that keep the stated laws.
\<close>

section \<open>Running the executor\<close>

lemma new_signed_single:
  assumes "filter meta_is_signer (ix_accounts ix) = [meta_new payer True]"
  shows "new_signed_with_payer [ix] payer [payer] bh =
    Inr \<lparr>tx_instructions = [ix], tx_payer = payer, tx_signers = [payer], tx_blockhash = bh\<rparr>"
  using assms by (simp add: new_signed_with_payer_def required_signers_def contains_def meta_new_def)

text \<open>The network confirms an instruction and answers the first request for its return data.\<close>

definition returns_data ::
    "'d packages \<Rightarrow> 'w network \<Rightarrow> Config \<Rightarrow> pubkey \<Rightarrow> Instruction \<Rightarrow> 'w \<Rightarrow> u8 list \<Rightarrow> 'w \<Rightarrow> bool" where
  "returns_data pk net config payer ix w ret w' \<longleftrightarrow>
     (\<exists>bh w1 sig w2 d.
        latest_blockhash net (cfg_rpc_url config) w = (Some bh, w1) \<and>
        send_and_confirm net (cfg_rpc_url config)
          \<lparr>tx_instructions = [ix], tx_payer = payer, tx_signers = [payer], tx_blockhash = bh\<rparr> w1 =
          (Inr sig, w2) \<and>
        get_transaction net (cfg_rpc_url config) sig w2 =
          (Some (Some (Some \<lparr>rd_program_id = cfg_program_id config, rd_data = d\<rparr>)), w') \<and>
        base64_standard pk d = Some ret)"

lemma send_with_return_data:
  assumes "load_payer_from_env pk = Inr payer" "load_config pk = Inr config"
    and "filter meta_is_signer (ix_accounts ix) = [meta_new payer True]"
    and "returns_data pk net config payer ix (world s) ret w'" "de ret = Inr v"
  shows "send_instruction_with_return_data pk net de ix s = (Inr v, s\<lparr>world := w'\<rparr>)"
proof -
  obtain bh w1 sig w2 d where net:
    "latest_blockhash net (cfg_rpc_url config) (world s) = (Some bh, w1)"
    "send_and_confirm net (cfg_rpc_url config)
       \<lparr>tx_instructions = [ix], tx_payer = payer, tx_signers = [payer], tx_blockhash = bh\<rparr> w1 =
       (Inr sig, w2)"
    "get_transaction net (cfg_rpc_url config) sig w2 =
       (Some (Some (Some \<lparr>rd_program_id = cfg_program_id config, rd_data = d\<rparr>)), w')"
    "base64_standard pk d = Some ret"
    using assms(4) unfolding returns_data_def by blast
  have "read_result pk net config sig de 0 (s\<lparr>world := w2\<rparr>) = (Inr v, s\<lparr>world := w'\<rparr>)"
    by (subst read_result.simps)
      (simp add: RETRY_COUNT_def io_world_def net extract_return_data_def io_try_def io_ok_def assms(5))
  then show ?thesis
    by (simp add: send_instruction_with_return_data_def load_config_or_def assms(1,2) io_simps
        io_world_def net new_signed_single [OF assms(3)])
qed

lemma get_account_data_run:
  assumes "account_bytes net url k (world s) = (Some bs, w')" "de bs = Inr v"
  shows "get_account_data net de url k s = (Inr v, s\<lparr>world := w'\<rparr>)"
  using assms by (simp add: get_account_data_def io_world_def io_simps io_ok_def)

lemma get_fills_registry_address_run:
  assumes "sha_laws (sha256 pk)"
    and "account_bytes net url (pda pk PROGRAM_STATE program) (world s) = (Some bs, w')"
    and "stored_bytes (sha256 pk) (ProgramStateData p) bs"
  shows "get_fills_registry_address pk net program url s = (Inr (fills_registry_address p), s\<lparr>world := w'\<rparr>)"
  using get_account_data_run [where de = ProgramStateAccount_try_deserialize, OF assms(2)
      program_state_misread [OF assms(1,3)]]
  by (simp add: get_fills_registry_address_def pda_defs io_bind_def io_ok_def
      misread_program_state_def Let_def)

lemma selector_sha [simp]: "selector_laws sha \<Longrightarrow> sha_laws sha"
  by (simp add: selector_laws_def)

section \<open>The administrators' requests\<close>

text \<open>
  Every administrative command either fails without touching the network, when the
  configuration, the payer's key or the arguments are unusable, or it sends exactly one
  instruction, which the program receives as the request: the intended function with the intended
  accounts and arguments, signed by the payer alone.
\<close>

theorem admin_command_requests:
  assumes "selector_laws (sha256 pk)" "administers cmd"
  shows "case admin_request pk cmd of
      None \<Rightarrow> \<exists>e. \<forall>s. admin_handle pk net (Some cmd) s = (Inl e, s)
    | Some (program, i) \<Rightarrow>
        \<exists>ix payer. ix_program_id ix = program \<and> received (sha256 pk) ix = Inr i \<and>
          load_payer_from_env pk = Inr payer \<and>
          filter meta_is_signer (ix_accounts ix) = [meta_new payer True] \<and>
          admin_handle pk net (Some cmd) = io_bind (send_batch_instructions pk net [ix]) (\<lambda>_. io_ok ())"
  using admin_command_answers [OF assms, of net]
  by (auto simp: answers_def asks_def fails_def io_fail_def split: option.splits)

lemma cli_halt_request:
  "admin_request (cli_packages ''1'') (ToggleSystemState False True) =
    Some (ID, ToggleSystemStateIx (toggle_accounts (cli_packages ''1'') ID 1) True)"
  by (simp add: admin_request_def) (simp add: cli_admin_config_def)

theorem admin_command_requests_witness:
  "\<exists>ix. ix_program_id ix = ID \<and>
    received cli_sha ix = Inr (ToggleSystemStateIx (toggle_accounts (cli_packages ''1'') ID 1) True) \<and>
    admin_handle (cli_packages ''1'') (cli_network [] (sample_quote 1 1)) (Some (ToggleSystemState False True)) =
      io_bind (send_batch_instructions (cli_packages ''1'') (cli_network [] (sample_quote 1 1)) [ix]) (\<lambda>_. io_ok ())"
  using admin_command_requests [of "cli_packages ''1''" "ToggleSystemState False True"
      "cli_network [] (sample_quote 1 1)"]
  by (simp add: cli_halt_request) blast

section \<open>Taking fills\<close>

text \<open>
  The integrators' command reports exactly what the program took: when the network executes
  the instruction it sent on a ledger holding the system, the three printed amounts are those of
  the list specification of a dequeue on the stored backlog, the SOL amount as a decimal.
\<close>

theorem dequeue_command_reports:
  assumes "selector_laws (sha256 pk)" "load_config pk = Inr config" "load_payer_from_env pk = Inr payer"
    and "pubkey_of_str pk (cfg_program_id config) = Some ID"
    and "parse_sol_value pk amount = Inr m"
    and "account_bytes net (cfg_rpc_url config) (pda pk PROGRAM_STATE ID) (world st) = (Some bytes, w1)"
    and "stored_bytes (sha256 pk) (ProgramStateData (sys_state s)) bytes"
    and "runtime_laws rt" "holds rt l s" "valid_system s" "same_addresses pk rt"
    and "decimal_laws (cli_decimals pk) val"
    and "returns_data pk net config payer
      (dequeue_fills_instruction pk ID (fills_registry_address (sys_state s)) payer m) w1 ret w2"
    and "received (sha256 pk)
      (dequeue_fills_instruction pk ID (fills_registry_address (sys_state s)) payer m) = Inr i"
    and "execute rt l i = (es, Inr (l', ret))"
  shows "\<exists>(d :: DequeueFillsResult) (s' :: system). dequeue_fills_cmd pk net amount st =
        (Inr (), st\<lparr>world := w2, printed := printed st @
           [DequeuedLine (in_sol pk (sol_dequeued d)) (token_2z_dequeued d) (fills_consumed d)]\<rparr>) \<and>
      val (in_sol pk (sol_dequeued d)) = of_nat (unat (sol_dequeued d)) / 10 ^ 9 \<and>
      holds rt l' s' \<and>
      take_fills (unat m) (backlog (sys_fills s)) =
        (unat (sol_dequeued d), unat (token_2z_dequeued d), unat (fills_consumed d),
         backlog (sys_fills s'))"
proof -
  let ?fills = "fills_registry_address (sys_state s)"
  let ?ix = "dequeue_fills_instruction pk ID ?fills payer m"
  have i: "i = DequeueFillsIx (dequeue_accounts pk ID ?fills payer) m"
    using assms(14) dequeue_fills_received [OF assms(1), of ID ?fills payer m] by simp
  have pass: "validate_DequeueFills rt l (dequeue_accounts pk ID ?fills payer) =
      Inr (payer, sys_configuration s, sys_fills s)"
    by (rule dequeue_accounts_pass [OF assms(8,9,11)])
  obtain r' d where run: "process_dequeue_fills (Inr (clock_sysvar l)) payer (sys_configuration s)
      (sys_fills s) m = (es, Inr (r', d))"
    and l': "l' = set_data ?fills (FillsData r') l" and ret: "ret = encode_DequeueFillsResult d"
    using assms(15) by (auto simp: i dequeue_fills_def pass map_tx_Inr_iff)
      (auto simp: dequeue_accounts_def)
  have inv: "registry_inv (sys_fills s)" using assms(10) by (simp add: valid_system_def)
  have take: "take_fills (unat m) (backlog (sys_fills s)) =
      (unat (sol_dequeued d), unat (token_2z_dequeued d), unat (fills_consumed d), backlog r')"
    using process_dequeue_fills_Inr [OF inv run] by auto
  have address: "get_fills_registry_address pk net ID (cfg_rpc_url config) st =
      (Inr ?fills, st\<lparr>world := w1\<rparr>)"
    using get_fills_registry_address_run [OF _ assms(6,7)] assms(1) by simp
  have read: "DequeueFillsResult_try_deserialize ret = Inr d"
    using dequeue_result_codec.get_put_only [of d]
    by (simp add: DequeueFillsResult_try_deserialize_def borsh_prefix_def ret
        get_DequeueFillsResult_def)
  have "filter meta_is_signer (ix_accounts ?ix) = [meta_new payer True]"
    by (simp add: dequeue_fills_instruction_def meta_new_def)
  then have sent: "send_instruction_with_return_data pk net DequeueFillsResult_try_deserialize ?ix
      (st\<lparr>world := w1\<rparr>) = (Inr d, st\<lparr>world := w2\<rparr>)"
    using send_with_return_data [where de = DequeueFillsResult_try_deserialize and s = "st\<lparr>world := w1\<rparr>",
        OF assms(3,2) _ _ read] assms(13) by simp
  have "dequeue_fills_cmd pk net amount st = (Inr (), st\<lparr>world := w2, printed := printed st @
      [DequeuedLine (in_sol pk (sol_dequeued d)) (token_2z_dequeued d) (fills_consumed d)]\<rparr>)"
    by (simp add: dequeue_fills_cmd_def assms(2-5) pubkey_from_str_Inl io_simps io_bind_def address sent
        shown_amounts(1) [OF assms(12)] io_print_def)
  moreover have "holds rt l' (s\<lparr>sys_fills := r'\<rparr>)"
    unfolding l' by (rule holds_set_data(4) [OF assms(9)])
  ultimately show ?thesis
    using take shown_amounts(2) [OF assms(12)]
    by (intro exI [of _ d] exI [of _ "s\<lparr>sys_fills := r'\<rparr>"]) simp
qed

lemma cli_returns_data:
  assumes "filter meta_is_signer (ix_accounts ix) = [meta_new payer True]"
  shows "returns_data (cli_packages p) (cli_network ret q) cli_config payer ix w ret w"
  by (simp add: returns_data_def cli_network_def cli_config_def)

theorem dequeue_command_reports_witness:
  "\<exists>ret. printed (snd (dequeue_fills_cmd (cli_packages ''9'') (cli_network ret (sample_quote 1 1)) ''15''
      cli_session)) = [DequeuedLine (30 / 10 ^ 9) 65 2]"
proof -
  let ?pk = "cli_packages ''9''" and ?ix = "dequeue_fills_instruction (cli_packages ''9'') ID 40 9 15000000000"
  have address: "fills_registry_address sample_program_state = 40"
    by (simp add: sample_program_state_def)
  then have fills: "fills_registry_address (sys_state sample_system) = 40" by simp
  have pass: "validate_DequeueFills cli_runtime sample_ledger (dequeue_accounts ?pk ID 40 9) =
      Inr (9, sample_configuration, sample_registry)"
    using dequeue_accounts_pass [OF cli_runtime_laws cli_holds cli_same_addresses, of "''9''" 9]
    by (simp add: address)
  have "fills_consumer sample_configuration = 9" "0 < count sample_registry"
    by (simp_all add: sample_configuration_def)
  then obtain es r' d where run: "process_dequeue_fills (Inr sample_clock) 9 sample_configuration
      sample_registry 15000000000 = (es, Inr (r', d))"
    using process_dequeue_fills_ok [OF sample_inv, of 9 sample_configuration 15000000000 sample_clock]
    by auto
  let ?ret = "encode_DequeueFillsResult d"
  have run: "\<exists>l'. execute cli_runtime sample_ledger (DequeueFillsIx (dequeue_accounts ?pk ID 40 9) 15000000000) =
      (es, Inr (l', ?ret))"
    by (simp add: dequeue_fills_def pass run map_tx_def)
  then obtain l' where run: "execute cli_runtime sample_ledger
      (DequeueFillsIx (dequeue_accounts ?pk ID 40 9) 15000000000) = (es, Inr (l', ?ret))" by blast
  have received: "received (sha256 ?pk) ?ix = Inr (DequeueFillsIx (dequeue_accounts ?pk ID 40 9) 15000000000)"
    by (rule dequeue_fills_received) simp
  have inputs: "selector_laws (sha256 ?pk)" "pubkey_of_str ?pk (cfg_program_id cli_config) = Some ID"
    "stored_bytes (sha256 ?pk) (ProgramStateData (sys_state sample_system))
      (account_image cli_sha (ProgramStateData sample_program_state))"
    "account_bytes (cli_network ?ret (sample_quote 1 1)) (cfg_rpc_url cli_config) (pda ?pk PROGRAM_STATE ID)
      (world cli_session) = (Some (account_image cli_sha (ProgramStateData sample_program_state)), ())"
    by (simp_all add: cli_config_def)
  have returned: "returns_data ?pk (cli_network ?ret (sample_quote 1 1)) cli_config 9 ?ix () ?ret ()"
    by (rule cli_returns_data) (simp add: dequeue_fills_instruction_def meta_new_def)
  have laws: "decimal_laws (cli_decimals ?pk) (\<lambda>q. q)" by (simp add: rat_ops_laws)
  obtain d' :: DequeueFillsResult and s' :: system
    where shown: "dequeue_fills_cmd ?pk (cli_network ?ret (sample_quote 1 1)) ''15'' cli_session =
        (Inr (), cli_session\<lparr>world := (), printed := printed cli_session @
           [DequeuedLine (in_sol ?pk (sol_dequeued d')) (token_2z_dequeued d') (fills_consumed d')]\<rparr>)"
      "in_sol ?pk (sol_dequeued d') = of_nat (unat (sol_dequeued d')) / 10 ^ 9"
      "take_fills (unat (15000000000 :: u64)) (backlog (sys_fills sample_system)) =
        (unat (sol_dequeued d'), unat (token_2z_dequeued d'), unat (fills_consumed d'), backlog (sys_fills s'))"
    using dequeue_command_reports [OF inputs(1) cli_load_config cli_payers(3) inputs(2) cli_amounts_typed(2)
        inputs(4,3) cli_runtime_laws cli_holds sample_valid cli_same_addresses laws, unfolded fills,
        OF returned received run]
    by blast
  have "unat (sol_dequeued d') = 30" "unat (token_2z_dequeued d') = unat (65::u64)"
    "unat (fills_consumed d') = unat (2::u64)"
    using shown(3) by simp_all
  then have "in_sol ?pk (sol_dequeued d') = 30 / 10 ^ 9" "token_2z_dequeued d' = 65" "fills_consumed d' = 2"
    using shown(2) by (simp_all add: word_unat_eq_iff)
  then have "printed (snd (dequeue_fills_cmd ?pk (cli_network ?ret (sample_quote 1 1)) ''15'' cli_session)) =
      [DequeuedLine (30 / 10 ^ 9) 65 2]"
    by (simp only: shown(1) snd_conv session.simps) (simp add: cli_session_def)
  then show ?thesis by blast
qed

section \<open>Initialisation\<close>

text \<open>
  The initialisation command sends one transaction of two instructions, signed by the payer
  and the new account: the creation of the fills account with room for the whole registry, owned
  by the program, and an instruction received as \<open>initialize_system\<close> with the parameters of the
  configuration file.  Where the program accepts it, the ledger holds a system with exactly these
  parameters, the payer as administrator and the new account as its registry.
\<close>

theorem init_command:
  assumes "selector_laws (sha256 pk)" "load_admin_config pk = Inr cfg" "load_payer_from_env pk = Inr payer"
    and "pubkey_of_str pk (ac_program_id cfg) = Some ID"
    and "new_keypair net (world st) = (registry, w1)"
    and "rent_exemption net (ac_rpc_url cfg) FILLS_ACCOUNT_SPACE w1 = (Some rent, w2)"
    and "runtime_laws rt" "uninitialised l"
  shows "DISCRIMINATOR_SIZE + FILLS_REGISTRY_SIZE \<le> FILLS_ACCOUNT_SPACE \<and>
    (\<exists>ix i. admin_handle pk net (Some Init) st =
        io_bind (send_batch_instructions_with_signers pk net
          [create_account_ix pk payer registry rent (word_of_nat FILLS_ACCOUNT_SPACE) ID, ix] [registry])
          (\<lambda>_. io_ok ()) (st\<lparr>world := w2\<rparr>) \<and>
      ix_program_id ix = ID \<and> received (sha256 pk) ix = Inr i \<and>
      (\<forall>es l' ret. execute rt l i = (es, Inr (l', ret)) \<longrightarrow>
        (\<exists>s. holds rt l' s \<and> admin (sys_state s) = payer \<and> fills_registry_address (sys_state s) = registry \<and>
          \<not> is_halted (sys_state s) \<and> backlog (sys_fills s) = [] \<and>
          valid_configuration (sys_configuration s) \<and>
          oracle_pubkey (sys_configuration s) = ac_oracle_pubkey cfg \<and>
          sol_quantity (sys_configuration s) = ac_sol_quantity cfg \<and>
          price_maximum_age (sys_configuration s) = ac_price_maximum_age cfg \<and>
          coefficient (sys_configuration s) = ac_coefficient cfg \<and>
          max_discount_rate (sys_configuration s) = ac_max_discount_rate cfg \<and>
          min_discount_rate (sys_configuration s) = ac_min_discount_rate cfg)))"
proof -
  let ?ix = "initialize_instruction pk cfg ID payer registry"
  let ?ctx = "initialisation_accounts pk ID registry payer"
  let ?i = "InitializeSystemIx ?ctx (ac_oracle_pubkey cfg) (ac_sol_quantity cfg)
    (ac_price_maximum_age cfg) (ac_coefficient cfg) (ac_max_discount_rate cfg) (ac_min_discount_rate cfg)"
  have "DISCRIMINATOR_SIZE + FILLS_REGISTRY_SIZE \<le> FILLS_ACCOUNT_SPACE"
    by (simp add: DISCRIMINATOR_SIZE_def FILLS_REGISTRY_SIZE_def FILLS_ACCOUNT_SPACE_def
        MAX_FILLS_QUEUE_SIZE_def)
  moreover have "admin_handle pk net (Some Init) st =
      io_bind (send_batch_instructions_with_signers pk net
        [create_account_ix pk payer registry rent (word_of_nat FILLS_ACCOUNT_SPACE) ID, ?ix] [registry])
        (\<lambda>_. io_ok ()) (st\<lparr>world := w2\<rparr>)"
    by (simp add: admin_handle_def admin_init_def assms(2-4) pubkey_from_str_Inl io_simps io_world_def
        assms(5,6))
  moreover have "received (sha256 pk) ?ix = Inr ?i"
    by (rule initialize_received [OF assms(1)])
  moreover have "\<exists>s. holds rt l' s \<and> admin (sys_state s) = payer \<and>
      fills_registry_address (sys_state s) = registry \<and> \<not> is_halted (sys_state s) \<and>
      backlog (sys_fills s) = [] \<and> valid_configuration (sys_configuration s) \<and>
      oracle_pubkey (sys_configuration s) = ac_oracle_pubkey cfg \<and>
      sol_quantity (sys_configuration s) = ac_sol_quantity cfg \<and>
      price_maximum_age (sys_configuration s) = ac_price_maximum_age cfg \<and>
      coefficient (sys_configuration s) = ac_coefficient cfg \<and>
      max_discount_rate (sys_configuration s) = ac_max_discount_rate cfg \<and>
      min_discount_rate (sys_configuration s) = ac_min_discount_rate cfg"
    if run: "execute rt l ?i = (es, Inr (l', ret))" for es l' ret
  proof -
    from refine_initialize [OF assms(7,8) run] obtain bumps where
      "holds rt l' (initial_system (info_key (is_authority ?ctx)) (info_key (is_fills_registry ?ctx))
         bumps (slot (clock_sysvar l)) (ac_oracle_pubkey cfg) (ac_sol_quantity cfg)
         (ac_price_maximum_age cfg) (ac_coefficient cfg) (ac_max_discount_rate cfg) (ac_min_discount_rate cfg))"
      "valid_configuration (sys_configuration (initial_system (info_key (is_authority ?ctx))
         (info_key (is_fills_registry ?ctx)) bumps (slot (clock_sysvar l)) (ac_oracle_pubkey cfg)
         (ac_sol_quantity cfg) (ac_price_maximum_age cfg) (ac_coefficient cfg)
         (ac_max_discount_rate cfg) (ac_min_discount_rate cfg)))" by blast
    then show ?thesis
      by (intro exI conjI) (assumption, simp_all add: initial_system_def initialisation_accounts_def)
  qed
  ultimately show ?thesis
    by (intro conjI exI [of _ ?ix] exI [of _ ?i]) (auto simp: initialize_instruction_def)
qed

theorem init_command_witness:
  "\<exists>ix i. admin_handle (cli_packages ''1'') (cli_network [] (sample_quote 1 1)) (Some Init) cli_session =
      io_bind (send_batch_instructions_with_signers (cli_packages ''1'') (cli_network [] (sample_quote 1 1))
        [create_account_ix (cli_packages ''1'') 1 40 73000000000 (word_of_nat FILLS_ACCOUNT_SPACE) ID, ix] [40])
        (\<lambda>_. io_ok ()) cli_session \<and>
    received cli_sha ix = Inr i \<and>
    (\<forall>es l' ret. execute cli_runtime fresh_ledger i = (es, Inr (l', ret)) \<longrightarrow>
      (\<exists>s. holds cli_runtime l' s \<and> admin (sys_state s) = 1 \<and> sol_quantity (sys_configuration s) = 25000000000))"
proof -
  have "selector_laws (sha256 (cli_packages ''1''))"
    "pubkey_of_str (cli_packages ''1'') (ac_program_id cli_admin_config) = Some ID"
    "ac_sol_quantity cli_admin_config = 25000000000"
    by (simp_all add: cli_admin_config_def)
  then show ?thesis
    using init_command [OF _ cli_load_configs(1) cli_payers(1) _ cli_network_simps(5) cli_network_simps(6)
        cli_runtime_laws sample_fresh, of "[]" "sample_quote 1 1" cli_session]
    by (simp add: cli_session_def) blast
qed

end
