(* ===== verification/Cli_Executions.thy ===== *)
theory Cli_Executions
  imports Cli_Properties
begin

text \<open>
  A tool and the program together: what a command does to the system when the network it sends to
  runs the program.  The laws of such a network, and the administrative commands.
\<close>

section \<open>Transactions that settle or are lost\<close>

text \<open>
  \<open>ledger_of\<close> is the ledger in the world behind the network, \<open>out\<close> what a transaction may make of
  it.  A transaction is carried out or it is lost; a success is reported only for one that was
  carried out, while a failure may also be reported for one that was.  The laws speak of the calls
  of one tool: others act before or after them.
\<close>

definition settles ::
    "(ledger \<Rightarrow> ledger \<Rightarrow> bool) \<Rightarrow> ('w \<Rightarrow> ledger) \<Rightarrow> 'w \<Rightarrow> ('f + 'a) \<times> 'w \<Rightarrow> bool" where
  "settles out ledger_of w answer \<longleftrightarrow>
     (case answer of (r, w') \<Rightarrow>
        out (ledger_of w) (ledger_of w') \<or> (\<exists>e. r = Inl e) \<and> ledger_of w' = ledger_of w)"

definition settles_batch ::
    "'w network \<Rightarrow> ('w \<Rightarrow> ledger) \<Rightarrow> Instruction list \<Rightarrow> (ledger \<Rightarrow> ledger \<Rightarrow> bool) \<Rightarrow> bool" where
  "settles_batch net ledger_of ixs out \<longleftrightarrow>
     (\<forall>url w. ledger_of (snd (latest_blockhash net url w)) = ledger_of w) \<and>
     (\<forall>url tx w. tx_instructions tx = ixs \<longrightarrow>
        settles out ledger_of w (send_and_confirm net url tx w))"

lemma settles_lost [simp]: "ledger_of w' = ledger_of w \<Longrightarrow> settles out ledger_of w (Inl e, w')"
  by (simp add: settles_def)

lemma settles_cong:
  "ledger_of w1 = ledger_of w \<Longrightarrow> settles out ledger_of w1 answer = settles out ledger_of w answer"
  by (simp add: settles_def)

text \<open>Whatever the tool signs and sends settles or is lost, too; only the world changes.\<close>

lemma send_batch_settles:
  assumes "settles_batch net ledger_of ixs out"
  shows "\<exists>r w'. io_bind (send_batch_instructions_with_signers pk net ixs signers) (\<lambda>_. io_ok ()) st =
      (r, st\<lparr>world := w'\<rparr>) \<and> settles out ledger_of (world st) (r, w')"
proof (cases "load_payer_from_env pk")
  case (Inl e)
  then show ?thesis
    by (intro exI [of _ "Inl e"] exI [of _ "world st"])
      (simp add: send_batch_instructions_with_signers_def io_simps io_bind_def io_fail_def)
next
  case payer: (Inr payer)
  note run = send_batch_instructions_with_signers_def payer io_simps io_bind_def io_world_def
  show ?thesis
  proof (cases "load_config_or pk")
    case (Inl e)
    then show ?thesis
      by (intro exI [of _ "Inl e"] exI [of _ "world st"]) (simp add: run io_fail_def)
  next
    case config: (Inr config)
    let ?url = "cfg_rpc_url config"
    obtain b w1 where b: "latest_blockhash net ?url (world st) = (b, w1)" by force
    have same: "ledger_of w1 = ledger_of (world st)"
      using assms b unfolding settles_batch_def by (metis snd_conv)
    show ?thesis
    proof (cases b)
      case None
      then show ?thesis
        using same
        by (intro exI [of _ "Inl (Message ''Error when getting latest block hash'')"] exI [of _ w1])
          (simp add: run config b io_fail_def)
    next
      case (Some bh)
      show ?thesis
      proof (cases "new_signed_with_payer ixs payer (payer # signers) bh")
        case (Inl e)
        then show ?thesis
          using same by (intro exI [of _ "Inl e"] exI [of _ w1]) (simp add: run config b Some io_fail_def)
      next
        case (Inr tx)
        then have "tx_instructions tx = ixs" by (auto simp: new_signed_with_payer_def split: if_splits)
        obtain r w2 where r: "send_and_confirm net ?url tx w1 = (r, w2)" by force
        have "settles out ledger_of w1 (r, w2)"
          using assms \<open>tx_instructions tx = ixs\<close> r unfolding settles_batch_def by metis
        then have "settles out ledger_of (world st)
            (map_err handle_error (case r of Inl e \<Rightarrow> Inl e | Inr sig \<Rightarrow> Inr ()), w2)"
          by (cases r) (simp_all add: settles_def same)
        then show ?thesis
          by (intro exI [of _ "map_err handle_error (case r of Inl e \<Rightarrow> Inl e | Inr sig \<Rightarrow> Inr ())"]
              exI [of _ w2])
            (cases r; simp add: run config b Some Inr r io_ok_def io_fail_def)
      qed
    qed
  qed
qed

section \<open>A network that runs the program\<close>

text \<open>
  A transaction of one instruction for the program settles as the execution of the instruction it
  is received as; a rejected one changes nothing.
\<close>

definition accepts :: "'e runtime \<Rightarrow> instruction \<Rightarrow> ledger \<Rightarrow> ledger \<Rightarrow> bool" where
  "accepts rt i l l' \<longleftrightarrow>
     (case snd (execute rt l i) of Inr (l1, ret) \<Rightarrow> l' = l1 | Inl e \<Rightarrow> False)"

definition runs_program ::
    "'d packages \<Rightarrow> 'e runtime \<Rightarrow> 'w network \<Rightarrow> ('w \<Rightarrow> ledger) \<Rightarrow> bool" where
  "runs_program pk rt net ledger_of \<longleftrightarrow>
     (\<forall>ix i. ix_program_id ix = ID \<longrightarrow> received (sha256 pk) ix = Inr i \<longrightarrow>
        settles_batch net ledger_of [ix] (accepts rt i))"

lemma send_on_chain:
  assumes "runs_program pk rt net ledger_of" "ix_program_id ix = ID" "received (sha256 pk) ix = Inr i"
  shows "\<exists>r w'. io_bind (send_batch_instructions pk net [ix]) (\<lambda>_. io_ok ()) st = (r, st\<lparr>world := w'\<rparr>) \<and>
    settles (accepts rt i) ledger_of (world st) (r, w')"
  unfolding send_batch_instructions_def
  using assms by (intro send_batch_settles) (simp add: runs_program_def)

section \<open>A chain for the witnesses\<close>

text \<open>The world is the ledger itself; every transaction of one instruction is executed.\<close>

definition cli_chain :: "OraclePriceData \<Rightarrow> ledger network" where
  "cli_chain quote =
     \<lparr>latest_blockhash = (\<lambda>url l. (Some [1], l)),
      send_and_confirm = (\<lambda>url tx l. case tx_instructions tx of
          [ix] \<Rightarrow> (case received cli_sha ix of
              Inr i \<Rightarrow> (case snd (execute cli_runtime l i) of
                  Inr (l', ret) \<Rightarrow> (Inr ''sig'', l')
                | Inl e \<Rightarrow> (Inl (OtherClientError ''rejected''), l))
            | Inl e \<Rightarrow> (Inl (OtherClientError ''rejected''), l))
        | _ \<Rightarrow> (Inr ''sig'', l)),
      get_transaction = (\<lambda>url sig l. (None, l)),
      account_bytes = (\<lambda>url k l. (Some (account_image cli_sha (data (accounts l k))), l)),
      rent_exemption = (\<lambda>url n l. (Some 73000000000, l)),
      request_airdrop = (\<lambda>url k n l. (None, l)),
      http_get_price = (\<lambda>url l. (Some quote, l)),
      new_keypair = (\<lambda>l. (40, l)), sleep_secs = (\<lambda>n l. ((), l))\<rparr>"

lemma cli_chain_runs [simp]: "runs_program (cli_packages payer) cli_runtime (cli_chain quote) (\<lambda>l. l)"
  by (auto simp: runs_program_def settles_batch_def cli_chain_def settles_def accepts_def
      split: sum.splits prod.splits)

definition chain_session :: "(ledger, rat) session" where
  "chain_session = \<lparr>world = sample_ledger, printed = []\<rparr>"

section \<open>Administration\<close>

lemma admin_request_config:
  assumes "admin_request pk cmd = Some (program, i)" "load_payer_from_env pk = Inr payer"
  shows "\<exists>cfg config. admin_intent pk cfg program payer cmd = Some i \<and> load_config pk = Inr config"
  using assms
  by (auto simp: admin_request_def load_admin_config_def and_then_def split: sum.splits option.splits)

text \<open>
  C20: What an administrative command does to the stored system is the handler of the component,
  applied with the payer as the caller: the accounts the tool passes satisfy the program's checks,
  those of the two commands that set an authority when the payer is the recorded upgrade authority
  of the program.  If the handler rejects, the command fails and nothing changes; if it accepts, the
  ledger holds the handler's system afterwards, unless the transaction was lost and the command
  says so.
\<close>

theorem admin_command_executes:
  assumes "selector_laws (sha256 pk)" "administers cmd" "admin_request pk cmd = Some (ID, i)"
    and "load_payer_from_env pk = Inr payer" "runs_program pk rt net ledger_of" "runtime_laws rt"
    and "holds rt (ledger_of (world st)) s" "same_addresses pk rt"
    and "needs_upgrade_authority cmd \<Longrightarrow> is_upgrade_authority pk rt (ledger_of (world st)) payer"
  shows "case admin_handle pk net (Some cmd) st of (r, st') \<Rightarrow>
    printed st' = printed st \<and>
    (case admin_effect (clock_sysvar (ledger_of (world st))) s payer i of
       (es, Inr s') \<Rightarrow> holds rt (ledger_of (world st')) s' \<or>
         (\<exists>e. r = Inl e) \<and> ledger_of (world st') = ledger_of (world st)
     | (es, Inl e) \<Rightarrow> (\<exists>e. r = Inl e) \<and> ledger_of (world st') = ledger_of (world st))"
proof -
  let ?l = "ledger_of (world st)"
  obtain cfg where intent: "admin_intent pk cfg ID payer cmd = Some i"
    using admin_request_config [OF assms(3,4)] by blast
  obtain ix where ix: "admin_handle pk net (Some cmd) = io_bind (send_batch_instructions pk net [ix]) (\<lambda>_. io_ok ())"
      "ix_program_id ix = ID" "received (sha256 pk) ix = Inr i"
    using admin_command_answers [OF assms(1,2), of net] assms(3,4) by (auto simp: answers_def asks_def)
  obtain r w' where run: "admin_handle pk net (Some cmd) st = (r, st\<lparr>world := w'\<rparr>)"
      "settles (accepts rt i) ledger_of (world st) (r, w')"
    using send_on_chain [OF assms(5) ix(2,3), of st] by (auto simp: ix(1))
  have "executes_as rt ?l i (admin_effect (clock_sysvar ?l) s payer i)"
    using admin_intent_executes [OF assms(6-8) intent] assms(9) by blast
  then show ?thesis
    using run by (auto simp: executes_as_def settles_def accepts_def split: prod.splits sum.splits)
qed

theorem admin_command_executes_witness:
  "case admin_handle (cli_packages ''1'') (cli_chain (sample_quote 1 1)) (Some (ToggleSystemState False True))
      chain_session of (r, st') \<Rightarrow>
    holds cli_runtime (world st') (sample_system\<lparr>sys_state := sample_program_state\<lparr>is_halted := True\<rparr>\<rparr>) \<or>
    (\<exists>e. r = Inl e) \<and> world st' = sample_ledger"
proof -
  have "is_halted sample_program_state = False" "admin sample_program_state = 1"
    by (simp_all add: sample_program_state_def)
  then have effect: "\<exists>es. admin_effect sample_clock sample_system 1
      (ToggleSystemStateIx (toggle_accounts (cli_packages ''1'') ID 1) True) =
      (es, Inr (sample_system\<lparr>sys_state := sample_program_state\<lparr>is_halted := True\<rparr>\<rparr>))"
    by (simp add: process_system_state_def map_tx_def emit_def ok_def)
  have "selector_laws (sha256 (cli_packages ''1''))" "administers (ToggleSystemState False True)"
    "holds cli_runtime (world chain_session) sample_system"
    by (simp_all add: chain_session_def)
  from admin_command_executes [OF this(1,2) cli_halt_request cli_payers(1)
      cli_chain_runs [of "''1''" "sample_quote 1 1"] cli_runtime_laws
      this(3) cli_same_addresses] effect
  show ?thesis by (auto simp: chain_session_def split: prod.splits)
qed

end
