(* ===== verification/Cli_Input_Properties.thy ===== *)
theory Cli_Input_Properties
  imports Cli_Properties
begin

text \<open>
  What the tools read: the retries of the executor, the quoted price, amounts typed as decimals
  and the payer's key in the environment.
\<close>

section \<open>Retries\<close>

text \<open>An attempt to get the transaction: every attempt but the first waits before it asks.\<close>

definition attempt ::
    "'w network \<Rightarrow> Config \<Rightarrow> string \<Rightarrow> nat \<Rightarrow> 'w \<Rightarrow> TransactionStatus option \<times> 'w" where
  "attempt net config sig i w =
     get_transaction net (cfg_rpc_url config) sig (if i = 0 then w else snd (sleep_secs net RETRY_DELAY w))"

text \<open>The world before attempt \<open>i\<close>, and the answer of attempt \<open>i\<close>.\<close>

primrec before_attempt :: "'w network \<Rightarrow> Config \<Rightarrow> string \<Rightarrow> 'w \<Rightarrow> nat \<Rightarrow> 'w" where
  "before_attempt net config sig w 0 = w"
| "before_attempt net config sig w (Suc i) = snd (attempt net config sig i (before_attempt net config sig w i))"

definition answer_of :: "'w network \<Rightarrow> Config \<Rightarrow> string \<Rightarrow> 'w \<Rightarrow> nat \<Rightarrow> TransactionStatus option" where
  "answer_of net config sig w i = fst (attempt net config sig i (before_attempt net config sig w i))"

definition answered :: "'w network \<Rightarrow> Config \<Rightarrow> string \<Rightarrow> 'w \<Rightarrow> nat \<Rightarrow> bool" where
  "answered net config sig w i \<longleftrightarrow> answer_of net config sig w i \<noteq> None"

lemma io_try_chain: "io_try r (\<lambda>x. io_try (f x) io_ok) s = (and_then r f, s)"
  by (cases r; cases "f (projr r)") (simp_all add: io_try_def io_ok_def and_then_def)

lemma io_world_attempt:
  "io_world (if 0 < i then sleep_secs net RETRY_DELAY else Pair ()) (\<lambda>_.
     io_world (get_transaction net (cfg_rpc_url config) sig) f) s =
   f (fst (attempt net config sig i (world s))) (s\<lparr>world := snd (attempt net config sig i (world s))\<rparr>)"
  by (simp add: io_world_def attempt_def split: prod.splits)

lemma read_result_from:
  assumes "i \<le> RETRY_COUNT" "world s = before_attempt net config sig w i"
  shows "read_result pk net config sig de i s =
    (case find (answered net config sig w) [i..<RETRY_COUNT] of
       Some k \<Rightarrow> (and_then (extract_return_data pk (cfg_program_id config)
           (the (answer_of net config sig w k))) de,
         s\<lparr>world := before_attempt net config sig w (Suc k)\<rparr>)
     | None \<Rightarrow> (Inl (Message ''Deserialization error''),
         s\<lparr>world := before_attempt net config sig w RETRY_COUNT\<rparr>))"
  using assms
proof (induction "RETRY_COUNT - i" arbitrary: i s)
  case 0
  then show ?case by (subst read_result.simps) (simp add: io_fail_def)
next
  case (Suc n)
  then have i: "i < RETRY_COUNT" by simp
  then have range: "[i..<RETRY_COUNT] = i # [Suc i..<RETRY_COUNT]" by (simp add: upt_conv_Cons)
  have step: "read_result pk net config sig de i s =
      (case answer_of net config sig w i of
         Some status \<Rightarrow> io_try (extract_return_data pk (cfg_program_id config) status)
           (\<lambda>d. io_try (de d) io_ok)
       | None \<Rightarrow> read_result pk net config sig de (Suc i))
        (s\<lparr>world := before_attempt net config sig w (Suc i)\<rparr>)"
    by (subst read_result.simps) (simp add: i io_world_attempt Suc.prems(2) answer_of_def)
  show ?case
  proof (cases "answer_of net config sig w i")
    case None
    then show ?thesis
      using Suc.hyps(1) [of "Suc i" "s\<lparr>world := before_attempt net config sig w (Suc i)\<rparr>"] Suc.hyps(2) i
      by (simp add: step range answered_def del: before_attempt.simps split: option.splits)
  next
    case (Some status)
    then show ?thesis
      by (simp add: step range answered_def io_try_chain del: before_attempt.simps)
  qed
qed

text \<open>
  C26: Reading the result of a confirmed transaction ends after at most \<open>RETRY_COUNT\<close> attempts.  The
  first answered attempt decides: its return data is decoded, once, and no later attempt is made;
  if no attempt is answered, exactly \<open>RETRY_COUNT\<close> were made and the command fails.
\<close>

theorem read_result_attempts:
  "read_result pk net config sig de 0 s =
    (case find (answered net config sig (world s)) [0..<RETRY_COUNT] of
       Some k \<Rightarrow> (and_then (extract_return_data pk (cfg_program_id config)
           (the (answer_of net config sig (world s) k))) de,
         s\<lparr>world := before_attempt net config sig (world s) (Suc k)\<rparr>)
     | None \<Rightarrow> (Inl (Message ''Deserialization error''),
         s\<lparr>world := before_attempt net config sig (world s) RETRY_COUNT\<rparr>))"
  by (rule read_result_from) simp_all

section \<open>The quoted price\<close>

text \<open>
  The price query sends the oracle's answer to \<open>get_conversion_rate\<close> and shows the very price
  the program returns for it on the ledger it runs on, as a decimal of tokens: when the network
  executes the instruction the command sent, nothing changes and the line printed is the ask price
  over \<open>10 ^ 8\<close>.
\<close>

theorem price_query_reports:
  assumes "selector_laws (sha256 pk)" "load_user_config pk = Inr uc" "load_config pk = Inr config"
    and "load_payer_from_env pk = Inr payer" "pubkey_of_str pk (uc_program_id uc) = Some ID"
    and "http_get_price net (uc_price_oracle_end_point uc) (world st) = (Some p, w1)"
    and "ok_string (signature p)"
    and "runtime_laws rt" "holds rt l s" "same_addresses pk rt" "decimal_laws (cli_decimals pk) val"
    and "returns_data pk net config payer (get_price_instruction pk ID payer p) w1 ret w2"
    and "received (sha256 pk) (get_price_instruction pk ID payer p) = Inr i"
    and "execute rt l i = (es, Inr (l', ret))"
  shows "\<exists>price. ask_price rt (sys_configuration s) (sys_state s) (clock_sysvar l) p = Inr price \<and>
    l' = l \<and> es = [] \<and>
    get_price pk net st = (Inr (), st\<lparr>world := w2,
      printed := printed st @ [ConversionRateLine (in_tokens pk price)]\<rparr>) \<and>
    val (in_tokens pk price) = of_nat (unat price) / 10 ^ 8"
proof -
  let ?ix = "get_price_instruction pk ID payer p"
  have i: "i = GetConversionRateIx (quote_accounts pk ID payer) p"
    using assms(13) get_price_received [OF assms(1,7), of ID payer] by simp
  obtain price where price: "ask_price rt (sys_configuration s) (sys_state s) (clock_sysvar l) p = Inr price"
    "l' = l" "es = []" "ret = to_le_bytes price"
    using assms(14)
    by (auto simp: i get_conversion_rate_def quote_accounts_pass [OF assms(8-10)]
        process_get_conversion_rate_def try_tx_pair_Inr_iff tx_simps)
  have read: "u64_return_data ret = Inr price"
    by (simp add: u64_return_data_def price(4))
  have "filter meta_is_signer (ix_accounts ?ix) = [meta_new payer True]"
    by (simp add: get_price_instruction_def meta_new_def)
  then have sent: "send_instruction_with_return_data pk net u64_return_data ?ix (st\<lparr>world := w1\<rparr>) =
      (Inr price, st\<lparr>world := w2\<rparr>)"
    using send_with_return_data [where de = u64_return_data and s = "st\<lparr>world := w1\<rparr>",
        OF assms(4,3) _ _ read] assms(12) by simp
  have "get_price pk net st = (Inr (), st\<lparr>world := w2,
      printed := printed st @ [ConversionRateLine (in_tokens pk price)]\<rparr>)"
    by (simp add: get_price_def assms(2,4,5) pubkey_from_str_Inl io_simps fetch_oracle_price_def
        io_bind_def io_world_def assms(6) io_ok_def sent shown_amounts(3) [OF assms(11)] io_print_def)
  then show ?thesis using price shown_amounts(4) [OF assms(11)] by auto
qed

theorem price_query_reports_witness:
  "\<exists>ret. printed (snd (get_price (cli_packages ''5'') (cli_network ret (sample_quote 2000000000 1000))
      cli_session)) = [ConversionRateLine (1891000000 / 10 ^ 8)]"
proof -
  let ?pk = "cli_packages ''5''" and ?q = "sample_quote 2000000000 1000"
  let ?ret = "to_le_bytes (1891000000 :: u64)" and ?ix = "get_price_instruction (cli_packages ''5'') ID 5 ?q"
  let ?i = "GetConversionRateIx (quote_accounts ?pk ID 5) ?q"
  have price: "ask_price cli_runtime (sys_configuration sample_system) (sys_state sample_system)
      (clock_sysvar sample_ledger) ?q = Inr 1891000000"
    using decide_purchase_Inr(5) [OF sample_laws valid_sample_configuration] sample_decision
    by (fastforce simp: ask_price_def)
  have "price_maximum_age sample_configuration = 324" by (simp add: sample_configuration_def)
  then have run: "execute cli_runtime sample_ledger ?i = ([], Inr (sample_ledger, ?ret))"
    using price
    by (simp add: get_conversion_rate_def quote_accounts_pass [OF cli_runtime_laws cli_holds cli_same_addresses]
        process_get_conversion_rate_def ok_def)
  have inputs: "selector_laws (sha256 ?pk)" "pubkey_of_str ?pk (uc_program_id cli_user_config) = Some ID"
    "http_get_price (cli_network ?ret ?q) (uc_price_oracle_end_point cli_user_config) (world cli_session) =
      (Some ?q, ())"
    "decimal_laws (cli_decimals ?pk) (\<lambda>q. q)"
    by (simp_all add: cli_user_config_def rat_ops_laws)
  have sent: "returns_data ?pk (cli_network ?ret ?q) cli_config 5 ?ix () ?ret ()"
    by (rule cli_returns_data) (simp add: get_price_instruction_def meta_new_def)
  have got: "received (sha256 ?pk) ?ix = Inr ?i"
    by (rule get_price_received) simp_all
  note price_query_reports [OF inputs(1) cli_load_configs(2) cli_load_config cli_payers(2) inputs(2,3)
      quote_ok_string cli_runtime_laws cli_holds cli_same_addresses inputs(4) sent got run]
  then have "printed (snd (get_price ?pk (cli_network ?ret ?q) cli_session)) =
      [ConversionRateLine (1891000000 / 10 ^ 8)]"
    unfolding price by (auto simp: cli_session_def)
  then show ?thesis by blast
qed

section \<open>Amounts\<close>

lemma parse_units_floor:
  assumes "cli_decimal_laws pk val" "decimal_of_str pk t = Some d"
    and "unat units = 10 ^ e" "representable (val d * 10 ^ e)" "0 \<le> val d" "val d * 10 ^ e < 2 ^ 64"
  shows "\<exists>n. parse_units pk units msg t = Inr n \<and> of_nat (unat n) \<le> val d * 10 ^ e \<and>
    val d * 10 ^ e < of_nat (unat n) + 1"
proof -
  let ?f = "\<lfloor>val d * 10 ^ e\<rfloor>"
  have "0 \<le> ?f" using assms(5) by simp
  moreover have "?f < 2 ^ 64" using assms(6) by (simp add: floor_less_iff)
  ultimately have "int (unat (word_of_int ?f :: u64)) = ?f"
    by (simp add: unsigned_of_int take_bit_int_eq_self)
  then have "of_nat (unat (word_of_int ?f :: u64)) = (of_int ?f :: rat)"
    by (metis of_int_of_nat_eq)
  then show ?thesis
    using parse_units_cases(1) [OF assms(1-4), of msg] assms(5,6)
      of_int_floor_le [of "val d * 10 ^ e"] floor_correct [of "val d * 10 ^ e"]
    by (intro exI [of _ "word_of_int ?f"]) (simp del: of_int_floor_le)
qed

text \<open>
  C30: An amount typed in tokens or in SOL is read as the whole number of smallest units it holds,
  the fraction of a unit cut off; the command panics on an amount of one negative unit or more and
  on one of \<open>2 ^ 64\<close> units or more, so that no amount wraps around.
\<close>

theorem amounts_read:
  assumes "cli_decimal_laws pk val" "decimal_of_str pk t = Some d"
    and "representable (val d * 10 ^ 8)" "representable (val d * 10 ^ 9)"
  shows "(0 \<le> val d \<and> val d * 10 ^ 8 < 2 ^ 64 \<longrightarrow> (\<exists>n. parse_token_value pk t = Inr n \<and>
        val (in_tokens pk n) \<le> val d \<and> val d < val (in_tokens pk n) + 1 / 10 ^ 8)) \<and>
    (0 \<le> val d \<and> val d * 10 ^ 9 < 2 ^ 64 \<longrightarrow> (\<exists>n. parse_sol_value pk t = Inr n \<and>
        val (in_sol pk n) \<le> val d \<and> val d < val (in_sol pk n) + 1 / 10 ^ 9)) \<and>
    (val d * 10 ^ 8 \<le> - 1 \<or> 2 ^ 64 \<le> val d * 10 ^ 8 \<longrightarrow>
      parse_token_value pk t = Inl (CliPanic ''Token value overflow or conversion failed'')) \<and>
    (val d * 10 ^ 9 \<le> - 1 \<or> 2 ^ 64 \<le> val d * 10 ^ 9 \<longrightarrow>
      parse_sol_value pk t = Inl (CliPanic ''Sol value overflow or conversion failed''))"
proof -
  have laws: "decimal_laws (cli_decimals pk) val" using assms(1) by (simp add: cli_decimal_laws_def)
  have units: "unat TOKEN_UNITS_cli = 10 ^ 8" "unat LAMPORTS_PER_SOL = 10 ^ 9" by simp_all
  note shown = shown_amounts(2,4) [OF laws]
  have "\<exists>n. parse_token_value pk t = Inr n \<and> val (in_tokens pk n) \<le> val d \<and>
      val d < val (in_tokens pk n) + 1 / 10 ^ 8" if "0 \<le> val d" "val d * 10 ^ 8 < 2 ^ 64"
    using parse_units_floor [OF assms(1,2) units(1) assms(3) that]
    by (auto simp: parse_token_value_def shown field_simps)
  moreover have "\<exists>n. parse_sol_value pk t = Inr n \<and> val (in_sol pk n) \<le> val d \<and>
      val d < val (in_sol pk n) + 1 / 10 ^ 9" if "0 \<le> val d" "val d * 10 ^ 9 < 2 ^ 64"
    using parse_units_floor [OF assms(1,2) units(2) assms(4) that]
    by (auto simp: parse_sol_value_def shown field_simps)
  ultimately show ?thesis
    using parse_units_cases(2) [OF assms(1,2) units(1) assms(3)]
      parse_units_cases(2) [OF assms(1,2) units(2) assms(4)]
    by (simp add: parse_token_value_def parse_sol_value_def)
qed

theorem amounts_read_witness:
  "(\<exists>n. parse_token_value (cli_packages ''1'') ''0.123456789'' = Inr n \<and>
      in_tokens (cli_packages ''1'') n \<le> 123456789 / 10 ^ 9 \<and>
      123456789 / 10 ^ 9 < in_tokens (cli_packages ''1'') n + 1 / 10 ^ 8) \<and>
    (\<exists>n. parse_sol_value (cli_packages ''1'') ''0.123456789'' = Inr n)"
proof -
  have d: "decimal_of_str (cli_packages ''1'') ''0.123456789'' = Some (123456789 / 10 ^ 9)"
    by (simp add: cli_decimal_def)
  have "representable (123456789 / 10 ^ 1)" "representable (of_nat 123456789 / 10 ^ 0)"
    using representable_nat_frac [of 123456789 1] representable_nat_frac [of 123456789 0] by simp_all
  then have "representable (123456789 / 10 ^ 9 * 10 ^ 8)" "representable (123456789 / 10 ^ 9 * 10 ^ 9)"
    by simp_all
  from amounts_read [OF cli_decimal_laws d this] show ?thesis by auto
qed

text \<open>
  C31: The decimal a tool shows for an amount, typed in again, is read as that amount, for tokens
  and for SOL.
\<close>

theorem amounts_round_trip:
  assumes "cli_decimal_laws pk val" "decimal_of_str pk t = Some d"
  shows "(val d = val (in_tokens pk n) \<longrightarrow> parse_token_value pk t = Inr n) \<and>
    (val d = val (in_sol pk n) \<longrightarrow> parse_sol_value pk t = Inr n)"
proof -
  have laws: "decimal_laws (cli_decimals pk) val" using assms(1) by (simp add: cli_decimal_laws_def)
  have parse: "parse_units pk units msg t = Inr n"
    if "val d = of_nat (unat n) / 10 ^ e" "unat units = 10 ^ e" for units msg e
  proof -
    have scaled: "val d * 10 ^ e = of_nat (unat n)" using that(1) by simp
    have "representable (of_nat (unat n))"
      using representable_nat_frac [of "unat n" 0] u64_bound [of n] by simp
    moreover have "0 \<le> val d"
      unfolding that(1) by (intro divide_nonneg_nonneg of_nat_0_le_iff) simp
    moreover have "(of_nat (unat n) :: rat) < of_nat (2 ^ 64)"
      unfolding of_nat_less_iff by (rule u64_bound)
    ultimately have "parse_units pk units msg t = Inr (word_of_int \<lfloor>val d * 10 ^ e\<rfloor>)"
      using parse_units_cases(1) [OF assms that(2), of msg] scaled that(1) by simp
    then show ?thesis by (simp only: scaled floor_of_nat) simp
  qed
  show ?thesis
    using parse [of 8 TOKEN_UNITS_cli] parse [of 9 LAMPORTS_PER_SOL]
    by (simp add: parse_token_value_def parse_sol_value_def shown_amounts(2,4) [OF laws])
qed

theorem amounts_round_trip_witness:
  "in_tokens (cli_packages ''1'') 2000000000 = 20 \<and> parse_token_value (cli_packages ''1'') ''20'' = Inr 2000000000"
proof -
  have d: "decimal_of_str (cli_packages ''1'') ''20'' = Some 20"
    by (simp add: cli_decimal_def is_digit_def read_nat_def digit_val_def)
  have "in_tokens (cli_packages ''1'') 2000000000 = 20"
    using shown_amounts(4) [of "cli_packages ''1''" "\<lambda>q. q" 2000000000] rat_ops_laws by simp
  then show ?thesis
    using amounts_round_trip [OF cli_decimal_laws d, of 2000000000] by simp
qed

section \<open>The payer's key\<close>

fun comma_separated :: "string list \<Rightarrow> string" where
  "comma_separated [] = []"
| "comma_separated [p] = p"
| "comma_separated (p # q # ps) = p @ CHR '','' # comma_separated (q # ps)"

lemma split_no_comma: "CHR '','' \<notin> set p \<Longrightarrow> split_commas p = [p]"
  by (induction p) auto

lemma split_append: "CHR '','' \<notin> set p \<Longrightarrow> split_commas (p @ CHR '','' # s) = p # split_commas s"
  by (induction p) auto

lemma split_comma_separated:
  "ps \<noteq> [] \<Longrightarrow> \<forall>p \<in> set ps. CHR '','' \<notin> set p \<Longrightarrow> split_commas (comma_separated ps) = ps"
  by (induction ps rule: comma_separated.induct) (simp_all add: split_no_comma split_append)

lemma digit_not_white: "is_digit c \<Longrightarrow> \<not> white_space c"
  by (simp add: is_digit_def white_space_def Let_def)

lemma trim_padded:
  assumes "list_all white_space a" "list_all white_space b" "list_all is_digit p" "p \<noteq> []"
  shows "trim (a @ p @ b) = p"
proof -
  have front: "dropWhile white_space (x @ y) = y"
    if "list_all white_space x" "y \<noteq> []" "\<not> white_space (hd y)" for x y
    using that by (induction x) (simp_all add: dropWhile_eq_self_iff)
  have "is_digit (hd p)" "is_digit (last p)"
    using assms(3,4) by (simp_all add: list_all_iff)
  then have "dropWhile white_space (a @ p @ b) = p @ b"
    "dropWhile white_space (rev b @ rev p) = rev p"
    using assms(1,2,4) front [of a "p @ b"] front [of "rev b" "rev p"]
    by (simp_all add: digit_not_white hd_rev list_all_iff)
  then show ?thesis by (simp add: trim_def)
qed

lemma parse_digits_read:
  assumes "list_all is_digit s" "n \<le> 255"
  shows "parse_digits n s =
    (let m = foldl (\<lambda>n c. 10 * n + digit_val c) n s in if m \<le> 255 then Some m else None)"
  using assms
proof (induction s arbitrary: n)
  case (Cons c s)
  have "k \<le> foldl (\<lambda>n c. 10 * n + digit_val c) k s" for k :: nat
  proof (induction s arbitrary: k)
    case (Cons c s)
    show ?case using Cons [of "10 * k + digit_val c"] by simp
  qed simp
  then show ?case
    using Cons.IH [of "10 * n + digit_val c"] Cons.prems order.trans
    by (fastforce simp: Let_def)
qed simp

lemma parse_u8_show:
  "parse_u8 (show_nat n) = (if n < 256 then Some (word_of_nat n) else None)"
proof -
  obtain c s where s: "show_nat n = c # s" by (cases "show_nat n") simp_all
  then have digits: "list_all is_digit (c # s)" using show_nat_digits [of n] by simp
  then have "c \<noteq> CHR ''+''" by (auto simp: is_digit_def)
  moreover have "parse_digits 0 (c # s) = (if n \<le> 255 then Some n else None)"
    using parse_digits_read [OF digits, of 0] read_show_nat [of n] by (simp add: s read_nat_def)
  ultimately show ?thesis by (simp add: parse_u8_def s del: parse_digits.simps)
qed

lemma show_nat_no_comma: "list_all white_space a \<Longrightarrow> list_all white_space b \<Longrightarrow>
  CHR '','' \<notin> set (a @ show_nat n @ b)"
  using show_nat_digits [of n] by (auto simp: list_all_iff is_digit_def white_space_def Let_def)

text \<open>A number with the white space around it.\<close>

definition padded :: "string \<times> nat \<times> string \<Rightarrow> string" where
  "padded p = fst p @ show_nat (fst (snd p)) @ snd (snd p)"

definition white_padding :: "string \<times> nat \<times> string \<Rightarrow> bool" where
  "white_padding p \<longleftrightarrow> list_all white_space (fst p) \<and> list_all white_space (snd (snd p))"

lemma parse_bytes_padded:
  assumes "\<forall>p \<in> set ps. white_padding p"
  shows "parse_bytes (map padded ps) =
    (case find (\<lambda>p. 256 \<le> fst (snd p)) ps of
       Some p \<Rightarrow> Inl (ByteParseError (padded p))
     | None \<Rightarrow> Inr (map (\<lambda>p. word_of_nat (fst (snd p))) ps))"
  using assms
proof (induction ps)
  case (Cons p ps)
  then have "trim (padded p) = show_nat (fst (snd p))"
    by (simp add: padded_def white_padding_def trim_padded show_nat_digits)
  then show ?case using Cons by (simp add: parse_u8_show split: option.splits)
qed simp

text \<open>
  The payer's key is read from the environment as it is written there: numbers separated by
  commas, with white space around them allowed.  The bytes are the numbers in order, and the first
  number that is no byte is reported; none is reduced modulo 256.
\<close>

theorem private_key_read:
  assumes "env_var pk PRIVATE_KEY_ENV_VAR = Some (comma_separated (map padded ps))"
    and "ps \<noteq> []" "\<forall>p \<in> set ps. white_padding p"
  shows "load_private_key pk =
    (case find (\<lambda>p. 256 \<le> fst (snd p)) ps of
       Some p \<Rightarrow> Inl (ByteParseError (padded p))
     | None \<Rightarrow> Inr (map (\<lambda>p. word_of_nat (fst (snd p))) ps))"
proof -
  have "\<forall>q \<in> set (map padded ps). CHR '','' \<notin> set q"
    using assms(3) show_nat_no_comma by (fastforce simp: padded_def white_padding_def)
  then have "split_commas (comma_separated (map padded ps)) = map padded ps"
    using assms(2) by (intro split_comma_separated) simp_all
  then show ?thesis by (simp add: load_private_key_def assms(1) parse_bytes_padded [OF assms(3)])
qed

lemma digit_chars:
  "digit_char 0 = CHR ''0''" "digit_char 1 = CHR ''1''" "digit_char 2 = CHR ''2''" "digit_char 5 = CHR ''5''"
  by (simp_all add: digit_char_def char_of_eq_iff)

theorem private_key_read_witness:
  "load_private_key (cli_packages '' 1,255 ,20'') = Inr [1, 255, 20]"
proof -
  let ?ps = "[('' '', 1, []), ([], 255, '' ''), ([], 20, [])] :: (string \<times> nat \<times> string) list"
  have "env_var (cli_packages '' 1,255 ,20'') PRIVATE_KEY_ENV_VAR = Some (comma_separated (map padded ?ps))"
    by (simp add: padded_def show_nat.simps digit_chars digit_chars(2) [simplified])
  moreover have "\<forall>p \<in> set ?ps. white_padding p" by (simp add: white_padding_def white_space_def)
  ultimately show ?thesis
    using private_key_read [of "cli_packages '' 1,255 ,20''" ?ps] by simp
qed

end
