(* ===== verification/Cli_Results.thy ===== *)
theory Cli_Results
  imports Cli_Executions Cli_Input_Properties
begin

text \<open>
  The commands that do more than send one instruction to the converter, on a network that runs the
  programs: the two that read the result of their transaction (the integrators' dequeue and the
  price query), the initialisation with its account creation, and the commands for the mock
  program.
\<close>

section \<open>A network that keeps the results\<close>

text \<open>
  \<open>recorded w sig ret\<close> says that the world keeps the data \<open>ret\<close> a transaction returned under its
  signature.  A confirmed transaction is recorded; asking for it gives no answer or the program's
  return data, and neither asking nor waiting changes the ledger or the record.
\<close>

definition keeps_record ::
    "('w \<Rightarrow> ledger) \<Rightarrow> ('w \<Rightarrow> string \<Rightarrow> u8 list \<Rightarrow> bool) \<Rightarrow> 'w \<Rightarrow> 'w \<Rightarrow> bool" where
  "keeps_record ledger_of recorded w w' \<longleftrightarrow> ledger_of w' = ledger_of w \<and>
     (\<forall>sig ret. recorded w sig ret \<longrightarrow> recorded w' sig ret)"

definition tells_result :: "'d packages \<Rightarrow> string \<Rightarrow> u8 list \<Rightarrow> TransactionStatus option \<Rightarrow> bool" where
  "tells_result pk program ret answer \<longleftrightarrow> answer = None \<or>
     (\<exists>d. answer = Some (Some (Some \<lparr>rd_program_id = program, rd_data = d\<rparr>)) \<and>
       base64_standard pk d = Some ret)"

definition records_results ::
    "'d packages \<Rightarrow> string \<Rightarrow> 'e runtime \<Rightarrow> 'w network \<Rightarrow> ('w \<Rightarrow> ledger) \<Rightarrow>
     ('w \<Rightarrow> string \<Rightarrow> u8 list \<Rightarrow> bool) \<Rightarrow> bool" where
  "records_results pk program rt net ledger_of recorded \<longleftrightarrow>
     (\<forall>n w. keeps_record ledger_of recorded w (snd (sleep_secs net n w))) \<and>
     (\<forall>url sig w. keeps_record ledger_of recorded w (snd (get_transaction net url sig w))) \<and>
     (\<forall>url sig w ret. recorded w sig ret \<longrightarrow>
        tells_result pk program ret (fst (get_transaction net url sig w))) \<and>
     (\<forall>url tx w ix i es l' ret sig w'.
        tx_instructions tx = [ix] \<longrightarrow> ix_program_id ix = ID \<longrightarrow> received (sha256 pk) ix = Inr i \<longrightarrow>
        execute rt (ledger_of w) i = (es, Inr (l', ret)) \<longrightarrow>
        send_and_confirm net url tx w = (Inr sig, w') \<longrightarrow> recorded w' sig ret)"

lemma records_resultsD:
  assumes "records_results pk program rt net ledger_of recorded"
  shows "sleep_secs net n w = (u, w') \<Longrightarrow> keeps_record ledger_of recorded w w'"
    "get_transaction net url sig w = (answer, w') \<Longrightarrow> keeps_record ledger_of recorded w w'"
    "get_transaction net url sig w = (answer, w') \<Longrightarrow> recorded w sig ret \<Longrightarrow>
       tells_result pk program ret answer"
  using assms unfolding records_results_def by (metis snd_conv, metis snd_conv, metis fst_conv)

text \<open>Reading a recorded result gives the result or an error, and changes nothing.\<close>

lemma read_result_recorded:
  assumes "records_results pk (cfg_program_id config) rt net ledger_of recorded" "de ret = Inr v"
    and "recorded (world s) sig ret"
  shows "\<exists>r w'. read_result pk net config sig de i s = (r, s\<lparr>world := w'\<rparr>) \<and>
    ledger_of w' = ledger_of (world s) \<and> (r = Inr v \<or> (\<exists>e. r = Inl e))"
  using assms(3)
proof (induction "RETRY_COUNT - i" arbitrary: i s)
  case 0
  then show ?case
    by (intro exI [of _ "Inl (Message ''Deserialization error'')"] exI [of _ "world s"])
      (simp add: read_result.simps io_fail_def)
next
  case (Suc n)
  have less: "i < RETRY_COUNT" using Suc.hyps(2) by linarith
  obtain w1 where w1: "(if 0 < i then sleep_secs net RETRY_DELAY else Pair ()) (world s) = ((), w1)"
    by (metis old.unit.exhaust surj_pair)
  have kept1: "keeps_record ledger_of recorded (world s) w1"
    using w1 records_resultsD(1) [OF assms(1)] by (auto simp: keeps_record_def split: if_splits)
  obtain answer w2 where w2: "get_transaction net (cfg_rpc_url config) sig w1 = (answer, w2)" by force
  note kept2 = records_resultsD(2) [OF assms(1) w2]
  have here: "recorded w1 sig ret" "recorded w2 sig ret" "ledger_of w2 = ledger_of (world s)"
    using kept1 kept2 Suc.prems by (auto simp: keeps_record_def)
  have step: "read_result pk net config sig de i s =
      (case answer of
         Some tx_status \<Rightarrow> io_try (extract_return_data pk (cfg_program_id config) tx_status)
           (\<lambda>return_data. io_try (de return_data) io_ok)
       | None \<Rightarrow> read_result pk net config sig de (Suc i)) (s\<lparr>world := w2\<rparr>)"
    using less by (simp add: read_result.simps [of pk net config sig de i] io_world_def w1 w2)
  show ?case
  proof (cases answer)
    case None
    then show ?thesis
      using Suc.hyps(1) [of "Suc i" "s\<lparr>world := w2\<rparr>"] Suc.hyps(2) here step by auto
  next
    case (Some status)
    then have "extract_return_data pk (cfg_program_id config) status = Inr ret"
      using records_resultsD(3) [OF assms(1) w2 here(1)]
      by (auto simp: tells_result_def extract_return_data_def)
    then show ?thesis
      using step here(3) Some assms(2)
      by (intro exI [of _ "Inr v"] exI [of _ w2]) (simp add: io_try_def io_ok_def)
  qed
qed

text \<open>What a command that asks for a result can see: the result, or an error.\<close>

definition answered ::
    "'e runtime \<Rightarrow> ('w \<Rightarrow> ledger) \<Rightarrow> (u8 list \<Rightarrow> cli_error + 'a) \<Rightarrow> instruction \<Rightarrow> 'w \<Rightarrow>
     (cli_error + 'a) \<times> 'w \<Rightarrow> bool" where
  "answered rt ledger_of de i w answer \<longleftrightarrow>
     (case (snd (execute rt (ledger_of w) i), answer) of
        (Inr (l', ret), (r, w')) \<Rightarrow>
          r = de ret \<and> ledger_of w' = l' \<or> (\<exists>e. r = Inl e) \<and> ledger_of w' \<in> {ledger_of w, l'}
      | (Inl e, (r, w')) \<Rightarrow> (\<exists>e. r = Inl e) \<and> ledger_of w' = ledger_of w)"

lemma send_for_result:
  assumes "runs_program pk rt net ledger_of"
    and "records_results pk (cfg_program_id config) rt net ledger_of recorded"
    and "load_payer_from_env pk = Inr payer" "load_config pk = Inr config"
    and "filter meta_is_signer (ix_accounts ix) = [meta_new payer True]"
    and "ix_program_id ix = ID" "received (sha256 pk) ix = Inr i"
    and "\<And>es l' ret. execute rt (ledger_of (world s)) i = (es, Inr (l', ret)) \<Longrightarrow> \<exists>v. de ret = Inr v"
  shows "\<exists>r w'. send_instruction_with_return_data pk net de ix s = (r, s\<lparr>world := w'\<rparr>) \<and>
    answered rt ledger_of de i (world s) (r, w')"
proof -
  let ?url = "cfg_rpc_url config" and ?w = "world s"
  have batch: "settles_batch net ledger_of [ix] (accepts rt i)"
    using assms(1,6,7) by (simp add: runs_program_def)
  obtain b w1 where b: "latest_blockhash net ?url ?w = (b, w1)" by force
  have same: "ledger_of w1 = ledger_of ?w"
    using batch b unfolding settles_batch_def by (metis snd_conv)
  note run = send_instruction_with_return_data_def load_config_or_def assms(3,4) io_simps io_world_def b
  have lost: "answered rt ledger_of de i ?w (Inl e, w')" if "ledger_of w' = ledger_of ?w" for e w'
    using that by (simp add: answered_def split: sum.splits prod.splits)
  show ?thesis
  proof (cases b)
    case None
    then show ?thesis
      using same lost
      by (intro exI [of _ "Inl (Message ''Error when getting latest block hash'')"] exI [of _ w1])
        (simp add: run io_fail_def)
  next
    case (Some bh)
    let ?tx = "\<lparr>tx_instructions = [ix], tx_payer = payer, tx_signers = [payer], tx_blockhash = bh\<rparr>"
    obtain r w2 where r: "send_and_confirm net ?url ?tx w1 = (r, w2)" by force
    have settled: "settles (accepts rt i) ledger_of w1 (r, w2)"
      using batch r unfolding settles_batch_def by (metis Transaction.select_convs(1))
    have sent: "send_instruction_with_return_data pk net de ix s =
        (case r of Inl e \<Rightarrow> io_fail (handle_error e) | Inr sig \<Rightarrow> read_result pk net config sig de 0)
          (s\<lparr>world := w2\<rparr>)"
      by (simp add: run Some r new_signed_single [OF assms(5)])
    show ?thesis
    proof (cases r)
      case (Inl e)
      then have "answered rt ledger_of de i ?w (Inl (handle_error e), w2)"
        using settled same
        by (auto simp: answered_def settles_def accepts_def split: sum.splits prod.splits)
      then show ?thesis
        using sent Inl by (intro exI [of _ "Inl (handle_error e)"] exI [of _ w2]) (simp add: io_fail_def)
    next
      case (Inr sig)
      then obtain l' ret es where ex: "execute rt (ledger_of ?w) i = (es, Inr (l', ret))"
          and l': "ledger_of w2 = l'"
        using settled same
        by (cases "execute rt (ledger_of ?w) i")
          (auto simp: settles_def accepts_def split: sum.splits prod.splits)
      have rec: "recorded w2 sig ret"
        using assms(2,6,7) ex r same Inr unfolding records_results_def
        by (metis Transaction.select_convs(1))
      obtain v where v: "de ret = Inr v" using assms(8) ex by blast
      obtain r' w' where out: "read_result pk net config sig de 0 (s\<lparr>world := w2\<rparr>) = (r', s\<lparr>world := w'\<rparr>)"
        "ledger_of w' = ledger_of w2" "r' = Inr v \<or> (\<exists>e. r' = Inl e)"
        using read_result_recorded [where de = de and recorded = recorded and s = "s\<lparr>world := w2\<rparr>",
            OF assms(2) v, of sig 0] rec by auto
      then have "answered rt ledger_of de i ?w (r', w')"
        using ex l' v by (auto simp: answered_def)
      then show ?thesis using sent Inr out(1) by (intro exI [of _ r'] exI [of _ w']) simp
    qed
  qed
qed

section \<open>A network that creates accounts\<close>

text \<open>
  Creating an account, as the system program documents it: the address must be free; it gets the
  given owner and zeroed space, and nothing else but lamports changes.
\<close>

definition account_created :: "pubkey \<Rightarrow> nat \<Rightarrow> ledger \<Rightarrow> ledger \<Rightarrow> bool" where
  "account_created k n l l' \<longleftrightarrow>
     owner (accounts l k) = SYSTEM_PROGRAM_ID \<and> clock_sysvar l' = clock_sysvar l \<and>
     owner (accounts l' k) = ID \<and> data (accounts l' k) = Zeroed n \<and>
     (\<forall>k'. k' \<noteq> k \<longrightarrow> owner (accounts l' k') = owner (accounts l k') \<and>
        data (accounts l' k') = data (accounts l k'))"

lemma uninitialised_created:
  "uninitialised l \<Longrightarrow> account_created k n l l' \<Longrightarrow> uninitialised l'"
  unfolding uninitialised_def account_created_def by (metis blank_simps(2))

text \<open>The transaction of two instructions settles as a whole.\<close>

definition runs_creation ::
    "'d packages \<Rightarrow> 'e runtime \<Rightarrow> 'w network \<Rightarrow> ('w \<Rightarrow> ledger) \<Rightarrow> bool" where
  "runs_creation pk rt net ledger_of \<longleftrightarrow>
     (\<forall>payer k rent space ix i. ix_program_id ix = ID \<longrightarrow> received (sha256 pk) ix = Inr i \<longrightarrow>
        settles_batch net ledger_of [create_account_ix pk payer k rent space ID, ix]
          (\<lambda>l l'. \<exists>l1. account_created k (unat space) l l1 \<and> accepts rt i l1 l'))"

section \<open>A chain for the witnesses\<close>

text \<open>
  The world is the ledger and the return data of the last transaction.  Transactions of one
  instruction, and of an account creation followed by one, are executed for the converter; others
  are rejected.
\<close>

definition node_rejects :: "'w \<Rightarrow> (client_error + string) \<times> 'w" where
  "node_rejects w = (Inl (OtherClientError ''rejected''), w)"

definition node_executes ::
    "ledger \<Rightarrow> Instruction \<Rightarrow> ledger \<times> u8 list \<Rightarrow> (client_error + string) \<times> ledger \<times> u8 list" where
  "node_executes l ix w =
     (if ix_program_id ix \<noteq> ID then node_rejects w
      else case received cli_sha ix of
        Inl e \<Rightarrow> node_rejects w
      | Inr i \<Rightarrow>
          (case snd (execute cli_runtime l i) of
             Inr (l', ret) \<Rightarrow> (Inr ''sig'', l', ret)
           | Inl e \<Rightarrow> node_rejects w))"

definition node_creates :: "Instruction \<Rightarrow> ledger \<Rightarrow> ledger option" where
  "node_creates c l =
     (case (ix_accounts c, from_le_bytes (ix_data c)) of
        ([p, a], Some space) \<Rightarrow>
          (if owner (accounts l (meta_pubkey a)) = SYSTEM_PROGRAM_ID
           then Some (l\<lparr>accounts := (accounts l)(meta_pubkey a := (accounts l (meta_pubkey a))
             \<lparr>owner := ID, data := Zeroed (unat (space :: u64))\<rparr>)\<rparr>)
           else None)
      | _ \<Rightarrow> None)"

definition cli_node :: "OraclePriceData \<Rightarrow> (ledger \<times> u8 list) network" where
  "cli_node quote =
     \<lparr>latest_blockhash = (\<lambda>url w. (Some [1], w)),
      send_and_confirm = (\<lambda>url tx w. case tx_instructions tx of
          [ix] \<Rightarrow> node_executes (fst w) ix w
        | [c, ix] \<Rightarrow> (case node_creates c (fst w) of
            Some l1 \<Rightarrow> node_executes l1 ix w | None \<Rightarrow> node_rejects w)
        | _ \<Rightarrow> node_rejects w),
      get_transaction = (\<lambda>url sig w. (Some (Some (Some
        \<lparr>rd_program_id = ''program'', rd_data = string_of_bytes (snd w)\<rparr>)), w)),
      account_bytes = (\<lambda>url k w. (Some (account_image cli_sha (data (accounts (fst w) k))), w)),
      rent_exemption = (\<lambda>url n w. (Some 73000000000, w)),
      request_airdrop = (\<lambda>url k n w. (None, w)),
      http_get_price = (\<lambda>url w. (Some quote, w)),
      new_keypair = (\<lambda>w. (40, w)), sleep_secs = (\<lambda>n w. ((), w))\<rparr>"

lemma node_executes_settles:
  "ix_program_id ix = ID \<Longrightarrow> received cli_sha ix = Inr i \<Longrightarrow>
     case node_executes l ix w of (r, w') \<Rightarrow>
       accepts cli_runtime i l (fst w') \<or> (\<exists>e. r = Inl e) \<and> fst w' = fst w"
  by (auto simp: node_executes_def node_rejects_def accepts_def split: sum.splits prod.splits)

lemma node_creates_created:
  "node_creates (create_account_ix (cli_packages p) payer k rent space ID) l = Some l1 \<Longrightarrow>
     account_created k (unat space) l l1"
  by (auto simp: node_creates_def cli_packages_def meta_new_def account_created_def split: if_splits)

lemma cli_node_runs [simp]:
  "runs_program (cli_packages p) cli_runtime (cli_node quote) fst"
  "runs_creation (cli_packages p) cli_runtime (cli_node quote) fst"
  using node_executes_settles node_creates_created
  by (fastforce simp: runs_program_def runs_creation_def settles_batch_def settles_def cli_node_def
      node_rejects_def split: prod.splits option.splits)+

lemma cli_node_records [simp]:
  "records_results (cli_packages p) ''program'' cli_runtime (cli_node quote) fst (\<lambda>w sig ret. snd w = ret)"
  by (auto simp: records_results_def keeps_record_def tells_result_def cli_node_def
      node_executes_def node_rejects_def split: if_splits sum.splits)

definition node_session :: "ledger \<Rightarrow> (ledger \<times> u8 list, rat) session" where
  "node_session l = \<lparr>world = (l, []), printed = []\<rparr>"

lemma node_session_simps [simp]: "world (node_session l) = (l, [])" "printed (node_session l) = []"
  by (simp_all add: node_session_def)

lemma cli_node_simps [simp]:
  "account_bytes (cli_node quote) url k w = (Some (account_image cli_sha (data (accounts (fst w) k))), w)"
  "http_get_price (cli_node quote) url w = (Some quote, w)"
  "new_keypair (cli_node quote) w = (40, w)"
  "rent_exemption (cli_node quote) url n w = (Some 73000000000, w)"
  by (simp_all add: cli_node_def)

section \<open>Taking fills\<close>

text \<open>
  C22: On a network that runs the program the integrators' command is the dequeue itself, with the
  payer as the caller.  A dequeue the program rejects is reported as an error and changes nothing.
  Of an accepted one the command prints exactly the amounts the list specification takes from the
  stored backlog, and the ledger stores what is left; it fails only when the transaction is lost
  or its result cannot be read, and then prints nothing.
\<close>

theorem dequeue_command_executes:
  assumes "selector_laws (sha256 pk)" "load_config pk = Inr config" "load_payer_from_env pk = Inr payer"
    and "pubkey_of_str pk (cfg_program_id config) = Some ID"
    and "parse_sol_value pk amount = Inr m"
    and "account_bytes net (cfg_rpc_url config) (pda pk PROGRAM_STATE ID) (world st) = (Some bytes, w1)"
    and "stored_bytes (sha256 pk) (ProgramStateData (sys_state s)) bytes"
    and "runs_program pk rt net ledger_of"
    and "records_results pk (cfg_program_id config) rt net ledger_of recorded"
    and "runtime_laws rt" "holds rt (ledger_of w1) s" "valid_system s" "same_addresses pk rt"
    and "decimal_laws (cli_decimals pk) val"
  shows "case dequeue_fills_cmd pk net amount st of (r, st') \<Rightarrow>
    (case process_dequeue_fills (Inr (clock_sysvar (ledger_of w1))) payer (sys_configuration s)
        (sys_fills s) m of
       (es, Inr (f, d)) \<Rightarrow>
         take_fills (unat m) (backlog (sys_fills s)) =
           (unat (sol_dequeued d), unat (token_2z_dequeued d), unat (fills_consumed d), backlog f) \<and>
         (r = Inr () \<and> holds rt (ledger_of (world st')) (s\<lparr>sys_fills := f\<rparr>) \<and>
          printed st' = printed st @
            [DequeuedLine (in_sol pk (sol_dequeued d)) (token_2z_dequeued d) (fills_consumed d)] \<and>
          val (in_sol pk (sol_dequeued d)) = of_nat (unat (sol_dequeued d)) / 10 ^ 9 \<or>
          (\<exists>e. r = Inl e) \<and> printed st' = printed st \<and>
          (ledger_of (world st') = ledger_of w1 \<or>
           holds rt (ledger_of (world st')) (s\<lparr>sys_fills := f\<rparr>)))
     | (es, Inl e) \<Rightarrow>
         (\<exists>e. r = Inl e) \<and> printed st' = printed st \<and> ledger_of (world st') = ledger_of w1)"
proof -
  let ?fills = "fills_registry_address (sys_state s)" and ?l = "ledger_of w1"
  let ?ix = "dequeue_fills_instruction pk ID ?fills payer m"
  let ?i = "DequeueFillsIx (dequeue_accounts pk ID ?fills payer) m"
  let ?run = "process_dequeue_fills (Inr (clock_sysvar ?l)) payer (sys_configuration s) (sys_fills s) m"
  have pass: "validate_DequeueFills rt ?l (dequeue_accounts pk ID ?fills payer) =
      Inr (payer, sys_configuration s, sys_fills s)"
    by (rule dequeue_accounts_pass [OF assms(10,11,13)])
  have ex: "execute rt ?l ?i = map_tx (\<lambda>(f, d). (set_data ?fills (FillsData f) ?l,
      encode_DequeueFillsResult d)) ?run"
    by (simp add: dequeue_fills_def pass) (simp add: dequeue_accounts_def)
  have read: "DequeueFillsResult_try_deserialize (encode_DequeueFillsResult d) = Inr d" for d
    using dequeue_result_codec.get_put_only [of d]
    by (simp add: DequeueFillsResult_try_deserialize_def borsh_prefix_def get_DequeueFillsResult_def)
  have address: "get_fills_registry_address pk net ID (cfg_rpc_url config) st =
      (Inr ?fills, st\<lparr>world := w1\<rparr>)"
    using get_fills_registry_address_run [OF _ assms(6,7)] assms(1) by simp
  have metas: "filter meta_is_signer (ix_accounts ?ix) = [meta_new payer True]" "ix_program_id ?ix = ID"
    by (simp_all add: dequeue_fills_instruction_def meta_new_def)
  have "\<exists>v. DequeueFillsResult_try_deserialize ret = Inr v"
    if "execute rt ?l ?i = (es, Inr (l', ret))" for es l' ret
    using that read unfolding ex by (auto simp: map_tx_Inr_iff)
  then obtain r w' where sent: "send_instruction_with_return_data pk net DequeueFillsResult_try_deserialize
      ?ix (st\<lparr>world := w1\<rparr>) = (r, st\<lparr>world := w'\<rparr>)"
    "answered rt ledger_of DequeueFillsResult_try_deserialize ?i w1 (r, w')"
    using send_for_result [where de = DequeueFillsResult_try_deserialize and s = "st\<lparr>world := w1\<rparr>",
        OF assms(8,9,3,2) metas dequeue_fills_received [OF assms(1)]] by auto
  have cmd: "dequeue_fills_cmd pk net amount st =
      (case r of Inl e \<Rightarrow> (Inl e, st\<lparr>world := w'\<rparr>)
       | Inr d \<Rightarrow> (Inr (), st\<lparr>world := w', printed := printed st @
           [DequeuedLine (in_sol pk (sol_dequeued d)) (token_2z_dequeued d) (fills_consumed d)]\<rparr>))"
    by (cases r) (simp_all add: dequeue_fills_cmd_def assms(2-5) pubkey_from_str_Inl io_simps io_bind_def
        address sent(1) shown_amounts(1) [OF assms(14)] io_print_def)
  have inv: "registry_inv (sys_fills s)" using assms(12) by (simp add: valid_system_def)
  obtain es out where run: "?run = (es, out)" by force
  show ?thesis
  proof (cases out)
    case (Inl e)
    then obtain e' where "r = Inl e'" "ledger_of w' = ?l"
      using sent(2) [unfolded answered_def ex] run by (auto simp: map_tx_def)
    then show ?thesis by (simp add: cmd run Inl)
  next
    case (Inr fd)
    obtain f and d :: DequeueFillsResult where fd: "fd = (f, d)" by force
    have take: "take_fills (unat m) (backlog (sys_fills s)) =
        (unat (sol_dequeued d), unat (token_2z_dequeued d), unat (fills_consumed d), backlog f)"
      using process_dequeue_fills_Inr [OF inv, of "Inr (clock_sysvar ?l)"] run Inr fd by blast
    have left: "holds rt (set_data ?fills (FillsData f) ?l) (s\<lparr>sys_fills := f\<rparr>)"
      by (rule holds_set_data(4) [OF assms(11)])
    have "r = Inr d \<and> ledger_of w' = set_data ?fills (FillsData f) ?l \<or>
        (\<exists>e. r = Inl e) \<and> ledger_of w' \<in> {?l, set_data ?fills (FillsData f) ?l}"
      using sent(2) [unfolded answered_def ex] run Inr fd read [of d] by (auto simp: map_tx_def)
    then show ?thesis
    proof
      assume "r = Inr d \<and> ledger_of w' = set_data ?fills (FillsData f) ?l"
      then show ?thesis
        using take left shown_amounts(2) [OF assms(14)] by (simp add: cmd run Inr fd)
    next
      assume "(\<exists>e. r = Inl e) \<and> ledger_of w' \<in> {?l, set_data ?fills (FillsData f) ?l}"
      then show ?thesis using take left by (auto simp: cmd run Inr fd)
    qed
  qed
qed

theorem dequeue_command_executes_witness:
  "case dequeue_fills_cmd (cli_packages ''9'') (cli_node (sample_quote 1 1)) ''15''
      (node_session sample_ledger) of (r, st') \<Rightarrow>
    r = Inr () \<and> printed st' = [DequeuedLine (30 / 10 ^ 9) 65 2] \<or>
    (\<exists>e. r = Inl e) \<and> printed st' = []"
proof -
  let ?pk = "cli_packages ''9''" and ?net = "cli_node (sample_quote 1 1)"
  have "fills_consumer sample_configuration = 9" "0 < count sample_registry"
    by (simp_all add: sample_configuration_def)
  then obtain es f and d :: DequeueFillsResult where run:
    "process_dequeue_fills (Inr sample_clock) 9 sample_configuration sample_registry 15000000000 =
      (es, Inr (f, d))"
    using process_dequeue_fills_ok [OF sample_inv, of 9 sample_configuration 15000000000 sample_clock]
    by auto
  have inputs: "selector_laws (sha256 ?pk)" "pubkey_of_str ?pk (cfg_program_id cli_config) = Some ID"
    "stored_bytes (sha256 ?pk) (ProgramStateData (sys_state sample_system))
      (account_image cli_sha (ProgramStateData sample_program_state))"
    "account_bytes ?net (cfg_rpc_url cli_config) (pda ?pk PROGRAM_STATE ID)
      (world (node_session sample_ledger)) =
      (Some (account_image cli_sha (ProgramStateData sample_program_state)), (sample_ledger, []))"
    "records_results ?pk (cfg_program_id cli_config) cli_runtime ?net fst (\<lambda>w sig ret. snd w = ret)"
    "holds cli_runtime (fst (sample_ledger, [] :: u8 list)) sample_system"
    "decimal_laws (cli_decimals ?pk) (\<lambda>q. q)"
    by (simp_all add: cli_config_def rat_ops_laws)
      (simp_all add: sample_ledger_def owned_account_def)
  note executes = dequeue_command_executes [OF inputs(1) cli_load_config cli_payers(3) inputs(2)
      cli_amounts_typed(2) inputs(4,3) cli_node_runs(1) inputs(5) cli_runtime_laws inputs(6)
      sample_valid cli_same_addresses inputs(7)]
  obtain r st' where cmd: "dequeue_fills_cmd ?pk ?net ''15'' (node_session sample_ledger) = (r, st')"
    by force
  have "unat (sol_dequeued d) = 30 \<and> unat (token_2z_dequeued d) = 65 \<and> unat (fills_consumed d) = 2 \<and>
    (r = Inr () \<and> printed st' =
        [DequeuedLine (in_sol ?pk (sol_dequeued d)) (token_2z_dequeued d) (fills_consumed d)] \<or>
     (\<exists>e. r = Inl e) \<and> printed st' = [])"
    using executes by (auto simp: cmd run)
  moreover from this have "sol_dequeued d = 30" "token_2z_dequeued d = 65" "fills_consumed d = 2"
    by (simp_all add: word_unat_eq_iff)
  ultimately show ?thesis by (simp add: cmd cli_shown)
qed

section \<open>The quoted price\<close>

text \<open>
  C25: On a network that runs the program the price query changes nothing and is the quote itself,
  for the answer of the oracle: a quote the program rejects is reported as an error, and of an
  accepted one the command prints the very price as a decimal of tokens, unless the transaction is
  lost or its result cannot be read, when it fails and prints nothing.
\<close>

theorem price_query_executes:
  assumes "selector_laws (sha256 pk)" "load_user_config pk = Inr uc" "load_config pk = Inr config"
    and "load_payer_from_env pk = Inr payer" "pubkey_of_str pk (uc_program_id uc) = Some ID"
    and "http_get_price net (uc_price_oracle_end_point uc) (world st) = (Some p, w1)"
    and "ok_string (signature p)"
    and "runs_program pk rt net ledger_of"
    and "records_results pk (cfg_program_id config) rt net ledger_of recorded"
    and "runtime_laws rt" "holds rt (ledger_of w1) s" "same_addresses pk rt"
    and "decimal_laws (cli_decimals pk) val"
  shows "case get_price pk net st of (r, st') \<Rightarrow>
    ledger_of (world st') = ledger_of w1 \<and>
    (case process_get_conversion_rate rt (Inr (clock_sysvar (ledger_of w1))) (sys_configuration s)
        (sys_state s) p of
       Inr price \<Rightarrow>
         r = Inr () \<and> printed st' = printed st @ [ConversionRateLine (in_tokens pk price)] \<and>
         val (in_tokens pk price) = of_nat (unat price) / 10 ^ 8 \<or>
         (\<exists>e. r = Inl e) \<and> printed st' = printed st
     | Inl e \<Rightarrow> (\<exists>e. r = Inl e) \<and> printed st' = printed st)"
proof -
  let ?l = "ledger_of w1" and ?ix = "get_price_instruction pk ID payer p"
  let ?i = "GetConversionRateIx (quote_accounts pk ID payer) p"
  let ?run = "process_get_conversion_rate rt (Inr (clock_sysvar ?l)) (sys_configuration s) (sys_state s) p"
  have ex: "execute rt ?l ?i = try_tx ?run (\<lambda>rate. ok (?l, to_le_bytes rate))"
    by (simp add: get_conversion_rate_def quote_accounts_pass [OF assms(10-12)])
  have metas: "filter meta_is_signer (ix_accounts ?ix) = [meta_new payer True]" "ix_program_id ?ix = ID"
    by (simp_all add: get_price_instruction_def meta_new_def)
  have read: "u64_return_data (to_le_bytes price) = Inr price" for price
    by (simp add: u64_return_data_def)
  have "\<exists>v. u64_return_data ret = Inr v" if "execute rt ?l ?i = (es, Inr (l', ret))" for es l' ret
    using that read unfolding ex by (auto simp: tx_simps)
  then obtain r w' where sent: "send_instruction_with_return_data pk net u64_return_data
      ?ix (st\<lparr>world := w1\<rparr>) = (r, st\<lparr>world := w'\<rparr>)"
    "answered rt ledger_of u64_return_data ?i w1 (r, w')"
    using send_for_result [where de = u64_return_data and s = "st\<lparr>world := w1\<rparr>",
        OF assms(8,9,4,3) metas get_price_received [OF assms(1,7)]] by auto
  have cmd: "get_price pk net st =
      (case r of Inl e \<Rightarrow> (Inl e, st\<lparr>world := w'\<rparr>)
       | Inr price \<Rightarrow> (Inr (), st\<lparr>world := w',
           printed := printed st @ [ConversionRateLine (in_tokens pk price)]\<rparr>))"
    by (cases r) (simp_all add: get_price_def assms(2,4,5) pubkey_from_str_Inl io_simps
        fetch_oracle_price_def io_bind_def io_world_def assms(6) io_ok_def sent(1)
        shown_amounts(3) [OF assms(13)] io_print_def)
  have outcome: "ledger_of w' = ?l \<and> (case ?run of Inr price \<Rightarrow> r = Inr price \<or> (\<exists>e. r = Inl e)
      | Inl e \<Rightarrow> \<exists>e. r = Inl e)"
    using sent(2) [unfolded answered_def ex] read
    by (auto simp: try_tx_def ok_def fail_def split: sum.splits)
  show ?thesis
  proof (cases r)
    case (Inl e)
    then show ?thesis using outcome by (simp add: cmd split: sum.splits)
  next
    case (Inr price)
    then have "?run = Inr price" using outcome by (auto split: sum.splits)
    then show ?thesis using outcome shown_amounts(4) [OF assms(13)] by (simp add: cmd Inr)
  qed
qed

theorem price_query_executes_witness:
  "case get_price (cli_packages ''5'') (cli_node (sample_quote 2000000000 1000))
      (node_session sample_ledger) of (r, st') \<Rightarrow>
    fst (world st') = sample_ledger \<and>
    (r = Inr () \<and> printed st' = [ConversionRateLine (1891000000 / 10 ^ 8)] \<or>
     (\<exists>e. r = Inl e) \<and> printed st' = [])"
proof -
  let ?pk = "cli_packages ''5''" and ?q = "sample_quote 2000000000 1000"
  have "price_maximum_age sample_configuration = 324" by (simp add: sample_configuration_def)
  then have price: "process_get_conversion_rate cli_runtime (Inr sample_clock) sample_configuration
      sample_program_state ?q = Inr 1891000000"
    using decide_purchase_Inr(5) [OF sample_laws valid_sample_configuration] sample_decision
    by (fastforce simp: process_get_conversion_rate_def ask_price_def)
  have inputs: "selector_laws (sha256 ?pk)" "pubkey_of_str ?pk (uc_program_id cli_user_config) = Some ID"
    "http_get_price (cli_node ?q) (uc_price_oracle_end_point cli_user_config)
      (world (node_session sample_ledger)) = (Some ?q, (sample_ledger, []))"
    "records_results ?pk (cfg_program_id cli_config) cli_runtime (cli_node ?q) fst
      (\<lambda>w sig ret. snd w = ret)"
    "holds cli_runtime (fst (sample_ledger, [] :: u8 list)) sample_system"
    "decimal_laws (cli_decimals ?pk) (\<lambda>q. q)"
    by (simp_all add: cli_user_config_def cli_config_def rat_ops_laws)
  show ?thesis
    using price_query_executes [OF inputs(1) cli_load_configs(2) cli_load_config cli_payers(2)
        inputs(2,3) quote_ok_string cli_node_runs(1) inputs(4) cli_runtime_laws inputs(5)
        cli_same_addresses inputs(6)] price
    by (auto split: prod.splits)
qed

section \<open>Initialisation\<close>

definition configured :: "AdminConfig \<Rightarrow> pubkey \<Rightarrow> pubkey \<Rightarrow> system \<Rightarrow> bool" where
  "configured cfg payer registry s \<longleftrightarrow>
     valid_system s \<and> admin (sys_state s) = payer \<and> deny_list_authority (sys_state s) = payer \<and>
     fills_registry_address (sys_state s) = registry \<and> \<not> is_halted (sys_state s) \<and>
     backlog (sys_fills s) = [] \<and> denied_addresses (sys_deny_list s) = [] \<and>
     oracle_pubkey (sys_configuration s) = ac_oracle_pubkey cfg \<and>
     sol_quantity (sys_configuration s) = ac_sol_quantity cfg \<and>
     price_maximum_age (sys_configuration s) = ac_price_maximum_age cfg \<and>
     coefficient (sys_configuration s) = ac_coefficient cfg \<and>
     max_discount_rate (sys_configuration s) = ac_max_discount_rate cfg \<and>
     min_discount_rate (sys_configuration s) = ac_min_discount_rate cfg"

text \<open>
  C23: On a network that runs the two programs the initialisation command succeeds only when the
  chain stores a valid system with exactly the parameters of the configuration file, the payer as
  administrator and deny list authority, the new account as its registry, nothing pending and
  nobody denied.  Otherwise it fails and the ledger is as before: no fills account is left behind.
\<close>

theorem init_command_executes:
  assumes "selector_laws (sha256 pk)" "load_admin_config pk = Inr cfg" "load_payer_from_env pk = Inr payer"
    and "pubkey_of_str pk (ac_program_id cfg) = Some ID"
    and "new_keypair net (world st) = (registry, w1)"
    and "rent_exemption net (ac_rpc_url cfg) FILLS_ACCOUNT_SPACE w1 = (Some rent, w2)"
    and "runs_creation pk rt net ledger_of" "runtime_laws rt" "uninitialised (ledger_of w2)"
  shows "case admin_handle pk net (Some Init) st of (r, st') \<Rightarrow>
    printed st' = printed st \<and>
    ((\<exists>s. holds rt (ledger_of (world st')) s \<and> configured cfg payer registry s) \<or>
     (\<exists>e. r = Inl e) \<and> ledger_of (world st') = ledger_of w2)"
proof -
  let ?ix = "initialize_instruction pk cfg ID payer registry"
  let ?ctx = "initialisation_accounts pk ID registry payer"
  let ?i = "InitializeSystemIx ?ctx (ac_oracle_pubkey cfg) (ac_sol_quantity cfg)
    (ac_price_maximum_age cfg) (ac_coefficient cfg) (ac_max_discount_rate cfg) (ac_min_discount_rate cfg)"
  let ?create = "create_account_ix pk payer registry rent (word_of_nat FILLS_ACCOUNT_SPACE) ID"
  let ?n = "unat (word_of_nat FILLS_ACCOUNT_SPACE :: u64)"
  have cmd: "admin_handle pk net (Some Init) st =
      io_bind (send_batch_instructions_with_signers pk net [?create, ?ix] [registry])
        (\<lambda>_. io_ok ()) (st\<lparr>world := w2\<rparr>)"
    by (simp add: admin_handle_def admin_init_def assms(2-4) pubkey_from_str_Inl io_simps io_world_def
        assms(5,6))
  have "ix_program_id ?ix = ID" by (simp add: initialize_instruction_def)
  then have batch: "settles_batch net ledger_of [?create, ?ix]
      (\<lambda>l l'. \<exists>l1. account_created registry ?n l l1 \<and> accepts rt ?i l1 l')"
    using assms(7) initialize_received [OF assms(1)] unfolding runs_creation_def by blast
  obtain r w' where run: "admin_handle pk net (Some Init) st = (r, st\<lparr>world := w'\<rparr>)" and
    settled: "(\<exists>l1. account_created registry ?n (ledger_of w2) l1 \<and> accepts rt ?i l1 (ledger_of w')) \<or>
      (\<exists>e. r = Inl e) \<and> ledger_of w' = ledger_of w2"
    using send_batch_settles [OF batch, of pk "[registry]" "st\<lparr>world := w2\<rparr>"]
    unfolding cmd settles_def by fastforce
  have "\<exists>s. holds rt l' s \<and> configured cfg payer registry s"
    if new: "account_created registry n (ledger_of w2) l1" and ok: "accepts rt ?i l1 l'" for n l1 l'
  proof -
    from ok obtain es ret where "execute rt l1 ?i = (es, Inr (l', ret))"
      by (cases "execute rt l1 ?i") (auto simp: accepts_def split: sum.splits)
    from refine_initialize [OF assms(8) uninitialised_created [OF assms(9) new] this]
    show ?thesis
      by (elim exE conjE) (rule exI, rule conjI, assumption,
        simp add: configured_def valid_system_def initial_system_def initialisation_accounts_def
          valid_deny_list_def)
  qed
  then show ?thesis using run settled by auto
qed

text \<open>The chain before the fills account is created, and the initialisation on it.\<close>

definition empty_ledger :: ledger where
  "empty_ledger = \<lparr>accounts = sample_chain, clock_sysvar = sample_clock\<rparr>"

lemma empty_uninitialised: "uninitialised empty_ledger"
  by (auto simp: uninitialised_def empty_ledger_def sample_chain_def owned_account_def
      system_account_def program_account_def ID_eq SYSTEM_PROGRAM_ID_eq)

definition created_ledger :: ledger where
  "created_ledger = empty_ledger\<lparr>accounts := (accounts empty_ledger)
     (40 := (accounts empty_ledger 40)\<lparr>owner := ID, data := Zeroed FILLS_ACCOUNT_SPACE\<rparr>)\<rparr>"

lemma cli_initialises:
  "\<exists>l'. execute cli_runtime created_ledger
     (InitializeSystemIx (initialisation_accounts (cli_packages ''1'') ID 40 1)
       7 25000000000 60 4500 5000 100) = ([SystemInitialized], Inr (l', []))"
proof -
  let ?ctx = "initialisation_accounts (cli_packages ''1'') ID 40 1"
  have ctx: "is_configuration_registry ?ctx = writes 11" "is_program_state ?ctx = writes 12"
    "is_deny_list_registry ?ctx = writes 13" "is_fills_registry ?ctx = writes 40"
    "is_withdraw_authority ?ctx = writes 14" "is_program ?ctx = writes ID"
    "is_program_data ?ctx = writes 78" "is_system_program ?ctx = writes 0" "is_authority ?ctx = signs 1"
    by (simp_all add: initialisation_accounts_def SYSTEM_PROGRAM_ID_eq)
  have chain: "accounts created_ledger 11 = system_account" "accounts created_ledger 12 = system_account"
    "accounts created_ledger 13 = system_account" "accounts created_ledger 14 = system_account"
    "accounts created_ledger ID = program_account"
    "accounts created_ledger 78 = owned_account 77 (LoaderProgramData (Some 1))"
    "accounts created_ledger 40 = system_account\<lparr>owner := ID, data := Zeroed 10485760\<rparr>"
    "accounts created_ledger 0 = \<lparr>lamports = 1, owner = 79, executable = True, data = NoData\<rparr>"
    by (simp_all add: created_ledger_def empty_ledger_def sample_chain_def ID_eq FILLS_ACCOUNT_SPACE_def)
  have ne: "ID \<noteq> 11" "ID \<noteq> 12" "ID \<noteq> 13" by (simp_all add: ID_eq)
  obtain l3 b where v: "validate_InitializeSystem cli_runtime created_ledger ?ctx = Inr (l3, b)"
      "accounts l3 40 = system_account\<lparr>owner := ID, data := Zeroed 10485760\<rparr>"
    by (simp add: ne ctx validate_InitializeSystem_def check_system_account_def check_program_def
        account_of_def chain load_account_def as_program_data_def check_signer_def init_pda_def
        check_canonical_seeds_def sample_init_account_def check_mut_def check_zero_def
        check_upgrade_authority_def programdata_address_def check_address_def
        system_account_def program_account_def owned_account_def SYSTEM_PROGRAM_ID_eq
        DISCRIMINATOR_SIZE_def)
  have "load_init l3 (writes 40) = Inr zero_fills_registry"
    by (simp add: load_init_def account_of_def v(2) DISCRIMINATOR_SIZE_def
        FILLS_REGISTRY_SIZE_def MAX_FILLS_QUEUE_SIZE_def)
  then have "\<exists>cfg ps r. process_initialize_system (Inr (clock_sysvar l3)) (load_init l3 (writes 40)) 40 1
      7 25000000000 60 4500 5000 100 b zero_configuration zero_program_state =
      ([SystemInitialized], Inr (cfg, ps, r))"
    by (simp add: process_initialize_system_def Let_def emit_def ok_def)
  then show ?thesis
    by (auto simp: initialize_system_def v ctx map_tx_def)
qed

lemma cli_init_runs:
  "\<exists>l'. admin_handle (cli_packages ''1'') (cli_node quote) (Some Init) (node_session empty_ledger) =
     (Inr (), node_session empty_ledger\<lparr>world := (l', [])\<rparr>)"
proof -
  let ?pk = "cli_packages ''1''" and ?ctx = "initialisation_accounts (cli_packages ''1'') ID 40 1"
  let ?ix = "initialize_instruction ?pk cli_admin_config ID 1 40"
  let ?create = "create_account_ix ?pk 1 40 73000000000 (word_of_nat FILLS_ACCOUNT_SPACE) ID"
  obtain l' where run: "execute cli_runtime created_ledger
      (InitializeSystemIx ?ctx 7 25000000000 60 4500 5000 100) = ([SystemInitialized], Inr (l', []))"
    using cli_initialises by blast
  have "received cli_sha ?ix = Inr (InitializeSystemIx ?ctx 7 25000000000 60 4500 5000 100)"
    using initialize_received [of ?pk cli_admin_config ID 1 40] by (simp add: cli_admin_config_def)
  moreover have "ix_program_id ?ix = ID" by (simp add: initialize_instruction_def)
  ultimately have exec: "node_executes created_ledger ?ix w = (Inr ''sig'', l', [])" for w
    by (simp add: node_executes_def run del: execute.simps)
  have "accounts empty_ledger 40 = system_account"
    by (simp add: empty_ledger_def sample_chain_def ID_eq)
  then have create: "node_creates ?create empty_ledger = Some created_ledger"
    by (simp add: node_creates_def cli_packages_def meta_new_def created_ledger_def system_account_def
        FILLS_ACCOUNT_SPACE_def)
  have metas: "map meta_pubkey (filter meta_is_signer (concat (map ix_accounts [?create, ?ix]))) = [1, 40, 1]"
    by (simp add: initialize_instruction_def meta_new_def) (simp add: cli_packages_def meta_new_def)
  have signed: "new_signed_with_payer [?create, ?ix] 1 [1, 40] bh =
      Inr \<lparr>tx_instructions = [?create, ?ix], tx_payer = 1, tx_signers = [1, 40], tx_blockhash = bh\<rparr>" for bh
    by (simp only: new_signed_with_payer_def required_signers_def metas) (simp add: contains_def)
  have "pubkey_from_str ?pk (ac_program_id cli_admin_config) = Inr ID"
    by (simp add: pubkey_from_str_Inl cli_admin_config_def)
  then show ?thesis
    by (intro exI [of _ l'])
      (simp add: admin_handle_def admin_init_def io_simps io_world_def io_bind_def io_ok_def
        send_batch_instructions_with_signers_def load_config_or_def signed,
       simp add: cli_node_def io_try_def create exec io_ok_def)
qed

theorem init_command_executes_witness:
  "\<exists>l s. admin_handle (cli_packages ''1'') (cli_node (sample_quote 1 1)) (Some Init)
      (node_session empty_ledger) = (Inr (), node_session empty_ledger\<lparr>world := (l, [])\<rparr>) \<and>
    holds cli_runtime l s \<and> admin (sys_state s) = 1 \<and> sol_quantity (sys_configuration s) = 25000000000"
proof -
  obtain l where run: "admin_handle (cli_packages ''1'') (cli_node (sample_quote 1 1)) (Some Init)
      (node_session empty_ledger) = (Inr (), node_session empty_ledger\<lparr>world := (l, [])\<rparr>)"
    using cli_init_runs by blast
  have inputs: "selector_laws (sha256 (cli_packages ''1''))"
    "pubkey_of_str (cli_packages ''1'') (ac_program_id cli_admin_config) = Some ID"
    "ac_sol_quantity cli_admin_config = 25000000000"
    "uninitialised (fst (world (node_session empty_ledger)))"
    by (simp_all add: cli_admin_config_def empty_uninitialised)
  have "\<exists>s. holds cli_runtime l s \<and> configured cli_admin_config 1 40 s"
    using init_command_executes [where net = "cli_node (sample_quote 1 1)" and st = "node_session empty_ledger",
        OF inputs(1) cli_load_configs(1) cli_payers(1) inputs(2) cli_node_simps(3) cli_node_simps(4)
        cli_node_runs(2) cli_runtime_laws inputs(4), unfolded run] by simp
  with run inputs(3) show ?thesis unfolding configured_def by metis
qed

end
