(* ===== verification/Cli_Mock.thy ===== *)
theory Cli_Mock
  imports Cli_Results Mock_Properties
begin

text \<open>
  The administrators' commands for the mock revenue distribution program, on a network on which it
  is deployed: what the tool sends is what the program decodes, on the accounts it demands.
\<close>

section \<open>The two programs agree\<close>

text \<open>
  The tool and the mock program use the same hash and the same derivation of addresses, and the
  three instruction names have different discriminators.
\<close>

definition mock_deployed :: "'d packages \<Rightarrow> mock_env \<Rightarrow> bool" where
  "mock_deployed pk env \<longleftrightarrow>
     hash env = sha256 pk \<and> find_address env = find_pda pk \<and>
     TOKEN_PROGRAM_ID env = spl_token_id pk \<and> RENT_SYSVAR_ID env = rent_sysvar_id pk \<and>
     (\<forall>s. 8 \<le> length (hash env s)) \<and>
     distinct [compute_discriminator env ''dz::ix::initialize'',
       compute_discriminator env ''dz::ix::withdraw_sol'', compute_discriminator env ''dz::ix::mint2z'']"

definition runs_mock ::
    "mock_env \<Rightarrow> pubkey \<Rightarrow> 'w network \<Rightarrow> ('w \<Rightarrow> ledger) \<Rightarrow> bool" where
  "runs_mock env program net ledger_of \<longleftrightarrow>
     (\<forall>ix. ix_program_id ix = program \<longrightarrow>
        settles_batch net ledger_of [ix] (\<lambda>l l'. mock_invoke env ix l = Inr l'))"

lemma mock_decodes:
  assumes "mock_deployed pk env"
  shows "unpack env (discriminator (sha256 pk) MOCK_SYSTEM_INITIALIZE) = Inr Initialize"
    "unpack env (discriminator (sha256 pk) MOCK_TOKEN_MINT_INSTRUCTION @ to_le_bytes n) = Inr (Mint2Z n)"
proof -
  let ?i = "compute_discriminator env ''dz::ix::initialize''"
    and ?w = "compute_discriminator env ''dz::ix::withdraw_sol''"
    and ?m = "compute_discriminator env ''dz::ix::mint2z''"
  have d: "?i \<noteq> ?w" "?i \<noteq> ?m" "?w \<noteq> ?m" and len: "length ?i = 8" "length ?m = 8"
    using assms by (auto simp: mock_deployed_def compute_discriminator_def)
  have same: "discriminator (sha256 pk) MOCK_SYSTEM_INITIALIZE = ?i"
    "discriminator (sha256 pk) MOCK_TOKEN_MINT_INSTRUCTION = ?m"
    using assms by (simp_all add: mock_deployed_def discriminator_def compute_discriminator_def
        MOCK_SYSTEM_INITIALIZE_def MOCK_TOKEN_MINT_INSTRUCTION_def)
  show "unpack env (discriminator (sha256 pk) MOCK_SYSTEM_INITIALIZE) = Inr Initialize"
    unfolding same using len by (simp add: unpack_def)
  show "unpack env (discriminator (sha256 pk) MOCK_TOKEN_MINT_INSTRUCTION @ to_le_bytes n) = Inr (Mint2Z n)"
    unfolding same using len d
    by (auto simp: unpack_def Let_def amount_payload_def)
qed

section \<open>What the commands make of the ledger\<close>

definition mock_pda :: "mock_env \<Rightarrow> u8 list \<Rightarrow> pubkey \<Rightarrow> pubkey" where
  "mock_pda env seed program = fst (find_address env [seed] program)"

definition mock_seeds_of :: "mock_env \<Rightarrow> u8 list \<Rightarrow> pubkey \<Rightarrow> u8 list list" where
  "mock_seeds_of env seed program = [seed, [snd (find_address env [seed] program)]]"

definition funded_account ::
    "mock_env \<Rightarrow> pubkey \<Rightarrow> pubkey \<Rightarrow> u8 list \<Rightarrow> nat \<Rightarrow> pubkey \<Rightarrow> ledger \<Rightarrow> ledger result" where
  "funded_account env payer program seed space own l =
     and_then (minimum_balance env space) (\<lambda>lamps.
     create_account env payer (mock_pda env seed program) lamps space own
       (mock_seeds_of env seed program) l)"

text \<open>
  Setting up the mock program: the mint with itself as the authority, the treasury owned by the
  token program, the configuration and the journal of eight bytes each, all at their derived
  addresses and paid by the caller.
\<close>

definition mock_setup :: "mock_env \<Rightarrow> pubkey \<Rightarrow> pubkey \<Rightarrow> ledger \<Rightarrow> ledger result" where
  "mock_setup env program payer l =
     and_then (funded_account env payer program MOCK_2Z_TOKEN_MINT_SEED (MINT_LEN env)
       (TOKEN_PROGRAM_ID env) l) (\<lambda>l.
     and_then (initialize_mint env (TOKEN_PROGRAM_ID env) (mock_pda env MOCK_2Z_TOKEN_MINT_SEED program)
       (mock_pda env MOCK_2Z_TOKEN_MINT_SEED program) None 8
       (mock_seeds_of env MOCK_2Z_TOKEN_MINT_SEED program) l) (\<lambda>l.
     and_then (funded_account env payer program MOCK_PROTOCOL_TREASURY_SEED (ACCOUNT_LEN env)
       (TOKEN_PROGRAM_ID env) l) (\<lambda>l.
     and_then (initialize_account env (TOKEN_PROGRAM_ID env)
       (mock_pda env MOCK_PROTOCOL_TREASURY_SEED program) (mock_pda env MOCK_2Z_TOKEN_MINT_SEED program)
       (TOKEN_PROGRAM_ID env) (mock_seeds_of env MOCK_PROTOCOL_TREASURY_SEED program) l) (\<lambda>l.
     and_then (funded_account env payer program MOCK_CONFIG_ACCOUNT_SEED 8 program l) (\<lambda>l.
     funded_account env payer program MOCK_JOURNAL_SEED 8 program l)))))"

lemma mock_initialize_passes:
  "mock_initialize env program
     [writes (mock_pda env MOCK_CONFIG_ACCOUNT_SEED program), writes (mock_pda env MOCK_JOURNAL_SEED program),
      writes (mock_pda env MOCK_2Z_TOKEN_MINT_SEED program),
      writes (mock_pda env MOCK_PROTOCOL_TREASURY_SEED program), writes (TOKEN_PROGRAM_ID env),
      writes (RENT_SYSVAR_ID env), writes SYSTEM_PROGRAM_ID, signs payer] l =
   mock_setup env program payer l"
  by (simp add: mock_initialize_def mock_setup_def Let_def assert_pda_def assert_address_def
      mock_pda_def mock_seeds_of_def funded_account_def create_pda_account_def split: prod.split)

lemma mock_mint_passes:
  "mock_mint_2z env program
     [writes recipient, writes (mock_pda env MOCK_2Z_TOKEN_MINT_SEED program), writes (TOKEN_PROGRAM_ID env)]
     n l =
   mint_to env (TOKEN_PROGRAM_ID env) (mock_pda env MOCK_2Z_TOKEN_MINT_SEED program) recipient
     (mock_pda env MOCK_2Z_TOKEN_MINT_SEED program) n (mock_seeds_of env MOCK_2Z_TOKEN_MINT_SEED program) l"
  by (simp add: mock_mint_2z_def Let_def assert_pda_def assert_address_def mock_pda_def
      mock_seeds_of_def flip: MOCK_2Z_TOKEN_MINT_SEED_def split: prod.split)

section \<open>Properties\<close>

lemma mock_seed_pdas:
  assumes "mock_deployed pk env"
  shows "fst (get_config_pda pk program) = mock_pda env MOCK_CONFIG_ACCOUNT_SEED program"
    "fst (get_journal_pda pk program) = mock_pda env MOCK_JOURNAL_SEED program"
    "fst (get_token_mint_pda pk program) = mock_pda env MOCK_2Z_TOKEN_MINT_SEED program"
    "fst (get_protocol_treasury_token_account_pda pk program) = mock_pda env MOCK_PROTOCOL_TREASURY_SEED program"
    "spl_token_id pk = TOKEN_PROGRAM_ID env" "rent_sysvar_id pk = RENT_SYSVAR_ID env"
  using assms by (simp_all add: mock_deployed_def mock_pda_defs mock_pda_def)

lemma send_to_mock:
  assumes "runs_mock env program net ledger_of" "ix_program_id ix = program"
  shows "\<exists>r w'. io_bind (send_batch_instructions pk net [ix]) (\<lambda>_. io_ok ()) st = (r, st\<lparr>world := w'\<rparr>) \<and>
    (mock_invoke env ix (ledger_of (world st)) = Inr (ledger_of w') \<or>
     (\<exists>e. r = Inl e) \<and> ledger_of w' = ledger_of (world st))"
proof -
  have "settles_batch net ledger_of [ix] (\<lambda>l l'. mock_invoke env ix l = Inr l')"
    using assms by (simp add: runs_mock_def)
  from send_batch_settles [OF this, of pk "[]" st] show ?thesis
    by (simp add: send_batch_instructions_def settles_def)
qed

text \<open>
  C24: The commands for the mock program (minting to a named recipient) do what their names say, on
  a network on which it is deployed.  The tool's seeds, account order and discriminators are the ones the program checks
  for: the initialisation passes all its checks and sets up the mint, the treasury, the
  configuration and the journal at their derived addresses, and minting an amount mints the parsed
  number of token units to the recipient, under the mint's own authority; minting to the treasury
  mints to the account the program set up as such.  A failure changes nothing, an unreadable
  amount is not sent.
\<close>

theorem mock_commands_execute:
  assumes "mock_deployed pk env" "load_admin_config pk = Inr cfg"
    and "pubkey_of_str pk (ac_double_zero_program_id cfg) = Some program"
    and "load_payer_from_env pk = Inr payer" "runs_mock env program net ledger_of"
  shows "(case admin_handle pk net (Some InitMockProgram) st of (r, st') \<Rightarrow>
      printed st' = printed st \<and>
      (mock_setup env program payer (ledger_of (world st)) = Inr (ledger_of (world st')) \<or>
       (\<exists>e. r = Inl e) \<and> ledger_of (world st') = ledger_of (world st))) \<and>
    (case (parse_token_value pk amount, mint_to_account pk net recipient amount st) of
       (Inl e, (r, st')) \<Rightarrow> r = Inl e \<and> st' = st
     | (Inr n, (r, st')) \<Rightarrow>
         printed st' = printed st \<and>
         (mint_to env (TOKEN_PROGRAM_ID env) (mock_pda env MOCK_2Z_TOKEN_MINT_SEED program) recipient
            (mock_pda env MOCK_2Z_TOKEN_MINT_SEED program) n
            (mock_seeds_of env MOCK_2Z_TOKEN_MINT_SEED program) (ledger_of (world st)) =
            Inr (ledger_of (world st')) \<or>
          (\<exists>e. r = Inl e) \<and> ledger_of (world st') = ledger_of (world st))) \<and>
    mint_to_protocol_treasury_token_account pk net amount =
      mint_to_account pk net (mock_pda env MOCK_PROTOCOL_TREASURY_SEED program) amount"
proof (intro conjI)
  note pdas = mock_seed_pdas [OF assms(1)]
  note inputs = assms(2-4) pubkey_from_str_Inl io_simps
  let ?ix = "\<lparr>ix_program_id = program,
      ix_accounts = [meta_new (mock_pda env MOCK_CONFIG_ACCOUNT_SEED program) False,
        meta_new (mock_pda env MOCK_JOURNAL_SEED program) False,
        meta_new (mock_pda env MOCK_2Z_TOKEN_MINT_SEED program) False,
        meta_new (mock_pda env MOCK_PROTOCOL_TREASURY_SEED program) False,
        meta_new (TOKEN_PROGRAM_ID env) False, meta_new (RENT_SYSVAR_ID env) False,
        meta_new SYSTEM_PROGRAM_ID False, meta_new payer True],
      ix_data = discriminator (sha256 pk) MOCK_SYSTEM_INITIALIZE\<rparr>"
  have "admin_handle pk net (Some InitMockProgram) st =
      io_bind (send_batch_instructions pk net [?ix]) (\<lambda>_. io_ok ()) st"
    by (simp add: admin_handle_def mock_init_def inputs pdas)
  moreover have "mock_invoke env ?ix l = mock_setup env program payer l" for l
    by (simp add: mock_invoke_def process_instruction_def mock_decodes [OF assms(1)]
        mock_initialize_passes)
  ultimately show "case admin_handle pk net (Some InitMockProgram) st of (r, st') \<Rightarrow>
      printed st' = printed st \<and>
      (mock_setup env program payer (ledger_of (world st)) = Inr (ledger_of (world st')) \<or>
       (\<exists>e. r = Inl e) \<and> ledger_of (world st') = ledger_of (world st))"
    using send_to_mock [OF assms(5), of ?ix pk st] by auto
  let ?mint = "\<lambda>n. \<lparr>ix_program_id = program,
      ix_accounts = [meta_new recipient False, meta_new (mock_pda env MOCK_2Z_TOKEN_MINT_SEED program) False,
        meta_new (TOKEN_PROGRAM_ID env) False],
      ix_data = discriminator (sha256 pk) MOCK_TOKEN_MINT_INSTRUCTION @ to_le_bytes n\<rparr>"
  have cmd: "mint_to_account pk net recipient amount st =
      (case parse_token_value pk amount of Inl e \<Rightarrow> (Inl e, st)
       | Inr n \<Rightarrow> io_bind (send_batch_instructions pk net [?mint n]) (\<lambda>_. io_ok ()) st)"
    by (simp add: mint_to_account_def inputs pdas io_fail_def split: sum.split)
  have call: "mock_invoke env (?mint n) l =
      mint_to env (TOKEN_PROGRAM_ID env) (mock_pda env MOCK_2Z_TOKEN_MINT_SEED program) recipient
        (mock_pda env MOCK_2Z_TOKEN_MINT_SEED program) n
        (mock_seeds_of env MOCK_2Z_TOKEN_MINT_SEED program) l" for n l
    by (simp add: mock_invoke_def process_instruction_def mock_decodes [OF assms(1)] mock_mint_passes)
  show "case (parse_token_value pk amount, mint_to_account pk net recipient amount st) of
       (Inl e, (r, st')) \<Rightarrow> r = Inl e \<and> st' = st
     | (Inr n, (r, st')) \<Rightarrow>
         printed st' = printed st \<and>
         (mint_to env (TOKEN_PROGRAM_ID env) (mock_pda env MOCK_2Z_TOKEN_MINT_SEED program) recipient
            (mock_pda env MOCK_2Z_TOKEN_MINT_SEED program) n
            (mock_seeds_of env MOCK_2Z_TOKEN_MINT_SEED program) (ledger_of (world st)) =
            Inr (ledger_of (world st')) \<or>
          (\<exists>e. r = Inl e) \<and> ledger_of (world st') = ledger_of (world st))"
  proof (cases "parse_token_value pk amount")
    case (Inl e)
    then show ?thesis by (simp add: cmd)
  next
    case (Inr n)
    then show ?thesis
      using send_to_mock [OF assms(5), of "?mint n" pk st] by (auto simp: cmd call)
  qed
  show "mint_to_protocol_treasury_token_account pk net amount =
      mint_to_account pk net (mock_pda env MOCK_PROTOCOL_TREASURY_SEED program) amount"
    by (rule ext) (simp add: mint_to_protocol_treasury_token_account_def inputs pdas)
qed

text \<open>A chain with the mock program, whose token program mints to token accounts.\<close>

definition node_env :: mock_env where
  "node_env =
     \<lparr>hash = cli_sha, find_address = (\<lambda>seeds p. cli_pda seeds),
      minimum_balance = (\<lambda>n. Inr (of_nat (n + 128) * 6960)),
      create_account = (\<lambda>p a lamps n own s l. Inr l), initialize_mint = (\<lambda>t m a f d s l. Inr l),
      initialize_account = (\<lambda>t a m own s l. Inr l),
      mint_to = (\<lambda>t m a auth n s l. case data (accounts l a) of
          TokenData m' own amount \<Rightarrow> Inr (set_data a (TokenData m' own (amount + n)) l)
        | _ \<Rightarrow> Inl (Program InvalidInstructionData)),
      TOKEN_PROGRAM_ID = 30, RENT_SYSVAR_ID = 32, MINT_LEN = 82, ACCOUNT_LEN = 165\<rparr>"

definition mock_node :: "ledger network" where
  "mock_node = cli_chain (sample_quote 1 1)
     \<lparr>send_and_confirm := (\<lambda>url tx l. case tx_instructions tx of
        [ix] \<Rightarrow> (case mock_invoke node_env ix l of
          Inr l' \<Rightarrow> (Inr ''sig'', l') | Inl e \<Rightarrow> node_rejects l)
      | _ \<Rightarrow> node_rejects l)\<rparr>"

lemma node_deployed: "mock_deployed (cli_packages p) node_env"
proof -
  have "length (cli_sha s) = 32" for s by (auto simp: cli_sha_def min_def)
  then have "\<forall>s. 8 \<le> length (hash node_env s)" by (simp add: node_env_def)
  then show ?thesis
    by (simp add: mock_deployed_def) (simp add: node_env_def compute_discriminator_def cli_sha_def
        bytes_of_string_def byte_of_char_def, simp add: cli_packages_def)
qed

lemma mock_node_runs: "runs_mock node_env program mock_node (\<lambda>l. l)"
  by (auto simp: runs_mock_def settles_batch_def settles_def mock_node_def cli_chain_def
      node_rejects_def split: sum.splits)

theorem mock_commands_execute_witness:
  "case mint_to_account (cli_packages ''1'') mock_node 22 ''20'' chain_session of (r, st') \<Rightarrow>
     data (accounts (world st') 22) = TokenData 23 6 2000000000 \<or>
     (\<exists>e. r = Inl e) \<and> world st' = sample_ledger"
proof -
  have program: "pubkey_of_str (cli_packages ''1'') (ac_double_zero_program_id cli_admin_config) =
      Some REVENUE_DISTRIBUTION_PROGRAM_ID"
    by (simp add: cli_admin_config_def)
  have "accounts sample_ledger 22 = owned_account 30 (TokenData 23 6 0)"
    by (simp add: sample_ledger_def sample_chain_def ID_eq)
  then have minted: "mint_to node_env t m 22 auth 2000000000 s sample_ledger =
      Inr (set_data 22 (TokenData 23 6 2000000000) sample_ledger)" for t m auth s
    by (simp add: node_env_def owned_account_def)
  have start: "world chain_session = sample_ledger" by (simp add: chain_session_def)
  obtain r st' where cmd: "mint_to_account (cli_packages ''1'') mock_node 22 ''20'' chain_session = (r, st')"
    by force
  have "world st' = set_data 22 (TokenData 23 6 2000000000) sample_ledger \<or>
      (\<exists>e. r = Inl e) \<and> world st' = sample_ledger"
    using mock_commands_execute [OF node_deployed cli_load_configs(1) program cli_payers(1)
        mock_node_runs, where st = chain_session and amount = "''20''" and recipient = 22,
        THEN conjunct2, THEN conjunct1] start
    by (auto simp: cmd minted)
  then show ?thesis by (auto simp: cmd)
qed

end
