(* ===== verification/Cli_Purchase.thy ===== *)
theory Cli_Purchase
  imports Cli_Executions
begin

text \<open>
  The users' purchase on a network that runs the program, with the source account given or not:
  without one the tool pays from the buyer's associated token account, and creates it first when it
  does not exist.
\<close>

section \<open>The network of a purchase\<close>

text \<open>The account the tool pays from.\<close>

definition source_account :: "'d packages \<Rightarrow> pubkey \<Rightarrow> string option \<Rightarrow> pubkey option" where
  "source_account pk payer from_address =
     (case from_address of
        Some t \<Rightarrow> pubkey_of_str pk t
      | None \<Rightarrow> Some (associated_token_address pk payer (token_mint pk) (spl_token_id pk)))"

text \<open>
  The instruction of the associated token program, as it documents it: an account of the payer
  comes to be at the address derived for him, which had no owner before.
\<close>

definition token_account_created :: "'d packages \<Rightarrow> pubkey \<Rightarrow> ledger \<Rightarrow> ledger \<Rightarrow> bool" where
  "token_account_created pk payer l l' \<longleftrightarrow>
     (let a = associated_token_address pk payer (token_mint pk) (spl_token_id pk) in
      owner (accounts l a) = SYSTEM_PROGRAM_ID \<and> clock_sysvar l' = clock_sysvar l \<and>
      a \<notin> {pda pk WITHDRAW_AUTHORITY ID, spl_token_id pk} \<and>
      owner (accounts l' a) = spl_token_id pk \<and>
      data (accounts l' a) = TokenData (token_mint pk) payer 0 \<and>
      (\<forall>k. k \<noteq> a \<longrightarrow> owner (accounts l' k) = owner (accounts l k) \<and>
         data (accounts l' k) = data (accounts l k) \<and>
         executable (accounts l' k) = executable (accounts l k)))"

abbreviation create_source :: "'d packages \<Rightarrow> pubkey \<Rightarrow> Instruction" where
  "create_source pk payer \<equiv>
     create_associated_token_account pk payer payer (token_mint pk) (spl_token_id pk)"

definition creates_token_account ::
    "'d packages \<Rightarrow> 'w network \<Rightarrow> ('w \<Rightarrow> ledger) \<Rightarrow> pubkey \<Rightarrow> bool" where
  "creates_token_account pk net ledger_of payer \<longleftrightarrow>
     settles_batch net ledger_of [create_source pk payer] (token_account_created pk payer)"

text \<open>
  Asking changes nothing; an answer about the program state shows what the ledger stores, and the
  signature in an answer of the oracle is a string that can be sent.
\<close>

definition answers_queries ::
    "'d packages \<Rightarrow> 'w network \<Rightarrow> ('w \<Rightarrow> ledger) \<Rightarrow> UserConfig \<Rightarrow> bool" where
  "answers_queries pk net ledger_of uc \<longleftrightarrow>
     (\<forall>k w. ledger_of (snd (account_bytes net (uc_rpc_url uc) k w)) = ledger_of w) \<and>
     (\<forall>w. ledger_of (snd (http_get_price net (uc_price_oracle_end_point uc) w)) = ledger_of w) \<and>
     (\<forall>k w bytes ps. fst (account_bytes net (uc_rpc_url uc) k w) = Some bytes \<longrightarrow>
        data (accounts (ledger_of w) k) = ProgramStateData ps \<longrightarrow>
        stored_bytes (sha256 pk) (ProgramStateData ps) bytes) \<and>
     (\<forall>w p. fst (http_get_price net (uc_price_oracle_end_point uc) w) = Some p \<longrightarrow>
        ok_string (signature p))"

definition offered :: "'w network \<Rightarrow> UserConfig \<Rightarrow> OraclePriceData \<Rightarrow> bool" where
  "offered net uc p \<longleftrightarrow> (\<exists>w. fst (http_get_price net (uc_price_oracle_end_point uc) w) = Some p)"

definition account_missing :: "ledger \<Rightarrow> pubkey \<Rightarrow> bool" where
  "account_missing l k \<longleftrightarrow> owner (accounts l k) = SYSTEM_PROGRAM_ID \<and> lamports (accounts l k) = 0"

text \<open>
  A network that loses nothing: every query is answered, the oracle with the quote \<open>p\<close>, and every
  transaction that can be carried out is confirmed.
\<close>

definition reliable ::
    "'d packages \<Rightarrow> 'e runtime \<Rightarrow> 'w network \<Rightarrow> ('w \<Rightarrow> ledger) \<Rightarrow> UserConfig \<Rightarrow> pubkey \<Rightarrow>
     OraclePriceData \<Rightarrow> bool" where
  "reliable pk rt net ledger_of uc payer p \<longleftrightarrow>
     (\<forall>w. fst (latest_blockhash net (uc_rpc_url uc) w) \<noteq> None) \<and>
     (\<forall>w. fst (http_get_price net (uc_price_oracle_end_point uc) w) = Some p) \<and>
     (\<forall>k w. fst (account_bytes net (uc_rpc_url uc) k w) = None \<longleftrightarrow> account_missing (ledger_of w) k) \<and>
     (\<forall>tx w ix i l'. tx_instructions tx = [ix] \<longrightarrow> ix_program_id ix = ID \<longrightarrow>
        received (sha256 pk) ix = Inr i \<longrightarrow> accepts rt i (ledger_of w) l' \<longrightarrow>
        (\<exists>sig. fst (send_and_confirm net (uc_rpc_url uc) tx w) = Inr sig)) \<and>
     (\<forall>tx w. tx_instructions tx = [create_source pk payer] \<longrightarrow>
        account_missing (ledger_of w) (associated_token_address pk payer (token_mint pk) (spl_token_id pk)) \<longrightarrow>
        (\<exists>sig. fst (send_and_confirm net (uc_rpc_url uc) tx w) = Inr sig)) \<and>
     (\<forall>m \<in> set (ix_accounts (create_source pk payer)). meta_is_signer m \<longrightarrow> meta_pubkey m = payer)"

lemma reliable_confirms:
  assumes "reliable pk rt net ledger_of uc payer p" "tx_instructions tx = [ix]" "ix_program_id ix = ID"
    "received (sha256 pk) ix = Inr i" "accepts rt i (ledger_of w) l'"
  shows "\<exists>sig. fst (send_and_confirm net (uc_rpc_url uc) tx w) = Inr sig"
  using assms unfolding reliable_def by blast

text \<open>What an accepted purchase from an account makes of a ledger that stores the system \<open>s\<close>.\<close>

definition purchased ::
    "'d packages \<Rightarrow> 'e runtime \<Rightarrow> system \<Rightarrow> pubkey \<Rightarrow> u64 \<Rightarrow> pubkey \<Rightarrow> OraclePriceData \<Rightarrow> ledger \<Rightarrow>
     ledger \<Rightarrow> bool" where
  "purchased pk rt s payer bid from p l l' \<longleftrightarrow>
     pays_from pk rt l from payer \<and>
     (\<exists>es ps l1. process_buy_sol rt l
        (purchase_accounts pk ID REVENUE_DISTRIBUTION_PROGRAM_ID (fills_registry_address (sys_state s))
          from payer)
        (sys_configuration s) (sys_state s) (sys_deny_list s) bid p = (es, Inr (ps, l1)) \<and>
      l' = set_data (state_key rt) (ProgramStateData ps) l1)"

lemma accepts_purchase:
  assumes "runtime_laws rt" "holds rt l s" "same_addresses pk rt" "exchange_deployed pk rt l"
  shows "accepts rt (BuySolIx (purchase_accounts pk ID REVENUE_DISTRIBUTION_PROGRAM_ID
      (fills_registry_address (sys_state s)) from payer) bid p) l l' \<longleftrightarrow>
    purchased pk rt s payer bid from p l l'"
proof -
  let ?ctx = "purchase_accounts pk ID REVENUE_DISTRIBUTION_PROGRAM_ID
      (fills_registry_address (sys_state s)) from payer"
  have key: "info_key (bs_program_state ?ctx) = state_key rt"
    using pda_keys(2) [OF assms(3)] by (simp add: purchase_accounts_def)
  show ?thesis
  proof (cases "pays_from pk rt l from payer")
    case True
    then have "validate_BuySol rt l ?ctx = Inr (sys_configuration s, sys_state s, sys_deny_list s)"
      using purchase_accounts_pass_iff [OF assms] by blast
    with True key show ?thesis
      by (cases "process_buy_sol rt l ?ctx (sys_configuration s) (sys_state s) (sys_deny_list s) bid p")
        (auto simp: accepts_def purchased_def buy_sol_def map_tx_def split: prod.splits sum.splits)
  next
    case False
    then obtain e where "validate_BuySol rt l ?ctx = Inl e"
      using purchase_accounts_pass_iff [OF assms] by (cases "validate_BuySol rt l ?ctx") blast+
    with False show ?thesis
      by (simp add: accepts_def purchased_def buy_sol_def fail_def)
  qed
qed

text \<open>The new token account touches nothing of the program, and can be paid from.\<close>

lemma token_account_created_keeps:
  assumes "token_account_created pk payer l l'" "holds rt l s" "exchange_deployed pk rt l"
  shows "holds rt l' s" "exchange_deployed pk rt l'"
proof -
  let ?a = "associated_token_address pk payer (token_mint pk) (spl_token_id pk)"
  have new: "owner (accounts l ?a) = SYSTEM_PROGRAM_ID" "owner (accounts l' ?a) = spl_token_id pk"
    "?a \<noteq> pda pk WITHDRAW_AUTHORITY ID" "?a \<noteq> spl_token_id pk"
    and kept: "\<And>k. k \<noteq> ?a \<Longrightarrow> owner (accounts l' k) = owner (accounts l k) \<and>
      data (accounts l' k) = data (accounts l k) \<and> executable (accounts l' k) = executable (accounts l k)"
    using assms(1) by (simp_all add: token_account_created_def Let_def)
  have "spl_token_id pk \<noteq> ID" "owner (accounts l ?a) \<noteq> ID"
    using assms(3) new(1) by (auto simp: exchange_deployed_def ID_eq SYSTEM_PROGRAM_ID_eq)
  then have "foreign_change l l'"
    using new kept unfolding foreign_change_def by metis
  then show "holds rt l' s" using assms(2) holds_foreign_change by blast
  have "k \<noteq> ?a" if "owner (accounts l k) \<in> set (token_program_ids rt)" for k
    using that assms(3) new(1) by (auto simp: exchange_deployed_def)
  with assms(3) have "token_mint pk \<noteq> ?a" "protocol_treasury pk \<noteq> ?a"
    by (simp_all add: exchange_deployed_def)
  with kept new(3,4) have "\<forall>k \<in> {token_mint pk, protocol_treasury pk, pda pk WITHDRAW_AUTHORITY ID, spl_token_id pk}.
      owner (accounts l' k) = owner (accounts l k) \<and> data (accounts l' k) = data (accounts l k) \<and>
      executable (accounts l' k) = executable (accounts l k)" by auto
  then show "exchange_deployed pk rt l'"
    using assms(3) by (simp add: exchange_deployed_def)
qed

section \<open>Sending on a reliable network\<close>

lemma load_user_config_Inr:
  "load_user_config pk = Inr uc \<Longrightarrow> \<exists>config. load_config pk = Inr config \<and> uc_rpc_url uc = cfg_rpc_url config"
  by (auto simp: load_user_config_def tx_simps)

lemma send_batch_delivered:
  assumes "settles_batch net ledger_of [ix] out" "load_payer_from_env pk = Inr payer"
    and "load_user_config pk = Inr uc" "\<And>w. fst (latest_blockhash net (uc_rpc_url uc) w) \<noteq> None"
    and "\<forall>m \<in> set (ix_accounts ix). meta_is_signer m \<longrightarrow> meta_pubkey m = payer"
    and "\<And>tx w. tx_instructions tx = [ix] \<Longrightarrow> ledger_of w = ledger_of (world st) \<Longrightarrow>
      \<exists>sig. fst (send_and_confirm net (uc_rpc_url uc) tx w) = Inr sig"
  shows "\<exists>w'. io_bind (send_batch_instructions pk net [ix]) (\<lambda>_. io_ok ()) st = (Inr (), st\<lparr>world := w'\<rparr>) \<and>
    out (ledger_of (world st)) (ledger_of w')"
proof -
  obtain config where config: "load_config pk = Inr config" "uc_rpc_url uc = cfg_rpc_url config"
    using load_user_config_Inr [OF assms(3)] by blast
  let ?url = "uc_rpc_url uc"
  obtain bh w1 where b: "latest_blockhash net ?url (world st) = (Some bh, w1)"
    using assms(4) by (metis option.exhaust_sel prod.collapse)
  have same: "ledger_of w1 = ledger_of (world st)"
    using assms(1) b unfolding settles_batch_def by (metis snd_conv)
  let ?tx = "\<lparr>tx_instructions = [ix], tx_payer = payer, tx_signers = [payer], tx_blockhash = bh\<rparr>"
  have signed: "new_signed_with_payer [ix] payer [payer] bh = Inr ?tx"
    using assms(5) by (simp add: new_signed_with_payer_def required_signers_def list_all_iff contains_def)
  obtain sig w2 where sent: "send_and_confirm net ?url ?tx w1 = (Inr sig, w2)"
    using assms(6) [of ?tx w1] same by (metis Transaction.select_convs(1) prod.collapse)
  have "settles out ledger_of w1 (send_and_confirm net ?url ?tx w1)"
    using assms(1) by (simp add: settles_batch_def)
  then have "out (ledger_of (world st)) (ledger_of w2)"
    by (simp add: sent settles_def same)
  moreover have "io_bind (send_batch_instructions pk net [ix]) (\<lambda>_. io_ok ()) st = (Inr (), st\<lparr>world := w2\<rparr>)"
    using b sent
    by (simp add: send_batch_instructions_def send_batch_instructions_with_signers_def assms(2)
        load_config_or_def config io_simps io_bind_def io_world_def signed io_ok_def)
  ultimately show ?thesis by blast
qed

section \<open>The two stages of a purchase\<close>

definition find_source ::
    "'d packages \<Rightarrow> 'w network \<Rightarrow> UserConfig \<Rightarrow> pubkey \<Rightarrow> string option \<Rightarrow> ('w, 'd, pubkey) io" where
  "find_source pk net uc payer from_address =
     (case from_address of
        Some t \<Rightarrow> io_try (pubkey_from_str pk t) io_ok
      | None \<Rightarrow> find_or_initialize_associated_token_account pk net payer (token_mint pk) (uc_rpc_url uc))"

definition buy_from ::
    "'d packages \<Rightarrow> 'w network \<Rightarrow> UserConfig \<Rightarrow> pubkey \<Rightarrow> u64 \<Rightarrow> pubkey \<Rightarrow> ('w, 'd, unit) io" where
  "buy_from pk net uc payer bid from =
     io_bind (fetch_oracle_price net (uc_price_oracle_end_point uc)) (\<lambda>p.
     io_bind (get_fills_registry_address pk net ID (uc_rpc_url uc)) (\<lambda>fills.
     io_bind (send_batch_instructions pk net
       [buy_sol_instruction pk ID REVENUE_DISTRIBUTION_PROGRAM_ID fills from payer bid p]) (\<lambda>_.
     io_ok ())))"

lemma buy_sol_cmd_stages:
  assumes "load_user_config pk = Inr uc" "load_payer_from_env pk = Inr payer"
    and "pubkey_of_str pk (uc_program_id uc) = Some ID"
    and "pubkey_of_str pk (uc_double_zero_program_id uc) = Some REVENUE_DISTRIBUTION_PROGRAM_ID"
    and "parse_token_value pk bid_price = Inr bid"
  shows "buy_sol_cmd pk net bid_price from_address st =
    io_bind (find_source pk net uc payer from_address) (buy_from pk net uc payer bid) st"
  by (simp add: buy_sol_cmd_def assms pubkey_from_str_Inl io_simps find_source_def buy_from_def [abs_def]
      get_token_mint_pda_def cong: option.case_cong)

lemma io_bind_unit:
  assumes "io_bind m (\<lambda>_. io_ok ()) st = (r, st')"
  shows "io_bind m (\<lambda>_. io_ok x) st = (case r of Inl e \<Rightarrow> (Inl e, st') | Inr _ \<Rightarrow> (Inr x, st'))"
  using assms by (auto simp: io_bind_def io_ok_def split: prod.splits sum.splits)

lemma source_stage:
  assumes "load_user_config pk = Inr uc" "load_payer_from_env pk = Inr payer"
    and "creates_token_account pk net ledger_of payer" "answers_queries pk net ledger_of uc"
  obtains src w1 where "find_source pk net uc payer from_address st = (src, st\<lparr>world := w1\<rparr>)"
    and "\<And>from. src = Inr from \<Longrightarrow> source_account pk payer from_address = Some from"
    and "ledger_of w1 = ledger_of (world st) \<or>
      from_address = None \<and> token_account_created pk payer (ledger_of (world st)) (ledger_of w1)"
    and "\<And>p from. reliable pk rt net ledger_of uc payer p \<Longrightarrow>
      source_account pk payer from_address = Some from \<Longrightarrow> src = Inr from \<and>
      (if from_address = None \<and> account_missing (ledger_of (world st)) from
       then token_account_created pk payer (ledger_of (world st)) (ledger_of w1)
       else ledger_of w1 = ledger_of (world st))"
proof (cases from_address)
  case (Some t)
  show thesis
  proof (cases "pubkey_of_str pk t")
    case None
    then show thesis
      by (intro that [of "Inl (Package PubkeyError)" "world st"])
        (simp_all add: find_source_def Some source_account_def pubkey_from_str_def io_simps io_fail_def)
  next
    case (Some k)
    then show thesis
      by (intro that [of "Inr k" "world st"])
        (simp_all add: find_source_def \<open>from_address = Some t\<close> source_account_def
          pubkey_from_str_def io_simps io_ok_def)
  qed
next
  case None
  let ?a = "associated_token_address pk payer (token_mint pk) (spl_token_id pk)" and ?url = "uc_rpc_url uc"
  let ?l = "ledger_of (world st)"
  obtain b w where b: "account_bytes net ?url ?a (world st) = (b, w)" by force
  have same: "ledger_of w = ?l"
    using assms(4) b unfolding answers_queries_def by (metis snd_conv)
  have run: "find_source pk net uc payer from_address st =
      (if b \<noteq> None then (Inr ?a, st\<lparr>world := w\<rparr>)
       else io_bind (send_batch_instructions pk net [create_source pk payer]) (\<lambda>_. io_ok ?a) (st\<lparr>world := w\<rparr>))"
    by (simp add: find_source_def None find_or_initialize_associated_token_account_def Let_def io_world_def
        b io_ok_def)
  have missing: "b = None \<longleftrightarrow> account_missing ?l ?a" if "reliable pk rt net ledger_of uc payer p" for p
    using that b unfolding reliable_def by (metis fst_conv)
  show thesis
  proof (cases "b = None")
    case False
    then show thesis
      using same missing run
      by (intro that [of "Inr ?a" w]) (simp_all add: source_account_def None)
  next
    case True
    note batch = assms(3) [unfolded creates_token_account_def]
    obtain r w1 where sent: "io_bind (send_batch_instructions pk net [create_source pk payer]) (\<lambda>_. io_ok ())
        (st\<lparr>world := w\<rparr>) = (r, st\<lparr>world := w1\<rparr>)"
      "settles (token_account_created pk payer) ledger_of w (r, w1)"
      using send_batch_settles [OF batch, of pk "[]" "st\<lparr>world := w\<rparr>"]
      by (auto simp: send_batch_instructions_def)
    have delivered: "r = Inr () \<and> token_account_created pk payer ?l (ledger_of w1)"
      if "reliable pk rt net ledger_of uc payer p" for p
    proof -
      note net = that [unfolded reliable_def]
      have "\<exists>w'. io_bind (send_batch_instructions pk net [create_source pk payer]) (\<lambda>_. io_ok ())
          (st\<lparr>world := w\<rparr>) = (Inr (), (st\<lparr>world := w\<rparr>)\<lparr>world := w'\<rparr>) \<and>
        token_account_created pk payer (ledger_of (world (st\<lparr>world := w\<rparr>))) (ledger_of w')"
      proof (rule send_batch_delivered [OF batch assms(2,1)])
        show "\<forall>m \<in> set (ix_accounts (create_source pk payer)). meta_is_signer m \<longrightarrow> meta_pubkey m = payer"
          and "\<And>w. fst (latest_blockhash net ?url w) \<noteq> None"
          using net by blast+
        show "\<exists>sig. fst (send_and_confirm net ?url tx w') = Inr sig"
          if "tx_instructions tx = [create_source pk payer]"
            "ledger_of w' = ledger_of (world (st\<lparr>world := w\<rparr>))" for tx w'
          using that net missing [OF \<open>reliable pk rt net ledger_of uc payer p\<close>] True same by simp
      qed
      then have "r = Inr ()" using sent(1) by auto
      then show ?thesis using sent(2) same by (simp add: settles_def)
    qed
    show thesis
    proof (rule that)
      show "find_source pk net uc payer from_address st =
          ((case r of Inl e \<Rightarrow> Inl e | Inr u \<Rightarrow> Inr ?a), st\<lparr>world := w1\<rparr>)"
        using io_bind_unit [OF sent(1), of ?a] True by (simp add: run split: sum.splits)
    qed (use sent(2) same delivered missing True in
        \<open>auto simp: None source_account_def settles_def split: sum.splits\<close>)
  qed
qed

lemma fills_address_asked:
  assumes "sha_laws (sha256 pk)" "answers_queries pk net ledger_of uc"
    and "data (accounts (ledger_of (world st)) (pda pk PROGRAM_STATE ID)) = ProgramStateData ps"
  obtains w where "ledger_of w = ledger_of (world st)"
    and "(\<exists>e. get_fills_registry_address pk net ID (uc_rpc_url uc) st = (Inl e, st\<lparr>world := w\<rparr>)) \<and>
        fst (account_bytes net (uc_rpc_url uc) (pda pk PROGRAM_STATE ID) (world st)) = None \<or>
      get_fills_registry_address pk net ID (uc_rpc_url uc) st =
        (Inr (fills_registry_address ps), st\<lparr>world := w\<rparr>)"
proof -
  obtain b w where b: "account_bytes net (uc_rpc_url uc) (pda pk PROGRAM_STATE ID) (world st) = (b, w)"
    by force
  have same: "ledger_of w = ledger_of (world st)"
    using assms(2) b unfolding answers_queries_def by (metis snd_conv)
  show thesis
  proof (cases b)
    case None
    then have "\<exists>e. get_fills_registry_address pk net ID (uc_rpc_url uc) st = (Inl e, st\<lparr>world := w\<rparr>)"
      using b by (simp add: get_fills_registry_address_def get_account_data_def pda_defs io_bind_def
          io_world_def io_simps io_fail_def)
    with same b None show thesis by (intro that [of w]) simp_all
  next
    case (Some bytes)
    then have "stored_bytes (sha256 pk) (ProgramStateData ps) bytes"
      using assms(2,3) b unfolding answers_queries_def by (metis fst_conv)
    then show thesis
      using get_fills_registry_address_run [OF assms(1) b [unfolded Some]] same by (intro that [of w]) simp_all
  qed
qed

lemma purchase_stage:
  assumes "selector_laws (sha256 pk)" "load_user_config pk = Inr uc" "load_payer_from_env pk = Inr payer"
    and "runs_program pk rt net ledger_of" "answers_queries pk net ledger_of uc"
    and "runtime_laws rt" "same_addresses pk rt"
    and "holds rt (ledger_of (world st)) s" "exchange_deployed pk rt (ledger_of (world st))"
  obtains r w' where "buy_from pk net uc payer bid from st = (r, st\<lparr>world := w'\<rparr>)"
    and "(\<exists>e. r = Inl e) \<and> ledger_of w' = ledger_of (world st) \<or>
      (\<exists>p. offered net uc p \<and> purchased pk rt s payer bid from p (ledger_of (world st)) (ledger_of w'))"
    and "\<And>p. reliable pk rt net ledger_of uc payer p \<Longrightarrow>
      if \<exists>l2. purchased pk rt s payer bid from p (ledger_of (world st)) l2
      then r = Inr () \<and> purchased pk rt s payer bid from p (ledger_of (world st)) (ledger_of w')
      else (\<exists>e. r = Inl e) \<and> ledger_of w' = ledger_of (world st)"
proof -
  let ?l = "ledger_of (world st)" and ?ep = "uc_price_oracle_end_point uc" and ?url = "uc_rpc_url uc"
  let ?fills = "fills_registry_address (sys_state s)"
  obtain q w1 where q: "http_get_price net ?ep (world st) = (q, w1)" by force
  have l1: "ledger_of w1 = ?l"
    using assms(5) q unfolding answers_queries_def by (metis snd_conv)
  have quoted: "q = Some p" if "reliable pk rt net ledger_of uc payer p" for p
    using that q unfolding reliable_def by (metis fst_conv)
  have stored: "data (accounts ?l (pda pk PROGRAM_STATE ID)) = ProgramStateData (sys_state s)"
    "owner (accounts ?l (pda pk PROGRAM_STATE ID)) = ID"
    using assms(8) by (simp_all add: pda_keys [OF assms(7)] holds_def stored_def)
  show thesis
  proof (cases q)
    case None
    then show thesis
      using q l1 quoted
      by (intro that [of "Inl (Package HttpError)" w1])
        (auto simp: buy_from_def fetch_oracle_price_def io_bind_def io_world_def io_simps io_fail_def)
  next
    case (Some p)
    have ok: "ok_string (signature p)"
      using assms(5) q Some unfolding answers_queries_def by (metis fst_conv)
    have offer: "offered net uc p" using q Some by (auto simp: offered_def intro: exI [of _ "world st"])
    let ?st1 = "st\<lparr>world := w1\<rparr>"
    obtain w2 where l2: "ledger_of w2 = ?l"
      and asked: "(\<exists>e. get_fills_registry_address pk net ID ?url ?st1 = (Inl e, st\<lparr>world := w2\<rparr>)) \<and>
          fst (account_bytes net ?url (pda pk PROGRAM_STATE ID) w1) = None \<or>
        get_fills_registry_address pk net ID ?url ?st1 = (Inr ?fills, st\<lparr>world := w2\<rparr>)"
      using fills_address_asked [OF selector_sha [OF assms(1)] assms(5), of ?st1 "sys_state s"] stored(1) l1
      by auto
    have bought: "buy_from pk net uc payer bid from st =
        io_bind (get_fills_registry_address pk net ID ?url) (\<lambda>fills.
          io_bind (send_batch_instructions pk net
            [buy_sol_instruction pk ID REVENUE_DISTRIBUTION_PROGRAM_ID fills from payer bid p])
            (\<lambda>_. io_ok ())) ?st1"
      using q Some
      by (simp add: buy_from_def fetch_oracle_price_def io_bind_def io_world_def io_simps io_ok_def)
    from asked show thesis
    proof (elim disjE conjE exE)
      fix e assume failed: "get_fills_registry_address pk net ID ?url ?st1 = (Inl e, st\<lparr>world := w2\<rparr>)"
        "fst (account_bytes net ?url (pda pk PROGRAM_STATE ID) w1) = None"
      have "\<not> reliable pk rt net ledger_of uc payer p'" for p'
      proof
        assume "reliable pk rt net ledger_of uc payer p'"
        then have "account_missing (ledger_of w1) (pda pk PROGRAM_STATE ID)"
          using failed(2) unfolding reliable_def by blast
        then show False
          using stored(2) by (simp add: account_missing_def l1 ID_eq SYSTEM_PROGRAM_ID_eq)
      qed
      then show thesis
        using failed(1) l2 bought by (intro that [of "Inl e" w2]) (auto simp: io_bind_def)
    next
      assume found: "get_fills_registry_address pk net ID ?url ?st1 = (Inr ?fills, st\<lparr>world := w2\<rparr>)"
      let ?ix = "buy_sol_instruction pk ID REVENUE_DISTRIBUTION_PROGRAM_ID ?fills from payer bid p"
      let ?i = "BuySolIx (purchase_accounts pk ID REVENUE_DISTRIBUTION_PROGRAM_ID ?fills from payer) bid p"
      have sends: "buy_from pk net uc payer bid from st =
          io_bind (send_batch_instructions pk net [?ix]) (\<lambda>_. io_ok ()) (st\<lparr>world := w2\<rparr>)"
        using found by (simp add: bought io_bind_def)
      have ix: "ix_program_id ?ix = ID" "received (sha256 pk) ?ix = Inr ?i"
        using buy_sol_received [OF assms(1) ok] by (simp_all add: buy_sol_instruction_def)
      have accepted: "accepts rt ?i ?l l' \<longleftrightarrow> purchased pk rt s payer bid from p ?l l'" for l'
        by (rule accepts_purchase [OF assms(6,8,7,9)])
      obtain r w3 where run: "buy_from pk net uc payer bid from st = (r, st\<lparr>world := w3\<rparr>)"
        "settles (accepts rt ?i) ledger_of w2 (r, w3)"
        using send_on_chain [OF assms(4) ix, of "st\<lparr>world := w2\<rparr>"] sends by auto
      have settled: "purchased pk rt s payer bid from p ?l (ledger_of w3) \<or>
          (\<exists>e. r = Inl e) \<and> ledger_of w3 = ?l"
        using run(2) by (simp add: settles_def l2 accepted)
      have exact: "r = Inr () \<and> purchased pk rt s payer bid from p ?l (ledger_of w3)"
        if rel: "reliable pk rt net ledger_of uc payer p" and "purchased pk rt s payer bid from p ?l l'" for l'
      proof -
        note net = rel [unfolded reliable_def]
        have "\<exists>w'. io_bind (send_batch_instructions pk net [?ix]) (\<lambda>_. io_ok ()) (st\<lparr>world := w2\<rparr>) =
            (Inr (), (st\<lparr>world := w2\<rparr>)\<lparr>world := w'\<rparr>) \<and>
          accepts rt ?i (ledger_of (world (st\<lparr>world := w2\<rparr>))) (ledger_of w')"
        proof (rule send_batch_delivered [OF _ assms(3,2)])
          show "settles_batch net ledger_of [?ix] (accepts rt ?i)"
            using assms(4) ix by (simp add: runs_program_def)
          show "\<And>w. fst (latest_blockhash net ?url w) \<noteq> None" using net by blast
          show "\<forall>m \<in> set (ix_accounts ?ix). meta_is_signer m \<longrightarrow> meta_pubkey m = payer"
            by (simp add: buy_sol_instruction_def meta_new_def)
          show "\<exists>sig. fst (send_and_confirm net ?url tx w) = Inr sig"
            if "tx_instructions tx = [?ix]" "ledger_of w = ledger_of (world (st\<lparr>world := w2\<rparr>))" for tx w
          proof -
            have "accepts rt ?i (ledger_of w) l'"
              using \<open>purchased pk rt s payer bid from p ?l l'\<close> accepted that(2) l2 by simp
            then show ?thesis using reliable_confirms [OF rel that(1) ix] by blast
          qed
        qed
        then have "r = Inr ()" using run(1) sends by auto
        then show ?thesis using settled by simp
      qed
      show thesis
      proof (rule that [OF run(1)])
        show "(\<exists>e. r = Inl e) \<and> ledger_of w3 = ?l \<or>
          (\<exists>p. offered net uc p \<and> purchased pk rt s payer bid from p ?l (ledger_of w3))"
          using settled offer by blast
        show "if \<exists>l2. purchased pk rt s payer bid from p' ?l l2
          then r = Inr () \<and> purchased pk rt s payer bid from p' ?l (ledger_of w3)
          else (\<exists>e. r = Inl e) \<and> ledger_of w3 = ?l" if "reliable pk rt net ledger_of uc payer p'" for p'
        proof -
          have "p' = p" using quoted [OF that] Some by simp
          then show ?thesis using exact settled that by (simp split: if_split) blast
        qed
      qed
    qed
  qed
qed

section \<open>The command\<close>

text \<open>
  C21: What the purchase command does on the chain, with the source account given or not.  The
  tool may first create the buyer's associated token account, when none is given; besides that,
  either nothing changes and the command fails, or the ledger is the one after the purchase of the
  program, with the parsed bid, a quote of the oracle and the payer as the buyer.  With the mint,
  the treasury's account and the token program in place, the program's account checks let the
  purchase through exactly when the source is a token account of the payer.  On a network that
  loses nothing the source account is created exactly when it is missing, and the command succeeds
  exactly when the program accepts the purchase.
\<close>

theorem purchase_command_executes:
  assumes "selector_laws (sha256 pk)" "load_user_config pk = Inr uc" "load_payer_from_env pk = Inr payer"
    and "pubkey_of_str pk (uc_program_id uc) = Some ID"
    and "pubkey_of_str pk (uc_double_zero_program_id uc) = Some REVENUE_DISTRIBUTION_PROGRAM_ID"
    and "parse_token_value pk bid_price = Inr bid"
    and "runs_program pk rt net ledger_of" "creates_token_account pk net ledger_of payer"
    and "answers_queries pk net ledger_of uc" "runtime_laws rt" "same_addresses pk rt"
    and "ledger_of (world st) = l" "holds rt l s" "exchange_deployed pk rt l"
    and "buy_sol_cmd pk net bid_price from_address st = (r, st')" "ledger_of (world st') = l'"
  shows "printed st' = printed st \<and>
    (\<exists>l1. (l1 = l \<or> from_address = None \<and> token_account_created pk payer l l1) \<and>
      ((\<exists>e. r = Inl e) \<and> l' = l1 \<or>
       (\<exists>from p. source_account pk payer from_address = Some from \<and> offered net uc p \<and>
          purchased pk rt s payer bid from p l1 l'))) \<and>
    (\<forall>from p. source_account pk payer from_address = Some from \<longrightarrow>
      reliable pk rt net ledger_of uc payer p \<longrightarrow>
      (\<exists>l1. (if from_address = None \<and> account_missing l from then token_account_created pk payer l l1
             else l1 = l) \<and>
        (if \<exists>l2. purchased pk rt s payer bid from p l1 l2
         then r = Inr () \<and> purchased pk rt s payer bid from p l1 l'
         else (\<exists>e. r = Inl e) \<and> l' = l1)))"
proof -
  obtain src w1 where found: "find_source pk net uc payer from_address st = (src, st\<lparr>world := w1\<rparr>)"
    and source: "\<And>from. src = Inr from \<Longrightarrow> source_account pk payer from_address = Some from"
    and l1: "ledger_of w1 = l \<or> from_address = None \<and> token_account_created pk payer l (ledger_of w1)"
    and rel: "\<And>p from. reliable pk rt net ledger_of uc payer p \<Longrightarrow>
      source_account pk payer from_address = Some from \<Longrightarrow> src = Inr from \<and>
      (if from_address = None \<and> account_missing l from
       then token_account_created pk payer l (ledger_of w1) else ledger_of w1 = l)"
    using source_stage [OF assms(2,3,8,9), where rt = rt and st = st and from_address = from_address]
    unfolding assms(12) by metis
  note run = buy_sol_cmd_stages [OF assms(2-6), of net from_address st, unfolded assms(15)]
  have ready: "holds rt (ledger_of w1) s" "exchange_deployed pk rt (ledger_of w1)"
    using l1 token_account_created_keeps [OF _ assms(13,14)] assms(13,14) by auto
  show ?thesis
  proof (cases src)
    case (Inl e)
    then have "r = Inl e" "st' = st\<lparr>world := w1\<rparr>" using run found by (simp_all add: io_bind_def)
    then show ?thesis using l1 rel assms(16) Inl by (auto intro!: exI [of _ "ledger_of w1"])
  next
    case (Inr k)
    let ?st1 = "st\<lparr>world := w1\<rparr>"
    have at: "holds rt (ledger_of (world ?st1)) s" "exchange_deployed pk rt (ledger_of (world ?st1))"
      using ready by simp_all
    obtain r2 w2 where bought: "buy_from pk net uc payer bid k ?st1 = (r2, ?st1\<lparr>world := w2\<rparr>)"
      and outcome: "(\<exists>e. r2 = Inl e) \<and> ledger_of w2 = ledger_of (world ?st1) \<or>
        (\<exists>p. offered net uc p \<and> purchased pk rt s payer bid k p (ledger_of (world ?st1)) (ledger_of w2))"
      and exact: "\<And>p. reliable pk rt net ledger_of uc payer p \<Longrightarrow>
        if \<exists>l2. purchased pk rt s payer bid k p (ledger_of (world ?st1)) l2
        then r2 = Inr () \<and> purchased pk rt s payer bid k p (ledger_of (world ?st1)) (ledger_of w2)
        else (\<exists>e. r2 = Inl e) \<and> ledger_of w2 = ledger_of (world ?st1)"
      by (rule purchase_stage [OF assms(1-3,7,9-11) at]) blast
    have "(r, st') = (r2, ?st1\<lparr>world := w2\<rparr>)"
      using run found Inr bought by (simp add: io_bind_def)
    then have st': "r2 = r" "st' = st\<lparr>world := w2\<rparr>" "ledger_of w2 = l'"
      using assms(16) by auto
    have at_w1: "world ?st1 = w1" by simp
    note outcome = outcome [unfolded st'(1,3) at_w1] and exact = exact [unfolded st'(1,3) at_w1]
    have "\<exists>l1. (if from_address = None \<and> account_missing l a then token_account_created pk payer l l1
             else l1 = l) \<and>
        (if \<exists>l2. purchased pk rt s payer bid a p l1 l2
         then r = Inr () \<and> purchased pk rt s payer bid a p l1 l'
         else (\<exists>e. r = Inl e) \<and> l' = l1)"
      if "source_account pk payer from_address = Some a" "reliable pk rt net ledger_of uc payer p" for a p
    proof -
      have "k = a" using rel [OF that(2,1)] Inr by simp
      then show ?thesis
        using rel [OF that(2,1)] exact [OF that(2), unfolded \<open>k = a\<close>]
        by (intro exI [of _ "ledger_of w1"] conjI) simp_all
    qed
    moreover have "\<exists>l1. (l1 = l \<or> from_address = None \<and> token_account_created pk payer l l1) \<and>
      ((\<exists>e. r = Inl e) \<and> l' = l1 \<or>
       (\<exists>from p. source_account pk payer from_address = Some from \<and> offered net uc p \<and>
          purchased pk rt s payer bid from p l1 l'))"
      using l1 outcome source [OF Inr] by (intro exI [of _ "ledger_of w1"]) auto
    ultimately show ?thesis using st'(2) by simp
  qed
qed

section \<open>A purchase without a source account\<close>

text \<open>The ledger on which the buyer's token account does not exist yet.\<close>

definition buyer_ledger :: ledger where
  "buyer_ledger = sample_ledger\<lparr>accounts := (accounts sample_ledger)
     (21 := \<lparr>lamports = 0, owner = SYSTEM_PROGRAM_ID, executable = False, data = NoData\<rparr>)\<rparr>"

definition buyer_chain :: "OraclePriceData \<Rightarrow> ledger network" where
  "buyer_chain quote = (cli_chain quote)
     \<lparr>send_and_confirm := (\<lambda>url tx l. case tx_instructions tx of
        [ix] \<Rightarrow> (if ix_program_id ix = 31 then
            if account_missing l 21
            then (Inr ''sig'', l\<lparr>accounts := (accounts l)(21 := owned_account 30 (TokenData 23 5 0))\<rparr>)
            else (Inl (OtherClientError ''rejected''), l)
          else send_and_confirm (cli_chain quote) url tx l)
      | _ \<Rightarrow> (Inl (OtherClientError ''rejected''), l)),
      account_bytes := (\<lambda>url k l.
        (if account_missing l k then None else Some (account_image cli_sha (data (accounts l k))), l))\<rparr>"

lemma buyer_accounts [simp]:
  "associated_token_address (cli_packages p) k m t = 21"
  "ix_program_id (create_associated_token_account (cli_packages p) a b c d) = 31"
  "ix_accounts (create_associated_token_account (cli_packages p) a b c d) = []"
  by (simp_all add: cli_packages_def)

lemma buyer_chain_runs:
  "runs_program (cli_packages p) cli_runtime (buyer_chain quote) (\<lambda>l. l)"
  by (auto simp: runs_program_def settles_batch_def buyer_chain_def cli_chain_def settles_def accepts_def ID_eq
      split: sum.splits prod.splits)

lemma buyer_chain_creates: "creates_token_account (cli_packages p) (buyer_chain quote) (\<lambda>l. l) 5"
  by (auto simp: creates_token_account_def settles_batch_def settles_def buyer_chain_def cli_chain_def
      token_account_created_def account_missing_def owned_account_def)

lemma buyer_chain_answers:
  "ok_string (signature quote) \<Longrightarrow>
     answers_queries (cli_packages p) (buyer_chain quote) (\<lambda>l. l) cli_user_config"
  by (auto simp: answers_queries_def buyer_chain_def cli_chain_def split: if_splits)

lemma buyer_chain_reliable:
  "reliable (cli_packages p) cli_runtime (buyer_chain quote) (\<lambda>l. l) cli_user_config 5 quote"
  by (auto simp: reliable_def buyer_chain_def cli_chain_def accepts_def ID_eq split: sum.splits prod.splits)

lemma buyer_holds: "holds cli_runtime buyer_ledger sample_system"
proof -
  have "foreign_change sample_ledger buyer_ledger"
    by (simp add: foreign_change_def buyer_ledger_def sample_ledger_def sample_chain_def owned_account_def
        ID_eq SYSTEM_PROGRAM_ID_eq)
  then show ?thesis using cli_holds holds_foreign_change by blast
qed

lemma buyer_deployed: "exchange_deployed (cli_packages p) cli_runtime buyer_ledger"
  by (simp add: exchange_deployed_def buyer_ledger_def sample_ledger_def sample_chain_def owned_account_def
      system_account_def ID_eq SYSTEM_PROGRAM_ID_eq)

lemma cli_calls [simp]:
  "transfer_tokens cli_runtime ctx n l = Inr l" "withdraw_sol cli_runtime ctx ps q l = Inr l"
  by (simp_all add: transfer_tokens_def withdraw_sol_def cli_runtime_def)

lemma buyer_purchases:
  assumes "token_account_created (cli_packages ''5'') 5 buyer_ledger l1"
  shows "\<exists>l2. purchased (cli_packages ''5'') cli_runtime sample_system 5 2000000000 21
    (sample_quote 2000000000 1000) l1 l2"
proof -
  let ?pk = "cli_packages ''5''" and ?q = "sample_quote 2000000000 1000"
  let ?ctx = "purchase_accounts ?pk ID REVENUE_DISTRIBUTION_PROGRAM_ID
    (fills_registry_address (sys_state sample_system)) 21 5"
  have l1: "clock_sysvar l1 = sample_clock" "owner (accounts l1 21) = 30"
    "data (accounts l1 21) = TokenData 23 5 0" "data (accounts l1 40) = FillsData sample_registry"
    using assms
    by (simp_all add: token_account_created_def buyer_ledger_def)
      (simp_all add: sample_ledger_def owned_account_def)
  have buyer: "info_key (bs_signer ?ctx) = 5" "info_key (bs_fills_registry ?ctx) = 40"
    by (simp_all add: purchase_accounts_def) (simp_all add: sample_program_state_def)
  have "decimal_laws (decimals cli_runtime) (\<lambda>q. q)" by (simp add: rat_ops_laws)
  moreover have "decide_purchase (crypto_ops cli_runtime) sample_clock sample_configuration
     sample_program_state sample_deny_list 5 2000000000 ?q = Inr (1891000000, 47275000000)"
    by (simp add: sample_decision)
  ultimately have decided: "ask_price cli_runtime sample_configuration sample_program_state sample_clock ?q =
      Inr 1891000000" "\<not> is_halted sample_program_state" "5 \<notin> set (denied_addresses sample_deny_list)"
    "last_trade_slot sample_program_state < slot sample_clock"
    "verify_attestation sample_crypto (Inr sample_clock) ?q (oracle_pubkey sample_configuration)
      (price_maximum_age sample_configuration) = Inr ()"
    "tokens_required (sol_quantity sample_configuration) 1891000000 = Inr 47275000000"
    using decide_purchase_Inr(1-5,8) [where rt = cli_runtime, OF _ valid_sample_configuration]
    by fastforce+
  obtain r' where "enqueue_fill 25000000000 47275000000 sample_registry = Inr r'"
    using enqueue_fill_ok [OF sample_inv, of 25000000000 47275000000]
    by (auto simp: MAX_FILLS_QUEUE_SIZE_def)
  moreover have "data (account_of l1 (bs_fills_registry ?ctx)) = FillsData sample_registry"
    unfolding account_of_def buyer by (rule l1(4))
  ultimately have "process_buy_sol cli_runtime l1 ?ctx sample_configuration
      sample_program_state sample_deny_list 2000000000 ?q =
    ([TradeEvent 25000000000 47275000000 2000000000 1000 5 5],
     Inr (sample_program_state\<lparr>last_trade_slot := 200\<rparr>, set_data 40 (FillsData r') l1))"
    unfolding process_buy_sol_Inr_iff buyer l1(1) using decided by auto
  then show ?thesis
    using l1(2,3) by (simp add: purchased_def pays_from_def)
qed

theorem purchase_command_executes_witness:
  "\<exists>l1 l'. buy_sol_cmd (cli_packages ''5'') (buyer_chain (sample_quote 2000000000 1000)) ''20'' None
      \<lparr>world = buyer_ledger, printed = []\<rparr> = (Inr (), \<lparr>world = l', printed = []\<rparr>) \<and>
    token_account_created (cli_packages ''5'') 5 buyer_ledger l1 \<and>
    purchased (cli_packages ''5'') cli_runtime sample_system 5 2000000000 21
      (sample_quote 2000000000 1000) l1 l'"
proof -
  let ?pk = "cli_packages ''5''" and ?q = "sample_quote 2000000000 1000"
  let ?st = "\<lparr>world = buyer_ledger, printed = []\<rparr> :: (ledger, rat) session"
  have inputs: "selector_laws (sha256 ?pk)" "pubkey_of_str ?pk (uc_program_id cli_user_config) = Some ID"
    "pubkey_of_str ?pk (uc_double_zero_program_id cli_user_config) = Some REVENUE_DISTRIBUTION_PROGRAM_ID"
    "world ?st = buyer_ledger"
    by (simp_all add: cli_user_config_def)
  obtain r st' where cmd: "buy_sol_cmd ?pk (buyer_chain ?q) ''20'' None ?st = (r, st')" by force
  note executes = purchase_command_executes [where ledger_of = "\<lambda>l. l", OF inputs(1) cli_load_configs(2)
      cli_payers(2) inputs(2,3) cli_amounts_typed(1) buyer_chain_runs buyer_chain_creates
      buyer_chain_answers [OF quote_ok_string] cli_runtime_laws cli_same_addresses inputs(4) buyer_holds
      buyer_deployed cmd refl]
  have "source_account ?pk 5 None = Some 21" "account_missing buyer_ledger 21"
    by (simp_all add: source_account_def account_missing_def buyer_ledger_def)
  then obtain l1 where l1: "token_account_created ?pk 5 buyer_ledger l1"
    and outcome: "if \<exists>l2. purchased ?pk cli_runtime sample_system 5 2000000000 21 ?q l1 l2
         then r = Inr () \<and> purchased ?pk cli_runtime sample_system 5 2000000000 21 ?q l1 (world st')
         else (\<exists>e. r = Inl e) \<and> world st' = l1"
    using executes buyer_chain_reliable [of "''5''" ?q] by (metis (full_types))
  then have "r = Inr ()" "purchased ?pk cli_runtime sample_system 5 2000000000 21 ?q l1 (world st')"
    using buyer_purchases [OF l1] by simp_all
  moreover have "st' = \<lparr>world = world st', printed = []\<rparr>"
    using executes by simp
  ultimately show ?thesis using cmd l1 by metis
qed

end
