(* ===== verification/Cli_View_Properties.thy ===== *)
theory Cli_View_Properties
  imports Cli_Properties
begin

text \<open>
  What the tools show and read: the layouts of the stored accounts, the displays of the deny list
  and of the pending fills, the program state through the tools' structure, the retries of the
  executor, amounts and the payer's key.
\<close>

section \<open>Layout\<close>

text \<open>
  C27: Every account of a valid system has a layout of the size its account was created with: the
  configuration and the program state fill their space, the deny list fits it with the most
  entries it may have, the fills registry fits the account the tool creates; and each layout reads
  back as the value written, whatever bytes follow it.
\<close>

theorem account_layout_fits:
  assumes "valid_system s" "sha_laws sha"
  shows "length (account_image sha (ConfigurationData (sys_configuration s))) =
      DISCRIMINATOR_SIZE + CONFIGURATION_INIT_SPACE \<and>
    length (account_image sha (ProgramStateData (sys_state s))) =
      DISCRIMINATOR_SIZE + PROGRAM_STATE_INIT_SPACE \<and>
    length (account_image sha (DenyListData (sys_deny_list s))) \<le>
      DISCRIMINATOR_SIZE + DENY_LIST_INIT_SPACE \<and>
    length (account_image sha (FillsData (sys_fills s))) = DISCRIMINATOR_SIZE + FILLS_REGISTRY_SIZE \<and>
    DISCRIMINATOR_SIZE + FILLS_REGISTRY_SIZE \<le> FILLS_ACCOUNT_SPACE \<and>
    (\<forall>rest. get_ConfigurationRegistry
        (drop 8 (account_image sha (ConfigurationData (sys_configuration s)) @ rest)) =
        Some (sys_configuration s, rest) \<and>
      get_ProgramStateAccount (drop 8 (account_image sha (ProgramStateData (sys_state s)) @ rest)) =
        Some (sys_state s, rest) \<and>
      get_DenyListRegistry (drop 8 (account_image sha (DenyListData (sys_deny_list s)) @ rest)) =
        Some (sys_deny_list s, rest) \<and>
      same_registry (cast_FillsRegistry (drop 8 (account_image sha (FillsData (sys_fills s)) @ rest)))
        (sys_fills s))"
proof -
  have entries: "length (denied_addresses (sys_deny_list s)) \<le> MAX_DENY_LIST_SIZE"
    using assms(1) by (simp add: valid_system_def valid_deny_list_def)
  then have "length (denied_addresses (sys_deny_list s)) < 2 ^ 32"
    by (simp add: MAX_DENY_LIST_SIZE_def)
  moreover have "length (account_image sha (DenyListData (sys_deny_list s))) \<le>
      DISCRIMINATOR_SIZE + DENY_LIST_INIT_SPACE"
    using entries assms(2)
    by (simp add: account_image_def length_put_DenyListRegistry DENY_LIST_INIT_SPACE_def
        DISCRIMINATOR_SIZE_def)
  ultimately show ?thesis
    using assms(2)
    by (simp add: account_image_def configuration_codec.length_put program_state_codec.length_put
        configuration_codec.get_put program_state_codec.get_put deny_list_codec.get_put
        length_put_FillsRegistry cast_put_FillsRegistry DISCRIMINATOR_SIZE_def FILLS_REGISTRY_SIZE_def
        FILLS_ACCOUNT_SPACE_def MAX_FILLS_QUEUE_SIZE_def)
qed

theorem account_layout_fits_witness:
  "length (account_image cli_sha (DenyListData sample_deny_list)) \<le>
      DISCRIMINATOR_SIZE + DENY_LIST_INIT_SPACE \<and>
    get_ConfigurationRegistry (drop 8 (account_image cli_sha (ConfigurationData sample_configuration) @ [0, 0])) =
      Some (sample_configuration, [0, 0])"
  using account_layout_fits [OF sample_valid cli_sha_laws] by (simp del: drop_append)

section \<open>Displays\<close>

text \<open>
  The display of the deny list prints exactly the stored list: its length and one line per
  denied key, in order, whatever bytes removed entries left behind the account's value.
\<close>

theorem view_deny_list_lists:
  assumes "load_admin_config pk = Inr cfg" "pubkey_of_str pk (ac_program_id cfg) = Some program"
    and "account_bytes net (ac_rpc_url cfg) (pda pk DENY_LIST_REGISTRY program) (world st) =
      (Some bytes, w)"
    and "sha_laws sha" "stored_bytes sha (DenyListData d) bytes" "valid_deny_list d"
  shows "admin_handle pk net (Some ViewDenyList) st = (Inr (), st\<lparr>world := w, printed := printed st @
    DeniedCount (length (denied_addresses d)) #
    (if denied_addresses d = [] then [NoDenied]
     else map2 DeniedEntry [1..<Suc (length (denied_addresses d))] (denied_addresses d))\<rparr>)"
proof -
  have entries: "entry_lines i ks = map2 DeniedEntry [Suc i..<Suc (i + length ks)] ks" for i ks
    by (induction ks arbitrary: i) (simp_all add: upt_rec)
  have "length (denied_addresses d) < 2 ^ 32"
    using assms(6) by (simp add: valid_deny_list_def MAX_DENY_LIST_SIZE_def)
  note lines = deny_list_lines_stored [OF assms(4,5) this, unfolded listing_def entries add_0]
  have "admin_handle pk net (Some ViewDenyList) = view_deny_list pk net"
    by (simp add: admin_handle_def)
  then show ?thesis
    by (simp only: view_deny_list_def assms(1-3) pubkey_from_str_Inl io_simps pda_defs
        io_world_def io_prints_def lines option.case prod.case cli_seeds session.simps One_nat_def) simp
qed

theorem view_deny_list_lists_witness:
  "printed (snd (admin_handle (cli_packages ''1'') (cli_network [] (sample_quote 1 1)) (Some ViewDenyList)
      cli_session)) =
    [DeniedCount 3, DeniedEntry 1 11, DeniedEntry 2 12, DeniedEntry 3 13]"
proof -
  have "pubkey_of_str (cli_packages ''1'') (ac_program_id cli_admin_config) = Some ID"
    "account_bytes (cli_network [] (sample_quote 1 1)) (ac_rpc_url cli_admin_config)
      (pda (cli_packages ''1'') DENY_LIST_REGISTRY ID) (world cli_session) =
      (Some (account_image cli_sha (DenyListData sample_deny_list)), ())"
    "valid_deny_list sample_deny_list"
    using sample_valid by (simp_all add: cli_admin_config_def valid_system_def)
  from view_deny_list_lists [OF cli_load_configs(1) this(1,2) cli_sha_laws cli_stored this(3)]
  show ?thesis
    by (simp add: sample_deny_list_def cli_session_def upt_rec)
qed

text \<open>
  C29: The display of the fills registry lists exactly the pending fills of the stored ring
  buffer, from the oldest to the newest, with their SOL amounts as decimals and their token
  amounts, after the totals and the indices.
\<close>

theorem view_fills_lists_pending:
  assumes "load_config pk = Inr config" "pubkey_of_str pk (cfg_program_id config) = Some program"
    and "account_bytes net (cfg_rpc_url config) (pda pk PROGRAM_STATE program) (world st) =
      (Some bytes, w1)"
    and "account_bytes net (cfg_rpc_url config) (fills_registry_address p) w1 = (Some bytes', w2)"
    and "sha_laws (sha256 pk)" "stored_bytes (sha256 pk) (ProgramStateData p) bytes"
    and "stored_bytes (sha256 pk) (FillsData r) bytes'" "decimal_laws (cli_decimals pk) val"
    and "registry_inv r"
  shows "view_fills_registry pk net st = (Inr (), st\<lparr>world := w2, printed := printed st @
      FillsSummary (count r) (head r) (tail r) (in_sol pk (total_sol_pending r)) (total_sol_pending r)
        (in_tokens pk (total_2z_pending r)) (total_2z_pending r) #
      (if pending r = [] then [NoPendingFills]
       else map2 (\<lambda>i f. FillEntry i (in_sol pk (sol_in f)) (token_2z_out f))
         [0..<length (pending r)] (pending r))\<rparr>) \<and>
    (\<forall>n. val (in_sol pk n) = of_nat (unat n) / 10 ^ 9 \<and> val (in_tokens pk n) = of_nat (unat n) / 10 ^ 8)"
proof -
  obtain r' where r': "cli_fills_registry bytes' = Inr r'" "same_registry r' r"
    using cli_fills_registry_stored [OF assms(5,7)] by blast
  then have same: "count r' = count r" "head r' = head r" "tail r' = tail r"
    "total_sol_pending r' = total_sol_pending r" "total_2z_pending r' = total_2z_pending r"
    "pending r' = pending r"
    by (simp_all add: same_registry_def same_registry_pending)
  have line: "fill_line pk = (\<lambda>i f. FillEntry i (in_sol pk (sol_in f)) (token_2z_out f))"
    by (simp add: fill_line_def fun_eq_iff)
  have address: "get_fills_registry_address pk net program (cfg_rpc_url config) st =
      (Inr (fills_registry_address p), st\<lparr>world := w1\<rparr>)"
    by (rule get_fills_registry_address_run [OF assms(5,3,6)])
  have empty: "pending r = [] \<longleftrightarrow> count r = 0"
    by (simp add: pending_def unat_eq_0)
  have bound: "unat (head r) + unat (count r) \<le> 2 ^ 64"
    using assms(9) by (simp add: registry_inv_def ring_inv_def MAX_FILLS_QUEUE_SIZE_def)
  note shown = shown_amounts [OF assms(8)]
  have "view_fills_registry pk net st = (Inr (), st\<lparr>world := w2, printed := printed st @
      FillsSummary (count r) (head r) (tail r) (in_sol pk (total_sol_pending r)) (total_sol_pending r)
        (in_tokens pk (total_2z_pending r)) (total_2z_pending r) #
      (if pending r = [] then [NoPendingFills] else map2 (fill_line pk) [0..<length (pending r)] (pending r))\<rparr>)"
    by (simp add: show_pending [OF assms(8), of r', unfolded same, OF bound]
        view_fills_registry_def assms(1,2) pubkey_from_str_Inl io_simps io_bind_def address
        io_world_def assms(4) r'(1) same shown(1,3) io_print_def empty)
  then show ?thesis using shown(2,4) by (simp add: line)
qed

theorem view_fills_lists_pending_witness:
  "printed (snd (view_fills_registry (cli_packages ''1'') (cli_network [] (sample_quote 1 1)) cli_session)) =
    [FillsSummary 2 649999 1 (30 / 10 ^ 9) 30 (65 / 10 ^ 8) 65,
     FillEntry 0 (10 / 10 ^ 9) 20, FillEntry 1 (20 / 10 ^ 9) 45]"
proof -
  let ?pk = "cli_packages ''1''" and ?net = "cli_network [] (sample_quote 1 1)"
  have inputs: "pubkey_of_str ?pk (cfg_program_id cli_config) = Some ID"
    "account_bytes ?net (cfg_rpc_url cli_config) (pda ?pk PROGRAM_STATE ID) (world cli_session) =
      (Some (account_image cli_sha (ProgramStateData sample_program_state)), ())"
    "account_bytes ?net (cfg_rpc_url cli_config) (fills_registry_address sample_program_state) () =
      (Some (account_image cli_sha (FillsData sample_registry)), ())"
    "sha_laws (sha256 ?pk)" "decimal_laws (cli_decimals ?pk) (\<lambda>q. q)"
    "stored_bytes (sha256 ?pk) (ProgramStateData sample_program_state)
      (account_image cli_sha (ProgramStateData sample_program_state))"
    "stored_bytes (sha256 ?pk) (FillsData sample_registry) (account_image cli_sha (FillsData sample_registry))"
    by (simp_all add: cli_config_def sample_program_state_def rat_ops_laws)
  note view = view_fills_lists_pending [OF cli_load_config inputs(1-4,6,7,5) sample_inv]
  have "pending sample_registry = [\<lparr>sol_in = 10, token_2z_out = 20\<rparr>, \<lparr>sol_in = 20, token_2z_out = 45\<rparr>]"
    by (simp add: pending_def sample_registry_def MAX_FILLS_QUEUE_SIZE_def upt_0_2)
  moreover have "count sample_registry = 2" "head sample_registry = 649999" "tail sample_registry = 1"
    "total_sol_pending sample_registry = 30" "total_2z_pending sample_registry = 65"
    by (simp_all add: sample_registry_def)
  ultimately show ?thesis
    using conjunct1 [OF view] by (simp add: cli_session_def upt_rec cli_shown)
qed

section \<open>The program state through the tools' structure\<close>

lemma take_le_bytes: "take j (le_bytes k n) = le_bytes (min j k) n"
proof (induction k arbitrary: j n)
  case (Suc k)
  then show ?case by (cases j) simp_all
qed simp

lemma to_pubkey_of_bytes: "length bs = 32 \<Longrightarrow> to_bytes (pubkey_of_bytes bs) = bs"
  using get_pubkey_take [of bs "[]"] by (simp add: codec_simps)

lemma unat_word_of_nat_64: "n < 2 ^ 64 \<Longrightarrow> unat (word_of_nat n :: u64) = n"
  by (simp add: unsigned_of_nat take_bit_nat_eq_self)

text \<open>
  C32: The tools' structure of the program state lacks the fourth bump.  The administrator, the
  registry's address, the halt flag and the three bumps are read as stored, but every field behind
  them is read one byte early: the last trade slot appears as the withdraw authority's bump plus
  256 times the slot, and the deny list authority starts with a byte of the slot and lacks its own
  last byte.
\<close>

theorem program_state_read_one_byte_early:
  assumes "sha_laws sha" "stored_bytes sha (ProgramStateData p) bytes"
  shows "\<exists>q. ProgramStateAccount_try_deserialize bytes = Inr q \<and>
    ps_admin q = admin p \<and> ps_fills_registry_address q = fills_registry_address p \<and>
    ps_is_halted q = is_halted p \<and>
    br_configuration_registry_bump (ps_bump_registry q) = configuration_registry_bump (bump_registry p) \<and>
    br_program_state_bump (ps_bump_registry q) = program_state_bump (bump_registry p) \<and>
    br_deny_list_registry_bump (ps_bump_registry q) = deny_list_registry_bump (bump_registry p) \<and>
    unat (ps_last_trade_slot q) =
      unat (withdraw_authority_bump (bump_registry p)) + 256 * (unat (last_trade_slot p) mod 256 ^ 7) \<and>
    to_bytes (ps_deny_list_authority q) =
      to_le_bytes (last_trade_slot p) ! 7 # take 31 (to_bytes (deny_list_authority p))"
proof -
  let ?bump = "withdraw_authority_bump (bump_registry p)"
  let ?slot = "to_le_bytes (last_trade_slot p)"
  let ?shifted = "put_u8 ?bump @ ?slot @ to_bytes (deny_list_authority p)"
  have "take 8 ?shifted = ?bump # le_bytes 7 (unat (last_trade_slot p))"
    by (simp add: put_u8_def to_le_bytes_def take_le_bytes)
  then have "of_le_bytes (take 8 ?shifted) = unat ?bump + 256 * (unat (last_trade_slot p) mod 256 ^ 7)"
    by (simp only: of_le_bytes.simps of_le_bytes_le_bytes)
  moreover have "unat ?bump + 256 * (unat (last_trade_slot p) mod 256 ^ 7) < 2 ^ 64"
  proof -
    have "unat ?bump < 256" using unsigned_less [of ?bump, where ?'a = nat] by simp
    moreover have "unat (last_trade_slot p) mod 256 ^ 7 < 256 ^ 7" by simp
    ultimately show ?thesis by simp
  qed
  ultimately have "unat (ps_last_trade_slot (misread_program_state p)) =
      unat ?bump + 256 * (unat (last_trade_slot p) mod 256 ^ 7)"
    using unat_word_of_nat_64 [of "of_le_bytes (take 8 ?shifted)"]
    by (simp only: misread_program_state_def Let_def ProgramStateAccount_cli.simps)
  moreover have "take 32 (drop 8 ?shifted) = ?slot ! 7 # take 31 (to_bytes (deny_list_authority p))"
    using Cons_nth_drop_Suc [of 7 ?slot, symmetric] by (simp add: put_u8_def)
  then have "to_bytes (ps_deny_list_authority (misread_program_state p)) =
      ?slot ! 7 # take 31 (to_bytes (deny_list_authority p))"
    by (simp add: misread_program_state_def Let_def to_pubkey_of_bytes codec_simps
        del: take_append drop_append)
  ultimately show ?thesis
    using program_state_misread [OF assms] by (simp add: misread_program_state_def Let_def)
qed

theorem program_state_read_one_byte_early_witness:
  "\<exists>q. ProgramStateAccount_try_deserialize (account_image cli_sha (ProgramStateData sample_program_state)) =
      Inr q \<and> ps_admin q = 1 \<and> unat (ps_last_trade_slot q) = 252 + 256 * 100"
  using program_state_read_one_byte_early [OF cli_sha_laws cli_stored, of sample_program_state]
  by (auto simp: sample_program_state_def)

end
