(* ===== verification/Run_Guarantees.thy ===== *)
theory Run_Guarantees
  imports Run_Properties
begin

text \<open>
  What an observer of the chain can rely on along a run.  The events of the accepted
  instructions, with the arguments of the initialisation, determine everything the program
  stores but the last trade slot: replaying them gives the configuration, the authorities, the
  halt flag, the deny list and the pending fills.  A halted system trades nothing until it is
  resumed, and a denied buyer buys nothing until the address is removed.
\<close>

section \<open>The effect of an event\<close>

text \<open>What the events tell of a system.\<close>

record snapshot =
  snap_configuration :: ConfigurationRegistry
  snap_admin :: pubkey
  snap_authority :: pubkey
  snap_halted :: bool
  snap_deny_list :: DenyListRegistry
  snap_backlog :: "(nat \<times> nat) list"

definition snapshot_of :: "system \<Rightarrow> snapshot" where
  "snapshot_of s =
     \<lparr>snap_configuration = sys_configuration s, snap_admin = admin (sys_state s),
      snap_authority = deny_list_authority (sys_state s), snap_halted = is_halted (sys_state s),
      snap_deny_list = sys_deny_list s, snap_backlog = backlog (sys_fills s)\<rparr>"

text \<open>
  Removing \<open>n\<close> whole entries, and from the next the rest of \<open>sol\<close> lamports with its share of the
  tokens.
\<close>

definition drop_fills :: "nat \<Rightarrow> nat \<Rightarrow> (nat \<times> nat) list \<Rightarrow> (nat \<times> nat) list" where
  "drop_fills n sol q =
     (case drop n q of [] \<Rightarrow> []
      | (s, t) # q' \<Rightarrow>
          let part = sol - sum_sol (take n q) in (s - part, t - t * part div s) # q')"

fun replay_event :: "event \<Rightarrow> snapshot \<Rightarrow> snapshot" where
  "replay_event (ConfigChanged by oracle_key q age k mx mn) v =
     v\<lparr>snap_configuration := \<lparr>oracle_pubkey = oracle_key, sol_quantity = q, price_maximum_age = age,
        fills_consumer = fills_consumer (snap_configuration v), coefficient = k,
        max_discount_rate = mx, min_discount_rate = mn\<rparr>\<rparr>"
| "replay_event (FillsConsumerChanged by k) v =
     v\<lparr>snap_configuration := (snap_configuration v)\<lparr>fills_consumer := k\<rparr>\<rparr>"
| "replay_event (DenyListAddressAdded by k ts n) v =
     v\<lparr>snap_deny_list := \<lparr>denied_addresses = denied_addresses (snap_deny_list v) @ [k],
        last_updated = ts, update_count = n\<rparr>\<rparr>"
| "replay_event (DenyListAddressRemoved by k ts n) v =
     v\<lparr>snap_deny_list := \<lparr>denied_addresses = remove1 k (denied_addresses (snap_deny_list v)),
        last_updated = ts, update_count = n\<rparr>\<rparr>"
| "replay_event (FillsDequeued by sol tokens n ts) v =
     v\<lparr>snap_backlog := drop_fills (unat n) (unat sol) (snap_backlog v)\<rparr>"
| "replay_event (TradeEvent sol tokens bid ts buyer ep) v =
     v\<lparr>snap_backlog := snap_backlog v @ [(unat sol, unat tokens)]\<rparr>"
| "replay_event (SystemHalted by) v = v\<lparr>snap_halted := True\<rparr>"
| "replay_event (SystemUnhalted by) v = v\<lparr>snap_halted := False\<rparr>"
| "replay_event (AdminChanged k by) v = v\<lparr>snap_admin := k\<rparr>"
| "replay_event (DenyListAuthoritySet k by) v = v\<lparr>snap_authority := k\<rparr>"
| "replay_event SystemInitialized v = v"
| "replay_event (BidTooLowEvent sol bid ask ts buyer ep) v = v"

text \<open>The system an initialisation asks for, as the events would tell it.\<close>

definition first_snapshot ::
    "pubkey \<Rightarrow> pubkey \<Rightarrow> u64 \<Rightarrow> i64 \<Rightarrow> u64 \<Rightarrow> u64 \<Rightarrow> u64 \<Rightarrow> snapshot" where
  "first_snapshot authority oracle_key q age k mx mn =
     \<lparr>snap_configuration = \<lparr>oracle_pubkey = oracle_key, sol_quantity = q, price_maximum_age = age,
        fills_consumer = 0, coefficient = k, max_discount_rate = mx, min_discount_rate = mn\<rparr>,
      snap_admin = authority, snap_authority = authority, snap_halted = False,
      snap_deny_list = \<lparr>denied_addresses = [], last_updated = 0, update_count = 0\<rparr>,
      snap_backlog = []\<rparr>"

definition replay_label :: "label \<Rightarrow> snapshot option \<Rightarrow> snapshot option" where
  "replay_label a v = (case a of Environment \<Rightarrow> v
     | Executed c ix es ret \<Rightarrow>
         (case ix of
           InitializeSystemIx ctx orc q age k mx mn \<Rightarrow>
             Some (first_snapshot (info_key (is_authority ctx)) orc q age k mx mn)
         | _ \<Rightarrow> map_option (fold replay_event es) v))"

section \<open>Replaying a transition\<close>

text \<open>The count and the amount of a dequeue determine what is left.\<close>

lemma take_fills_zero: "take_fills 0 q = (0, 0, 0, q)"
  by (cases q) auto

lemma drop_fills_Cons:
  "drop_fills (Suc n) (s + sol) ((s, t) # q) = drop_fills n sol q"
  by (simp add: drop_fills_def Let_def split: list.split)

lemma take_fills_drop:
  "take_fills m q = (a, b, n, q') \<Longrightarrow> q' = drop_fills n a q"
proof (induction m q arbitrary: a b n q' rule: take_fills.induct)
  case (2 m s t q)
  then show ?case
    by (auto simp: drop_fills_Cons split: if_splits prod.splits) (auto simp: drop_fills_def)
qed (simp add: drop_fills_def)

lemma dequeue_backlog:
  assumes "registry_inv r" "process_dequeue_fills clk signer cfg r m = (es, Inr (r', d))"
  shows "\<exists>ts. es = [FillsDequeued signer (sol_dequeued d) (token_2z_dequeued d) (fills_consumed d) ts] \<and>
    backlog r' = drop_fills (unat (fills_consumed d)) (unat (sol_dequeued d)) (backlog r)"
  using process_dequeue_fills_Inr [OF assms] take_fills_drop by blast

lemma update_replayed:
  assumes "process_update signer ps cfg input = (es, Inr cfg')"
  shows "\<exists>by. es = [ConfigChanged by (oracle_pubkey cfg') (sol_quantity cfg') (price_maximum_age cfg')
     (coefficient cfg') (max_discount_rate cfg') (min_discount_rate cfg')] \<and>
    fills_consumer cfg' = fills_consumer cfg"
  using assms by (auto simp: process_update_Inr_iff)

lemma system_step_replayed:
  assumes "system_step rt c s ix es ret s'" "valid_system s"
  shows "snapshot_of s' = fold replay_event es (snapshot_of s)"
  using assms(1)
proof cases
  case (update ctx input cfg)
  from update_replayed [OF update(5)] update(3) show ?thesis
    by (auto simp: snapshot_of_def)
next
  case (buy ctx p ask bid tokens r)
  then show ?thesis
    using enqueue_fill_inv(2) [OF _ buy(13)] assms(2) by (simp add: snapshot_of_def valid_system_def)
next
  case (dequeue ctx m r d)
  then show ?thesis
    using dequeue_backlog [OF _ dequeue(5)] assms(2)
    by (auto simp: snapshot_of_def valid_system_def)
next
  case (toggle ctx b ps)
  then show ?thesis
    by (auto simp: process_system_state_Inr_iff snapshot_of_def)
qed (auto simp: tx_simps process_set_fills_consumer_Inr_iff snapshot_of_def)

definition replayed_view :: "'d runtime \<Rightarrow> ledger \<Rightarrow> snapshot option" where
  "replayed_view rt l = map_option snapshot_of (system_of rt l)"

lemma initialised_snapshot:
  assumes "runtime_laws rt" "uninitialised l"
    "execute rt l (InitializeSystemIx ctx orc q age k mx mn) = (es, Inr (l', ret))"
  shows "replayed_view rt l' = Some (first_snapshot (info_key (is_authority ctx)) orc q age k mx mn)"
  using refine_initialize [OF assms] system_of_holds
  by (fastforce simp: replayed_view_def snapshot_of_def initial_system_def first_snapshot_def)

lemma ledger_step_replayed:
  assumes "good rt l" "ledger_step rt l a l'"
  shows "replayed_view rt l' = replay_label a (replayed_view rt l)"
proof -
  from assms have laws: "runtime_laws rt" "program_inv rt l" by auto
  from this assms(2) show ?thesis
  proof (cases rule: ledger_step_cases)
    case foreign
    then show ?thesis by (simp add: replayed_view_def replay_label_def)
  next
    case (initialised ctx orc q age k mx mn s')
    from assms(2) show ?thesis
      unfolding initialised(1)
      by (rule ledger_step_executed)
        (simp add: replay_label_def initialised_snapshot [OF laws(1) initialised(2)])
  next
    case (transition ix es ret s s')
    have "ix \<noteq> InitializeSystemIx ctx orc q age k mx mn" for ctx orc q age k mx mn
      using no_second_initialisation [OF laws(1) transition(5)] transition(2) by blast
    then have "replay_label a v = map_option (fold replay_event es) v" for v
      by (auto simp: transition(1) replay_label_def split: instruction.split)
    then show ?thesis
      using system_step_replayed [OF transition(9,7)] transition(3,4)
      by (simp add: replayed_view_def)
  qed
qed

interpretation event_log: replayed "ledger_step rt" "good rt" "replayed_view rt" replay_label for rt
  by unfold_locales (use good_step ledger_step_replayed in blast)+

section \<open>Halting and denying\<close>

definition trade_buyer :: "event \<Rightarrow> pubkey option" where
  "trade_buyer e = (case e of TradeEvent sol tokens bid ts buyer ep \<Rightarrow> Some buyer | _ \<Rightarrow> None)"

definition trades :: "label \<Rightarrow> pubkey list" where
  "trades a = List.map_filter trade_buyer (label_events a)"

definition resumes :: "label \<Rightarrow> bool" where
  "resumes a \<longleftrightarrow> (\<exists>by \<in> set (label_events a). case by of SystemUnhalted k \<Rightarrow> True | _ \<Rightarrow> False)"

definition undenies :: "pubkey \<Rightarrow> label \<Rightarrow> bool" where
  "undenies k a \<longleftrightarrow> (\<exists>e \<in> set (label_events a).
     case e of DenyListAddressRemoved by k' ts n \<Rightarrow> k' = k | _ \<Rightarrow> False)"

definition halted :: "'d runtime \<Rightarrow> ledger \<Rightarrow> bool" where
  "halted rt l \<longleftrightarrow> (case system_of rt l of None \<Rightarrow> False | Some s \<Rightarrow> is_halted (sys_state s))"

definition denied :: "'d runtime \<Rightarrow> pubkey \<Rightarrow> ledger \<Rightarrow> bool" where
  "denied rt k l \<longleftrightarrow>
     (case system_of rt l of None \<Rightarrow> False
      | Some s \<Rightarrow> k \<in> set (denied_addresses (sys_deny_list s)))"

lemmas log_simps = trades_def resumes_def undenies_def label_events_def trade_buyer_def
  List.map_filter_simps

lemma system_step_halted:
  assumes "system_step rt c s ix es ret s'" "is_halted (sys_state s)"
    "\<not> resumes (Executed c ix es ret)"
  shows "is_halted (sys_state s') \<and> trades (Executed c ix es ret) = []"
  using assms(1)
proof cases
  case (update ctx input cfg)
  then show ?thesis using assms(2) update_replayed [OF update(5)] by (auto simp: log_simps)
next
  case (toggle ctx b ps)
  then show ?thesis using assms(2,3)
    by (auto simp: process_system_state_Inr_iff log_simps split: if_splits)
next
  case (dequeue ctx m r d)
  then show ?thesis using assms(2)
    by (auto simp: process_dequeue_fills_def log_simps tx_simps Let_def split: if_splits prod.splits)
qed (use assms(2) in \<open>auto simp: tx_simps process_set_fills_consumer_Inr_iff log_simps\<close>)

lemma ledger_step_halted:
  assumes "good rt l" "halted rt l" "ledger_step rt l a l'" "\<not> resumes a"
  shows "halted rt l' \<and> trades a = []"
proof -
  from assms have "runtime_laws rt" "program_inv rt l" by auto
  from this assms(3) show ?thesis
  proof (cases rule: ledger_step_cases)
    case foreign
    then show ?thesis using assms(2) by (simp add: halted_def log_simps)
  next
    case initialised
    then show ?thesis using assms(2) by (simp add: halted_def)
  next
    case (transition ix es ret s s')
    then show ?thesis
      using system_step_halted [OF transition(9)] assms(2,4) by (simp add: halted_def)
  qed
qed

interpretation halting: suspended "ledger_step rt" "good rt" "halted rt" resumes
    "\<lambda>a. trades a = []" for rt
  by unfold_locales (use good_step ledger_step_halted in blast)+

lemma system_step_denied:
  assumes "system_step rt c s ix es ret s'" "k \<in> set (denied_addresses (sys_deny_list s))"
    "\<not> undenies k (Executed c ix es ret)"
  shows "k \<in> set (denied_addresses (sys_deny_list s')) \<and> k \<notin> set (trades (Executed c ix es ret))"
  using assms(1)
proof cases
  case (update ctx input cfg)
  then show ?thesis using assms(2) update_replayed [OF update(5)] by (auto simp: log_simps)
next
  case (toggle ctx b ps)
  then show ?thesis using assms(2)
    by (auto simp: process_system_state_Inr_iff log_simps)
next
  case (undeny ctx k' dl)
  then show ?thesis using assms(2,3) by (auto simp: tx_simps log_simps)
next
  case (dequeue ctx m r d)
  then show ?thesis using assms(2)
    by (auto simp: process_dequeue_fills_def log_simps tx_simps Let_def split: if_splits prod.splits)
qed (use assms(2) in \<open>auto simp: tx_simps process_set_fills_consumer_Inr_iff log_simps\<close>)

lemma ledger_step_denied:
  assumes "good rt l" "denied rt k l" "ledger_step rt l a l'" "\<not> undenies k a"
  shows "denied rt k l' \<and> k \<notin> set (trades a)"
proof -
  from assms have "runtime_laws rt" "program_inv rt l" by auto
  from this assms(3) show ?thesis
  proof (cases rule: ledger_step_cases)
    case foreign
    then show ?thesis using assms(2) by (simp add: denied_def log_simps)
  next
    case initialised
    then show ?thesis using assms(2) by (simp add: denied_def)
  next
    case (transition ix es ret s s')
    then show ?thesis
      using system_step_denied [OF transition(9)] assms(2,4) by (simp add: denied_def)
  qed
qed

interpretation denying: suspended "ledger_step rt" "good rt" "denied rt k" "undenies k"
    "\<lambda>a. k \<notin> set (trades a)" for rt k
  by unfold_locales (use good_step ledger_step_denied in blast)+

section \<open>A halted chain\<close>

definition halted_state :: ProgramStateAccount where
  "halted_state = sample_program_state\<lparr>is_halted := True\<rparr>"

definition halted_ledger :: ledger where
  "halted_ledger = set_data 12 (ProgramStateData halted_state) sample_ledger"

definition halted_system :: system where
  "halted_system = sample_system\<lparr>sys_state := halted_state\<rparr>"

definition sample_denial :: "pubkey \<Rightarrow> UpdateDenyList" where
  "sample_denial k =
     \<lparr>dl_deny_list_registry = writes 13, dl_program_state = reads 12, dl_admin = signs k\<rparr>"

lemma halted_state_simps [simp]:
  "bump_registry halted_state = bump_registry sample_program_state"
  "fills_registry_address halted_state = fills_registry_address sample_program_state"
  "deny_list_authority halted_state = 2" "is_halted halted_state"
  "last_trade_slot halted_state = 100"
  by (simp_all add: halted_state_def sample_program_state_def)

lemma halted_holds: "holds sample_runtime halted_ledger halted_system"
  using holds_set_data(2) [OF sample_holds, of halted_state]
  by (simp add: halted_ledger_def halted_system_def)

lemma halted_system_of: "system_of sample_runtime halted_ledger = Some halted_system"
  using halted_holds by (rule system_of_holds)

lemma halted_clock [simp]: "clock_sysvar halted_ledger = sample_clock"
  by (simp add: halted_ledger_def)

lemma halted_good: "program_inv sample_runtime halted_ledger"
proof -
  have "valid_system halted_system"
    using sample_valid by (simp add: valid_system_def halted_system_def)
  moreover have "last_trade_slot (sys_state halted_system) \<le> slot (clock_sysvar halted_ledger)"
    by (simp add: halted_system_def)
  ultimately show ?thesis using halted_holds unfolding program_inv_def by blast
qed

lemma halted_run:
  "\<exists>l. steps (ledger_step sample_runtime) halted_ledger
     [Executed sample_clock (AddToDenyListIx (sample_denial 2) 5)
        [DenyListAddressAdded 2 5 1000 4] []] l"
proof -
  have v: "validate_UpdateDenyList sample_runtime halted_ledger (sample_denial 2) =
      Inr (2, halted_state, sample_deny_list)"
    using halted_holds
    by (simp add: validate_UpdateDenyList_Inr_iff sample_denial_def holds_def stored_def
        account_of_def halted_system_def sample_program_state_def)
  have h: "add_to_deny_list (Inr sample_clock) 2 halted_state sample_deny_list 5 =
      ([DenyListAddressAdded 2 5 1000 4], Inr \<lparr>denied_addresses = [11, 12, 13, 5],
         last_updated = 1000, update_count = 4\<rparr>)"
    by (simp add: add_to_deny_list_Inr_iff) (simp add: sample_deny_list_def MAX_DENY_LIST_SIZE_def)
  have "\<exists>l. execute sample_runtime halted_ledger (AddToDenyListIx (sample_denial 2) 5) =
      ([DenyListAddressAdded 2 5 1000 4], Inr (l, []))"
    by (simp add: ix_add_to_deny_list_def v h exit_with_def map_tx_def)
  then obtain l where run: "execute sample_runtime halted_ledger (AddToDenyListIx (sample_denial 2) 5) =
      ([DenyListAddressAdded 2 5 1000 4], Inr (l, []))" by blast
  show ?thesis
    using steps_single [of "ledger_step sample_runtime", OF ledger_step.executed [OF run]]
    by (intro exI) simp
qed

section \<open>Properties\<close>

text \<open>
  C9: The event log determines the system: along every run, from whatever the chain stored, the
  configuration, the two authorities, the halt flag, the deny list with its counter and the
  pending fills are the replay of the events of the accepted instructions, the first of them
  starting from the arguments of the initialisation.  An observer of the log needs no account.
\<close>

theorem event_log_determines_system:
  assumes "runtime_laws rt" "program_inv rt l0" "steps (ledger_step rt) l0 ls l"
  shows "map_option snapshot_of (system_of rt l) =
    fold replay_label ls (map_option snapshot_of (system_of rt l0))"
  using event_log.view_steps [OF assms(3)] assms(1,2) by (simp add: replayed_view_def)

theorem event_log_determines_system_witness:
  "\<exists>l s. system_of sample_runtime l = Some s \<and>
     backlog (sys_fills s) = [(10, 20), (20, 45), (25000000000, 47275000000)] \<and>
     sys_deny_list s = sample_deny_list \<and> sys_configuration s = sample_configuration"
proof -
  obtain l where run: "steps (ledger_step sample_runtime) sample_ledger
     [Executed sample_clock (BuySolIx (sample_purchase 5) 2000000000 (sample_quote 2000000000 1000))
        [TradeEvent 25000000000 47275000000 2000000000 1000 5 5] []] l"
    using sample_trade_run by blast
  have start: "system_of sample_runtime sample_ledger = Some sample_system"
    using sample_holds by (rule system_of_holds)
  obtain s where s: "system_of sample_runtime l = Some s" "snapshot_of s =
      replay_event (TradeEvent 25000000000 47275000000 2000000000 1000 5 5) (snapshot_of sample_system)"
    using event_log_determines_system [OF sample_runtime_laws _ run] sample_good(1)
    by (auto simp: start replay_label_def map_option_eq_Some)
  have "backlog (sys_fills s) = backlog sample_registry @ [(25000000000, 47275000000)] \<and>
      sys_deny_list s = sample_deny_list \<and> sys_configuration s = sample_configuration"
    using s(2) by (simp add: snapshot_of_def)
  with s(1) show ?thesis by (auto simp: sample_backlog)
qed

text \<open>
  C10: A halted system trades nothing: along every run from a ledger that stores a halted system,
  as long as no \<open>SystemUnhalted\<close> event is logged, no purchase is accepted and the system stays
  halted, whoever sends whatever instructions.
\<close>

theorem halted_no_trades:
  assumes "runtime_laws rt" "program_inv rt l0" "steps (ledger_step rt) l0 ls l"
    and "system_of rt l0 = Some s0" "is_halted (sys_state s0)" "\<forall>a \<in> set ls. \<not> resumes a"
  shows "(\<exists>s. system_of rt l = Some s \<and> is_halted (sys_state s)) \<and> (\<forall>a \<in> set ls. trades a = [])"
  using halting.held_steps [OF assms(3) _ _ assms(6)] assms(1,2,4,5)
  by (auto simp: halted_def split: option.splits)

theorem halted_no_trades_witness:
  "\<exists>l s. steps (ledger_step sample_runtime) halted_ledger
     [Executed sample_clock (AddToDenyListIx (sample_denial 2) 5)
        [DenyListAddressAdded 2 5 1000 4] []] l \<and>
     system_of sample_runtime l = Some s \<and> is_halted (sys_state s)"
proof -
  obtain l where run: "steps (ledger_step sample_runtime) halted_ledger
     [Executed sample_clock (AddToDenyListIx (sample_denial 2) 5)
        [DenyListAddressAdded 2 5 1000 4] []] l" using halted_run by blast
  show ?thesis
    using halted_no_trades [OF sample_runtime_laws halted_good run halted_system_of] run
    by (auto simp: halted_system_def log_simps)
qed

text \<open>
  C36: A denied buyer buys nothing: along every run from a ledger whose deny list has the address,
  as long as no \<open>DenyListAddressRemoved\<close> event for it is logged, no purchase of that buyer is
  accepted and the address stays on the list.
\<close>

theorem denied_buyer_never_trades:
  assumes "runtime_laws rt" "program_inv rt l0" "steps (ledger_step rt) l0 ls l"
    and "system_of rt l0 = Some s0" "k \<in> set (denied_addresses (sys_deny_list s0))"
    and "\<forall>a \<in> set ls. \<not> undenies k a"
  shows "(\<exists>s. system_of rt l = Some s \<and> k \<in> set (denied_addresses (sys_deny_list s))) \<and>
    (\<forall>a \<in> set ls. k \<notin> set (trades a))"
  using denying.held_steps [OF assms(3) _ _ assms(6)] assms(1,2,4,5)
  by (auto simp: denied_def split: option.splits)

theorem denied_buyer_never_trades_witness:
  "\<exists>l s. steps (ledger_step sample_runtime) sample_ledger
     [Executed sample_clock (BuySolIx (sample_purchase 5) 2000000000 (sample_quote 2000000000 1000))
        [TradeEvent 25000000000 47275000000 2000000000 1000 5 5] []] l \<and>
     12 \<in> set (denied_addresses sample_deny_list) \<and>
     system_of sample_runtime l = Some s \<and> 12 \<in> set (denied_addresses (sys_deny_list s))"
proof -
  obtain l where run: "steps (ledger_step sample_runtime) sample_ledger
     [Executed sample_clock (BuySolIx (sample_purchase 5) 2000000000 (sample_quote 2000000000 1000))
        [TradeEvent 25000000000 47275000000 2000000000 1000 5 5] []] l"
    using sample_trade_run by blast
  have "system_of sample_runtime sample_ledger = Some sample_system"
    using sample_holds by (rule system_of_holds)
  from denied_buyer_never_trades [OF sample_runtime_laws _ run this, of 12] show ?thesis
    using sample_good(1) run by (auto simp: log_simps sample_deny_list_def)
qed

section \<open>The auction clears\<close>

definition floor_price :: "ConfigurationRegistry \<Rightarrow> OraclePriceData \<Rightarrow> nat" where
  "floor_price cfg p = unat (swap_rate p) * (10000 - unat (max_discount_rate cfg)) div 10000"

text \<open>The slots after which the discount has reached its maximum.\<close>

definition decay_slots :: "ConfigurationRegistry \<Rightarrow> nat" where
  "decay_slots cfg =
     Suc ((unat (max_discount_rate cfg) - unat (min_discount_rate cfg)) * 10000 div
       unat (coefficient cfg))"

lemma decayed:
  assumes "valid_configuration cfg" "0 < coefficient cfg"
    "unat traded + decay_slots cfg \<le> unat now"
  shows "ask_price_spec w (unat (coefficient cfg)) (unat (max_discount_rate cfg))
    (unat (min_discount_rate cfg)) (unat now - unat traded) =
    w * (10000 - unat (max_discount_rate cfg)) div 10000"
proof -
  let ?k = "unat (coefficient cfg)"
  let ?d = "(unat (max_discount_rate cfg) - unat (min_discount_rate cfg)) * 10000"
  have "0 < ?k" using assms(2) by (simp add: word_less_nat_alt)
  then have "?d < ?k * Suc (?d div ?k)" by (rule dividend_less_times_div [of _ ?d, THEN less_le_trans]) simp
  also have "\<dots> \<le> ?k * (unat now - unat traded)"
    using assms(3) by (intro mult_le_mono2) (simp add: decay_slots_def)
  finally show ?thesis
    using assms(1) by (intro ask_price_spec_eq_rates(4)) (auto simp: valid_configuration_def)
qed

lemma decayed_decision:
  assumes "valid_configuration cfg" "0 < coefficient cfg"
    "unat (last_trade_slot ps) + decay_slots cfg \<le> unat (slot c)"
    "\<not> is_halted ps" "buyer \<notin> set (denied_addresses dl)"
    "verify_attestation cr (Inr c) p (oracle_pubkey cfg) (price_maximum_age cfg) = Inr ()"
    "floor_price cfg p \<le> unat bid" "unat (sol_quantity cfg) * floor_price cfg p div 1000000000 < 2 ^ 64"
  shows "decide_purchase cr c cfg ps dl buyer bid p =
    Inr (floor_price cfg p, unat (sol_quantity cfg) * floor_price cfg p div 1000000000)"
proof -
  have "\<not> slot c \<le> last_trade_slot ps"
    using assms(3) by (simp add: decay_slots_def word_le_nat_alt)
  then show ?thesis
    using assms(4-) decayed [OF assms(1-3), of "unat (swap_rate p)"]
    by (simp add: decide_purchase_def Let_def flip: floor_price_def)
qed

text \<open>
  C14: The auction clears: at the latest \<open>(max - min) * 10000 / coefficient + 1\<close> slots after a
  trade a running system sells at the floor price.  A purchase whose buyer is not denied, whose
  attestation is good and whose bid covers the oracle rate less the maximum discount is accepted,
  for \<open>sol_quantity\<close> times that price, as soon as its accounts check and its two calls succeed,
  while the backlog has room.
\<close>

theorem auction_clears:
  assumes "runtime_laws rt" "decimal_laws (decimals rt) val" "holds rt l s" "valid_system s"
    and "validate_BuySol rt l ctx = Inr (sys_configuration s, sys_state s, sys_deny_list s)"
    and "\<not> is_halted (sys_state s)"
    and "info_key (bs_signer ctx) \<notin> set (denied_addresses (sys_deny_list s))"
    and "verify_attestation (crypto_ops rt) (Inr (clock_sysvar l)) p
      (oracle_pubkey (sys_configuration s)) (price_maximum_age (sys_configuration s)) = Inr ()"
    and "0 < coefficient (sys_configuration s)"
    and "unat (last_trade_slot (sys_state s)) + decay_slots (sys_configuration s)
      \<le> unat (slot (clock_sysvar l))"
    and "floor_price (sys_configuration s) p \<le> unat bid"
    and "tokens = unat (sol_quantity (sys_configuration s)) * floor_price (sys_configuration s) p
      div 1000000000" "tokens < 2 ^ 64"
    and "transfer_tokens rt ctx (word_of_nat tokens) l = Inr l1"
    and "withdraw_sol rt ctx (sys_state s) (sol_quantity (sys_configuration s)) l1 = Inr l2"
    and "length (backlog (sys_fills s)) < MAX_FILLS_QUEUE_SIZE"
    and "sum_sol (backlog (sys_fills s)) + unat (sol_quantity (sys_configuration s)) < 2 ^ 64"
    and "sum_2z (backlog (sys_fills s)) + tokens < 2 ^ 64"
  shows "\<exists>l'. execute rt l (BuySolIx ctx bid p) =
     ([TradeEvent (sol_quantity (sys_configuration s)) (word_of_nat tokens) bid
         (unix_timestamp (clock_sysvar l)) (info_key (bs_signer ctx)) (epoch (clock_sysvar l))],
      Inr (l', []))"
proof -
  have "valid_configuration (sys_configuration s)" using assms(4) by (simp add: valid_system_def)
  from decayed_decision [OF this assms(9,10,6,7,8,11)] assms(12,13)
  have "decide_purchase (crypto_ops rt) (clock_sysvar l) (sys_configuration s) (sys_state s)
      (sys_deny_list s) (info_key (bs_signer ctx)) bid p =
      Inr (floor_price (sys_configuration s) p, tokens)" by simp
  from decided_purchase_accepted [OF assms(1-5) this assms(14-18)] show ?thesis .
qed

text \<open>A chain whose last trade was long ago.\<close>

definition late_clock :: clock where
  "late_clock = sample_clock\<lparr>slot := 10200\<rparr>"

definition late_ledger :: ledger where
  "late_ledger = sample_ledger\<lparr>clock_sysvar := late_clock\<rparr>"

lemma late_holds: "holds sample_runtime late_ledger sample_system"
  using sample_holds by (simp add: holds_def stored_def late_ledger_def)

lemma late_validates:
  "validate_BuySol sample_runtime late_ledger (sample_purchase 5) =
     Inr (sample_configuration, sample_program_state, sample_deny_list)"
  by (simp add: validate_BuySol_def sample_purchase_def load_configuration_def
      load_program_state_def load_deny_list_def load_fills_def load_account_def account_of_def
      check_system_account_def load_interface_account_def check_program_def check_signer_def
      check_seeds_def check_mut_def check_address_def late_ledger_def sample_ledger_def
      sample_chain_def owned_account_def system_account_def program_account_def
      as_configuration_def as_program_state_def as_deny_list_def as_fills_def as_token_account_def
      as_mint_def ID_eq SYSTEM_PROGRAM_ID_eq sample_program_state_def)

theorem auction_clears_witness:
  "\<exists>l'. execute sample_runtime late_ledger
       (BuySolIx (sample_purchase 5) 1000000000 (sample_quote 2000000000 1000)) =
     ([TradeEvent 25000000000 25000000000 1000000000 1000 5 5], Inr (l', []))"
proof -
  have clk: "clock_sysvar late_ledger = late_clock" "unix_timestamp late_clock = 1000"
    "slot late_clock = 10200" "epoch late_clock = 5"
    by (simp_all add: late_ledger_def late_clock_def)
  have att: "verify_attestation sample_crypto (Inr late_clock) (sample_quote 2000000000 1000)
      (oracle_pubkey sample_configuration) (price_maximum_age sample_configuration) = Inr ()"
    by (simp add: verify_attestation_Inr_iff clock_distance_def clk sample_configuration_def)
      (simp add: sample_quote_def)
  have floor: "floor_price sample_configuration (sample_quote 2000000000 1000) = 1000000000"
    by (simp add: floor_price_def sample_configuration_def sample_quote_def)
  have decay: "decay_slots sample_configuration \<le> 10100" "0 < coefficient sample_configuration"
    by (simp_all add: decay_slots_def sample_configuration_def)
  show ?thesis
    using auction_clears [OF sample_runtime_laws sample_laws late_holds sample_valid,
        of "sample_purchase 5" "sample_quote 2000000000 1000" 1000000000 25000000000
        late_ledger late_ledger] att floor decay
    by (simp add: late_validates clk sample_program_state_def sample_deny_list_def
        MAX_FILLS_QUEUE_SIZE_def)
qed

end
