(* ===== verification/Event_Log.thy ===== *)
theory Event_Log
  imports Account_Layout Run_Guarantees
begin

text \<open>
  The log lines of the program (\<open>common/events/\<close>): what \<open>#[event]\<close> and \<open>emit!\<close> write for each
  event, an eight-byte discriminator and the fields in Borsh format, and a reader that inverts
  them.  Whoever reads the lines of the accepted transactions knows the system.
\<close>

section \<open>The structures\<close>

definition put_ConfigChanged :: "pubkey \<Rightarrow> pubkey \<Rightarrow> u64 \<Rightarrow> i64 \<Rightarrow> u64 \<Rightarrow> u64 \<Rightarrow> u64 \<Rightarrow> u8 list" where
  "put_ConfigChanged by oracle q age coeff mx mn =
     to_bytes by @ to_bytes oracle @ to_le_bytes q @ to_le_bytes age @
     to_le_bytes coeff @ to_le_bytes mx @ to_le_bytes mn"

definition put_DenyListAddressAdded :: "pubkey \<Rightarrow> pubkey \<Rightarrow> i64 \<Rightarrow> u64 \<Rightarrow> u8 list" where
  "put_DenyListAddressAdded by address time n =
     to_bytes by @ to_bytes address @ to_le_bytes time @ to_le_bytes n"

definition put_DenyListAddressRemoved :: "pubkey \<Rightarrow> pubkey \<Rightarrow> i64 \<Rightarrow> u64 \<Rightarrow> u8 list" where
  "put_DenyListAddressRemoved by address time n =
     to_bytes by @ to_bytes address @ to_le_bytes time @ to_le_bytes n"

definition put_FillsConsumerChanged :: "pubkey \<Rightarrow> pubkey \<Rightarrow> u8 list" where
  "put_FillsConsumerChanged by consumer = to_bytes by @ to_bytes consumer"

definition put_FillsDequeued :: "pubkey \<Rightarrow> u64 \<Rightarrow> u64 \<Rightarrow> u64 \<Rightarrow> i64 \<Rightarrow> u8 list" where
  "put_FillsDequeued requester sol tokens n time =
     to_bytes requester @ to_le_bytes sol @ to_le_bytes tokens @ to_le_bytes n @
     to_le_bytes time"

definition put_SystemInitialized :: "u8 list" where
  "put_SystemInitialized = []"

definition put_SystemHalted :: "pubkey \<Rightarrow> u8 list" where
  "put_SystemHalted by = to_bytes by"

definition put_SystemUnhalted :: "pubkey \<Rightarrow> u8 list" where
  "put_SystemUnhalted by = to_bytes by"

definition put_AdminChanged :: "pubkey \<Rightarrow> pubkey \<Rightarrow> u8 list" where
  "put_AdminChanged new by = to_bytes new @ to_bytes by"

definition put_DenyListAuthoritySet :: "pubkey \<Rightarrow> pubkey \<Rightarrow> u8 list" where
  "put_DenyListAuthoritySet new by = to_bytes new @ to_bytes by"

definition put_TradeEvent :: "u64 \<Rightarrow> u64 \<Rightarrow> u64 \<Rightarrow> i64 \<Rightarrow> pubkey \<Rightarrow> u64 \<Rightarrow> u8 list" where
  "put_TradeEvent sol tokens bid time buyer ep =
     to_le_bytes sol @ to_le_bytes tokens @ to_le_bytes bid @ to_le_bytes time @
     to_bytes buyer @ to_le_bytes ep"

definition put_BidTooLowEvent :: "u64 \<Rightarrow> u64 \<Rightarrow> u64 \<Rightarrow> i64 \<Rightarrow> pubkey \<Rightarrow> u64 \<Rightarrow> u8 list" where
  "put_BidTooLowEvent sol bid ask time buyer ep =
     to_le_bytes sol @ to_le_bytes bid @ to_le_bytes ask @ to_le_bytes time @
     to_bytes buyer @ to_le_bytes ep"

text \<open>The readers of the logged structures.\<close>

definition get_ConfigChanged :: "event reader" where
  "get_ConfigChanged =
     get_bind get_pubkey (\<lambda>by. get_bind get_pubkey (\<lambda>oracle.
     get_bind get_u64 (\<lambda>q. get_bind get_u64 (\<lambda>age.
     get_bind get_u64 (\<lambda>coeff. get_bind get_u64 (\<lambda>mx.
     get_bind get_u64 (\<lambda>mn. get_return (ConfigChanged by oracle q age coeff mx mn))))))))"

definition get_DenyListAddressAdded :: "event reader" where
  "get_DenyListAddressAdded =
     get_bind get_pubkey (\<lambda>by. get_bind get_pubkey (\<lambda>address.
     get_bind get_u64 (\<lambda>time. get_bind get_u64 (\<lambda>n.
     get_return (DenyListAddressAdded by address time n)))))"

definition get_DenyListAddressRemoved :: "event reader" where
  "get_DenyListAddressRemoved =
     get_bind get_pubkey (\<lambda>by. get_bind get_pubkey (\<lambda>address.
     get_bind get_u64 (\<lambda>time. get_bind get_u64 (\<lambda>n.
     get_return (DenyListAddressRemoved by address time n)))))"

definition get_FillsConsumerChanged :: "event reader" where
  "get_FillsConsumerChanged =
     get_bind get_pubkey (\<lambda>by. get_bind get_pubkey (\<lambda>consumer.
     get_return (FillsConsumerChanged by consumer)))"

definition get_FillsDequeued :: "event reader" where
  "get_FillsDequeued =
     get_bind get_pubkey (\<lambda>requester. get_bind get_u64 (\<lambda>sol.
     get_bind get_u64 (\<lambda>tokens. get_bind get_u64 (\<lambda>n.
     get_bind get_u64 (\<lambda>time. get_return (FillsDequeued requester sol tokens n time))))))"

definition get_SystemInitialized :: "event reader" where
  "get_SystemInitialized =
     get_return SystemInitialized"

definition get_SystemHalted :: "event reader" where
  "get_SystemHalted =
     get_bind get_pubkey (\<lambda>by. get_return (SystemHalted by))"

definition get_SystemUnhalted :: "event reader" where
  "get_SystemUnhalted =
     get_bind get_pubkey (\<lambda>by. get_return (SystemUnhalted by))"

definition get_AdminChanged :: "event reader" where
  "get_AdminChanged =
     get_bind get_pubkey (\<lambda>new. get_bind get_pubkey (\<lambda>by.
     get_return (AdminChanged new by)))"

definition get_DenyListAuthoritySet :: "event reader" where
  "get_DenyListAuthoritySet =
     get_bind get_pubkey (\<lambda>new. get_bind get_pubkey (\<lambda>by.
     get_return (DenyListAuthoritySet new by)))"

definition get_TradeEvent :: "event reader" where
  "get_TradeEvent =
     get_bind get_u64 (\<lambda>sol. get_bind get_u64 (\<lambda>tokens.
     get_bind get_u64 (\<lambda>bid. get_bind get_u64 (\<lambda>time.
     get_bind get_pubkey (\<lambda>buyer. get_bind get_u64 (\<lambda>ep.
     get_return (TradeEvent sol tokens bid time buyer ep)))))))"

definition get_BidTooLowEvent :: "event reader" where
  "get_BidTooLowEvent =
     get_bind get_u64 (\<lambda>sol. get_bind get_u64 (\<lambda>bid.
     get_bind get_u64 (\<lambda>ask. get_bind get_u64 (\<lambda>time.
     get_bind get_pubkey (\<lambda>buyer. get_bind get_u64 (\<lambda>ep.
     get_return (BidTooLowEvent sol bid ask time buyer ep)))))))"

fun put_event :: "event \<Rightarrow> u8 list" where
  "put_event (ConfigChanged by oracle q age coeff mx mn) = put_ConfigChanged by oracle q age coeff mx mn"
| "put_event (DenyListAddressAdded by address time n) = put_DenyListAddressAdded by address time n"
| "put_event (DenyListAddressRemoved by address time n) = put_DenyListAddressRemoved by address time n"
| "put_event (FillsConsumerChanged by consumer) = put_FillsConsumerChanged by consumer"
| "put_event (FillsDequeued requester sol tokens n time) = put_FillsDequeued requester sol tokens n time"
| "put_event SystemInitialized = put_SystemInitialized"
| "put_event (SystemHalted by) = put_SystemHalted by"
| "put_event (SystemUnhalted by) = put_SystemUnhalted by"
| "put_event (AdminChanged new by) = put_AdminChanged new by"
| "put_event (DenyListAuthoritySet new by) = put_DenyListAuthoritySet new by"
| "put_event (TradeEvent sol tokens bid time buyer ep) = put_TradeEvent sol tokens bid time buyer ep"
| "put_event (BidTooLowEvent sol bid ask time buyer ep) = put_BidTooLowEvent sol bid ask time buyer ep"

fun event_name :: "event \<Rightarrow> string" where
  "event_name (ConfigChanged by oracle q age coeff mx mn) = ''event:ConfigChanged''"
| "event_name (DenyListAddressAdded by address time n) = ''event:DenyListAddressAdded''"
| "event_name (DenyListAddressRemoved by address time n) = ''event:DenyListAddressRemoved''"
| "event_name (FillsConsumerChanged by consumer) = ''event:FillsConsumerChanged''"
| "event_name (FillsDequeued requester sol tokens n time) = ''event:FillsDequeued''"
| "event_name SystemInitialized = ''event:SystemInitialized''"
| "event_name (SystemHalted by) = ''event:SystemHalted''"
| "event_name (SystemUnhalted by) = ''event:SystemUnhalted''"
| "event_name (AdminChanged new by) = ''event:AdminChanged''"
| "event_name (DenyListAuthoritySet new by) = ''event:DenyListAuthoritySet''"
| "event_name (TradeEvent sol tokens bid time buyer ep) = ''event:TradeEvent''"
| "event_name (BidTooLowEvent sol bid ask time buyer ep) = ''event:BidTooLowEvent''"

definition event_readers :: "(string \<times> event reader) list" where
  "event_readers =
     [(''event:ConfigChanged'', get_ConfigChanged),
      (''event:DenyListAddressAdded'', get_DenyListAddressAdded),
      (''event:DenyListAddressRemoved'', get_DenyListAddressRemoved),
      (''event:FillsConsumerChanged'', get_FillsConsumerChanged),
      (''event:FillsDequeued'', get_FillsDequeued),
      (''event:SystemInitialized'', get_SystemInitialized),
      (''event:SystemHalted'', get_SystemHalted),
      (''event:SystemUnhalted'', get_SystemUnhalted),
      (''event:AdminChanged'', get_AdminChanged),
      (''event:DenyListAuthoritySet'', get_DenyListAuthoritySet),
      (''event:TradeEvent'', get_TradeEvent),
      (''event:BidTooLowEvent'', get_BidTooLowEvent)]"

section \<open>Lines\<close>

text \<open>What the reader relies on in the hash: its length, and no collision among the twelve names.\<close>

definition event_laws :: "(u8 list \<Rightarrow> u8 list) \<Rightarrow> bool" where
  "event_laws sha \<longleftrightarrow>
     sha_laws sha \<and> distinct (map (\<lambda>(name, get). discriminator sha name) event_readers)"

definition event_line :: "(u8 list \<Rightarrow> u8 list) \<Rightarrow> event \<Rightarrow> u8 list" where
  "event_line sha e = discriminator sha (event_name e) @ put_event e"

definition get_event :: "(u8 list \<Rightarrow> u8 list) \<Rightarrow> event reader" where
  "get_event sha bs =
     (if length bs < 8 then None
      else case map_of (map (\<lambda>(name, get). (discriminator sha name, get)) event_readers) (take 8 bs) of
        None \<Rightarrow> None
      | Some get \<Rightarrow> get (drop 8 bs))"

lemmas event_codec_defs =
  get_ConfigChanged_def put_ConfigChanged_def get_DenyListAddressAdded_def
  put_DenyListAddressAdded_def get_DenyListAddressRemoved_def put_DenyListAddressRemoved_def
  get_FillsConsumerChanged_def put_FillsConsumerChanged_def get_FillsDequeued_def
  put_FillsDequeued_def get_SystemInitialized_def put_SystemInitialized_def
  get_SystemHalted_def put_SystemHalted_def get_SystemUnhalted_def put_SystemUnhalted_def
  get_AdminChanged_def put_AdminChanged_def get_DenyListAuthoritySet_def
  put_DenyListAuthoritySet_def get_TradeEvent_def put_TradeEvent_def get_BidTooLowEvent_def
  put_BidTooLowEvent_def

lemma event_reader_iff:
  "(event_name e, get) \<in> set event_readers \<Longrightarrow>
     get bs = Some (e, r) \<longleftrightarrow> bs = put_event e @ r"
  by (cases e) (auto simp: event_readers_def event_codec_defs codec_simps)

lemma event_reader_name:
  "(name, get) \<in> set event_readers \<Longrightarrow> get bs = Some (e, r) \<Longrightarrow> event_name e = name"
  by (auto simp: event_readers_def event_codec_defs codec_simps)

lemma event_reader_exists: "\<exists>get. (event_name e, get) \<in> set event_readers"
  by (cases e) (auto simp: event_readers_def)

lemma codec_event:
  assumes "event_laws sha"
  shows "codec (\<lambda>_. True) (event_line sha) (get_event sha)"
proof
  fix bs e r
  let ?t = "map (\<lambda>(name, get). (discriminator sha name, get)) event_readers"
  have "map fst ?t = map (\<lambda>(name, get). discriminator sha name) event_readers"
    by (simp add: case_prod_unfold comp_def)
  then have dist: "distinct (map fst ?t)"
    using assms by (simp only: event_laws_def)
  have len: "length (discriminator sha name) = 8" for name
    using assms by (simp add: event_laws_def)
  have look: "map_of ?t d = Some get \<longleftrightarrow>
      (\<exists>name. (name, get) \<in> set event_readers \<and> d = discriminator sha name)" for d get
    by (auto simp: map_of_eq_Some_iff [OF dist])
  show "get_event sha bs = Some (e, r) \<longleftrightarrow> True \<and> bs = event_line sha e @ r"
  proof
    assume "get_event sha bs = Some (e, r)"
    then obtain get where g: "8 \<le> length bs" "map_of ?t (take 8 bs) = Some get" "get (drop 8 bs) = Some (e, r)"
      by (auto simp: get_event_def split: if_splits option.splits)
    then obtain name where n: "(name, get) \<in> set event_readers" "take 8 bs = discriminator sha name"
      using look by blast
    have "event_name e = name" by (rule event_reader_name [OF n(1) g(3)])
    then have "drop 8 bs = put_event e @ r" "take 8 bs = discriminator sha (event_name e)"
      using event_reader_iff n g(3) by auto
    then show "True \<and> bs = event_line sha e @ r"
      by (metis append.assoc append_take_drop_id event_line_def)
  next
    assume "True \<and> bs = event_line sha e @ r"
    then have bs: "take 8 bs = discriminator sha (event_name e)" "drop 8 bs = put_event e @ r" "8 \<le> length bs"
      by (simp_all add: event_line_def len)
    obtain get where g: "(event_name e, get) \<in> set event_readers"
      using event_reader_exists by blast
    then have "map_of ?t (take 8 bs) = Some get" using look bs(1) by blast
    then show "get_event sha bs = Some (e, r)"
      using bs event_reader_iff [OF g] by (simp add: get_event_def)
  qed
qed

section \<open>Reading the log\<close>

definition log_lines :: "(u8 list \<Rightarrow> u8 list) \<Rightarrow> label \<Rightarrow> u8 list list" where
  "log_lines sha a = map (event_line sha) (label_events a)"

definition replay_line :: "(u8 list \<Rightarrow> u8 list) \<Rightarrow> u8 list \<Rightarrow> snapshot \<Rightarrow> snapshot" where
  "replay_line sha bs v =
     (case get_event sha bs of Some (e, []) \<Rightarrow> replay_event e v | _ \<Rightarrow> v)"

lemma replay_lines:
  assumes "event_laws sha"
  shows "fold (replay_line sha) (map (event_line sha) es) v = fold replay_event es v"
proof (induction es arbitrary: v)
  case (Cons e es)
  have "get_event sha (event_line sha e) = Some (e, [])"
    using codec.get_put_only [OF codec_event [OF assms]] by blast
  then have "replay_line sha (event_line sha e) v = replay_event e v" for v
    by (simp add: replay_line_def)
  then show ?case by (simp add: Cons)
qed simp

text \<open>Once a system is stored it stays, and its snapshot follows the events.\<close>

definition stores :: "'d runtime \<Rightarrow> ledger \<Rightarrow> bool" where
  "stores rt l \<longleftrightarrow> system_of rt l \<noteq> None"

definition stored_snapshot :: "'d runtime \<Rightarrow> ledger \<Rightarrow> snapshot" where
  "stored_snapshot rt l = snapshot_of (the (system_of rt l))"

lemma ledger_step_stores:
  assumes "good rt l \<and> stores rt l" "ledger_step rt l a l'"
  shows "stores rt l'" "stored_snapshot rt l' = fold replay_event (label_events a) (stored_snapshot rt l)"
proof -
  from assms(1) have laws: "runtime_laws rt" "program_inv rt l" "system_of rt l \<noteq> None"
    by (auto simp: stores_def)
  have "stores rt l' \<and>
      stored_snapshot rt l' = fold replay_event (label_events a) (stored_snapshot rt l)"
    using laws(1,2) assms(2)
  proof (cases rule: ledger_step_cases)
    case foreign
    then show ?thesis using laws(3) by (simp add: stores_def stored_snapshot_def label_events_def)
  next
    case initialised
    then show ?thesis using laws(3) by simp
  next
    case (transition ix es ret s s')
    then show ?thesis
      using system_step_replayed [OF transition(9,7)]
      by (simp add: stores_def stored_snapshot_def label_events_def)
  qed
  then show "stores rt l'" "stored_snapshot rt l' = fold replay_event (label_events a) (stored_snapshot rt l)"
    by blast+
qed

interpretation log_view: replayed "ledger_step rt" "\<lambda>l. good rt l \<and> stores rt l" "stored_snapshot rt"
    "\<lambda>a. fold replay_event (label_events a)" for rt
  by unfold_locales (use good_step ledger_step_stores in blast)+

lemma fold_lines:
  assumes "event_laws sha"
  shows "fold (replay_line sha) (concat (map (log_lines sha) ls)) v =
    fold (\<lambda>a. fold replay_event (label_events a)) ls v"
  by (induction ls arbitrary: v) (simp_all add: log_lines_def replay_lines [OF assms])

section \<open>Properties\<close>

text \<open>
  C28: The bytes of the log determine the system: from a stored system on, along every run,
  decoding each logged line by its discriminator and replaying the events gives the configuration,
  the authorities, the halt flag, the deny list and the pending fills the chain stores.  Every
  line is read back as the event that was emitted.
\<close>

theorem log_lines_determine_system:
  assumes "event_laws sha" "runtime_laws rt" "program_inv rt l0" "steps (ledger_step rt) l0 ls l"
    and "system_of rt l0 = Some s0"
  shows "(\<exists>s. system_of rt l = Some s \<and>
      snapshot_of s = fold (replay_line sha) (concat (map (log_lines sha) ls)) (snapshot_of s0)) \<and>
    (\<forall>a \<in> set ls. map (get_event sha) (log_lines sha a) = map (\<lambda>e. Some (e, [])) (label_events a))"
proof
  have start: "good rt l0 \<and> stores rt l0" using assms(2,3,5) by (simp add: stores_def)
  have "stores rt l" using log_view.inv_steps [OF assms(4) start] by simp
  moreover have "stored_snapshot rt l =
      fold (replay_line sha) (concat (map (log_lines sha) ls)) (stored_snapshot rt l0)"
    using log_view.view_steps [OF assms(4) start] by (simp add: fold_lines [OF assms(1)])
  ultimately show "\<exists>s. system_of rt l = Some s \<and>
      snapshot_of s = fold (replay_line sha) (concat (map (log_lines sha) ls)) (snapshot_of s0)"
    using assms(5) by (auto simp: stores_def stored_snapshot_def)
  show "\<forall>a \<in> set ls. map (get_event sha) (log_lines sha a) = map (\<lambda>e. Some (e, [])) (label_events a)"
    using codec.get_put_only [OF codec_event [OF assms(1)]] by (simp add: log_lines_def comp_def)
qed

text \<open>In this chain the hash is the reversed name.\<close>

definition event_sha :: "u8 list \<Rightarrow> u8 list" where
  "event_sha bs = take 32 (rev bs @ replicate 32 0)"

lemma event_sha_laws: "event_laws event_sha"
proof -
  have "length (event_sha bs) = 32" for bs by (auto simp: event_sha_def min_def)
  then have "sha_laws event_sha" by (simp add: sha_laws_def)
  moreover have "distinct (map (\<lambda>(name, get). discriminator event_sha name) event_readers)"
    by (simp add: event_readers_def discriminator_def event_sha_def bytes_of_string_def byte_of_char_def)
  ultimately show ?thesis by (simp add: event_laws_def)
qed

theorem log_lines_determine_system_witness:
  "get_event event_sha (event_line event_sha (TradeEvent 25000000000 47275000000 2000000000 1000 5 5)) =
     Some (TradeEvent 25000000000 47275000000 2000000000 1000 5 5, []) \<and>
   (\<exists>l s. system_of sample_runtime l = Some s \<and>
     backlog (sys_fills s) = [(10, 20), (20, 45), (25000000000, 47275000000)])"
proof -
  let ?e = "TradeEvent 25000000000 47275000000 2000000000 1000 5 5"
  obtain l where run: "steps (ledger_step sample_runtime) sample_ledger
     [Executed sample_clock (BuySolIx (sample_purchase 5) 2000000000 (sample_quote 2000000000 1000))
        [?e] []] l"
    using sample_trade_run by blast
  have start: "system_of sample_runtime sample_ledger = Some sample_system"
    using sample_holds by (rule system_of_holds)
  have line: "get_event event_sha (event_line event_sha ?e) = Some (?e, [])"
    and "\<exists>s. system_of sample_runtime l = Some s \<and>
      snapshot_of s = replay_line event_sha (event_line event_sha ?e) (snapshot_of sample_system)"
    using log_lines_determine_system [OF event_sha_laws sample_runtime_laws _ run start] sample_good(1)
    by (simp_all add: log_lines_def label_events_def)
  then obtain s where s: "system_of sample_runtime l = Some s"
      "snapshot_of s = replay_event ?e (snapshot_of sample_system)"
    by (auto simp: replay_line_def)
  have "backlog (sys_fills s) = backlog sample_registry @ [(25000000000, 47275000000)]"
    using s(2) by (simp add: snapshot_of_def)
  with s(1) line show ?thesis by (auto simp: sample_backlog)
qed

end
