(* ===== verification/Fill_Order.thy ===== *)
theory Fill_Order
  imports Run_Guarantees
begin

text \<open>
  The order in which fills leave the registry, along runs: the pending fills are always a final
  segment of all purchases, in the order they were made.  Only the oldest may have been taken in
  part, and what is left of it has at least its share of the tokens.
\<close>

section \<open>A final segment of the purchases\<close>

definition trade_fill :: "event \<Rightarrow> (nat \<times> nat) option" where
  "trade_fill e = (case e of TradeEvent sol tokens bid ts buyer ep \<Rightarrow> Some (unat sol, unat tokens)
     | _ \<Rightarrow> None)"

definition purchases :: "label \<Rightarrow> (nat \<times> nat) list" where
  "purchases a = List.map_filter trade_fill (label_events a)"

text \<open>What may be left of an entry: no more of either amount, and no fewer tokens per lamport.\<close>

definition rest_of :: "nat \<times> nat \<Rightarrow> nat \<times> nat \<Rightarrow> bool" where
  "rest_of entry x \<longleftrightarrow>
     fst x \<le> fst entry \<and> snd x \<le> snd entry \<and> snd entry * fst x \<le> snd x * fst entry"

definition final_segment :: "(nat \<times> nat) list \<Rightarrow> (nat \<times> nat) list \<Rightarrow> bool" where
  "final_segment h q \<longleftrightarrow>
     q = [] \<or> (\<exists>n x. n < length h \<and> rest_of (h ! n) x \<and> q = x # drop (Suc n) h)"

lemma rest_of_refl [simp]: "rest_of x x"
  by (simp add: rest_of_def)

lemma rest_of_part:
  assumes "rest_of entry (s, t)" "m < s"
  shows "rest_of entry (s - m, t - t * m div s)"
proof -
  obtain S T where entry: "entry = (S, T)" by force
  have le: "s \<le> S" "t \<le> T" "T * s \<le> t * S" using assms(1) by (simp_all add: rest_of_def entry)
  have part: "t * m div s * s \<le> t * m" by (metis div_times_less_eq_dividend)
  have "T * (s - m) * s = (T * s) * (s - m)" by simp
  also have "\<dots> \<le> (t * S) * (s - m)" using le(3) by (rule mult_le_mono1)
  also have "\<dots> = S * (t * s - t * m)" by (simp add: right_diff_distrib' mult.assoc mult.left_commute)
  also have "\<dots> \<le> S * (t * s - t * m div s * s)"
    using part by (intro mult_le_mono2 diff_le_mono2)
  also have "\<dots> = (t - t * m div s) * S * s" by (simp add: diff_mult_distrib algebra_simps)
  finally have "T * (s - m) \<le> (t - t * m div s) * S"
    using assms(2) by simp
  then show ?thesis using le(1,2) by (simp add: rest_of_def entry le_trans [OF diff_le_self])
qed

lemma final_segment_append: "final_segment h q \<Longrightarrow> final_segment (h @ [x]) (q @ [x])"
  unfolding final_segment_def
proof (elim disjE exE conjE)
  assume "q = []"
  then show "q @ [x] = [] \<or> (\<exists>n y. n < length (h @ [x]) \<and> rest_of ((h @ [x]) ! n) y \<and>
      q @ [x] = y # drop (Suc n) (h @ [x]))"
    by (intro disjI2 exI [of _ "length h"] exI [of _ x]) simp
next
  fix n y assume "n < length h" "rest_of (h ! n) y" "q = y # drop (Suc n) h"
  then show "q @ [x] = [] \<or> (\<exists>n y. n < length (h @ [x]) \<and> rest_of ((h @ [x]) ! n) y \<and>
      q @ [x] = y # drop (Suc n) (h @ [x]))"
    by (intro disjI2 exI [of _ n] exI [of _ y]) (simp add: nth_append)
qed

lemma final_segment_drop: "final_segment h (drop n h)"
proof (cases "n < length h")
  case True
  then show ?thesis unfolding final_segment_def
    by (intro disjI2 exI [of _ n] exI [of _ "h ! n"]) (simp add: Cons_nth_drop_Suc)
qed (simp add: final_segment_def)

lemma final_segment_Cons:
  "final_segment h (x # q) \<longleftrightarrow>
     (\<exists>n < length h. rest_of (h ! n) x \<and> q = drop (Suc n) h)"
  by (simp add: final_segment_def del: split_paired_Ex)

lemma final_segment_tl: "final_segment h (x # q) \<Longrightarrow> final_segment h q"
  using final_segment_drop by (auto simp: final_segment_Cons)

lemma final_segment_take:
  "take_fills m q = (a, b, n, q') \<Longrightarrow> final_segment h q \<Longrightarrow> final_segment h q'"
proof (induction m q arbitrary: a b n q' rule: take_fills.induct)
  case (2 m s t q)
  show ?case
  proof (cases "m < s \<and> m \<noteq> 0")
    case True
    then have "q' = (s - m, t - t * m div s) # q" using "2.prems"(1) by auto
    then show ?thesis
      using "2.prems"(2) True by (auto simp: final_segment_Cons intro: rest_of_part)
  next
    case False
    then show ?thesis
      using "2.prems" "2.IH" final_segment_tl by (auto split: if_splits prod.splits)
  qed
qed simp

section \<open>Along runs\<close>

lemma system_step_purchases:
  assumes "system_step rt c s ix es ret s'" "valid_system s"
  shows "(let new = List.map_filter trade_fill es; q = backlog (sys_fills s); q' = backlog (sys_fills s') in
    new = [] \<and> q' = q \<or> (\<exists>x. new = [x] \<and> q' = q @ [x]) \<or>
    new = [] \<and> (\<exists>m a b n. take_fills m q = (a, b, n, q')))"
  using assms(1)
proof cases
  case (update ctx input cfg)
  then show ?thesis
    using update_replayed [OF update(5)] by (auto simp: trade_fill_def List.map_filter_simps)
next
  case (buy ctx p ask bid tokens r)
  then show ?thesis
    using enqueue_fill_inv(2) [OF _ buy(13)] assms(2)
    by (simp add: trade_fill_def valid_system_def List.map_filter_simps)
next
  case (dequeue ctx m r d)
  then show ?thesis
    using process_dequeue_fills_Inr [OF _ dequeue(5)] assms(2)
    by (auto simp: trade_fill_def valid_system_def List.map_filter_simps Let_def)
next
  case (toggle ctx b ps)
  then show ?thesis
    by (auto simp: process_system_state_Inr_iff trade_fill_def List.map_filter_simps)
qed (auto simp: tx_simps process_set_fills_consumer_Inr_iff trade_fill_def List.map_filter_simps)

definition pending_after :: "'d runtime \<Rightarrow> (nat \<times> nat) list \<Rightarrow> ledger \<Rightarrow> bool" where
  "pending_after rt h l \<longleftrightarrow>
     (case system_of rt l of None \<Rightarrow> h = [] | Some s \<Rightarrow> final_segment h (backlog (sys_fills s)))"

lemma ledger_step_purchases:
  assumes "good rt l" "pending_after rt h l" "ledger_step rt l a l'"
  shows "pending_after rt (h @ purchases a) l'"
proof -
  from assms have "runtime_laws rt" "program_inv rt l" by auto
  from this assms(3) show ?thesis
  proof (cases rule: ledger_step_cases)
    case foreign
    then show ?thesis
      using assms(2) by (simp add: pending_after_def purchases_def label_events_def List.map_filter_simps)
  next
    case initialised
    then show ?thesis using assms(2)
      by (simp add: pending_after_def purchases_def label_events_def trade_fill_def
          List.map_filter_simps final_segment_def)
  next
    case (transition ix es ret s s')
    then show ?thesis
      using system_step_purchases [OF transition(9,7)] assms(2) final_segment_append final_segment_take
      by (auto simp: pending_after_def purchases_def label_events_def Let_def)
  qed
qed

interpretation fill_history: chronicled "ledger_step rt" "good rt" "pending_after rt" purchases for rt
  by unfold_locales (use good_step ledger_step_purchases in blast)+

definition pending_at :: "'d runtime \<Rightarrow> ledger \<Rightarrow> (nat \<times> nat) list" where
  "pending_at rt l = (case system_of rt l of None \<Rightarrow> [] | Some s \<Rightarrow> backlog (sys_fills s))"

lemma final_segment_refl: "final_segment q q"
  using final_segment_drop [of q 0] by simp

section \<open>Properties\<close>

text \<open>
  C11: Fills leave in the order of the purchases, and none is lost: along every run the pending
  fills are the last ones of all that were pending at its start or purchased since, in that order.
  Only the oldest of them can have been taken in part, and what is left of it never has fewer
  tokens per lamport than it was bought for.
\<close>

theorem fills_leave_in_order:
  assumes "runtime_laws rt" "program_inv rt l0" "steps (ledger_step rt) l0 ls l"
    and "bought = pending_at rt l0 @ concat (map purchases ls)" "pending_at rt l = x # q"
  shows "\<exists>n < length bought. q = drop (Suc n) bought \<and>
    fst x \<le> fst (bought ! n) \<and> snd x \<le> snd (bought ! n) \<and>
    snd (bought ! n) * fst x \<le> snd x * fst (bought ! n)"
proof -
  have "pending_after rt (pending_at rt l0) l0"
    by (simp add: pending_after_def pending_at_def final_segment_refl split: option.split)
  then have "pending_after rt bought l"
    using fill_history.matches_steps [OF assms(3)] assms(1,2) by (simp add: assms(4))
  then show ?thesis
    using assms(5)
    by (auto simp: pending_after_def pending_at_def final_segment_def rest_of_def split: option.splits)
qed

definition sample_dequeue :: DequeueFills where
  "sample_dequeue = \<lparr>df_configuration_registry = reads 11, df_program_state = reads 12,
     df_fills_registry = writes 40, df_signer = signs 9\<rparr>"

lemma sample_dequeue_run:
  "\<exists>l a. steps (ledger_step sample_runtime) sample_ledger [a] l \<and> purchases a = [] \<and>
     pending_at sample_runtime l = [(15, 34)]"
proof -
  have "fills_consumer sample_configuration = 9" "0 < count sample_registry"
    by (simp_all add: sample_configuration_def)
  then obtain r d where
    run: "process_dequeue_fills (Inr sample_clock) 9 sample_configuration sample_registry 15 =
      ([FillsDequeued 9 (sol_dequeued d) (token_2z_dequeued d) (fills_consumed d)
          (unix_timestamp sample_clock)], Inr (r, d))"
    and taken: "backlog r = [(15, 34)]"
    using process_dequeue_fills_ok [OF sample_inv, of 9 sample_configuration 15 sample_clock] by auto
  have v: "validate_DequeueFills sample_runtime sample_ledger sample_dequeue =
      Inr (9, sample_configuration, sample_registry)"
    using sample_holds
    by (simp add: validate_DequeueFills_Inr_iff sample_dequeue_def holds_def stored_def
        account_of_def sample_program_state_def)
  let ?l = "set_data 40 (FillsData r) sample_ledger"
  have "execute sample_runtime sample_ledger (DequeueFillsIx sample_dequeue 15) =
      ([FillsDequeued 9 (sol_dequeued d) (token_2z_dequeued d) (fills_consumed d)
          (unix_timestamp sample_clock)], Inr (?l, encode_DequeueFillsResult d))"
    by (simp add: dequeue_fills_def v run map_tx_def) (simp add: sample_dequeue_def)
  note moved = steps_single [of "ledger_step sample_runtime", OF ledger_step.executed [OF this]]
  have "holds sample_runtime ?l (sample_system\<lparr>sys_fills := r\<rparr>)"
    using holds_set_data(4) [OF sample_holds, of r] by (simp add: sample_program_state_def)
  then have "pending_at sample_runtime ?l = [(15, 34)]"
    using taken by (simp add: pending_at_def system_of_holds)
  with moved show ?thesis
    by (intro exI conjI) (assumption,
      simp_all add: purchases_def label_events_def trade_fill_def List.map_filter_simps)
qed

definition sample_bought :: "(nat \<times> nat) list" where
  "sample_bought = [(10, 20), (20, 45)]"

theorem fills_leave_in_order_witness:
  "\<exists>l a. steps (ledger_step sample_runtime) sample_ledger [a] l \<and>
     pending_at sample_runtime sample_ledger = sample_bought \<and>
     pending_at sample_runtime l = [(15, 34)] \<and>
     (\<exists>n < 2. drop (Suc n) sample_bought = [] \<and>
        snd (sample_bought ! n) * 15 \<le> 34 * fst (sample_bought ! n))"
proof -
  obtain l a where run: "steps (ledger_step sample_runtime) sample_ledger [a] l" "purchases a = []"
    "pending_at sample_runtime l = [(15, 34)]"
    using sample_dequeue_run by blast
  have start: "pending_at sample_runtime sample_ledger = sample_bought"
    by (simp add: pending_at_def system_of_holds [OF sample_holds] sample_bought_def)
  with run(2) have "sample_bought =
      pending_at sample_runtime sample_ledger @ concat (map purchases [a])" by simp
  note fills_leave_in_order [OF sample_runtime_laws _ run(1) this run(3)]
  moreover have "program_inv sample_runtime sample_ledger" "length sample_bought = 2"
    using sample_good(1) by (simp_all add: sample_bought_def)
  ultimately obtain n where "n < 2" "[] = drop (Suc n) sample_bought"
    "snd (sample_bought ! n) * 15 \<le> 34 * fst (sample_bought ! n)"
    by (metis fst_conv snd_conv)
  with run(1,3) start show ?thesis by metis
qed

end
