(* ===== verification/Purchase_Settlement.thy ===== *)
theory Purchase_Settlement
  imports Mock_Properties Program_Properties
begin

text \<open>
  A purchase across the three programs: the converter with the token program and the mock revenue
  distribution program as its callees.  An accepted purchase is an exchange: the tokens leave the
  buyer for the account passed as the treasury's, the lamports leave the journal for the buyer, and
  the fill records both.  No program checks that this account is the treasury's: the buyer's own
  is accepted, too, and then nothing is paid.
\<close>

section \<open>The token program\<close>

text \<open>
  A transfer between two accounts of a mint, as the token program documents it: the amount leaves
  the one, which has it, for the other, and nothing else changes.  (For the mint of wrapped SOL a
  transfer also moves lamports; the law is about one mint.)
\<close>

definition moves_tokens :: "'d runtime \<Rightarrow> pubkey \<Rightarrow> bool" where
  "moves_tokens rt token_mint \<longleftrightarrow>
     (\<forall>p t n d l l'. p \<in> set (token_program_ids rt) \<longrightarrow> tc_mint t = token_mint \<longrightarrow>
        tc_from t \<noteq> tc_to t \<longrightarrow> transfer_checked rt p t n d l = Inr l' \<longrightarrow>
        (\<exists>k1 a a' k2 b b'.
           data (accounts l (tc_from t)) = TokenData token_mint k1 a \<and>
           data (accounts l (tc_to t)) = TokenData token_mint k2 b \<and>
           unat a = unat a' + unat n \<and> unat b' = unat b + unat n \<and>
           l' = set_data (tc_to t) (TokenData token_mint k2 b')
             (set_data (tc_from t) (TokenData token_mint k1 a') l)))"

text \<open>
  A transfer from an account to itself is accepted when one to another account is, and changes
  nothing.
\<close>

definition keeps_own_tokens :: "'d runtime \<Rightarrow> pubkey \<Rightarrow> bool" where
  "keeps_own_tokens rt token_mint \<longleftrightarrow>
     (\<forall>p t n d l l'. p \<in> set (token_program_ids rt) \<longrightarrow> tc_mint t = token_mint \<longrightarrow>
        transfer_checked rt p t n d l = Inr l' \<longrightarrow>
        transfer_checked rt p (t\<lparr>tc_to := tc_from t\<rparr>) n d l = Inr l)"

definition token_amount :: "ledger \<Rightarrow> pubkey \<Rightarrow> nat" where
  "token_amount l k = (case data (accounts l k) of TokenData m own a \<Rightarrow> unat a | _ \<Rightarrow> 0)"

lemma validate_BuySol_token_program:
  "validate_BuySol rt l ctx = Inr v \<Longrightarrow> info_key (bs_token_program ctx) \<in> set (token_program_ids rt)"
  by (cases v) (auto simp: validate_BuySol_def check_program_def tx_simps)

lemma transfer_effect:
  assumes "moves_tokens rt (info_key (bs_double_zero_mint ctx))"
    and "info_key (bs_token_program ctx) \<in> set (token_program_ids rt)"
    and "info_key (bs_user_token_account ctx) \<noteq> info_key (bs_protocol_treasury_token_account ctx)"
    and "transfer_tokens rt ctx n l = Inr l'"
  shows "\<exists>m k1 a a' k2 b b'.
    data (accounts l (info_key (bs_user_token_account ctx))) = TokenData m k1 a \<and>
    data (accounts l (info_key (bs_protocol_treasury_token_account ctx))) = TokenData m k2 b \<and>
    unat a = unat a' + unat n \<and> unat b' = unat b + unat n \<and>
    l' = set_data (info_key (bs_protocol_treasury_token_account ctx)) (TokenData m k2 b')
      (set_data (info_key (bs_user_token_account ctx)) (TokenData m k1 a') l)"
  using assms(1) [unfolded moves_tokens_def, rule_format, OF assms(2) _ _
      assms(4) [unfolded transfer_tokens_def]] assms(3) by simp blast

lemma set_data_frame [simp]:
  "lamports (accounts (set_data k d l) k') = lamports (accounts l k')"
  "k' \<noteq> k \<Longrightarrow> accounts (set_data k d l) k' = accounts l k'"
  by (simp_all add: set_data_def)

lemma set_lamports_frame [simp]:
  "k' \<noteq> k \<Longrightarrow> accounts (set_lamports k n l) k' = accounts l k'"
  by (simp add: set_lamports_def)

abbreviation to_own_account :: "BuySol \<Rightarrow> BuySol" where
  "to_own_account ctx \<equiv> ctx\<lparr>bs_protocol_treasury_token_account := bs_user_token_account ctx\<rparr>"

lemma transfer_to_own_account:
  assumes "keeps_own_tokens rt (info_key (bs_double_zero_mint ctx))"
    and "info_key (bs_token_program ctx) \<in> set (token_program_ids rt)"
    and "transfer_tokens rt ctx n l = Inr l'"
  shows "transfer_tokens rt (to_own_account ctx) n l = Inr l"
  using assms(1) [unfolded keeps_own_tokens_def, rule_format, OF assms(2) _
      assms(3) [unfolded transfer_tokens_def]] by (simp add: transfer_tokens_def)

text \<open>Either way the lamports stay, and so does every account but the two.\<close>

lemma transfer_frame:
  assumes "moves_tokens rt (info_key (bs_double_zero_mint ctx))"
    and "keeps_own_tokens rt (info_key (bs_double_zero_mint ctx))"
    and "info_key (bs_token_program ctx) \<in> set (token_program_ids rt)"
    and "user = info_key (bs_user_token_account ctx)"
    and "treasury = info_key (bs_protocol_treasury_token_account ctx)"
    and "transfer_tokens rt ctx n l = Inr l'"
  shows "lamports (accounts l' k) = lamports (accounts l k)"
    "k \<notin> {user, treasury} \<Longrightarrow> accounts l' k = accounts l k"
    "user = treasury \<Longrightarrow> l' = l"
    "user \<noteq> treasury \<Longrightarrow> \<exists>m k1 a a' k2 b b'.
      data (accounts l user) = TokenData m k1 a \<and> data (accounts l treasury) = TokenData m k2 b \<and>
      unat a = unat a' + unat n \<and> unat b' = unat b + unat n \<and>
      l' = set_data treasury (TokenData m k2 b') (set_data user (TokenData m k1 a') l)"
proof -
  show own: "l' = l" if "user = treasury"
  proof -
    have "transfer_tokens rt (to_own_account ctx) n l = transfer_tokens rt ctx n l"
      using that by (simp add: transfer_tokens_def assms(4,5))
    then show ?thesis using transfer_to_own_account [OF assms(2,3,6)] assms(6) by simp
  qed
  show moved: "\<exists>m k1 a a' k2 b b'.
      data (accounts l user) = TokenData m k1 a \<and> data (accounts l treasury) = TokenData m k2 b \<and>
      unat a = unat a' + unat n \<and> unat b' = unat b + unat n \<and>
      l' = set_data treasury (TokenData m k2 b') (set_data user (TokenData m k1 a') l)"
    if "user \<noteq> treasury"
    using transfer_effect [OF assms(1,3) _ assms(6)] that by (simp add: assms(4,5))
  show "lamports (accounts l' k) = lamports (accounts l k)"
    using own moved by (cases "user = treasury") fastforce+
  show "accounts l' k = accounts l k" if "k \<notin> {user, treasury}"
    using own moved that by (cases "user = treasury") auto
qed

section \<open>The exchange\<close>

text \<open>The final ledger of an accepted purchase, from the ledger after its two calls.\<close>

lemma buy_sol_ledger:
  assumes "execute rt l (BuySolIx ctx bid p) = (es, Inr (l', ret))" "holds rt l s"
  obtains tokens r l1 l2 where
    "info_key (bs_token_program ctx) \<in> set (token_program_ids rt)"
    "transfer_tokens rt ctx tokens l = Inr l1"
    "withdraw_sol rt ctx (sys_state s) (sol_quantity (sys_configuration s)) l1 = Inr l2"
    "l' = set_data (state_key rt)
       (ProgramStateData ((sys_state s)\<lparr>last_trade_slot := slot (clock_sysvar l)\<rparr>))
       (set_data (fills_registry_address (sys_state s)) (FillsData r) l2)"
    "es = [TradeEvent (sol_quantity (sys_configuration s)) tokens bid
       (unix_timestamp (clock_sysvar l)) (info_key (bs_signer ctx)) (epoch (clock_sysvar l))]"
proof -
  from assms(1) obtain cfg ps dl ps' lf where
    v: "validate_BuySol rt l ctx = Inr (cfg, ps, dl)" and
    h: "process_buy_sol rt l ctx cfg ps dl bid p = (es, Inr (ps', lf))" and
    l': "l' = set_data (info_key (bs_program_state ctx)) (ProgramStateData ps') lf"
    by (auto simp: buy_sol_def try_tx_pair_Inr_iff map_tx_Inr_iff)
  have s: "cfg = sys_configuration s" "ps = sys_state s" "info_key (bs_program_state ctx) = state_key rt"
    "info_key (bs_fills_registry ctx) = fills_registry_address (sys_state s)"
    using validate_BuySol_Inr [OF v] holds_unique [OF assms(2)] by auto
  from h obtain tokens r' l1 l2 where
    "transfer_tokens rt ctx tokens l = Inr l1" "withdraw_sol rt ctx ps (sol_quantity cfg) l1 = Inr l2"
    "ps' = ps\<lparr>last_trade_slot := slot (clock_sysvar l)\<rparr>"
    "lf = set_data (info_key (bs_fills_registry ctx)) (FillsData r') l2"
    "es = [TradeEvent (sol_quantity cfg) tokens bid (unix_timestamp (clock_sysvar l))
       (info_key (bs_signer ctx)) (epoch (clock_sysvar l))]"
    unfolding process_buy_sol_Inr_iff by blast
  then show thesis
    using that validate_BuySol_token_program [OF v] unfolding l' s by blast
qed

text \<open>The effect on the ledger, whether the accounts are different ones or not.\<close>

lemma purchase_effect:
  assumes "discriminator_laws env" "\<And>ix infos seeds l. invoke_signed rt ix infos seeds l = mock_invoke env ix l"
    and "moves_tokens rt (info_key (bs_double_zero_mint ctx))"
    and "keeps_own_tokens rt (info_key (bs_double_zero_mint ctx))" "holds rt l s"
    and "execute rt l (BuySolIx ctx bid p) = (es, Inr (l', ret))"
    and "user = info_key (bs_user_token_account ctx)"
    and "treasury = info_key (bs_protocol_treasury_token_account ctx)"
    and "buyer = info_key (bs_signer ctx)" "journal = info_key (bs_journal ctx)"
  obtains tokens where
    "es = [TradeEvent (sol_quantity (sys_configuration s)) tokens bid
       (unix_timestamp (clock_sysvar l)) buyer (epoch (clock_sysvar l))]"
    "user = treasury \<Longrightarrow> token_amount l' user = token_amount l user"
    "user \<noteq> treasury \<Longrightarrow> token_amount l user = token_amount l' user + unat tokens"
    "user \<noteq> treasury \<Longrightarrow> token_amount l' treasury = token_amount l treasury + unat tokens"
    "journal = buyer \<Longrightarrow> lamports (accounts l' buyer) = lamports (accounts l buyer)"
    "journal \<noteq> buyer \<Longrightarrow> unat (lamports (accounts l journal)) =
       unat (lamports (accounts l' journal)) + unat (sol_quantity (sys_configuration s))"
    "journal \<noteq> buyer \<Longrightarrow> unat (lamports (accounts l' buyer)) =
       unat (lamports (accounts l buyer)) + unat (sol_quantity (sys_configuration s))"
    "\<And>k. k \<notin> {user, treasury, buyer, journal, state_key rt, fills_registry_address (sys_state s)} \<Longrightarrow>
       accounts l' k = accounts l k"
proof -
  let ?sol = "sol_quantity (sys_configuration s)"
  obtain tokens r l1 l2 where token: "info_key (bs_token_program ctx) \<in> set (token_program_ids rt)"
      "transfer_tokens rt ctx tokens l = Inr l1"
    and sol: "withdraw_sol rt ctx (sys_state s) ?sol l1 = Inr l2"
    and l': "l' = set_data (state_key rt)
       (ProgramStateData ((sys_state s)\<lparr>last_trade_slot := slot (clock_sysvar l)\<rparr>))
       (set_data (fills_registry_address (sys_state s)) (FillsData r) l2)"
    and es: "es = [TradeEvent ?sol tokens bid
       (unix_timestamp (clock_sysvar l)) buyer (epoch (clock_sysvar l))]"
    unfolding assms(9) using buy_sol_ledger [OF assms(6,5)] by metis
  note paid = transfer_frame [OF assms(3,4) token(1) assms(7,8) token(2)]
  obtain x y where l2: "unat x = unat (lamports (accounts l1 journal)) - unat ?sol"
      "unat y = unat (lamports (accounts (set_lamports journal x l1) buyer)) + unat ?sol"
      "l2 = set_lamports buyer y (set_lamports journal x l1)"
    using withdrawal_effect(2) [OF assms(1,2) sol] unfolding assms(9,10) by blast
  have covered: "unat ?sol \<le> unat (lamports (accounts l journal))"
    using withdrawal_effect(1) [OF assms(1,2) sol]
    by (simp add: assms(10) [symmetric] paid(1) word_le_nat_alt)
  have amounts: "token_amount l' k = (if k \<in> {state_key rt, fills_registry_address (sys_state s)} then 0
      else token_amount l1 k)" for k
    by (simp add: token_amount_def l' l2(3))
  have none: "token_amount l (state_key rt) = 0" "token_amount l (fills_registry_address (sys_state s)) = 0"
    using assms(5) by (simp_all add: holds_def stored_def token_amount_def)
  show thesis
  proof (rule that [OF es])
    show "token_amount l' user = token_amount l user" if "user = treasury"
      using paid(3) [OF that] none amounts by auto
    show "token_amount l user = token_amount l' user + unat tokens"
      "token_amount l' treasury = token_amount l treasury + unat tokens" if apart: "user \<noteq> treasury"
    proof -
      obtain m k1 a a' k2 b b' where l1: "data (accounts l user) = TokenData m k1 a"
        "data (accounts l treasury) = TokenData m k2 b"
        "unat a = unat a' + unat tokens" "unat b' = unat b + unat tokens"
        "l1 = set_data treasury (TokenData m k2 b') (set_data user (TokenData m k1 a') l)"
        using paid(4) [OF apart] by blast
      have "user \<notin> {state_key rt, fills_registry_address (sys_state s)}"
        "treasury \<notin> {state_key rt, fills_registry_address (sys_state s)}"
        using assms(5) l1(1,2) by (auto simp: holds_def stored_def)
      then show "token_amount l user = token_amount l' user + unat tokens"
        "token_amount l' treasury = token_amount l treasury + unat tokens"
        using apart l1(1-4) by (auto simp: amounts l1(5)) (simp_all add: token_amount_def)
    qed
    show "lamports (accounts l' buyer) = lamports (accounts l buyer)" if "journal = buyer"
    proof -
      have "unat y = unat (lamports (accounts l buyer))"
        using l2(1,2) covered that by (simp add: paid(1))
      then show ?thesis by (simp add: l' l2(3) word_unat_eq_iff)
    qed
    show "unat (lamports (accounts l journal)) = unat (lamports (accounts l' journal)) + unat ?sol"
      "unat (lamports (accounts l' buyer)) = unat (lamports (accounts l buyer)) + unat ?sol"
      if "journal \<noteq> buyer"
      using l2(1,2) covered that by (simp_all add: l' l2(3) paid(1))
    show "accounts l' k = accounts l k"
      if "k \<notin> {user, treasury, buyer, journal, state_key rt, fills_registry_address (sys_state s)}" for k
      using that paid(2) [of k] by (simp add: l' l2(3))
  qed
qed

text \<open>
  C18: What an accepted purchase moves across the three programs, with a token program that moves
  the mint's tokens and the mock program as the revenue distribution program.  When the account
  passed as the treasury's is not the buyer's own token account, the tokens the \<open>TradeEvent\<close>
  reports leave the buyer's token account for it; when it is, no tokens move.  The lamports of the
  event leave the journal for the buyer, or stay where they are if the two are one account.
  Besides these accounts only the program's state and registry change.
\<close>

theorem purchase_exchanges:
  assumes "discriminator_laws env" "\<And>ix infos seeds l. invoke_signed rt ix infos seeds l = mock_invoke env ix l"
    and "moves_tokens rt (info_key (bs_double_zero_mint ctx))"
    and "keeps_own_tokens rt (info_key (bs_double_zero_mint ctx))" "holds rt l s"
    and "execute rt l (BuySolIx ctx bid p) = (es, Inr (l', ret))"
    and "user = info_key (bs_user_token_account ctx)"
    and "treasury = info_key (bs_protocol_treasury_token_account ctx)"
    and "buyer = info_key (bs_signer ctx)" "journal = info_key (bs_journal ctx)"
  shows "\<exists>sol tokens ts ep. es = [TradeEvent sol tokens bid ts buyer ep] \<and>
    (if user = treasury then token_amount l' user = token_amount l user
     else token_amount l user = token_amount l' user + unat tokens \<and>
       token_amount l' treasury = token_amount l treasury + unat tokens) \<and>
    (if journal = buyer then lamports (accounts l' buyer) = lamports (accounts l buyer)
     else unat (lamports (accounts l journal)) = unat (lamports (accounts l' journal)) + unat sol \<and>
       unat (lamports (accounts l' buyer)) = unat (lamports (accounts l buyer)) + unat sol) \<and>
    (\<forall>k. k \<notin> {user, treasury, buyer, journal, state_key rt, fills_registry_address (sys_state s)} \<longrightarrow>
       accounts l' k = accounts l k)"
  by (rule purchase_effect [OF assms]) auto



section \<open>A purchase between two accounts\<close>

definition token_transfer :: "pubkey \<Rightarrow> TransferChecked \<Rightarrow> u64 \<Rightarrow> u8 \<Rightarrow> ledger \<Rightarrow> ledger result" where
  "token_transfer p t n d l =
     (case (data (accounts l (tc_from t)), data (accounts l (tc_to t))) of
        (TokenData m1 k1 a, TokenData m2 k2 b) \<Rightarrow>
          if m1 \<noteq> tc_mint t \<or> m2 \<noteq> tc_mint t then Inl (Program (CustomError 3))
          else if a < n then Inl (Program (CustomError 1))
          else if tc_from t = tc_to t then Inr l
          else and_then (add_or_panic b n) (\<lambda>b'.
            Inr (set_data (tc_to t) (TokenData m2 k2 b')
              (set_data (tc_from t) (TokenData m1 k1 (a - n)) l)))
      | _ \<Rightarrow> Inl (Program (CustomError 2)))"

definition exchange_runtime :: "rat runtime" where
  "exchange_runtime = mock_runtime\<lparr>transfer_checked := token_transfer\<rparr>"

lemma exchange_runtime_simps [simp]:
  "find_program_address exchange_runtime = (\<lambda>seeds p. sample_pda seeds)"
  "create_program_address exchange_runtime = create_program_address sample_runtime"
  "transfer_checked exchange_runtime = token_transfer"
  "invoke_signed exchange_runtime = invoke_signed mock_runtime"
  "token_program_ids exchange_runtime = [30]" "decimals exchange_runtime = rat_ops"
  "crypto_ops exchange_runtime = sample_crypto"
  by (simp_all add: exchange_runtime_def mock_runtime_def fun_eq_iff)

lemma token_transfer_Inr:
  assumes "token_transfer p t n d l = Inr l'" "tc_from t \<noteq> tc_to t"
  shows "\<exists>k1 a k2 b b'. data (accounts l (tc_from t)) = TokenData (tc_mint t) k1 a \<and>
    data (accounts l (tc_to t)) = TokenData (tc_mint t) k2 b \<and> n \<le> a \<and> unat b' = unat b + unat n \<and>
    l' = set_data (tc_to t) (TokenData (tc_mint t) k2 b')
      (set_data (tc_from t) (TokenData (tc_mint t) k1 (a - n)) l)"
  using assms
  by (auto simp: token_transfer_def tx_simps add_or_panic_Inr_iff not_less
      split: acct_data.splits if_splits)

lemma exchange_moves_tokens: "moves_tokens exchange_runtime token_mint"
  unfolding moves_tokens_def
proof (intro allI impI)
  fix p t n d l l'
  assume "tc_mint t = token_mint" "tc_from t \<noteq> tc_to t" "transfer_checked exchange_runtime p t n d l = Inr l'"
  then obtain k1 a k2 b b' where moved: "data (accounts l (tc_from t)) = TokenData token_mint k1 a"
    "data (accounts l (tc_to t)) = TokenData token_mint k2 b" "n \<le> a" "unat b' = unat b + unat n"
    "l' = set_data (tc_to t) (TokenData token_mint k2 b')
      (set_data (tc_from t) (TokenData token_mint k1 (a - n)) l)"
    using token_transfer_Inr [of p t n d l l'] by auto
  have "unat a = unat (a - n) + unat n"
    using moved(3) by (simp add: unat_sub_exact word_le_nat_alt)
  with moved show "\<exists>k1 a a' k2 b b'. data (accounts l (tc_from t)) = TokenData token_mint k1 a \<and>
      data (accounts l (tc_to t)) = TokenData token_mint k2 b \<and> unat a = unat a' + unat n \<and>
      unat b' = unat b + unat n \<and> l' = set_data (tc_to t) (TokenData token_mint k2 b')
        (set_data (tc_from t) (TokenData token_mint k1 a') l)"
    by blast
qed

lemma exchange_keeps_own: "keeps_own_tokens exchange_runtime token_mint"
  by (auto simp: keeps_own_tokens_def token_transfer_def split: acct_data.splits if_splits)

lemma funded_data [simp]:
  "data (accounts funded_ledger k) = data (accounts sample_ledger k)"
  "owner (accounts funded_ledger k) = owner (accounts sample_ledger k)"
  "clock_sysvar funded_ledger = sample_clock"
  by (simp_all add: funded_ledger_def)

lemma exchange_holds: "holds exchange_runtime funded_ledger sample_system"
  using sample_holds
  by (simp add: holds_def stored_def configuration_key_def state_key_def deny_list_key_def
      canonical_bumps_def system_keys_def)

lemma exchange_withdraws:
  assumes "\<And>k. lamports (accounts l k) = lamports (accounts funded_ledger k)"
  shows "\<exists>x y. withdraw_sol exchange_runtime (sample_purchase 5) sample_program_state 25000000000 l =
    Inr (set_lamports 5 x (set_lamports 25 y l))"
proof -
  have "unpack sample_env (WITHDRAW_SOL_SELECTOR @ to_le_bytes 25000000000) = Inr (WithdrawSol 25000000000)"
    using unpack_amount_iff(1) [OF sample_env_laws] sample_env_laws
    by (simp add: discriminator_laws_def)
  then show ?thesis
    by (simp add: withdraw_sol_def mock_runtime_def mock_invoke_def process_instruction_def
        withdraw_sol_instruction_def sample_purchase_def info_of_meta_def mock_withdraw_sol_def
        assert_signer_def assert_pda_def sample_env_def MOCK_CONFIG_ACCOUNT_SEED_def
        MOCK_JOURNAL_SEED_def account_of_def assms funded_ledger_def sub_or_panic_def checked_sub_def
        add_or_panic_def checked_add_def sample_ledger_def sample_chain_def system_account_def ID_eq)
      blast
qed

lemma exchange_buy:
  "\<exists>l'. execute exchange_runtime funded_ledger
       (BuySolIx (sample_purchase 5) 2000000000 (sample_quote 2000000000 1000)) =
     ([TradeEvent 25000000000 47275000000 2000000000 1000 5 5], Inr (l', []))"
proof -
  have "decide_purchase (crypto_ops exchange_runtime) sample_clock sample_configuration
     sample_program_state sample_deny_list 5 2000000000 (sample_quote 2000000000 1000) =
       Inr (1891000000, 47275000000)"
    by (simp add: sample_decision)
  moreover have "decimal_laws (decimals exchange_runtime) (\<lambda>q. q)" by (simp add: rat_ops_laws)
  ultimately have decided: "ask_price exchange_runtime sample_configuration sample_program_state
      sample_clock (sample_quote 2000000000 1000) = Inr 1891000000"
    "\<not> is_halted sample_program_state" "5 \<notin> set (denied_addresses sample_deny_list)"
    "last_trade_slot sample_program_state < slot sample_clock"
    "verify_attestation sample_crypto (Inr sample_clock) (sample_quote 2000000000 1000)
      (oracle_pubkey sample_configuration) (price_maximum_age sample_configuration) = Inr ()"
    "tokens_required (sol_quantity sample_configuration) 1891000000 = Inr 47275000000"
    using decide_purchase_Inr(1-5,8) [where rt = exchange_runtime, OF _ valid_sample_configuration]
    by fastforce+
  let ?l1 = "set_data 22 (TokenData 23 6 47275000000)
    (set_data 21 (TokenData 23 5 852725000000) funded_ledger)"
  have tokens: "transfer_tokens exchange_runtime (sample_purchase 5) 47275000000 funded_ledger = Inr ?l1"
    by (simp add: transfer_tokens_def token_transfer_def sample_purchase_def sample_ledger_def
        sample_chain_def owned_account_def ID_eq add_or_panic_def checked_add_def)
  have "lamports (accounts ?l1 k) = lamports (accounts funded_ledger k)" for k
    by simp
  then obtain x y where sol: "withdraw_sol exchange_runtime (sample_purchase 5) sample_program_state
      25000000000 ?l1 = Inr (set_lamports 5 x (set_lamports 25 y ?l1))"
    using exchange_withdraws by blast
  obtain r' where r': "enqueue_fill 25000000000 47275000000 sample_registry = Inr r'"
    using enqueue_fill_ok [OF sample_inv, of 25000000000 47275000000]
    by (auto simp: MAX_FILLS_QUEUE_SIZE_def)
  have fills: "data (account_of (set_lamports 5 x (set_lamports 25 y ?l1))
      (bs_fills_registry (sample_purchase 5))) = FillsData sample_registry"
    by (simp add: sample_purchase_def account_of_def sample_ledger_def owned_account_def)
  have "\<exists>ps l'. process_buy_sol exchange_runtime funded_ledger (sample_purchase 5)
      sample_configuration sample_program_state sample_deny_list 2000000000
      (sample_quote 2000000000 1000) =
    ([TradeEvent 25000000000 47275000000 2000000000 1000 5 5], Inr (ps, l'))"
    unfolding process_buy_sol_Inr_iff using decided tokens sol r' fills by auto
  moreover have "validate_BuySol exchange_runtime funded_ledger (sample_purchase 5) =
      Inr (sample_configuration, sample_program_state, sample_deny_list)"
    by (simp add: validate_BuySol_def sample_purchase_def load_configuration_def
        load_program_state_def load_deny_list_def load_fills_def load_account_def account_of_def
        check_system_account_def load_interface_account_def check_program_def check_signer_def
        check_seeds_def check_mut_def check_address_def funded_ledger_def set_lamports_def
        sample_ledger_def sample_chain_def owned_account_def system_account_def program_account_def
        as_configuration_def as_program_state_def as_deny_list_def as_fills_def as_token_account_def
        as_mint_def ID_eq SYSTEM_PROGRAM_ID_eq sample_program_state_def)
  ultimately show ?thesis
    by (auto simp: buy_sol_def map_tx_def)
qed

theorem purchase_exchanges_witness:
  "\<exists>l'. execute exchange_runtime funded_ledger
       (BuySolIx (sample_purchase 5) 2000000000 (sample_quote 2000000000 1000)) =
     ([TradeEvent 25000000000 47275000000 2000000000 1000 5 5], Inr (l', [])) \<and>
     token_amount l' 22 = 47275000000 \<and> unat (lamports (accounts l' 25)) = 975000000000"
proof -
  obtain l' where run: "execute exchange_runtime funded_ledger
       (BuySolIx (sample_purchase 5) 2000000000 (sample_quote 2000000000 1000)) =
     ([TradeEvent 25000000000 47275000000 2000000000 1000 5 5], Inr (l', []))"
    using exchange_buy by blast
  have keys: "info_key (bs_user_token_account (sample_purchase 5)) = 21"
    "info_key (bs_protocol_treasury_token_account (sample_purchase 5)) = 22"
    "info_key (bs_journal (sample_purchase 5)) = 25"
    "info_key (bs_signer (sample_purchase 5)) = 5"
    by (simp_all add: sample_purchase_def)
  have inv: "invoke_signed exchange_runtime ix infos seeds l = mock_invoke sample_env ix l"
    for ix infos seeds l
    by (simp add: mock_runtime_def)
  have start: "token_amount funded_ledger 22 = 0" "unat (lamports (accounts funded_ledger 25)) = 1000000000000"
    by (simp_all add: token_amount_def sample_ledger_def sample_chain_def owned_account_def ID_eq)
      (simp add: funded_ledger_def)
  show ?thesis
    using purchase_exchanges [OF sample_env_laws inv exchange_moves_tokens exchange_keeps_own
        exchange_holds run keys(1,2,4,3) [symmetric]] run start
    by auto
qed


end
