(* ===== verification/Error_Codes.thy ===== *)
theory Error_Codes
  imports Deny_List
begin

text \<open>
  The numeric codes of \<open>common/error.rs\<close>: Anchor numbers the variants of an \<open>error_code\<close>
  enumeration from 6000 in their order, which also orders the errors.
\<close>

definition all_errors :: "DoubleZeroError list" where
  "all_errors =
     [UserInsideDenyList, UnauthorizedAdmin, InvalidAttestation, InvalidOraclePublicKey,
      AttestationVerificationError, InvalidDiscountRate, InvalidSolQuantity, InvalidAskPrice,
      InvalidMaxDiscountRate, InvalidMinDiscountRate, InvalidTradeSlot, InvalidCoefficient,
      DiscountCalculationError, InvalidOracleSwapRate, InvalidTimestamp, BidTooLow, StalePrice,
      DenyListFull, AlreadyExistsInDenyList, InvalidSystemState, InvalidConversionRate,
      AddressNotInDenyList, SystemIsHalted, ArithmeticError, UnauthorizedFillConsumer,
      UnauthorizedDenyListAuthority, RegistryFull, EmptyFillsRegistry, InvalidMaxSolAmount,
      SingleTradePerSlot, AskPriceCalculationError, InvalidPriceMaximumAge]"

definition error_code :: "DoubleZeroError \<Rightarrow> nat" where
  "error_code e = 6000 + (case position (\<lambda>x. x = e) all_errors of None \<Rightarrow> 0 | Some i \<Rightarrow> i)"

lemma all_errors_complete: "e \<in> set all_errors"
  by (cases e) (simp_all add: all_errors_def)

lemma position_nth: "position P xs = Some i \<Longrightarrow> i < length xs \<and> P (xs ! i)"
  by (induction xs arbitrary: i) (auto split: if_splits)

lemma error_code_eq_iff [simp]: "error_code d = error_code e \<longleftrightarrow> d = e"
proof
  have *: "\<exists>i. error_code x = 6000 + i \<and> all_errors ! i = x" for x
  proof -
    obtain i where "position (\<lambda>y. y = x) all_errors = Some i"
      using all_errors_complete [of x] by (metis not_None_eq position_None_iff)
    then show ?thesis using position_nth by (fastforce simp: error_code_def)
  qed
  assume "error_code d = error_code e"
  then show "d = e" using * [of d] * [of e] by auto
qed simp

instantiation DoubleZeroError :: linorder
begin

definition less_eq_DoubleZeroError :: "DoubleZeroError \<Rightarrow> DoubleZeroError \<Rightarrow> bool" where
  "less_eq_DoubleZeroError d e \<longleftrightarrow> error_code d \<le> error_code e"

definition less_DoubleZeroError :: "DoubleZeroError \<Rightarrow> DoubleZeroError \<Rightarrow> bool" where
  "less_DoubleZeroError d e \<longleftrightarrow> error_code d < error_code e"

instance
  by standard (auto simp: less_eq_DoubleZeroError_def less_DoubleZeroError_def
      intro: error_code_eq_iff [THEN iffD1])

end

text \<open>
  The errors carry the consecutive codes 6000 to 6031 of the comments, in the order of the
  enumeration, and every error of the program has one of them.
\<close>

theorem error_codes_consecutive:
  "map error_code all_errors = [6000..<6032] \<and> set all_errors = UNIV \<and> sorted all_errors"
proof -
  have codes: "map error_code all_errors = [6000..<6032]"
    by (simp add: all_errors_def error_code_def upt_rec_numeral)
  have "sorted (map error_code all_errors)" unfolding codes by simp
  then have "sorted all_errors"
    by (simp add: sorted_map less_eq_DoubleZeroError_def [abs_def])
  with codes show ?thesis using all_errors_complete by blast
qed

end
