(* ===== verification/Spec2Isabelle.thy ===== *)
theory Spec2Isabelle
  imports Cli_Mock Cli_Purchase Cli_View_Properties Event_Log Fill_Order Purchase_Settlement Error_Codes
begin

text \<open>
  Verification of the 2Z to SOL conversion program (\<open>on-chain/programs/converter-program\<close>), of the
  stand-in for the revenue distribution program it calls (\<open>mock-double-zero-program\<close>), and of the
  command line tools that drive it (\<open>cli-common\<close>, \<open>admin-cli\<close>, \<open>user-cli\<close>, \<open>integration-cli\<close>).

  \<^bold>\<open>The program.\<close>  Users buy a fixed quantity of SOL for 2Z tokens (\<open>buy_sol\<close>).  The price is the
  signed rate of an oracle less a discount that grows with the slots since the last trade, so a
  trade per slot acts as a descending-price auction.  Each trade is recorded in a ring buffer,
  the fills registry, from which an integrating contract takes fills (\<open>dequeue_fills\<close>).  An
  administrator sets the pricing parameters and can halt trading, a deny list authority blocks
  buyers, and the program's upgrade authority initialises the system and appoints the two.
  State lives in four accounts: the configuration registry, the program state, the deny list and
  the fills registry.  The tools load a configuration file and the payer's key, derive the
  accounts, encode one instruction, send it, and display what the accounts or the return data hold.

  \<^bold>\<open>The theories.\<close>

  \<^item> \<open>Converter_Prelude\<close>: checked machine arithmetic, little-endian bytes, results (\<open>and_then\<close> is the
    \<open>?\<close> operator), handlers as transactions that emit events and then fail or return.  An error
    carries no state, since the runtime undoes every write of a failed instruction.
  \<^item> \<open>Common\<close> (\<open>common/\<close>): constants, errors, seeds, events; \<open>Error_Codes\<close>: the numeric codes.
  \<^item> \<open>System_Management\<close> (\<open>program_state.rs\<close>, \<open>system_management/\<close>), \<open>Configuration\<close>
    (\<open>configuration_registry/\<close>), \<open>Deny_List\<close> (\<open>deny_list_registry.rs\<close>): the accounts and handlers, what an
    accepted call did, and that the bounds are kept.
  \<^item> \<open>Fills_Registry\<close> (\<open>fills_registry/\<close>, and the enqueue of \<open>buy_sol.rs\<close>): the ring buffer, the dequeue
    loop with its termination, the locale \<open>fifo_queue\<close> with the ring buffer as its model;
    \<open>Fills_Accounting\<close>: the list specification \<open>take_fills\<close> and the refinement; \<open>Fills_Properties\<close>.
  \<^item> \<open>Pricing\<close> (\<open>calculate_ask_price.rs\<close>): the decimal computation and the integer formula it equals.
  \<^item> \<open>Attestation\<close> (\<open>common/attestation_utils.rs\<close>): the oracle message and its check.
  \<^item> \<open>Ledger\<close>: accounts, the checks behind the \<open>#[account(..)]\<close> attributes, the locale \<open>anchor_account\<close> with
    its four models, the surrounding runtime and its laws.
  \<^item> \<open>Admin_Instructions\<close>, \<open>Init_System\<close> (\<open>init_system.rs\<close>), \<open>Buy_Sol\<close> (\<open>buy_sol.rs\<close>, \<open>get_conversion_rate\<close> and
    the instruction \<open>dequeue_fills\<close>): the instructions, from the account checks to the write-back.
  \<^item> \<open>Converter_Program\<close> (\<open>lib.rs\<close>): dispatch, the four accounts as one \<open>system\<close>, the abstract transitions
    \<open>system_step\<close>, and that every accepted instruction is one of them, whatever accounts it is
    passed.
  \<^item> \<open>State_Machine\<close>: runs and the contracts of a transition (locales \<open>preserved\<close>, \<open>accounted\<close>, \<open>ticking\<close>,
    \<open>replayed\<close>, \<open>suspended\<close>, \<open>chronicled\<close>); \<open>Program_Runs\<close>: runs of the program among arbitrary actions of others, and the
    program as a model of the contracts.
  \<^item> \<open>Scenario\<close>: a concrete chain for the witnesses; \<open>Program_Properties\<close>, \<open>Run_Properties\<close>: the properties of
    the whole program.
  \<^item> \<open>Run_Guarantees\<close>: the system as the replay of its events (\<open>snapshot\<close>, \<open>replay_event\<close>), what a halt and a
    denial guarantee along runs, and that the auction reaches its floor price and sells there;
    \<open>Event_Log\<close> (\<open>common/events/\<close>): the log lines of the events, their reader, and the system as the replay
    of the lines; \<open>Fill_Order\<close>: the pending fills as the last of all purchases, in their order.
  \<^item> \<open>Mock_Program\<close> and \<open>Mock_Properties\<close> (\<open>mock-double-zero-program/\<close>): decoding and instructions of the
    stand-in, and its withdrawal as the callee of \<open>buy_sol\<close>; \<open>Purchase_Settlement\<close>: a purchase across the
    converter, the token program and the stand-in, as an exchange, and that nothing ties the account
    paid to to the treasury.
  \<^item> \<open>Codec\<close>: little-endian and Borsh encodings, with the locales \<open>codec\<close> (a reader inverts a writer) and
    \<open>fixed_codec\<close> (of a fixed width) and a model for each type; \<open>Account_Layout\<close>: the byte layout of the
    accounts, arguments and results; \<open>Instruction_Wire\<close> (the dispatch of \<open>lib.rs\<close>): instruction data and
    account lists as the program receives them, by selector.
  \<^item> \<open>Cli_Base\<close> (\<open>cli-common\<close>: \<open>constant.rs\<close>, \<open>seeds.rs\<close>, \<open>config.rs\<close>, \<open>env_var.rs\<close>, \<open>fixed_point_utils.rs\<close>),
    \<open>Cli_Chain\<close> (\<open>transaction_executor.rs\<close>, \<open>structs.rs\<close>, \<open>pda_helper.rs\<close>, \<open>token_utils.rs\<close>, \<open>view_fills.rs\<close>),
    \<open>Admin_Cli\<close>, \<open>User_Cli\<close> (with \<open>integration-cli\<close>): every command, from its inputs to what it sends
    and prints, as a function of the session that fails or returns.
  \<^item> \<open>Cli_Instructions\<close>: the request of each command as an instruction of the program, that the bytes sent
    are received as it, and that its accounts pass the checks; \<open>Cli_Views\<close>: displays of stored accounts
    and amounts; \<open>Cli_Scenario\<close>: a concrete machine for the witnesses; \<open>Cli_Properties\<close>,
    \<open>Cli_View_Properties\<close>, \<open>Cli_Input_Properties\<close>: the properties of the tools.
  \<^item> \<open>Cli_Executions\<close>: a tool and the program together, on a network whose transactions settle as the
    execution of what was sent or are lost (\<open>settles\<close>, \<open>runs_program\<close>): administration;
    \<open>Cli_Purchase\<close>: the purchase, from the search for its source account, which may create one
    (\<open>token_account_created\<close>), to the program's answer, on any network and on one that loses nothing
    (\<open>reliable\<close>);
    \<open>Cli_Results\<close>: commands that read the data a transaction returned (\<open>records_results\<close>) and the
    initialisation with its account creation (\<open>runs_creation\<close>); \<open>Cli_Mock\<close>: the commands for the stand-in.

  \<^bold>\<open>Modelling choices.\<close>  Integers keep their widths; the release profile turns on overflow checks,
  so \<open>+\<close> and \<open>-\<close> are \<open>add_or_panic\<close> and \<open>sub_or_panic\<close>, and an unwrapped \<open>None\<close> or an index out of range
  is a \<open>Panicked\<close> error.  The array of 650000 fills is a function on indices with checked access.
  A key is a 256-bit word.  On the ledger, account data is a datatype with one constructor per
  account type; \<open>account_image\<close> gives its bytes, discriminator first, where a tool reads them.  The
  account checks run
  in Anchor's order, loading first and constraints after.  A ledger maps keys to accounts and has
  the clock.  The dequeue loop needs no fuel: every pass removes a fill or reaches the amount; the
  retry loop of the executor is bounded by its count.  Between two calls of a tool other parties
  may act: each call to the network takes and returns a world of its own.

  \<^bold>\<open>Parameters.\<close>  Code outside the repository is an argument: the decimal package (\<open>decimal_ops\<close>,
  \<open>decimal_laws\<close>), base64 and ed25519 (\<open>crypto\<close>), address derivation, the system program, the token
  program and the revenue distribution program (\<open>runtime\<close>, \<open>runtime_laws\<close>; \<open>mock_env\<close>,
  \<open>discriminator_laws\<close>, \<open>moves_tokens\<close>, \<open>keeps_own_tokens\<close>).  The laws say that other programs cannot change the data of the program's
  accounts, that account creation takes an unowned address, and that a found address is the
  derived one.  The tools take \<open>packages\<close> (environment, files, JSON, keys, hash, decimals, the
  instruction builders of the SPL and system crates; \<open>selector_laws\<close> say that the hash has 32 bytes and
  separates the eleven function names, \<open>cli_decimal_laws\<close> that the decimals are exact where they can be)
  and a \<open>network\<close> (RPC, oracle, new key pairs).  Of the network nothing is assumed beyond the calls a
  property names, or the laws of the executions: a transaction settles or is lost, a confirmed one
  is recorded, asking for it gives no answer or its return data, \<open>create_account\<close> takes a free
  address, and the associated token program opens an empty account of the payer at a free one.  That
  the mint, the treasury's account and the token program are deployed is a premise of a purchase
  (\<open>exchange_deployed\<close>).

  \<^bold>\<open>Not modelled.\<close>  Log and progress messages, compute limits, rent and fees; the merging of repeated
  accounts in a transaction; in the tools the parsing of the command line, the alignment check of
  \<open>bytemuck\<close> and white space outside ASCII in the payer's key; the TypeScript services and tests; the
  deployment code.
\<close>

end
